(* ===== verification/Jagad_Prelude.thy ===== *)
theory Jagad_Prelude
  imports Main "HOL-Library.Word"
begin

text \<open>
  What every component shares: Go byte slices and strings, error results, the decimal and
  hexadecimal text forms the code prints and scans, big-endian integers, truncating division,
  and the generic lemmas and simplification collections of the development.

  A Go string is a byte string, here \<^typ>\<open>string\<close> (one \<^typ>\<open>char\<close> per byte); a
  \<open>[]byte\<close> is a list of 8-bit words. A fallible Go function \<open>(T, error)\<close> returns
  \<open>gerror + 'a\<close>: \<open>Inl\<close> carries the text of the error value, \<open>Inr\<close> the result.
\<close>

section \<open>Types\<close>

type_synonym bytes = "8 word list"
type_synonym gerror = string
type_synonym 'a res = "gerror + 'a"

text \<open>The collections: unfolding rules of straight-line operations (\<open>ops\<close>), of the SQL
  layer (\<open>sql\<close>) and of the row-level invariants (\<open>wf_defs\<close>).\<close>

named_theorems ops "definitions of straight-line service operations"
named_theorems sql "definitions and rewrite rules of the SQL layer"
named_theorems wf_defs "definitions of the invariants"

section \<open>Characters and literals outside ASCII\<close>

definition nl :: string where "nl = [CHR 0x0A]"

definition em_dash :: string where "em_dash = [CHR 0xE2, CHR 0x80, CHR 0x94]"

text \<open>The mask that replaces secrets in provider records: six bullet characters in UTF-8.\<close>

definition secret_mask :: string where
  "secret_mask = concat (replicate 6 [CHR 0xE2, CHR 0x80, CHR 0xA2])"

lemma secret_mask_not_empty [simp]: "secret_mask \<noteq> []"
  by (simp add: secret_mask_def)

section \<open>Bytes and strings\<close>

definition bytes_of_string :: "string \<Rightarrow> bytes" where
  "bytes_of_string s = map (\<lambda>c. word_of_nat (of_char c)) s"

definition string_of_bytes :: "bytes \<Rightarrow> string" where
  "string_of_bytes bs = map (\<lambda>w. char_of (unat w)) bs"

lemma unat_word_of_char [simp]: "unat (word_of_nat (of_char c) :: 8 word) = of_char c"
  by (simp add: unat_of_nat)

lemma string_bytes_inverse [simp]: "string_of_bytes (bytes_of_string s) = s"
  by (simp add: string_of_bytes_def bytes_of_string_def comp_def)

lemma bytes_string_inverse [simp]: "bytes_of_string (string_of_bytes bs) = bs"
proof -
  have "word_of_nat (of_char (char_of (unat w))) = w" for w :: "8 word"
  proof -
    have "unat w < 256" using unsigned_less [of w, where ?'a = nat] by simp
    then have "of_char (char_of (unat w)) = unat w" by simp
    then show ?thesis by simp
  qed
  then show ?thesis by (simp add: string_of_bytes_def bytes_of_string_def comp_def)
qed

lemma bytes_of_string_Nil_iff [simp]: "bytes_of_string s = [] \<longleftrightarrow> s = []"
  by (simp add: bytes_of_string_def)

lemma string_of_bytes_Nil [simp]: "string_of_bytes [] = []"
  by (simp add: string_of_bytes_def)

lemma length_bytes_of_string [simp]: "length (bytes_of_string s) = length s"
  by (simp add: bytes_of_string_def)


section \<open>Decimal text: \<open>%d\<close>, \<open>fmt.Sscanf\<close>, \<open>strconv.Atoi\<close>\<close>

definition digit_char :: "nat \<Rightarrow> char" where "digit_char d = char_of (48 + d)"
definition is_digit :: "char \<Rightarrow> bool" where
  "is_digit c \<longleftrightarrow> 48 \<le> (of_char c :: nat) \<and> (of_char c :: nat) \<le> 57"
definition digit_val :: "char \<Rightarrow> nat" where "digit_val c = of_char c - 48"

fun fmt_nat :: "nat \<Rightarrow> string" where
  "fmt_nat n = (if n < 10 then [digit_char n] else fmt_nat (n div 10) @ [digit_char (n mod 10)])"

declare fmt_nat.simps [simp del]

definition fmt_d :: "int \<Rightarrow> string" where
  "fmt_d i = (if i < 0 then ''-'' @ fmt_nat (nat (- i)) else fmt_nat (nat i))"

definition nat_of_digits :: "string \<Rightarrow> nat" where
  "nat_of_digits ds = foldl (\<lambda>a c. 10 * a + digit_val c) 0 ds"

definition int64_ok :: "int \<Rightarrow> bool" where "int64_ok i \<longleftrightarrow> - (2 ^ 63) \<le> i \<and> i < 2 ^ 63"

text \<open>An optional sign, then the digits; the second component is what follows them.\<close>

definition split_sign :: "string \<Rightarrow> bool \<times> string" where
  "split_sign s = (case s of [] \<Rightarrow> (False, [])
     | c # cs \<Rightarrow> if c = CHR ''-'' then (True, cs) else if c = CHR ''+'' then (False, cs) else (False, s))"

definition signed_value :: "bool \<Rightarrow> string \<Rightarrow> int" where
  "signed_value neg ds = (if neg then - int (nat_of_digits ds) else int (nat_of_digits ds))"

text \<open>\<open>fmt.Sscanf(s, "%d", &v)\<close> into a 64-bit integer: blanks are skipped, a sign and at least
  one digit are read, what follows the digits is ignored; a value out of range is an error.\<close>

definition sscanf_d :: "string \<Rightarrow> int option" where
  "sscanf_d s =
     (let (neg, t) = split_sign (dropWhile (\<lambda>c. c = CHR '' '' \<or> c = CHR 0x09 \<or> c = CHR 0x0D) s);
          ds = takeWhile is_digit t; v = signed_value neg ds
      in if ds = [] \<or> \<not> int64_ok v then None else Some v)"

text \<open>\<open>strconv.Atoi\<close>: the whole text is a signed decimal number in range.\<close>

definition atoi :: "string \<Rightarrow> int option" where
  "atoi s = (let (neg, ds) = split_sign s; v = signed_value neg ds
     in if ds = [] \<or> \<not> list_all is_digit ds \<or> \<not> int64_ok v then None else Some v)"

lemma is_digit_digit_char [simp]: "d < 10 \<Longrightarrow> is_digit (digit_char d)"
  by (simp add: is_digit_def digit_char_def)

lemma digit_val_digit_char [simp]: "d < 10 \<Longrightarrow> digit_val (digit_char d) = d"
  by (simp add: digit_val_def digit_char_def)

lemma fmt_nat_not_Nil [simp]: "fmt_nat n \<noteq> []"
  by (subst fmt_nat.simps) simp

lemma nat_of_digits_snoc: "nat_of_digits (ds @ [c]) = 10 * nat_of_digits ds + digit_val c"
  by (simp add: nat_of_digits_def)

lemma fmt_nat_digits: "list_all is_digit (fmt_nat n)"
proof (induction n rule: fmt_nat.induct)
  case (1 n)
  then show ?case by (subst fmt_nat.simps) auto
qed

lemma nat_of_digits_fmt_nat [simp]: "nat_of_digits (fmt_nat n) = n"
proof (induction n rule: fmt_nat.induct)
  case (1 n)
  show ?case
  proof (cases "n < 10")
    case True
    then show ?thesis by (subst fmt_nat.simps) (simp add: nat_of_digits_def)
  next
    case False
    with 1 show ?thesis by (subst fmt_nat.simps) (simp add: nat_of_digits_snoc)
  qed
qed

lemma takeWhile_fmt_nat [simp]: "takeWhile is_digit (fmt_nat n) = fmt_nat n"
  using fmt_nat_digits [of n] by (simp add: takeWhile_eq_all_conv list_all_iff)

lemma fmt_nat_head: "\<exists>c cs. fmt_nat n = c # cs \<and> is_digit c"
  using fmt_nat_digits [of n] fmt_nat_not_Nil [of n] by (cases "fmt_nat n") auto

lemma digit_not_blank:
  assumes "is_digit c"
  shows "c \<noteq> CHR ''-''" "c \<noteq> CHR ''+''" "c \<noteq> CHR '' ''" "c \<noteq> CHR 0x09" "c \<noteq> CHR 0x0D"
  using assms by (auto simp: is_digit_def)

lemma split_sign_fmt_nat [simp]: "split_sign (fmt_nat n) = (False, fmt_nat n)"
proof -
  obtain c cs where "fmt_nat n = c # cs" "is_digit c" using fmt_nat_head by blast
  then show ?thesis by (simp add: split_sign_def digit_not_blank)
qed

lemma split_sign_fmt_d:
  "split_sign (fmt_d i) = (i < 0, fmt_nat (nat \<bar>i\<bar>))"
  by (simp add: fmt_d_def) (simp add: split_sign_def)

lemma fmt_d_no_blank:
  "dropWhile (\<lambda>c. c = CHR '' '' \<or> c = CHR 0x09 \<or> c = CHR 0x0D) (fmt_d i) = fmt_d i"
proof -
  obtain c cs where "fmt_nat (nat i) = c # cs" "is_digit c" using fmt_nat_head by blast
  then show ?thesis by (simp add: fmt_d_def digit_not_blank)
qed

lemma sscanf_fmt [simp]: "int64_ok i \<Longrightarrow> sscanf_d (fmt_d i) = Some i"
  by (auto simp: sscanf_d_def fmt_d_no_blank split_sign_fmt_d signed_value_def Let_def)

lemma atoi_fmt [simp]: "int64_ok i \<Longrightarrow> atoi (fmt_d i) = Some i"
  by (auto simp: atoi_def split_sign_fmt_d signed_value_def fmt_nat_digits Let_def)

lemma sscanf_empty [simp]: "sscanf_d [] = None"
  by (simp add: sscanf_d_def split_sign_def)

lemma fmt_d_not_Nil [simp]: "fmt_d i \<noteq> []"
  by (simp add: fmt_d_def)

section \<open>Hexadecimal text\<close>

definition hex_digit :: "nat \<Rightarrow> char" where
  "hex_digit d = (if d < 10 then char_of (48 + d) else char_of (87 + d))"

definition hex_encode :: "bytes \<Rightarrow> string" where
  "hex_encode bs = concat (map (\<lambda>b. [hex_digit (unat b div 16), hex_digit (unat b mod 16)]) bs)"

lemma hex_digit_inj: "a < 16 \<Longrightarrow> b < 16 \<Longrightarrow> hex_digit a = hex_digit b \<longleftrightarrow> a = b"
proof (rule iffI)
  assume "a < 16" "b < 16" "hex_digit a = hex_digit b"
  then have "(of_char (hex_digit a) :: nat) = of_char (hex_digit b)" by simp
  with \<open>a < 16\<close> \<open>b < 16\<close> show "a = b" by (auto simp: hex_digit_def split: if_splits)
qed simp

lemma hex_pair_inj:
  fixes x y :: "8 word"
  assumes "unat x div 16 = unat y div 16" "unat x mod 16 = unat y mod 16"
  shows "x = y"
proof -
  have "unat x = unat y" using assms by (metis mult_div_mod_eq)
  then show ?thesis by (simp add: word_unat_eq_iff)
qed

lemma hex_encode_inj [simp]: "hex_encode x = hex_encode y \<longleftrightarrow> x = y"
proof (induction x arbitrary: y)
  case Nil
  then show ?case by (cases y) (simp_all add: hex_encode_def)
next
  case (Cons a x)
  have lt: "unat b div 16 < 16" "unat b mod 16 < 16" for b :: "8 word"
    using unsigned_less [of b, where ?'a = nat] by auto
  from Cons.IH show ?case
    by (cases y) (auto simp: hex_encode_def hex_digit_inj lt dest: hex_pair_inj)
qed

lemma hex_encode_length [simp]: "length (hex_encode bs) = 2 * length bs"
  by (induction bs) (simp_all add: hex_encode_def)

lemma hex_encode_Nil_iff [simp]: "hex_encode bs = [] \<longleftrightarrow> bs = []"
  by (cases bs) (simp_all add: hex_encode_def)


section \<open>Big-endian integers (\<open>encoding/binary\<close>)\<close>

fun be_bytes :: "nat \<Rightarrow> nat \<Rightarrow> bytes" where
  "be_bytes 0 k = []"
| "be_bytes (Suc n) k = be_bytes n (k div 256) @ [word_of_nat (k mod 256)]"

definition be_val :: "bytes \<Rightarrow> nat" where
  "be_val bs = foldl (\<lambda>a b. a * 256 + unat b) 0 bs"

lemma length_be_bytes [simp]: "length (be_bytes n k) = n"
  by (induction n arbitrary: k) simp_all

lemma be_val_snoc: "be_val (bs @ [b]) = be_val bs * 256 + unat b"
  by (simp add: be_val_def)

lemma be_val_be_bytes [simp]: "be_val (be_bytes n k) = k mod 256 ^ n"
proof (induction n arbitrary: k)
  case 0
  then show ?case by (simp add: be_val_def)
next
  case (Suc n)
  have "k mod 256 ^ Suc n = (k div 256) mod 256 ^ n * 256 + k mod 256"
    by (simp add: mod_mult2_eq)
  with Suc show ?case by (simp add: be_val_snoc unat_of_nat)
qed

lemma be_bytes_0 [simp]: "be_bytes n 0 = replicate n 0"
  by (induction n) (simp_all add: replicate_append_same)

lemma be_val_zeros [simp]: "be_val (replicate n 0) = 0"
  by (induction n) (simp_all add: be_val_def)

section \<open>Go's truncating division\<close>

definition go_div :: "int \<Rightarrow> int \<Rightarrow> int" where
  "go_div a b = sgn a * sgn b * (\<bar>a\<bar> div \<bar>b\<bar>)"

lemma go_div_nonneg: "0 \<le> a \<Longrightarrow> 0 < b \<Longrightarrow> go_div a b = a div b"
  by (cases "a = 0") (simp_all add: go_div_def)

text \<open>\<open>now.Sub(startTime).Milliseconds()\<close> on instants counted in nanoseconds.\<close>

definition duration_ms :: "int \<Rightarrow> int \<Rightarrow> int" where
  "duration_ms start now = go_div (now - start) 1000000"

section \<open>Strings\<close>

definition has_prefix :: "string \<Rightarrow> string \<Rightarrow> bool" where
  "has_prefix s p \<longleftrightarrow> take (length p) s = p"

fun contains :: "string \<Rightarrow> string \<Rightarrow> bool" where
  "contains [] p = (p = [])"
| "contains (c # cs) p = (has_prefix (c # cs) p \<or> contains cs p)"

lemma has_prefix_append [simp]: "has_prefix (p @ s) p"
  by (simp add: has_prefix_def)

lemma contains_has_prefix: "has_prefix s p \<Longrightarrow> contains s p"
  by (cases s) (simp_all add: has_prefix_def)

lemma contains_prefix [simp]: "contains (p @ s) p"
  by (simp add: contains_has_prefix)

section \<open>Rows of a table, addressed by a key\<close>

definition row_find :: "('r \<Rightarrow> 'k) \<Rightarrow> 'k \<Rightarrow> 'r list \<Rightarrow> 'r option" where
  "row_find key k rows = find (\<lambda>r. key r = k) rows"

definition row_upd :: "('r \<Rightarrow> 'k) \<Rightarrow> 'k \<Rightarrow> ('r \<Rightarrow> 'r) \<Rightarrow> 'r list \<Rightarrow> 'r list" where
  "row_upd key k f rows = map (\<lambda>r. if key r = k then f r else r) rows"

definition row_del :: "('r \<Rightarrow> 'k) \<Rightarrow> 'k \<Rightarrow> 'r list \<Rightarrow> 'r list" where
  "row_del key k rows = filter (\<lambda>r. key r \<noteq> k) rows"

lemma row_find_None_iff: "row_find key k rows = None \<longleftrightarrow> k \<notin> key ` set rows"
  by (auto simp: row_find_def find_None_iff)

lemma row_find_Some: "row_find key k rows = Some r \<Longrightarrow> r \<in> set rows \<and> key r = k"
  by (auto simp: row_find_def find_Some_iff)

lemma row_find_append [simp]:
  "row_find key k (rows @ [r]) =
     (case row_find key k rows of Some x \<Rightarrow> Some x | None \<Rightarrow> if key r = k then Some r else None)"
  by (induction rows) (auto simp: row_find_def)

lemma row_find_upd [simp]:
  "(\<And>r. key (f r) = key r) \<Longrightarrow>
     row_find key k (row_upd key k' f rows) =
       (if k = k' then map_option f (row_find key k rows) else row_find key k rows)"
  by (induction rows) (auto simp: row_find_def row_upd_def)

lemma row_find_del [simp]:
  "row_find key k (row_del key k' rows) = (if k = k' then None else row_find key k rows)"
  by (induction rows) (auto simp: row_find_def row_del_def)

lemma row_find_distinct:
  "distinct (map key rows) \<Longrightarrow> r \<in> set rows \<Longrightarrow> row_find key (key r) rows = Some r"
  by (induction rows) (auto simp: row_find_def)

lemma map_key_row_upd [simp]:
  "(\<And>r. key (f r) = key r) \<Longrightarrow> map key (row_upd key k f rows) = map key rows"
  by (induction rows) (auto simp: row_upd_def)

lemma set_row_upd:
  "x \<in> set (row_upd key k f rows) \<longleftrightarrow>
     (\<exists>r \<in> set rows. x = (if key r = k then f r else r))"
  unfolding row_upd_def set_map image_iff ..

lemma set_row_del [simp]: "x \<in> set (row_del key k rows) \<longleftrightarrow> x \<in> set rows \<and> key x \<noteq> k"
  by (auto simp: row_del_def)

lemma distinct_row_del: "distinct (map key rows) \<Longrightarrow> distinct (map key (row_del key k rows))"
  by (simp add: row_del_def distinct_map_filter)

lemma row_del_absent: "k \<notin> key ` set rows \<Longrightarrow> row_del key k rows = rows"
  by (auto simp: row_del_def intro: filter_True)

lemma row_upd_absent: "k \<notin> key ` set rows \<Longrightarrow> row_upd key k f rows = rows"
  by (induction rows) (auto simp: row_upd_def)

text \<open>\<open>ORDER BY k ASC\<close> and \<open>DESC\<close>: stable, rows with equal keys keep the table's order.\<close>

definition order_asc :: "('r \<Rightarrow> 'k :: linorder) \<Rightarrow> 'r list \<Rightarrow> 'r list" where
  "order_asc k rows = sort_key k rows"

definition order_desc :: "('r \<Rightarrow> int) \<Rightarrow> 'r list \<Rightarrow> 'r list" where
  "order_desc k rows = sort_key (\<lambda>r. - k r) rows"

lemma set_order_asc [simp]: "set (order_asc k rows) = set rows"
  by (simp add: order_asc_def)

lemma length_order_asc [simp]: "length (order_asc k rows) = length rows"
  by (simp add: order_asc_def)

lemma sorted_order_asc: "sorted (map k (order_asc k rows))"
  by (simp add: order_asc_def)

lemma set_order_desc [simp]: "set (order_desc k rows) = set rows"
  by (simp add: order_desc_def)

lemma length_order_desc [simp]: "length (order_desc k rows) = length rows"
  by (simp add: order_desc_def)

lemma distinct_order_asc: "distinct (map f rows) \<Longrightarrow> distinct (map f (order_asc k rows))"
proof -
  assume "distinct (map f rows)"
  then have "distinct rows" "inj_on f (set rows)" by (auto simp: distinct_map)
  then show ?thesis by (auto simp: distinct_map order_asc_def)
qed

section \<open>Results\<close>

definition is_ok :: "'a res \<Rightarrow> bool" where "is_ok r \<longleftrightarrow> (case r of Inl _ \<Rightarrow> False | Inr _ \<Rightarrow> True)"

lemma is_ok_simps [simp]: "is_ok (Inr x)" "\<not> is_ok (Inl e)"
  by (simp_all add: is_ok_def)

lemma is_okE: "is_ok r \<Longrightarrow> (\<And>x. r = Inr x \<Longrightarrow> P) \<Longrightarrow> P"
  by (cases r) auto

text \<open>\<open>fmt.Errorf("...: %w", err)\<close>: the context text, then the wrapped error.\<close>

definition wrap_err :: "string \<Rightarrow> 'a res \<times> 'w \<Rightarrow> 'a res \<times> 'w" where
  "wrap_err ctx p = (case fst p of Inl e \<Rightarrow> Inl (ctx @ e) | Inr x \<Rightarrow> Inr x, snd p)"

lemma wrap_err_simps [simp]:
  "wrap_err ctx (Inl e, w) = (Inl (ctx @ e), w)"
  "wrap_err ctx (Inr x, w) = (Inr x, w)"
  "snd (wrap_err ctx p) = snd p"
  by (simp_all add: wrap_err_def)

lemma wrap_err_Inr [simp]: "fst (wrap_err ctx p) = Inr x \<longleftrightarrow> fst p = Inr x"
  by (cases "fst p") (simp_all add: wrap_err_def)

lemma wrap_err_is_ok [simp]: "is_ok (fst (wrap_err ctx p)) = is_ok (fst p)"
  by (cases "fst p") (simp_all add: wrap_err_def)

end
