(* ===== verification/Go_IO.thy ===== *)
theory Go_IO
  imports Jagad_Prelude
begin

text \<open>
  The \<open>io\<close> interfaces the streaming code is written against, as contracts: \<open>io.Writer\<close> and
  \<open>io.Reader\<close> as locales, \<open>io.ReadFull\<close>, the \<open>io.Copy\<close> loop and the write side of
  \<open>io.Pipe\<close>. Clients (the framing writer and reader of the encryption component, the backup
  and verification pipelines) are proved against the contracts.
\<close>

section \<open>Readers\<close>

text \<open>The error a \<open>Read\<close> returns beside its data: the sentinel \<open>io.EOF\<close>, compared with
  \<open>==\<close> by \<open>io.Copy\<close>, or any other error.\<close>

datatype rerr = EOF | RErr gerror

type_synonym 's reader = "'s \<Rightarrow> nat \<Rightarrow> (bytes \<times> rerr option) \<times> 's"

text \<open>\<open>io.ReadFull(src, buf)\<close> on a source that holds the bytes that are still to come.\<close>

definition read_full :: "nat \<Rightarrow> bytes \<Rightarrow> bytes res \<times> bytes" where
  "read_full n src =
     (if n \<le> length src then (Inr (take n src), drop n src)
      else (Inl (if src = [] then ''EOF'' else ''unexpected EOF''), []))"

text \<open>\<open>io.Copy\<close>: reads buffers of \<open>n\<close> bytes until a read returns an error; the result is what
  was copied and that error (\<open>EOF\<close> is \<open>nil\<close> for the caller). \<open>None\<close>: out of fuel.\<close>

fun io_copy :: "'s reader \<Rightarrow> nat \<Rightarrow> nat \<Rightarrow> 's \<Rightarrow> (bytes \<times> rerr) option" where
  "io_copy rd 0 n s = None"
| "io_copy rd (Suc fuel) n s =
     (case rd s n of
        ((bs, Some e), s') \<Rightarrow> Some (bs, e)
      | ((bs, None), s') \<Rightarrow>
          (case io_copy rd fuel n s' of None \<Rightarrow> None | Some (out, e) \<Rightarrow> Some (bs @ out, e)))"

text \<open>The contract of a reader: \<open>todo s\<close> is what it has still to deliver and the error it ends
  with; a read delivers the front of it and makes progress.\<close>

locale io_reader =
  fixes rd :: "'s reader"
    and todo :: "'s \<Rightarrow> bytes \<times> rerr"
    and budget :: "'s \<Rightarrow> nat"
  assumes rd_data: "0 < n \<Longrightarrow> rd s n = ((bs, None), s') \<Longrightarrow>
        todo s = (bs @ fst (todo s'), snd (todo s')) \<and> budget s' < budget s"
    and rd_stop: "0 < n \<Longrightarrow> rd s n = ((bs, Some e), s') \<Longrightarrow> todo s = (bs, e)"
begin

lemma io_copy_todo:
  assumes "0 < n" "budget s < fuel"
  shows "io_copy rd fuel n s = Some (todo s)"
  using assms
proof (induction fuel arbitrary: s)
  case 0
  then show ?case by simp
next
  case (Suc fuel)
  obtain bs eo s' where rd: "rd s n = ((bs, eo), s')" by (metis surj_pair)
  show ?case
  proof (cases eo)
    case None
    with rd Suc.prems have t: "todo s = (bs @ fst (todo s'), snd (todo s'))"
      and "budget s' < budget s" using rd_data by blast+
    with Suc have "io_copy rd fuel n s' = Some (todo s')" by simp
    with rd None t show ?thesis by (cases "todo s'") simp
  next
    case (Some e)
    with rd Suc.prems rd_stop show ?thesis by simp
  qed
qed

end

section \<open>Plain byte sources\<close>

text \<open>A \<open>bytes.Reader\<close>, or the read end of a pipe whose writer has closed it: the bytes that are
  left, then \<open>io.EOF\<close>.\<close>

definition buf_read :: "bytes reader" where
  "buf_read src n = (if src = [] then (([], Some EOF), []) else ((take n src, None), drop n src))"

interpretation plain_source: io_reader buf_read "\<lambda>src. (src, EOF)" length
  by unfold_locales (auto simp: buf_read_def split: if_splits)

section \<open>Writers\<close>

type_synonym 'd writer = "'d \<Rightarrow> bytes \<Rightarrow> gerror option \<times> 'd"

text \<open>The contract of a writer that is ready: it takes all the bytes and stays ready.\<close>

locale io_writer =
  fixes dw :: "'d writer"
    and ready :: "'d \<Rightarrow> bool"
    and written :: "'d \<Rightarrow> bytes"
  assumes dw_ok: "ready d \<Longrightarrow> fst (dw d bs) = None"
    and dw_ready: "ready d \<Longrightarrow> ready (snd (dw d bs))"
    and dw_written: "ready d \<Longrightarrow> written (snd (dw d bs)) = written d @ bs"
begin

lemma dw_step: "ready d \<Longrightarrow> \<exists>d'. dw d bs = (None, d') \<and> ready d' \<and> written d' = written d @ bs"
  using dw_ok dw_ready dw_written by (metis prod.collapse)

end

text \<open>\<open>io.Pipe\<close>, write side: the bytes passed on so far and whether the reader has closed it.\<close>

record pipe =
  pp_data :: bytes
  pp_closed :: bool

definition new_pipe :: pipe where "new_pipe = \<lparr>pp_data = [], pp_closed = False\<rparr>"

definition pipe_write :: "pipe writer" where
  "pipe_write p bs =
     (if pp_closed p then (Some ''io: read/write on closed pipe'', p)
      else (None, p\<lparr>pp_data := pp_data p @ bs\<rparr>))"

interpretation pipe_end: io_writer pipe_write "\<lambda>p. \<not> pp_closed p" pp_data
  by unfold_locales (auto simp: pipe_write_def)

lemma new_pipe_ready [simp]: "\<not> pp_closed new_pipe" "pp_data new_pipe = []"
  by (simp_all add: new_pipe_def)

end
