(* ===== verification/Domain_Model.thy ===== *)
theory Domain_Model
  imports Jagad_Prelude Complex_Main
begin

text \<open>
  The domain structs of the Go packages: \<open>connection/model.go\<close>, \<open>storage/provider.go\<close> and
  \<open>storage/service.go\<close>, \<open>schedule/model.go\<close>, \<open>backup/model.go\<close>, \<open>restore/model.go\<close>,
  \<open>notification/model.go\<close>. A pointer field that may be nil is an option; \<open>time.Time\<close> is an
  \<^typ>\<open>int\<close> counting nanoseconds since the zero time; \<open>int\<close> and \<open>int64\<close> fields are \<^typ>\<open>int\<close> (the places where their
  width matters carry an explicit range check); a \<open>[]string\<close> is a list, nil being the empty list.
\<close>

section \<open>Connections\<close>

record connection =
  c_ID :: string
  c_Name :: string
  c_DBType :: string
  c_Host :: string
  c_Port :: int
  c_Username :: string
  c_Password :: string
  c_SSLMode :: string
  c_CreatedAt :: int
  c_UpdatedAt :: int

record connection_database =
  d_ID :: string
  d_ConnectionID :: string
  d_DBName :: string
  d_IsSelected :: bool
  d_SizeBytes :: int
  d_CreatedAt :: int

section \<open>Storage providers\<close>

record provider =
  p_ID :: string
  p_Name :: string
  p_ProviderType :: string
  p_Endpoint :: string
  p_Region :: string
  p_Bucket :: string
  p_AccessKey :: string
  p_SecretKey :: string
  p_PathStyle :: bool
  p_IsDefault :: bool
  p_CreatedAt :: int
  p_UpdatedAt :: int

record storage_config =
  cfg_Endpoint :: string
  cfg_Region :: string
  cfg_Bucket :: string
  cfg_AccessKey :: string
  cfg_SecretKey :: string
  cfg_PathStyle :: bool

section \<open>Schedules\<close>

record schedule =
  s_ID :: string
  s_ConnectionID :: string
  s_DatabaseID :: string
  s_BackupType :: string
  s_CronExpr :: string
  s_StorageProviderID :: string
  s_EncryptionEnabled :: bool
  s_EncryptionKeyID :: string
  s_VerifyEnabled :: bool
  s_RetentionFull :: int
  s_RetentionIncr :: int
  s_NotifTargetIDs :: "string list"
  s_NotifyOnSuccess :: bool
  s_NotifyOnFailure :: bool
  s_Enabled :: bool
  s_CreatedAt :: int

section \<open>Backups\<close>

record backup =
  b_ID :: string
  b_ConnectionID :: string
  b_DatabaseID :: string
  b_ScheduleID :: "string option"
  b_BackupType :: string
  b_Status :: string
  b_StoragePath :: string
  b_StorageProviderID :: "string option"
  b_SizeBytes :: "int option"
  b_EncryptedSizeBytes :: "int option"
  b_EncryptionAlgo :: string
  b_EncryptionKeyID :: "string option"
  b_Checksum :: string
  b_EncryptedChecksum :: string
  b_VerifiedAt :: "int option"
  b_VerifyStatus :: string
  b_DurationMs :: "int option"
  b_LogOutput :: string
  b_StartedAt :: "int option"
  b_CompletedAt :: "int option"
  b_NotifTargetIDs :: "string list"
  b_NotifyOnSuccess :: bool
  b_NotifyOnFailure :: bool
  b_CreatedAt :: int

text \<open>A zero-valued struct, as \<open>&Backup{...}\<close> leaves the fields it does not name.\<close>

definition zero_backup :: backup where
  "zero_backup = \<lparr>b_ID = [], b_ConnectionID = [], b_DatabaseID = [], b_ScheduleID = None,
     b_BackupType = [], b_Status = [], b_StoragePath = [], b_StorageProviderID = None,
     b_SizeBytes = None, b_EncryptedSizeBytes = None, b_EncryptionAlgo = [],
     b_EncryptionKeyID = None, b_Checksum = [], b_EncryptedChecksum = [], b_VerifiedAt = None,
     b_VerifyStatus = [], b_DurationMs = None, b_LogOutput = [], b_StartedAt = None,
     b_CompletedAt = None, b_NotifTargetIDs = [], b_NotifyOnSuccess = False,
     b_NotifyOnFailure = False, b_CreatedAt = 0\<rparr>"

record stale_backup_alert =
  a_ConnectionID :: string
  a_ConnectionName :: string
  a_DBType :: string
  a_DatabaseID :: string
  a_DatabaseName :: string
  a_LastBackupAt :: "int option"
  a_HoursSinceBackup :: rat

section \<open>Restores\<close>

record restore =
  rs_ID :: string
  rs_BackupID :: string
  rs_TargetConnection :: "string option"
  rs_Status :: string
  rs_DurationMs :: "int option"
  rs_LogOutput :: string
  rs_StartedAt :: "int option"
  rs_CompletedAt :: "int option"
  rs_CreatedAt :: int

definition zero_restore :: restore where
  "zero_restore = \<lparr>rs_ID = [], rs_BackupID = [], rs_TargetConnection = None, rs_Status = [],
     rs_DurationMs = None, rs_LogOutput = [], rs_StartedAt = None, rs_CompletedAt = None,
     rs_CreatedAt = 0\<rparr>"

section \<open>Notification targets\<close>

record notification =
  n_ID :: string
  n_Name :: string
  n_NotifType :: string
  n_ConfigJSON :: string
  n_CreatedAt :: int
  n_UpdatedAt :: int

end
