(* ===== verification/Database.thy ===== *)
theory Database
  imports Domain_Model "HOL-Library.AList"
begin

text \<open>
  The PostgreSQL database of \<open>internal/repository/postgres/db.go\<close>: one row type per table with
  the columns of its \<open>CREATE TABLE\<close>, the CHECK constraints, primary keys and foreign keys, and the
  effect of the SQL statements the repositories execute. Rows are kept in insertion order. The
  monitoring tables and the unused \<open>encryption_keys\<close> table are not part of this state.

  Every statement may also fail for reasons outside the program (a lost connection): the field
  \<open>faults\<close> is the script of such failures, consumed one entry per statement.
\<close>

section \<open>Rows\<close>

record database_row =
  dr_id :: string
  dr_connection_id :: string
  dr_db_name :: string
  dr_is_selected :: int
  dr_size_bytes :: "int option"
  dr_created_at :: int

record provider_row =
  pr_id :: string
  pr_name :: string
  pr_provider_type :: string
  pr_endpoint :: string
  pr_region :: string
  pr_bucket :: string
  pr_access_key_encrypted :: bytes
  pr_secret_key_encrypted :: bytes
  pr_path_style :: int
  pr_is_default :: int
  pr_created_at :: int
  pr_updated_at :: int

record schedule_row =
  sr_id :: string
  sr_connection_id :: string
  sr_database_id :: string
  sr_backup_type :: string
  sr_cron_expr :: string
  sr_storage_provider_id :: string
  sr_encryption_enabled :: int
  sr_encryption_key_id :: string
  sr_verify_enabled :: int
  sr_retention_full :: int
  sr_retention_incr :: int
  sr_notif_target_ids :: "string list" \<comment> \<open>the JSON array the text column holds\<close>
  sr_notify_on_success :: int
  sr_notify_on_failure :: int
  sr_enabled :: int
  sr_created_at :: int

record backup_row =
  br_id :: string
  br_connection_id :: string
  br_database_id :: string
  br_schedule_id :: "string option"
  br_backup_type :: string
  br_status :: string
  br_storage_path :: string
  br_storage_provider_id :: "string option"
  br_size_bytes :: "int option"
  br_encrypted_size_bytes :: "int option"
  br_encryption_algo :: string
  br_encryption_key_id :: "string option"
  br_checksum :: string
  br_encrypted_checksum :: string
  br_verified_at :: "int option"
  br_verify_status :: string
  br_duration_ms :: "int option"
  br_log_output :: "string option"
  br_notif_target_ids :: "string list"
  br_notify_on_success :: int
  br_notify_on_failure :: int
  br_started_at :: "int option"
  br_completed_at :: "int option"
  br_created_at :: int

record restore_row =
  rr_id :: string
  rr_backup_id :: string
  rr_target_connection :: "string option"
  rr_status :: string
  rr_duration_ms :: "int option"
  rr_log_output :: "string option"
  rr_started_at :: "int option"
  rr_completed_at :: "int option"
  rr_created_at :: int

record db =
  t_connections :: "connection list"
  t_databases :: "database_row list"
  t_providers :: "provider_row list"
  t_schedules :: "schedule_row list"
  t_backups :: "backup_row list"
  t_restores :: "restore_row list"
  t_notifications :: "notification list"
  t_settings :: "(string \<times> string) list"
  faults :: "gerror option list"

section \<open>Constraints\<close>

definition err_check :: gerror where "err_check = ''ERROR: violates check constraint (SQLSTATE 23514)''"
definition err_unique :: gerror where "err_unique = ''ERROR: duplicate key value (SQLSTATE 23505)''"
definition err_fk :: gerror where "err_fk = ''ERROR: violates foreign key constraint (SQLSTATE 23503)''"

definition has_row :: "('r \<Rightarrow> string) \<Rightarrow> string \<Rightarrow> 'r list \<Rightarrow> bool" where
  "has_row key k rows \<longleftrightarrow> k \<in> set (map key rows)"

text \<open>A nullable reference: NULL satisfies a foreign key.\<close>

definition ref_ok :: "('r \<Rightarrow> string) \<Rightarrow> string option \<Rightarrow> 'r list \<Rightarrow> bool" where
  "ref_ok key k rows \<longleftrightarrow> (case k of None \<Rightarrow> True | Some x \<Rightarrow> has_row key x rows)"

definition check_connection :: "connection \<Rightarrow> bool" where
  "check_connection c \<longleftrightarrow> c_DBType c \<in> set [''postgresql'', ''mysql'', ''mariadb'']"

definition check_provider :: "provider_row \<Rightarrow> bool" where
  "check_provider p \<longleftrightarrow>
     pr_provider_type p \<in> set [''s3'', ''r2'', ''minio'', ''gcs'', ''b2'', ''s3-compat'']"

definition check_schedule :: "schedule_row \<Rightarrow> bool" where
  "check_schedule s \<longleftrightarrow> sr_backup_type s \<in> set [''full'', ''incremental'']"

definition check_backup :: "backup_row \<Rightarrow> bool" where
  "check_backup b \<longleftrightarrow>
     br_backup_type b \<in> set [''full'', ''incremental''] \<and>
     br_status b \<in> set [''running'', ''success'', ''failed'', ''verifying''] \<and>
     br_verify_status b \<in> set [''pending'', ''passed'', ''failed'']"

definition check_restore :: "restore_row \<Rightarrow> bool" where
  "check_restore r \<longleftrightarrow> rr_status r \<in> set [''running'', ''success'', ''failed'']"

definition check_notification :: "notification \<Rightarrow> bool" where
  "check_notification n \<longleftrightarrow> n_NotifType n \<in> set [''telegram'', ''discord'', ''slack'']"

definition fk_schedule :: "db \<Rightarrow> schedule_row \<Rightarrow> bool" where
  "fk_schedule d s \<longleftrightarrow> has_row c_ID (sr_connection_id s) (t_connections d) \<and>
     has_row dr_id (sr_database_id s) (t_databases d) \<and>
     has_row pr_id (sr_storage_provider_id s) (t_providers d)"

definition fk_backup :: "db \<Rightarrow> backup_row \<Rightarrow> bool" where
  "fk_backup d b \<longleftrightarrow> has_row c_ID (br_connection_id b) (t_connections d) \<and>
     has_row dr_id (br_database_id b) (t_databases d) \<and>
     ref_ok sr_id (br_schedule_id b) (t_schedules d) \<and>
     ref_ok pr_id (br_storage_provider_id b) (t_providers d)"

definition fk_restore :: "db \<Rightarrow> restore_row \<Rightarrow> bool" where
  "fk_restore d r \<longleftrightarrow> has_row br_id (rr_backup_id r) (t_backups d) \<and>
     ref_ok c_ID (rr_target_connection r) (t_connections d)"

definition fk_database :: "db \<Rightarrow> database_row \<Rightarrow> bool" where
  "fk_database d x \<longleftrightarrow> has_row c_ID (dr_connection_id x) (t_connections d)"

section \<open>Statements\<close>

text \<open>One statement: the next entry of the fault script, then the statement itself.\<close>

definition db_try :: "db \<Rightarrow> gerror option \<times> db" where
  "db_try d = (case faults d of [] \<Rightarrow> (None, d) | f # fs \<Rightarrow> (f, d\<lparr>faults := fs\<rparr>))"

definition db_query :: "(db \<Rightarrow> 'a) \<Rightarrow> db \<Rightarrow> 'a res \<times> db" where
  "db_query q d = (case db_try d of (Some e, d') \<Rightarrow> (Inl e, d') | (None, d') \<Rightarrow> (Inr (q d'), d'))"

definition db_exec :: "(db \<Rightarrow> db res) \<Rightarrow> db \<Rightarrow> unit res \<times> db" where
  "db_exec x d = (case db_try d of
       (Some e, d') \<Rightarrow> (Inl e, d')
     | (None, d') \<Rightarrow> (case x d' of Inl e \<Rightarrow> (Inl e, d') | Inr d'' \<Rightarrow> (Inr (), d'')))"

subsection \<open>INSERT\<close>

definition sql_insert_connection :: "connection \<Rightarrow> db \<Rightarrow> db res" where
  "sql_insert_connection c d =
     (if \<not> check_connection c then Inl err_check
      else if has_row c_ID (c_ID c) (t_connections d) then Inl err_unique
      else Inr (d\<lparr>t_connections := t_connections d @ [c]\<rparr>))"

definition sql_insert_provider :: "provider_row \<Rightarrow> db \<Rightarrow> db res" where
  "sql_insert_provider p d =
     (if \<not> check_provider p then Inl err_check
      else if has_row pr_id (pr_id p) (t_providers d) then Inl err_unique
      else Inr (d\<lparr>t_providers := t_providers d @ [p]\<rparr>))"

definition sql_insert_schedule :: "schedule_row \<Rightarrow> db \<Rightarrow> db res" where
  "sql_insert_schedule s d =
     (if \<not> check_schedule s then Inl err_check
      else if has_row sr_id (sr_id s) (t_schedules d) then Inl err_unique
      else if \<not> fk_schedule d s then Inl err_fk
      else Inr (d\<lparr>t_schedules := t_schedules d @ [s]\<rparr>))"

definition sql_insert_backup :: "backup_row \<Rightarrow> db \<Rightarrow> db res" where
  "sql_insert_backup b d =
     (if \<not> check_backup b then Inl err_check
      else if has_row br_id (br_id b) (t_backups d) then Inl err_unique
      else if \<not> fk_backup d b then Inl err_fk
      else Inr (d\<lparr>t_backups := t_backups d @ [b]\<rparr>))"

definition sql_insert_restore :: "restore_row \<Rightarrow> db \<Rightarrow> db res" where
  "sql_insert_restore r d =
     (if \<not> check_restore r then Inl err_check
      else if has_row rr_id (rr_id r) (t_restores d) then Inl err_unique
      else if \<not> fk_restore d r then Inl err_fk
      else Inr (d\<lparr>t_restores := t_restores d @ [r]\<rparr>))"

definition sql_insert_notification :: "notification \<Rightarrow> db \<Rightarrow> db res" where
  "sql_insert_notification n d =
     (if \<not> check_notification n then Inl err_check
      else if has_row n_ID (n_ID n) (t_notifications d) then Inl err_unique
      else Inr (d\<lparr>t_notifications := t_notifications d @ [n]\<rparr>))"

text \<open>\<open>INSERT ... ON CONFLICT(connection_id, db_name) DO UPDATE SET is_selected, size_bytes\<close>.\<close>

definition sql_upsert_database :: "database_row \<Rightarrow> db \<Rightarrow> db res" where
  "sql_upsert_database x d =
     (let same = (\<lambda>y. dr_connection_id y = dr_connection_id x \<and> dr_db_name y = dr_db_name x)
      in if list_ex same (t_databases d)
         then Inr (d\<lparr>t_databases := map (\<lambda>y. if same y
                then y\<lparr>dr_is_selected := dr_is_selected x, dr_size_bytes := dr_size_bytes x\<rparr> else y)
                (t_databases d)\<rparr>)
         else if has_row dr_id (dr_id x) (t_databases d) then Inl err_unique
         else if \<not> fk_database d x then Inl err_fk
         else Inr (d\<lparr>t_databases := t_databases d @ [x]\<rparr>))"

definition sql_upsert_setting :: "string \<Rightarrow> string \<Rightarrow> db \<Rightarrow> db res" where
  "sql_upsert_setting k v d = Inr (d\<lparr>t_settings := AList.update k v (t_settings d)\<rparr>)"

subsection \<open>UPDATE\<close>

text \<open>Constraints are checked for the rows the WHERE clause selects; no such row is no error.\<close>

definition sql_update ::
  "('r \<Rightarrow> string) \<Rightarrow> (db \<Rightarrow> 'r list) \<Rightarrow> (('r list \<Rightarrow> 'r list) \<Rightarrow> db \<Rightarrow> db) \<Rightarrow>
   ('r \<Rightarrow> bool) \<Rightarrow> (db \<Rightarrow> 'r \<Rightarrow> bool) \<Rightarrow> string \<Rightarrow> ('r \<Rightarrow> 'r) \<Rightarrow> db \<Rightarrow> db res" where
  "sql_update key tab tab_update check fk k f d =
     (case row_find key k (tab d) of
        None \<Rightarrow> Inr d
      | Some r \<Rightarrow> if \<not> check (f r) then Inl err_check
                  else if \<not> fk d (f r) then Inl err_fk
                  else Inr (tab_update (row_upd key k f) d))"

definition sql_update_connection :: "string \<Rightarrow> (connection \<Rightarrow> connection) \<Rightarrow> db \<Rightarrow> db res" where
  "sql_update_connection = sql_update c_ID t_connections t_connections_update check_connection (\<lambda>_ _. True)"

definition sql_update_database :: "string \<Rightarrow> (database_row \<Rightarrow> database_row) \<Rightarrow> db \<Rightarrow> db res" where
  "sql_update_database = sql_update dr_id t_databases t_databases_update (\<lambda>_. True) fk_database"

definition sql_update_provider :: "string \<Rightarrow> (provider_row \<Rightarrow> provider_row) \<Rightarrow> db \<Rightarrow> db res" where
  "sql_update_provider = sql_update pr_id t_providers t_providers_update check_provider (\<lambda>_ _. True)"

definition sql_update_schedule :: "string \<Rightarrow> (schedule_row \<Rightarrow> schedule_row) \<Rightarrow> db \<Rightarrow> db res" where
  "sql_update_schedule = sql_update sr_id t_schedules t_schedules_update check_schedule fk_schedule"

definition sql_update_backup :: "string \<Rightarrow> (backup_row \<Rightarrow> backup_row) \<Rightarrow> db \<Rightarrow> db res" where
  "sql_update_backup = sql_update br_id t_backups t_backups_update check_backup fk_backup"

definition sql_update_restore :: "string \<Rightarrow> (restore_row \<Rightarrow> restore_row) \<Rightarrow> db \<Rightarrow> db res" where
  "sql_update_restore = sql_update rr_id t_restores t_restores_update check_restore fk_restore"

definition sql_update_notification :: "string \<Rightarrow> (notification \<Rightarrow> notification) \<Rightarrow> db \<Rightarrow> db res" where
  "sql_update_notification =
     sql_update n_ID t_notifications t_notifications_update check_notification (\<lambda>_ _. True)"

subsection \<open>DELETE\<close>

text \<open>A row that is still referenced cannot be deleted, except that the databases of a connection go
  with it (\<open>ON DELETE CASCADE\<close>), unless one of them is referenced in turn.\<close>

definition sql_delete_connection :: "string \<Rightarrow> db \<Rightarrow> db res" where
  "sql_delete_connection k d =
     (let gone = map dr_id (filter (\<lambda>x. dr_connection_id x = k) (t_databases d))
      in if list_ex (\<lambda>s. sr_connection_id s = k \<or> sr_database_id s \<in> set gone) (t_schedules d) \<or>
            list_ex (\<lambda>b. br_connection_id b = k \<or> br_database_id b \<in> set gone) (t_backups d) \<or>
            list_ex (\<lambda>r. rr_target_connection r = Some k) (t_restores d)
         then Inl err_fk
         else Inr (d\<lparr>t_connections := row_del c_ID k (t_connections d),
                    t_databases := filter (\<lambda>x. dr_connection_id x \<noteq> k) (t_databases d)\<rparr>))"

definition sql_delete_provider :: "string \<Rightarrow> db \<Rightarrow> db res" where
  "sql_delete_provider k d =
     (if list_ex (\<lambda>s. sr_storage_provider_id s = k) (t_schedules d) \<or>
         list_ex (\<lambda>b. br_storage_provider_id b = Some k) (t_backups d)
      then Inl err_fk else Inr (d\<lparr>t_providers := row_del pr_id k (t_providers d)\<rparr>))"

definition sql_delete_schedule :: "string \<Rightarrow> db \<Rightarrow> db res" where
  "sql_delete_schedule k d =
     (if list_ex (\<lambda>b. br_schedule_id b = Some k) (t_backups d)
      then Inl err_fk else Inr (d\<lparr>t_schedules := row_del sr_id k (t_schedules d)\<rparr>))"

definition sql_delete_backup :: "string \<Rightarrow> db \<Rightarrow> db res" where
  "sql_delete_backup k d =
     (if list_ex (\<lambda>r. rr_backup_id r = k) (t_restores d)
      then Inl err_fk else Inr (d\<lparr>t_backups := row_del br_id k (t_backups d)\<rparr>))"

definition sql_delete_notification :: "string \<Rightarrow> db \<Rightarrow> db res" where
  "sql_delete_notification k d = Inr (d\<lparr>t_notifications := row_del n_ID k (t_notifications d)\<rparr>)"

definition sql_clear_default :: "string \<Rightarrow> db \<Rightarrow> db res" where
  "sql_clear_default excludeID d =
     Inr (d\<lparr>t_providers := map (\<lambda>p. if pr_id p \<noteq> excludeID then p\<lparr>pr_is_default := 0\<rparr> else p)
       (t_providers d)\<rparr>)"

text \<open>The settings \<open>migrate\<close> seeds, left alone where they exist already.\<close>

definition default_settings :: "(string \<times> string) list" where
  "default_settings =
     [(''retention_full_default'', ''7''), (''retention_incr_default'', ''30''),
      (''concurrent_backups'', ''2''), (''compression'', ''gzip''), (''timezone'', ''UTC''),
      (''notify_on_success'', ''true''), (''notify_on_failure'', ''true'')]"

definition seed_settings :: "db \<Rightarrow> db" where
  "seed_settings d = d\<lparr>t_settings := t_settings d @
     filter (\<lambda>kv. fst kv \<notin> set (map fst (t_settings d))) default_settings\<rparr>"

end
