(* ===== verification/Schema_Invariant.thy ===== *)
theory Schema_Invariant
  imports Database
begin

text \<open>
  The schema invariant \<open>db_wf\<close> (keys unique, CHECK constraints, no dangling reference) and its
  preservation by every SQL statement of the program; the contract of a keyed table, as a locale
  interpreted on each table; how the fault script is consumed.
\<close>

section \<open>Fault script\<close>

text \<open>Two database states with the same tables: reads may only consume script entries.\<close>

definition same_tables :: "db \<Rightarrow> db \<Rightarrow> bool" where
  "same_tables d d' \<longleftrightarrow> d'\<lparr>faults := []\<rparr> = d\<lparr>faults := []\<rparr>"

lemma same_tables_refl [simp]: "same_tables d d"
  by (simp add: same_tables_def)

lemma same_tables_trans: "same_tables a b \<Longrightarrow> same_tables b c \<Longrightarrow> same_tables a c"
  by (simp add: same_tables_def)

lemma same_tables_fields:
  assumes "same_tables d d'"
  shows "t_connections d' = t_connections d" "t_databases d' = t_databases d"
    "t_providers d' = t_providers d" "t_schedules d' = t_schedules d" "t_backups d' = t_backups d"
    "t_restores d' = t_restores d" "t_notifications d' = t_notifications d"
    "t_settings d' = t_settings d"
  using assms by (cases d; cases d'; simp add: same_tables_def)+

lemma same_tables_faults [simp]: "same_tables d (d\<lparr>faults := fs\<rparr>)"
  by (simp add: same_tables_def)

lemma db_try_same [simp]: "same_tables d (snd (db_try d))"
  by (simp add: db_try_def split: list.splits)

lemma db_try_tables: "db_try d = (r, d') \<Longrightarrow> same_tables d d'"
  using db_try_same [of d] by simp

lemma db_try_no_faults [simp]: "faults d = [] \<Longrightarrow> db_try d = (None, d)"
  by (simp add: db_try_def)

lemma db_query_same [simp]: "same_tables d (snd (db_query q d))"
  by (auto simp: db_query_def split: prod.splits option.splits dest: db_try_tables)

lemma db_query_no_faults [simp]: "faults d = [] \<Longrightarrow> db_query q d = (Inr (q d), d)"
  by (simp add: db_query_def)

lemma db_exec_no_faults [simp]:
  "faults d = [] \<Longrightarrow> db_exec x d = (case x d of Inl e \<Rightarrow> (Inl e, d) | Inr d' \<Rightarrow> (Inr (), d'))"
  by (simp add: db_exec_def split: sum.splits)

lemma db_query_result:
  assumes "db_query q d = (Inr v, d')"
  shows "v = q d' \<and> same_tables d d'"
  using assms by (auto simp: db_query_def split: prod.splits option.splits dest: db_try_tables)

lemma db_exec_error: "db_exec x d = (Inl e, d') \<Longrightarrow> same_tables d d'"
  by (auto simp: db_exec_def split: prod.splits option.splits sum.splits dest: db_try_tables)

lemma db_exec_ok:
  assumes "db_exec x d = (Inr u, d')"
  obtains d0 where "same_tables d d0" "x d0 = Inr d'"
  using assms by (auto simp: db_exec_def split: prod.splits option.splits sum.splits dest: db_try_tables)

section \<open>The invariant\<close>

definition keys_ok :: "db \<Rightarrow> bool" where
  "keys_ok d \<longleftrightarrow> distinct (map c_ID (t_connections d)) \<and> distinct (map dr_id (t_databases d)) \<and>
     distinct (map pr_id (t_providers d)) \<and> distinct (map sr_id (t_schedules d)) \<and>
     distinct (map br_id (t_backups d)) \<and> distinct (map rr_id (t_restores d)) \<and>
     distinct (map n_ID (t_notifications d)) \<and> distinct (map fst (t_settings d))"

definition checks_ok :: "db \<Rightarrow> bool" where
  "checks_ok d \<longleftrightarrow> (\<forall>c \<in> set (t_connections d). check_connection c) \<and>
     (\<forall>p \<in> set (t_providers d). check_provider p) \<and> (\<forall>s \<in> set (t_schedules d). check_schedule s) \<and>
     (\<forall>b \<in> set (t_backups d). check_backup b) \<and> (\<forall>r \<in> set (t_restores d). check_restore r) \<and>
     (\<forall>n \<in> set (t_notifications d). check_notification n)"

definition refs_ok :: "db \<Rightarrow> bool" where
  "refs_ok d \<longleftrightarrow> (\<forall>x \<in> set (t_databases d). fk_database d x) \<and>
     (\<forall>s \<in> set (t_schedules d). fk_schedule d s) \<and> (\<forall>b \<in> set (t_backups d). fk_backup d b) \<and>
     (\<forall>r \<in> set (t_restores d). fk_restore d r)"

definition db_wf :: "db \<Rightarrow> bool" where
  "db_wf d \<longleftrightarrow> keys_ok d \<and> checks_ok d \<and> refs_ok d"

definition empty_db :: db where
  "empty_db = \<lparr>t_connections = [], t_databases = [], t_providers = [], t_schedules = [],
     t_backups = [], t_restores = [], t_notifications = [], t_settings = [], faults = []\<rparr>"

lemmas fk_defs = fk_database_def fk_schedule_def fk_backup_def fk_restore_def

lemma empty_db_wf: "db_wf empty_db"
  by (simp add: db_wf_def keys_ok_def checks_ok_def refs_ok_def empty_db_def)

lemma db_wf_same: "same_tables d d' \<Longrightarrow> db_wf d' = db_wf d"
  by (simp add: db_wf_def keys_ok_def checks_ok_def refs_ok_def fk_defs same_tables_fields)

lemma db_wf_faults [simp]: "db_wf (d\<lparr>faults := fs\<rparr>) = db_wf d"
  by (rule db_wf_same) simp

lemma db_wf_exec:
  assumes "db_wf d" "\<And>d d'. db_wf d \<Longrightarrow> x d = Inr d' \<Longrightarrow> db_wf d'"
  shows "db_wf (snd (db_exec x d))"
proof -
  obtain r d' where e: "db_exec x d = (r, d')" by fastforce
  show ?thesis
  proof (cases r)
    case (Inl err)
    with e assms(1) show ?thesis by (simp add: db_wf_same [OF db_exec_error])
  next
    case (Inr u)
    with e obtain d0 where "same_tables d d0" "x d0 = Inr d'" by (auto elim: db_exec_ok)
    then have "db_wf d0" using assms(1) by (simp add: db_wf_same)
    then show ?thesis using assms(2) e \<open>x d0 = Inr d'\<close> by simp
  qed
qed

lemma db_wf_query: "db_wf d \<Longrightarrow> db_wf (snd (db_query q d))"
  by (simp add: db_wf_same [OF db_query_same])

section \<open>Row-level facts\<close>

lemma has_row_append [simp]: "has_row key k (rows @ [r]) \<longleftrightarrow> has_row key k rows \<or> key r = k"
  by (auto simp: has_row_def)

lemma has_row_del [simp]: "has_row key k (row_del key k' rows) \<longleftrightarrow> has_row key k rows \<and> k \<noteq> k'"
  by (auto simp: has_row_def)

lemma has_row_upd: "(\<And>r. key (f r) = key r) \<Longrightarrow> has_row key k (row_upd key k' f rows) = has_row key k rows"
  by (simp add: has_row_def)

lemma has_row_find: "has_row key k rows \<longleftrightarrow> row_find key k rows \<noteq> None"
  by (auto simp: has_row_def row_find_None_iff)

lemma ref_ok_append: "ref_ok key k rows \<Longrightarrow> ref_ok key k (rows @ [r])"
  by (auto simp: ref_ok_def split: option.splits)

lemma ref_ok_del: "ref_ok key k rows \<Longrightarrow> k \<noteq> Some k' \<Longrightarrow> ref_ok key k (row_del key k' rows)"
  by (auto simp: ref_ok_def split: option.splits)

lemma ref_ok_upd: "(\<And>r. key (f r) = key r) \<Longrightarrow> ref_ok key k (row_upd key k' f rows) = ref_ok key k rows"
  by (auto simp: ref_ok_def has_row_upd split: option.splits)

lemmas row_facts = has_row_upd ref_ok_append ref_ok_del ref_ok_upd

section \<open>Insertions and upserts\<close>

lemma wf_insert_connection: "db_wf d \<Longrightarrow> sql_insert_connection c d = Inr d' \<Longrightarrow> db_wf d'"
  by (auto simp: sql_insert_connection_def db_wf_def keys_ok_def checks_ok_def refs_ok_def fk_defs
      row_facts has_row_def split: if_splits)

lemma wf_insert_provider: "db_wf d \<Longrightarrow> sql_insert_provider p d = Inr d' \<Longrightarrow> db_wf d'"
  by (auto simp: sql_insert_provider_def db_wf_def keys_ok_def checks_ok_def refs_ok_def fk_defs
      row_facts has_row_def split: if_splits)

lemma wf_insert_schedule: "db_wf d \<Longrightarrow> sql_insert_schedule s d = Inr d' \<Longrightarrow> db_wf d'"
  by (auto simp: sql_insert_schedule_def db_wf_def keys_ok_def checks_ok_def refs_ok_def fk_defs
      row_facts has_row_def split: if_splits)

lemma wf_insert_backup: "db_wf d \<Longrightarrow> sql_insert_backup b d = Inr d' \<Longrightarrow> db_wf d'"
  by (auto simp: sql_insert_backup_def db_wf_def keys_ok_def checks_ok_def refs_ok_def fk_defs
      row_facts has_row_def split: if_splits)

lemma wf_insert_restore: "db_wf d \<Longrightarrow> sql_insert_restore r d = Inr d' \<Longrightarrow> db_wf d'"
  by (auto simp: sql_insert_restore_def db_wf_def keys_ok_def checks_ok_def refs_ok_def fk_defs
      row_facts has_row_def split: if_splits)

lemma wf_insert_notification: "db_wf d \<Longrightarrow> sql_insert_notification n d = Inr d' \<Longrightarrow> db_wf d'"
  by (auto simp: sql_insert_notification_def db_wf_def keys_ok_def checks_ok_def refs_ok_def fk_defs
      row_facts has_row_def split: if_splits)


lemma wf_databases_upd:
  assumes "db_wf d" "\<And>x. dr_id (f x) = dr_id x" "\<And>x. dr_connection_id (f x) = dr_connection_id x"
  shows "db_wf (d\<lparr>t_databases := map f (t_databases d)\<rparr>)"
  using assms by (simp add: db_wf_def keys_ok_def checks_ok_def refs_ok_def fk_defs has_row_def comp_def)

lemma wf_upsert_database:
  assumes "db_wf d" "sql_upsert_database x d = Inr d'"
  shows "db_wf d'"
proof (cases "list_ex (\<lambda>y. dr_connection_id y = dr_connection_id x \<and> dr_db_name y = dr_db_name x) (t_databases d)")
  case True
  with assms show ?thesis by (auto simp: sql_upsert_database_def Let_def intro: wf_databases_upd)
next
  case False
  with assms show ?thesis
    by (auto simp: sql_upsert_database_def Let_def db_wf_def keys_ok_def checks_ok_def refs_ok_def
        fk_defs has_row_def split: if_splits)
qed

lemma wf_settings:
  assumes "db_wf d" "distinct (map fst kvs)"
  shows "db_wf (d\<lparr>t_settings := kvs\<rparr>)"
  using assms by (simp add: db_wf_def keys_ok_def checks_ok_def refs_ok_def fk_defs)

lemma wf_upsert_setting: "db_wf d \<Longrightarrow> sql_upsert_setting k v d = Inr d' \<Longrightarrow> db_wf d'"
  by (auto simp: sql_upsert_setting_def intro!: wf_settings distinct_update) (simp add: db_wf_def keys_ok_def)

lemma wf_seed_settings: "db_wf d \<Longrightarrow> db_wf (seed_settings d)"
proof -
  assume "db_wf d"
  moreover from this have "distinct (map fst (t_settings d))" by (simp add: db_wf_def keys_ok_def)
  moreover have "distinct (map fst default_settings)" by (simp add: default_settings_def)
  ultimately show ?thesis
    by (force simp: seed_settings_def distinct_map_filter intro!: wf_settings)
qed

section \<open>Keyed tables\<close>

text \<open>What every table with a primary key promises to the UPDATE statement on it: the accessor and
  the updater agree, and replacing one row by a checked row with the same key keeps the schema
  invariant.\<close>

locale keyed_table =
  fixes key :: "'r \<Rightarrow> string"
    and tab :: "db \<Rightarrow> 'r list"
    and tab_update :: "('r list \<Rightarrow> 'r list) \<Rightarrow> db \<Rightarrow> db"
    and check :: "'r \<Rightarrow> bool"
    and fk :: "db \<Rightarrow> 'r \<Rightarrow> bool"
  assumes tab_get: "tab (tab_update g d) = g (tab d)"
    and wf_keys: "db_wf d \<Longrightarrow> distinct (map key (tab d))"
    and wf_row_upd: "\<lbrakk>db_wf d; \<And>r. key (f r) = key r; \<And>r. r \<in> set (tab d) \<Longrightarrow> key r = k \<Longrightarrow> check (f r) \<and> fk d (f r)\<rbrakk>
          \<Longrightarrow> db_wf (tab_update (row_upd key k f) d)"
begin

lemma wf_sql_update:
  assumes "db_wf d" "\<And>r. key (f r) = key r" "sql_update key tab tab_update check fk k f d = Inr d'"
  shows "db_wf d'"
proof (cases "row_find key k (tab d)")
  case None
  with assms show ?thesis by (simp add: sql_update_def)
next
  case (Some r)
  with assms(3) have "check (f r)" "fk d (f r)" and d': "d' = tab_update (row_upd key k f) d"
    by (auto simp: sql_update_def split: if_splits)
  moreover have "x = r" if "x \<in> set (tab d)" "key x = k" for x
    using row_find_distinct [OF wf_keys [OF assms(1)] that(1)] that(2) Some by simp
  ultimately show ?thesis using wf_row_upd [OF assms(1,2)] by blast
qed

lemma find_sql_update:
  assumes "\<And>r. key (f r) = key r" "sql_update key tab tab_update check fk k f d = Inr d'"
  shows "row_find key k' (tab d') = (if k' = k then map_option f (row_find key k' (tab d)) else row_find key k' (tab d))"
  using assms by (cases "row_find key k (tab d)") (auto simp: sql_update_def tab_get split: if_splits)

lemma sql_update_error:
  "sql_update key tab tab_update check fk k f d = Inl e \<Longrightarrow>
     \<exists>r. row_find key k (tab d) = Some r \<and> (e = err_check \<and> \<not> check (f r) \<or> e = err_fk \<and> \<not> fk d (f r))"
  by (auto simp: sql_update_def split: option.splits if_splits)

lemma sql_update_checked:
  assumes "row_find key k (tab d) = Some r" "check (f r)" "fk d (f r)"
  shows "sql_update key tab tab_update check fk k f d = Inr (tab_update (row_upd key k f) d)"
  using assms by (simp add: sql_update_def)

end

lemmas wf_unfold = db_wf_def keys_ok_def checks_ok_def refs_ok_def fk_defs row_facts set_row_upd

interpretation connections: keyed_table c_ID t_connections t_connections_update check_connection "\<lambda>_ _. True"
  by unfold_locales (auto simp: wf_unfold)

interpretation databases: keyed_table dr_id t_databases t_databases_update "\<lambda>_. True" fk_database
  by unfold_locales (auto simp: wf_unfold)

interpretation providers: keyed_table pr_id t_providers t_providers_update check_provider "\<lambda>_ _. True"
  by unfold_locales (auto simp: wf_unfold)

interpretation schedules: keyed_table sr_id t_schedules t_schedules_update check_schedule fk_schedule
  by unfold_locales (auto simp: wf_unfold)

interpretation backups: keyed_table br_id t_backups t_backups_update check_backup fk_backup
  by unfold_locales (auto simp: wf_unfold)

interpretation restores: keyed_table rr_id t_restores t_restores_update check_restore fk_restore
  by unfold_locales (auto simp: wf_unfold)

interpretation notifications: keyed_table n_ID t_notifications t_notifications_update check_notification "\<lambda>_ _. True"
  by unfold_locales (auto simp: wf_unfold)

section \<open>Deletions\<close>

lemma has_row_filter: "(\<And>r. r \<in> set rows \<Longrightarrow> key r = k \<Longrightarrow> P r) \<Longrightarrow> has_row key k (filter P rows) = has_row key k rows"
  by (auto simp: has_row_def)

lemma wf_delete_provider: "db_wf d \<Longrightarrow> sql_delete_provider k d = Inr d' \<Longrightarrow> db_wf d'"
  by (auto simp: sql_delete_provider_def wf_unfold distinct_row_del list_ex_iff split: if_splits)

lemma wf_delete_schedule: "db_wf d \<Longrightarrow> sql_delete_schedule k d = Inr d' \<Longrightarrow> db_wf d'"
  by (auto simp: sql_delete_schedule_def wf_unfold distinct_row_del list_ex_iff split: if_splits)

lemma wf_delete_backup: "db_wf d \<Longrightarrow> sql_delete_backup k d = Inr d' \<Longrightarrow> db_wf d'"
  by (auto simp: sql_delete_backup_def wf_unfold distinct_row_del list_ex_iff split: if_splits)

lemma wf_delete_notification: "db_wf d \<Longrightarrow> sql_delete_notification k d = Inr d' \<Longrightarrow> db_wf d'"
  by (auto simp: sql_delete_notification_def wf_unfold distinct_row_del)

lemma wf_delete_connection:
  assumes "db_wf d" "sql_delete_connection k d = Inr d'"
  shows "db_wf d'"
proof -
  let ?ds = "filter (\<lambda>x. dr_connection_id x \<noteq> k) (t_databases d)"
  have free: "\<forall>s \<in> set (t_schedules d). sr_connection_id s \<noteq> k \<and>
        (\<forall>x \<in> set (t_databases d). dr_connection_id x = k \<longrightarrow> dr_id x \<noteq> sr_database_id s)"
    "\<forall>b \<in> set (t_backups d). br_connection_id b \<noteq> k \<and>
        (\<forall>x \<in> set (t_databases d). dr_connection_id x = k \<longrightarrow> dr_id x \<noteq> br_database_id b)"
    "\<forall>r \<in> set (t_restores d). rr_target_connection r \<noteq> Some k"
    and d': "d' = d\<lparr>t_connections := row_del c_ID k (t_connections d), t_databases := ?ds\<rparr>"
    using assms(2) by (auto simp: sql_delete_connection_def Let_def list_ex_iff image_iff split: if_splits) metis+
  have "keys_ok d'" "checks_ok d'"
    using assms(1) d' by (auto simp: db_wf_def keys_ok_def checks_ok_def distinct_row_del distinct_map_filter)
  moreover have "has_row dr_id x ?ds = has_row dr_id x (t_databases d)"
    if "\<forall>y \<in> set (t_databases d). dr_connection_id y = k \<longrightarrow> dr_id y \<noteq> x" for x
    by (rule has_row_filter) (use that in auto)
  with free assms(1) d' have "refs_ok d'"
    by (simp add: db_wf_def refs_ok_def fk_defs row_facts)
  ultimately show ?thesis by (simp add: db_wf_def)
qed

lemma wf_providers_map:
  assumes "db_wf d" "\<And>p. pr_id (f p) = pr_id p" "\<And>p. pr_provider_type (f p) = pr_provider_type p"
  shows "db_wf (d\<lparr>t_providers := map f (t_providers d)\<rparr>)"
  using assms by (simp add: db_wf_def keys_ok_def checks_ok_def check_provider_def refs_ok_def fk_defs has_row_def
      ref_ok_def comp_def cong: option.case_cong)

lemma wf_clear_default: "db_wf d \<Longrightarrow> sql_clear_default e d = Inr d' \<Longrightarrow> db_wf d'"
  by (auto simp: sql_clear_default_def intro: wf_providers_map)

end
