(* ===== verification/Repositories.thy ===== *)
theory Repositories
  imports Schema_Invariant
begin

text \<open>
  What the repositories of \<open>internal/repository/postgres\<close> share: conversions between struct
  fields and columns (the helper functions of \<open>backup.go\<close>), the precision of a stored time, and
  the contract every repository gives its service, as the locale \<open>repository\<close>: which struct a
  lookup returns after a create or an update. The repositories interpret it in their own theories.

  \<open>uuid.New()\<close> and \<open>time.Now()\<close> are arguments of the operations that call them. A
  \<open>Create\<close> or \<open>Update\<close> that fills in fields of the caller's struct returns the struct.
\<close>

section \<open>Columns\<close>

text \<open>A TIMESTAMPTZ column keeps microseconds.\<close>

definition pg_time :: "int \<Rightarrow> int" where "pg_time t = t - t mod 1000"

definition nullableStr :: "string option \<Rightarrow> string option" where
  "nullableStr s = (case s of None \<Rightarrow> None | Some x \<Rightarrow> Some x)"

definition nullableInt64 :: "int option \<Rightarrow> int option" where
  "nullableInt64 i = (case i of None \<Rightarrow> None | Some x \<Rightarrow> Some x)"

definition nullableTime :: "int option \<Rightarrow> int option" where
  "nullableTime t = (case t of None \<Rightarrow> None | Some x \<Rightarrow> Some (pg_time x))"

text \<open>A BIGINT scanned into a \<open>sql.NullString\<close>: the field \<open>String\<close> is empty for NULL.\<close>

definition null_string :: "int option \<Rightarrow> string" where
  "null_string i = (case i of None \<Rightarrow> [] | Some x \<Rightarrow> fmt_d x)"

definition parseInt64 :: "string \<Rightarrow> int res" where
  "parseInt64 s = (if s = [] then Inl ''empty string''
     else case sscanf_d s of None \<Rightarrow> Inl ''expected integer'' | Some v \<Rightarrow> Inr v)"

text \<open>\<open>if v, err := parseInt64(x.String); err == nil { field = &v }\<close>\<close>

definition scan_int64 :: "int option \<Rightarrow> int option" where
  "scan_int64 i = (case parseInt64 (null_string i) of Inl _ \<Rightarrow> None | Inr v \<Rightarrow> Some v)"

definition boolToInt :: "bool \<Rightarrow> int" where
  "boolToInt b = (if b then 1 else 0)"

definition opt_int64_ok :: "int option \<Rightarrow> bool" where
  "opt_int64_ok i \<longleftrightarrow> (case i of None \<Rightarrow> True | Some x \<Rightarrow> int64_ok x)"

lemma nullable_id [simp]: "nullableStr s = s" "nullableInt64 i = i"
  by (auto simp: nullableStr_def nullableInt64_def split: option.splits)

lemma nullableTime_map [simp]: "nullableTime t = map_option pg_time t"
  by (auto simp: nullableTime_def split: option.splits)

lemma pg_time_idem [simp]: "pg_time (pg_time t) = pg_time t"
  by (simp add: pg_time_def)

lemma pg_time_mono: "s \<le> t \<Longrightarrow> pg_time s \<le> pg_time t"
proof -
  assume "s \<le> t"
  then have "s div 1000 * 1000 \<le> t div 1000 * 1000" by (simp add: zdiv_mono1)
  then show ?thesis by (simp add: pg_time_def minus_mod_eq_div_mult)
qed

lemma scan_int64_ok [simp]: "opt_int64_ok i \<Longrightarrow> scan_int64 i = i"
  by (auto simp: scan_int64_def opt_int64_ok_def null_string_def parseInt64_def split: option.splits)

lemma scan_int64_None [simp]: "scan_int64 None = None"
  by (simp add: opt_int64_ok_def)

lemma opt_int64_ok_simps [simp]: "opt_int64_ok None" "opt_int64_ok (Some x) = int64_ok x"
  by (simp_all add: opt_int64_ok_def)

lemma boolToInt_iff [simp]: "boolToInt b = 1 \<longleftrightarrow> b" "boolToInt b = 0 \<longleftrightarrow> \<not> b"
  by (simp_all add: boolToInt_def)

section \<open>Statements\<close>

text \<open>A query that may itself be rejected by the server.\<close>

definition db_select :: "(db \<Rightarrow> 'a res) \<Rightarrow> db \<Rightarrow> 'a res \<times> db" where
  "db_select q d = (case db_query q d of (Inl e, d') \<Rightarrow> (Inl e, d') | (Inr r, d') \<Rightarrow> (r, d'))"

text \<open>A statement whose success is reported with the struct it stored.\<close>

definition returning :: "'a \<Rightarrow> unit res \<times> db \<Rightarrow> 'a res \<times> db" where
  "returning x p = (case p of (Inl e, d) \<Rightarrow> (Inl e, d) | (Inr _, d) \<Rightarrow> (Inr x, d))"

lemma returning_simps [simp]:
  "returning x (Inl e, d) = (Inl e, d)" "returning x (Inr u, d) = (Inr x, d)"
  "snd (returning x p) = snd p"
  by (auto simp: returning_def split: prod.splits sum.splits)

lemma wrapped_query:
  assumes "wrap_err ctx (db_query q d) = (Inr v, d')"
  shows "v = q d' \<and> same_tables d d'"
  using assms by (cases "db_query q d"; cases "fst (db_query q d)") (auto dest: db_query_result)

lemma wrapped_exec_ok:
  assumes "wrap_err ctx (db_exec x d) = (Inr u, d')"
  obtains d0 where "same_tables d d0" "x d0 = Inr d'"
  using assms by (cases "db_exec x d"; cases "fst (db_exec x d)") (auto elim: db_exec_ok)

lemma wrapped_exec_error:
  assumes "wrap_err ctx (db_exec x d) = (Inl e, d')"
  shows "same_tables d d'"
  using assms by (cases "db_exec x d"; cases "fst (db_exec x d)") (auto dest: db_exec_error)

lemma returning_exec_ok:
  assumes "returning y (wrap_err ctx (db_exec x d)) = (Inr z, d')"
  obtains d0 where "same_tables d d0" "x d0 = Inr d'" "z = y"
proof -
  obtain r d1 where r: "wrap_err ctx (db_exec x d) = (r, d1)" by fastforce
  with assms obtain u where "r = Inr u" "d1 = d'" "z = y" by (cases r) auto
  with r show thesis by (auto elim!: wrapped_exec_ok intro: that)
qed

lemma returning_exec_error:
  assumes "returning y (wrap_err ctx (db_exec x d)) = (Inl e, d')"
  shows "same_tables d d'"
proof -
  obtain r d1 where r: "wrap_err ctx (db_exec x d) = (r, d1)" by fastforce
  with assms have "r = Inl e" "d1 = d'" by (cases r; simp)+
  with r show ?thesis by (auto dest: wrapped_exec_error)
qed

lemma db_select_same [simp]: "same_tables d (snd (db_select q d))"
proof -
  have "snd (db_select q d) = snd (db_query q d)"
    by (auto simp: db_select_def split: prod.splits sum.splits)
  then show ?thesis by simp
qed

lemma db_select_no_faults [simp]: "faults d = [] \<Longrightarrow> db_select q d = (q d, d)"
  by (simp add: db_select_def)

lemma db_select_result: "db_select q d = (Inr v, d') \<Longrightarrow> q d' = Inr v \<and> same_tables d d'"
  by (auto simp: db_select_def split: prod.splits sum.splits dest: db_query_result)

section \<open>The contract of a repository\<close>

text \<open>Abstractly a repository is a map from identifiers to structs, \<open>view\<close>. \<open>Create\<close> adds
  the struct with the fields the table keeps (\<open>stored\<close>) under a new identifier,
  \<open>Update\<close> overwrites the fields of the statement's SET clause (\<open>merge\<close>), \<open>GetByID\<close>
  reads the map. A failed operation changes nothing, and all keep the schema invariant.\<close>

locale repository =
  fixes get :: "string \<Rightarrow> db \<Rightarrow> 'a option res \<times> db"
    and create :: "string \<Rightarrow> int \<Rightarrow> 'a \<Rightarrow> db \<Rightarrow> 'a res \<times> db"
    and update :: "int \<Rightarrow> 'a \<Rightarrow> db \<Rightarrow> unit res \<times> db"
    and ident :: "'a \<Rightarrow> string"
    and valid :: "'a \<Rightarrow> bool"
    and stored :: "string \<Rightarrow> int \<Rightarrow> 'a \<Rightarrow> 'a"
    and merge :: "int \<Rightarrow> 'a \<Rightarrow> 'a \<Rightarrow> 'a"
    and view :: "string \<Rightarrow> db \<Rightarrow> 'a option"
  assumes view_same: "same_tables d d' \<Longrightarrow> view k d' = view k d"
    and get_view: "get k d = (Inr v, d') \<Longrightarrow> v = view k d' \<and> same_tables d d'"
    and get_fail: "get k d = (Inl e, d') \<Longrightarrow> same_tables d d'"
    and create_view: "valid x \<Longrightarrow> create k now x d = (Inr y, d') \<Longrightarrow>
          view k d = None \<and> ident y = k \<and>
          (\<forall>j. view j d' = (if j = k then Some (stored k now x) else view j d))"
    and create_fail: "create k now x d = (Inl e, d') \<Longrightarrow> same_tables d d'"
    and create_wf: "db_wf d \<Longrightarrow> db_wf (snd (create k now x d))"
    and update_view: "valid x \<Longrightarrow> db_wf d \<Longrightarrow> update now x d = (Inr u, d') \<Longrightarrow>
          (\<forall>j. view j d' = (if j = ident x then map_option (merge now x) (view j d) else view j d))"
    and update_fail: "update now x d = (Inl e, d') \<Longrightarrow> same_tables d d'"
    and update_wf: "db_wf d \<Longrightarrow> db_wf (snd (update now x d))"
begin

lemma get_same: "same_tables d (snd (get k d))"
  using get_view get_fail by (cases "get k d"; cases "fst (get k d)") auto

lemma get_wf: "db_wf d \<Longrightarrow> db_wf (snd (get k d))"
  by (simp add: db_wf_same [OF get_same])

text \<open>A struct just created is what a successful lookup returns, as far as the table keeps it.\<close>

lemma get_after_create:
  assumes "valid x" "create k now x d = (Inr y, d1)" "get (ident y) d1 = (Inr v, d2)"
  shows "v = Some (stored k now x)"
  using create_view [OF assms(1,2)] get_view [OF assms(3)] view_same by metis

lemma get_after_update:
  assumes "valid x" "db_wf d" "update now x d = (Inr u, d1)" "get (ident x) d1 = (Inr v, d2)"
  shows "v = map_option (merge now x) (view (ident x) d)"
  using update_view [OF assms(1-3)] get_view [OF assms(4)] view_same by metis

lemma create_keeps_others:
  assumes "valid x" "create k now x d = (Inr y, d1)" "view j d = Some z"
  shows "view j d1 = Some z"
  using create_view [OF assms(1,2)] assms(3) by fastforce

lemma create_fresh: "valid x \<Longrightarrow> create k now x d = (Inr y, d1) \<Longrightarrow> view k d = None"
  using create_view by blast

end

section \<open>Repositories over one table\<close>

text \<open>How the repositories are built: a keyed table, the columns of a struct (\<open>to_row\<close>), the
  struct of a row (\<open>scan\<close>), the fields \<open>Create\<close> fills in, the SET clause
  (\<open>set_row\<close>) and what it does to the scanned struct. Every such repository gives the contract.\<close>

locale table_repository = keyed_table key tab tab_update check fk
  for key :: "'r \<Rightarrow> string" and tab :: "db \<Rightarrow> 'r list"
    and tab_update :: "('r list \<Rightarrow> 'r list) \<Rightarrow> db \<Rightarrow> db"
    and check :: "'r \<Rightarrow> bool" and fk :: "db \<Rightarrow> 'r \<Rightarrow> bool" +
  fixes scan :: "'r \<Rightarrow> 'a" and to_row :: "'a \<Rightarrow> 'r" and fill :: "string \<Rightarrow> int \<Rightarrow> 'a \<Rightarrow> 'a"
    and set_row :: "int \<Rightarrow> 'a \<Rightarrow> 'r \<Rightarrow> 'r" and insert_row :: "'r \<Rightarrow> db \<Rightarrow> db res"
    and ident :: "'a \<Rightarrow> string" and valid :: "'a \<Rightarrow> bool" and merge :: "int \<Rightarrow> 'a \<Rightarrow> 'a \<Rightarrow> 'a"
    and get_ctx :: "string \<Rightarrow> string" and create_ctx :: string and update_ctx :: "string \<Rightarrow> string"
  assumes tab_same: "same_tables d d' \<Longrightarrow> tab d' = tab d"
    and insert_ok: "insert_row r d = Inr d' \<Longrightarrow> \<not> has_row key (key r) (tab d) \<and> tab d' = tab d @ [r]"
    and insert_wf: "db_wf d \<Longrightarrow> insert_row r d = Inr d' \<Longrightarrow> db_wf d'"
    and to_row_key: "key (to_row x) = ident x"
    and fill_ident: "ident (fill k now x) = k"
    and set_row_key: "key (set_row now x r) = key r"
    and scan_set_row: "valid x \<Longrightarrow> scan (set_row now x r) = merge now x (scan r)"
begin

sublocale repository
  "\<lambda>k d. wrap_err (get_ctx k) (db_query (\<lambda>d. map_option scan (row_find key k (tab d))) d)"
  "\<lambda>k now x d. returning (fill k now x) (wrap_err create_ctx (db_exec (insert_row (to_row (fill k now x))) d))"
  "\<lambda>now x d. wrap_err (update_ctx (ident x))
     (db_exec (sql_update key tab tab_update check fk (ident x) (set_row now x)) d)"
  ident valid "\<lambda>k now x. scan (to_row (fill k now x))" merge
  "\<lambda>k d. map_option scan (row_find key k (tab d))"
proof (unfold_locales, goal_cases)
  case (1 d d' k)
  then show ?case by (simp add: tab_same)
next
  case (2 k d v d')
  then show ?case by (auto dest: wrapped_query)
next
  case (3 k d e d')
  then have "d' = snd (db_query (\<lambda>d. map_option scan (row_find key k (tab d))) d)"
    by (metis snd_conv wrap_err_simps(3))
  then show ?case by simp
next
  case (4 x k now d y d')
  then obtain d0 where d0: "same_tables d d0" "insert_row (to_row (fill k now x)) d0 = Inr d'" "y = fill k now x"
    by (auto elim: returning_exec_ok)
  then have "\<not> has_row key k (tab d)" "tab d' = tab d @ [to_row (fill k now x)]"
    using insert_ok [OF d0(2)] tab_same [OF d0(1)] by (simp_all add: to_row_key fill_ident)
  then show ?case using d0(3) by (auto simp: has_row_find to_row_key fill_ident split: option.splits)
next
  case (5 k now x d e d')
  then show ?case by (auto dest: returning_exec_error)
next
  case (6 d k now x)
  then show ?case by (simp add: db_wf_exec insert_wf)
next
  case (7 x d now u d')
  then obtain d0 where "same_tables d d0"
    "sql_update key tab tab_update check fk (ident x) (set_row now x) d0 = Inr d'"
    by (auto elim: wrapped_exec_ok)
  then show ?case using 7(1) find_sql_update [OF set_row_key]
    by (auto simp: tab_same scan_set_row option.map_comp comp_def)
next
  case (8 now x d e d')
  then show ?case by (auto dest: wrapped_exec_error)
next
  case (9 d now x)
  then show ?case by (simp add: db_wf_exec wf_sql_update [OF _ set_row_key])
qed

end

end
