(* ===== verification/Repo_Catalog.thy ===== *)
theory Repo_Catalog
  imports Repositories "HOL-Library.List_Lexorder" "HOL-Library.Char_ord"
begin

text \<open>
  \<open>connection.go\<close>, \<open>storage_provider.go\<close> and \<open>notification.go\<close> of
  \<open>internal/repository/postgres\<close>: the operations with their error contexts, and the
  interpretation of the repository contract. \<open>ORDER BY name\<close> is the byte order (collation C).
\<close>

section \<open>ConnectionRepo\<close>

definition ConnectionRepo_List :: "db \<Rightarrow> connection list res \<times> db" where
  "ConnectionRepo_List d = wrap_err ''list connections: ''
     (db_query (\<lambda>d. map (\<lambda>c. c\<lparr>c_Password := []\<rparr>) (order_asc c_Name (t_connections d))) d)"

definition ConnectionRepo_GetByID :: "string \<Rightarrow> db \<Rightarrow> connection option res \<times> db" where
  "ConnectionRepo_GetByID i d = wrap_err (''get connection '' @ i @ '': '')
     (db_query (\<lambda>d. row_find c_ID i (t_connections d)) d)"

definition fill_connection :: "string \<Rightarrow> int \<Rightarrow> connection \<Rightarrow> connection" where
  "fill_connection i now c = c\<lparr>c_ID := i, c_CreatedAt := now, c_UpdatedAt := now\<rparr>"

definition connection_columns :: "connection \<Rightarrow> connection" where
  "connection_columns c = c\<lparr>c_CreatedAt := pg_time (c_CreatedAt c), c_UpdatedAt := pg_time (c_UpdatedAt c)\<rparr>"

definition set_connection :: "int \<Rightarrow> connection \<Rightarrow> connection \<Rightarrow> connection" where
  "set_connection now c r = r\<lparr>c_Name := c_Name c, c_Host := c_Host c, c_Port := c_Port c,
     c_Username := c_Username c, c_Password := c_Password c, c_SSLMode := c_SSLMode c,
     c_UpdatedAt := pg_time now\<rparr>"

definition ConnectionRepo_Create :: "string \<Rightarrow> int \<Rightarrow> connection \<Rightarrow> db \<Rightarrow> connection res \<times> db" where
  "ConnectionRepo_Create newid now c d =
     (let c' = fill_connection newid now c
      in returning c' (wrap_err ''create connection: ''
           (db_exec (sql_insert_connection (connection_columns c')) d)))"

definition ConnectionRepo_Update :: "int \<Rightarrow> connection \<Rightarrow> db \<Rightarrow> unit res \<times> db" where
  "ConnectionRepo_Update now c d = wrap_err (''update connection '' @ c_ID c @ '': '')
     (db_exec (sql_update_connection (c_ID c) (set_connection now c)) d)"

definition ConnectionRepo_Delete :: "string \<Rightarrow> db \<Rightarrow> unit res \<times> db" where
  "ConnectionRepo_Delete i d = wrap_err (''delete connection '' @ i @ '': '')
     (db_exec (sql_delete_connection i) d)"

text \<open>\<open>COALESCE(size_bytes, 0)\<close>, and \<open>is_selected\<close> scanned into a bool.\<close>

definition scan_database :: "database_row \<Rightarrow> connection_database" where
  "scan_database r = \<lparr>d_ID = dr_id r, d_ConnectionID = dr_connection_id r, d_DBName = dr_db_name r,
     d_IsSelected = (dr_is_selected r = 1),
     d_SizeBytes = (case dr_size_bytes r of None \<Rightarrow> 0 | Some n \<Rightarrow> n), d_CreatedAt = dr_created_at r\<rparr>"

definition ConnectionRepo_ListDatabases :: "string \<Rightarrow> db \<Rightarrow> connection_database list res \<times> db" where
  "ConnectionRepo_ListDatabases cid d = wrap_err ''list databases: ''
     (db_query (\<lambda>d. map scan_database
        (order_asc dr_db_name (filter (\<lambda>r. dr_connection_id r = cid) (t_databases d)))) d)"

definition ConnectionRepo_GetDatabase :: "string \<Rightarrow> db \<Rightarrow> connection_database option res \<times> db" where
  "ConnectionRepo_GetDatabase i d = wrap_err (''get database '' @ i @ '': '')
     (db_query (\<lambda>d. map_option scan_database (row_find dr_id i (t_databases d))) d)"

definition database_columns :: "string \<Rightarrow> int \<Rightarrow> connection_database \<Rightarrow> database_row" where
  "database_columns newid now x =
     \<lparr>dr_id = (if d_ID x = [] then newid else d_ID x), dr_connection_id = d_ConnectionID x,
      dr_db_name = d_DBName x, dr_is_selected = boolToInt (d_IsSelected x),
      dr_size_bytes = Some (d_SizeBytes x),
      dr_created_at = pg_time (if d_CreatedAt x = 0 then now else d_CreatedAt x)\<rparr>"

text \<open>The loop of \<open>UpsertDatabases\<close>; \<open>ids n\<close> is the identifier generated for item \<open>n\<close>.\<close>

fun upsert_all :: "(nat \<Rightarrow> string) \<Rightarrow> int \<Rightarrow> nat \<Rightarrow> connection_database list \<Rightarrow> db \<Rightarrow> unit res \<times> db" where
  "upsert_all ids now n [] d = (Inr (), d)"
| "upsert_all ids now n (x # xs) d =
     (case wrap_err (''upsert db '' @ d_DBName x @ '': '')
             (db_exec (sql_upsert_database (database_columns (ids n) now x)) d) of
        (Inl e, d') \<Rightarrow> (Inl e, d')
      | (Inr _, d') \<Rightarrow> upsert_all ids now (Suc n) xs d')"

text \<open>The transaction: begin, prepare, the loop, commit; an error rolls every table back.\<close>

definition ConnectionRepo_UpsertDatabases ::
  "(nat \<Rightarrow> string) \<Rightarrow> int \<Rightarrow> connection_database list \<Rightarrow> db \<Rightarrow> unit res \<times> db" where
  "ConnectionRepo_UpsertDatabases ids now xs d =
     (case db_try d of
        (Some e, d1) \<Rightarrow> (Inl (''begin tx: '' @ e), d1)
      | (None, d1) \<Rightarrow>
          (case db_try d1 of
             (Some e, d2) \<Rightarrow> (Inl (''prepare upsert: '' @ e), d2)
           | (None, d2) \<Rightarrow>
               (case upsert_all ids now 0 xs d2 of
                  (Inl e, d3) \<Rightarrow> (Inl e, d\<lparr>faults := faults d3\<rparr>)
                | (Inr _, d3) \<Rightarrow>
                    (case db_try d3 of
                       (Some e, d4) \<Rightarrow> (Inl e, d\<lparr>faults := faults d4\<rparr>)
                     | (None, d4) \<Rightarrow> (Inr (), d4)))))"

definition ConnectionRepo_UpdateDatabaseSelection :: "string \<Rightarrow> bool \<Rightarrow> db \<Rightarrow> unit res \<times> db" where
  "ConnectionRepo_UpdateDatabaseSelection i selected d =
     (let s = (if selected then 1 else 0)
      in wrap_err (''update db selection '' @ i @ '': '')
           (db_exec (sql_update_database i (\<lambda>r. r\<lparr>dr_is_selected := s\<rparr>)) d))"

definition merge_connection :: "int \<Rightarrow> connection \<Rightarrow> connection \<Rightarrow> connection" where
  "merge_connection now c old = c\<lparr>c_ID := c_ID old, c_DBType := c_DBType old,
     c_CreatedAt := c_CreatedAt old, c_UpdatedAt := pg_time now\<rparr>"

interpretation connection_rows: table_repository c_ID t_connections t_connections_update check_connection
  "\<lambda>_ _. True" "\<lambda>r. r" connection_columns fill_connection set_connection sql_insert_connection
  c_ID "\<lambda>_. True" merge_connection "\<lambda>k. ''get connection '' @ k @ '': ''" "''create connection: ''"
  "\<lambda>k. ''update connection '' @ k @ '': ''"
  by unfold_locales
    (auto simp: same_tables_fields sql_insert_connection_def connection_columns_def fill_connection_def
      set_connection_def merge_connection_def intro: wf_insert_connection split: if_splits)

interpretation connection_repo: repository ConnectionRepo_GetByID ConnectionRepo_Create ConnectionRepo_Update
  c_ID "\<lambda>_. True" "\<lambda>k now c. connection_columns (fill_connection k now c)" merge_connection
  "\<lambda>k d. row_find c_ID k (t_connections d)"
proof -
  have "ConnectionRepo_GetByID = (\<lambda>k d. wrap_err (''get connection '' @ k @ '': '')
      (db_query (\<lambda>d. map_option (\<lambda>r. r) (row_find c_ID k (t_connections d))) d))"
    by (intro ext) (simp add: ConnectionRepo_GetByID_def option.map_ident)
  then show "repository ConnectionRepo_GetByID ConnectionRepo_Create ConnectionRepo_Update
      c_ID (\<lambda>_. True) (\<lambda>k now c. connection_columns (fill_connection k now c)) merge_connection
      (\<lambda>k d. row_find c_ID k (t_connections d))"
    using connection_rows.repository_axioms
    by (simp add: ConnectionRepo_Create_def [abs_def] ConnectionRepo_Update_def [abs_def]
        sql_update_connection_def Let_def option.map_ident)
qed

section \<open>StorageProviderRepo\<close>

definition scanProvider :: "provider_row \<Rightarrow> provider" where
  "scanProvider r = \<lparr>p_ID = pr_id r, p_Name = pr_name r, p_ProviderType = pr_provider_type r,
     p_Endpoint = pr_endpoint r, p_Region = pr_region r, p_Bucket = pr_bucket r,
     p_AccessKey = string_of_bytes (pr_access_key_encrypted r),
     p_SecretKey = string_of_bytes (pr_secret_key_encrypted r),
     p_PathStyle = (pr_path_style r = 1), p_IsDefault = (pr_is_default r = 1),
     p_CreatedAt = pr_created_at r, p_UpdatedAt = pr_updated_at r\<rparr>"

definition StorageProviderRepo_List :: "db \<Rightarrow> provider list res \<times> db" where
  "StorageProviderRepo_List d = wrap_err ''list providers: ''
     (db_query (\<lambda>d. map scanProvider (order_asc pr_name (t_providers d))) d)"

definition StorageProviderRepo_GetByID :: "string \<Rightarrow> db \<Rightarrow> provider option res \<times> db" where
  "StorageProviderRepo_GetByID i d = wrap_err (''get provider '' @ i @ '': '')
     (db_query (\<lambda>d. map_option scanProvider (row_find pr_id i (t_providers d))) d)"

definition StorageProviderRepo_GetDefault :: "db \<Rightarrow> provider option res \<times> db" where
  "StorageProviderRepo_GetDefault d = wrap_err ''get default provider: ''
     (db_query (\<lambda>d. map_option scanProvider (find (\<lambda>r. pr_is_default r = 1) (t_providers d))) d)"

definition fill_provider :: "string \<Rightarrow> int \<Rightarrow> provider \<Rightarrow> provider" where
  "fill_provider i now p = p\<lparr>p_ID := i, p_CreatedAt := now, p_UpdatedAt := now\<rparr>"

definition provider_columns :: "provider \<Rightarrow> provider_row" where
  "provider_columns p = \<lparr>pr_id = p_ID p, pr_name = p_Name p, pr_provider_type = p_ProviderType p,
     pr_endpoint = p_Endpoint p, pr_region = p_Region p, pr_bucket = p_Bucket p,
     pr_access_key_encrypted = bytes_of_string (p_AccessKey p),
     pr_secret_key_encrypted = bytes_of_string (p_SecretKey p),
     pr_path_style = boolToInt (p_PathStyle p), pr_is_default = boolToInt (p_IsDefault p),
     pr_created_at = pg_time (p_CreatedAt p), pr_updated_at = pg_time (p_UpdatedAt p)\<rparr>"

definition set_provider :: "int \<Rightarrow> provider \<Rightarrow> provider_row \<Rightarrow> provider_row" where
  "set_provider now p r = r\<lparr>pr_name := p_Name p, pr_provider_type := p_ProviderType p,
     pr_endpoint := p_Endpoint p, pr_region := p_Region p, pr_bucket := p_Bucket p,
     pr_access_key_encrypted := bytes_of_string (p_AccessKey p),
     pr_secret_key_encrypted := bytes_of_string (p_SecretKey p),
     pr_path_style := boolToInt (p_PathStyle p), pr_is_default := boolToInt (p_IsDefault p),
     pr_updated_at := pg_time now\<rparr>"

definition StorageProviderRepo_Create :: "string \<Rightarrow> int \<Rightarrow> provider \<Rightarrow> db \<Rightarrow> provider res \<times> db" where
  "StorageProviderRepo_Create newid now p d =
     (let p' = fill_provider newid now p
      in returning p' (wrap_err ''create provider: ''
           (db_exec (sql_insert_provider (provider_columns p')) d)))"

definition StorageProviderRepo_Update :: "int \<Rightarrow> provider \<Rightarrow> db \<Rightarrow> unit res \<times> db" where
  "StorageProviderRepo_Update now p d = wrap_err (''update provider '' @ p_ID p @ '': '')
     (db_exec (sql_update_provider (p_ID p) (set_provider now p)) d)"

definition StorageProviderRepo_Delete :: "string \<Rightarrow> db \<Rightarrow> unit res \<times> db" where
  "StorageProviderRepo_Delete i d = wrap_err (''delete provider '' @ i @ '': '')
     (db_exec (sql_delete_provider i) d)"

definition StorageProviderRepo_ClearDefault :: "string \<Rightarrow> db \<Rightarrow> unit res \<times> db" where
  "StorageProviderRepo_ClearDefault excludeID d = wrap_err ''clear default: ''
     (db_exec (sql_clear_default excludeID) d)"

definition merge_provider :: "int \<Rightarrow> provider \<Rightarrow> provider \<Rightarrow> provider" where
  "merge_provider now p old = p\<lparr>p_ID := p_ID old, p_CreatedAt := p_CreatedAt old, p_UpdatedAt := pg_time now\<rparr>"

interpretation provider_rows: table_repository pr_id t_providers t_providers_update check_provider
  "\<lambda>_ _. True" scanProvider provider_columns fill_provider set_provider sql_insert_provider
  p_ID "\<lambda>_. True" merge_provider "\<lambda>k. ''get provider '' @ k @ '': ''" "''create provider: ''"
  "\<lambda>k. ''update provider '' @ k @ '': ''"
  by unfold_locales
    (auto simp: same_tables_fields sql_insert_provider_def provider_columns_def fill_provider_def
      set_provider_def merge_provider_def scanProvider_def intro: wf_insert_provider split: if_splits)

interpretation provider_repo: repository StorageProviderRepo_GetByID StorageProviderRepo_Create
  StorageProviderRepo_Update p_ID "\<lambda>_. True" "\<lambda>k now p. scanProvider (provider_columns (fill_provider k now p))"
  merge_provider "\<lambda>k d. map_option scanProvider (row_find pr_id k (t_providers d))"
  using provider_rows.repository_axioms
  by (simp add: StorageProviderRepo_GetByID_def [abs_def] StorageProviderRepo_Create_def [abs_def]
      StorageProviderRepo_Update_def [abs_def] sql_update_provider_def Let_def)

section \<open>NotificationRepo\<close>

definition NotificationRepo_List :: "db \<Rightarrow> notification list res \<times> db" where
  "NotificationRepo_List d = wrap_err ''list notifications: ''
     (db_query (\<lambda>d. order_asc n_Name (t_notifications d)) d)"

definition NotificationRepo_GetByID :: "string \<Rightarrow> db \<Rightarrow> notification option res \<times> db" where
  "NotificationRepo_GetByID i d = wrap_err (''get notification '' @ i @ '': '')
     (db_query (\<lambda>d. row_find n_ID i (t_notifications d)) d)"

definition fill_notification :: "string \<Rightarrow> int \<Rightarrow> notification \<Rightarrow> notification" where
  "fill_notification i now n = n\<lparr>n_ID := i, n_CreatedAt := now, n_UpdatedAt := now\<rparr>"

definition notification_columns :: "notification \<Rightarrow> notification" where
  "notification_columns n = n\<lparr>n_CreatedAt := pg_time (n_CreatedAt n), n_UpdatedAt := pg_time (n_UpdatedAt n)\<rparr>"

definition set_notification :: "int \<Rightarrow> notification \<Rightarrow> notification \<Rightarrow> notification" where
  "set_notification now n r = r\<lparr>n_Name := n_Name n, n_NotifType := n_NotifType n,
     n_ConfigJSON := n_ConfigJSON n, n_UpdatedAt := pg_time now\<rparr>"

definition NotificationRepo_Create :: "string \<Rightarrow> int \<Rightarrow> notification \<Rightarrow> db \<Rightarrow> notification res \<times> db" where
  "NotificationRepo_Create newid now n d =
     (let n' = fill_notification newid now n
      in returning n' (wrap_err ''create notification: ''
           (db_exec (sql_insert_notification (notification_columns n')) d)))"

definition NotificationRepo_Update :: "int \<Rightarrow> notification \<Rightarrow> db \<Rightarrow> unit res \<times> db" where
  "NotificationRepo_Update now n d = wrap_err (''update notification '' @ n_ID n @ '': '')
     (db_exec (sql_update_notification (n_ID n) (set_notification now n)) d)"

definition NotificationRepo_Delete :: "string \<Rightarrow> db \<Rightarrow> unit res \<times> db" where
  "NotificationRepo_Delete i d = wrap_err (''delete notification '' @ i @ '': '')
     (db_exec (sql_delete_notification i) d)"

definition merge_notification :: "int \<Rightarrow> notification \<Rightarrow> notification \<Rightarrow> notification" where
  "merge_notification now n old =
     n\<lparr>n_ID := n_ID old, n_CreatedAt := n_CreatedAt old, n_UpdatedAt := pg_time now\<rparr>"

interpretation notification_rows: table_repository n_ID t_notifications t_notifications_update
  check_notification "\<lambda>_ _. True" "\<lambda>r. r" notification_columns fill_notification set_notification
  sql_insert_notification n_ID "\<lambda>_. True" merge_notification
  "\<lambda>k. ''get notification '' @ k @ '': ''" "''create notification: ''"
  "\<lambda>k. ''update notification '' @ k @ '': ''"
  by unfold_locales
    (auto simp: same_tables_fields sql_insert_notification_def notification_columns_def
      fill_notification_def set_notification_def merge_notification_def intro: wf_insert_notification
      split: if_splits)

interpretation notification_repo: repository NotificationRepo_GetByID NotificationRepo_Create
  NotificationRepo_Update n_ID "\<lambda>_. True"
  "\<lambda>k now n. notification_columns (fill_notification k now n)" merge_notification
  "\<lambda>k d. row_find n_ID k (t_notifications d)"
  using notification_rows.repository_axioms
  by (simp add: NotificationRepo_GetByID_def [abs_def] NotificationRepo_Create_def [abs_def]
      NotificationRepo_Update_def [abs_def] sql_update_notification_def Let_def option.map_ident)

end
