(* ===== verification/Repo_Backups.thy ===== *)
theory Repo_Backups
  imports Repositories
begin

text \<open>
  \<open>schedule.go\<close>, \<open>backup.go\<close> and \<open>restore.go\<close> of
  \<open>internal/repository/postgres\<close>: the operations with their error contexts, and the
  interpretation of the repository contract. The column \<open>notif_target_ids\<close> holds the JSON text
  of a list of strings, which \<open>marshalStringSlice\<close> writes and every scan reads back; it is kept
  as that list.
\<close>

section \<open>ScheduleRepo\<close>

definition scanSchedule :: "schedule_row \<Rightarrow> schedule" where
  "scanSchedule r = \<lparr>s_ID = sr_id r, s_ConnectionID = sr_connection_id r, s_DatabaseID = sr_database_id r,
     s_BackupType = sr_backup_type r, s_CronExpr = sr_cron_expr r,
     s_StorageProviderID = sr_storage_provider_id r, s_EncryptionEnabled = (sr_encryption_enabled r = 1),
     s_EncryptionKeyID = sr_encryption_key_id r, s_VerifyEnabled = (sr_verify_enabled r = 1),
     s_RetentionFull = sr_retention_full r, s_RetentionIncr = sr_retention_incr r,
     s_NotifTargetIDs = sr_notif_target_ids r, s_NotifyOnSuccess = (sr_notify_on_success r = 1),
     s_NotifyOnFailure = (sr_notify_on_failure r = 1), s_Enabled = (sr_enabled r = 1),
     s_CreatedAt = sr_created_at r\<rparr>"

definition ScheduleRepo_List :: "db \<Rightarrow> schedule list res \<times> db" where
  "ScheduleRepo_List d = wrap_err ''list schedules: ''
     (db_query (\<lambda>d. map scanSchedule (order_desc sr_created_at (t_schedules d))) d)"

definition ScheduleRepo_ListByConnection :: "string \<Rightarrow> db \<Rightarrow> schedule list res \<times> db" where
  "ScheduleRepo_ListByConnection cid d = wrap_err ''list schedules by connection: ''
     (db_query (\<lambda>d. map scanSchedule
        (order_desc sr_created_at (filter (\<lambda>r. sr_connection_id r = cid) (t_schedules d)))) d)"

definition ScheduleRepo_GetByID :: "string \<Rightarrow> db \<Rightarrow> schedule option res \<times> db" where
  "ScheduleRepo_GetByID i d = wrap_err (''get schedule '' @ i @ '': '')
     (db_query (\<lambda>d. map_option scanSchedule (row_find sr_id i (t_schedules d))) d)"

definition fill_schedule :: "string \<Rightarrow> int \<Rightarrow> schedule \<Rightarrow> schedule" where
  "fill_schedule i now s = s\<lparr>s_ID := i, s_CreatedAt := now\<rparr>"

definition schedule_columns :: "schedule \<Rightarrow> schedule_row" where
  "schedule_columns s = \<lparr>sr_id = s_ID s, sr_connection_id = s_ConnectionID s, sr_database_id = s_DatabaseID s,
     sr_backup_type = s_BackupType s, sr_cron_expr = s_CronExpr s,
     sr_storage_provider_id = s_StorageProviderID s,
     sr_encryption_enabled = boolToInt (s_EncryptionEnabled s), sr_encryption_key_id = s_EncryptionKeyID s,
     sr_verify_enabled = boolToInt (s_VerifyEnabled s), sr_retention_full = s_RetentionFull s,
     sr_retention_incr = s_RetentionIncr s, sr_notif_target_ids = s_NotifTargetIDs s,
     sr_notify_on_success = boolToInt (s_NotifyOnSuccess s),
     sr_notify_on_failure = boolToInt (s_NotifyOnFailure s), sr_enabled = boolToInt (s_Enabled s),
     sr_created_at = pg_time (s_CreatedAt s)\<rparr>"

definition set_schedule :: "schedule \<Rightarrow> schedule_row \<Rightarrow> schedule_row" where
  "set_schedule s r = r\<lparr>sr_backup_type := s_BackupType s, sr_cron_expr := s_CronExpr s,
     sr_storage_provider_id := s_StorageProviderID s,
     sr_encryption_enabled := boolToInt (s_EncryptionEnabled s), sr_encryption_key_id := s_EncryptionKeyID s,
     sr_verify_enabled := boolToInt (s_VerifyEnabled s), sr_retention_full := s_RetentionFull s,
     sr_retention_incr := s_RetentionIncr s, sr_notif_target_ids := s_NotifTargetIDs s,
     sr_notify_on_success := boolToInt (s_NotifyOnSuccess s),
     sr_notify_on_failure := boolToInt (s_NotifyOnFailure s), sr_enabled := boolToInt (s_Enabled s)\<rparr>"

definition ScheduleRepo_Create :: "string \<Rightarrow> int \<Rightarrow> schedule \<Rightarrow> db \<Rightarrow> schedule res \<times> db" where
  "ScheduleRepo_Create newid now s d =
     (let s' = fill_schedule newid now s
      in returning s' (wrap_err ''create schedule: '' (db_exec (sql_insert_schedule (schedule_columns s')) d)))"

definition ScheduleRepo_Update :: "schedule \<Rightarrow> db \<Rightarrow> unit res \<times> db" where
  "ScheduleRepo_Update s d = wrap_err (''update schedule '' @ s_ID s @ '': '')
     (db_exec (sql_update_schedule (s_ID s) (set_schedule s)) d)"

definition ScheduleRepo_Delete :: "string \<Rightarrow> db \<Rightarrow> unit res \<times> db" where
  "ScheduleRepo_Delete i d = wrap_err (''delete schedule '' @ i @ '': '')
     (db_exec (sql_delete_schedule i) d)"

text \<open>What an update leaves of the stored schedule: its identity, connection, database and age.\<close>

definition merge_schedule :: "schedule \<Rightarrow> schedule \<Rightarrow> schedule" where
  "merge_schedule s old = s\<lparr>s_ID := s_ID old, s_ConnectionID := s_ConnectionID old,
     s_DatabaseID := s_DatabaseID old, s_CreatedAt := s_CreatedAt old\<rparr>"

interpretation schedule_rows: table_repository sr_id t_schedules t_schedules_update check_schedule
  fk_schedule scanSchedule schedule_columns fill_schedule "\<lambda>_. set_schedule" sql_insert_schedule
  s_ID "\<lambda>_. True" "\<lambda>_. merge_schedule" "\<lambda>k. ''get schedule '' @ k @ '': ''" "''create schedule: ''"
  "\<lambda>k. ''update schedule '' @ k @ '': ''"
  by unfold_locales
    (auto simp: same_tables_fields sql_insert_schedule_def schedule_columns_def fill_schedule_def
      set_schedule_def merge_schedule_def scanSchedule_def intro: wf_insert_schedule split: if_splits)

interpretation schedule_repo: repository ScheduleRepo_GetByID ScheduleRepo_Create
  "\<lambda>_. ScheduleRepo_Update" s_ID "\<lambda>_. True" "\<lambda>k now s. scanSchedule (schedule_columns (fill_schedule k now s))"
  "\<lambda>_. merge_schedule" "\<lambda>k d. map_option scanSchedule (row_find sr_id k (t_schedules d))"
  using schedule_rows.repository_axioms
  by (simp add: ScheduleRepo_GetByID_def [abs_def] ScheduleRepo_Create_def [abs_def]
      ScheduleRepo_Update_def [abs_def] sql_update_schedule_def Let_def)

section \<open>BackupRepo\<close>

definition scanBackup :: "backup_row \<Rightarrow> backup" where
  "scanBackup r = \<lparr>b_ID = br_id r, b_ConnectionID = br_connection_id r, b_DatabaseID = br_database_id r,
     b_ScheduleID = br_schedule_id r, b_BackupType = br_backup_type r, b_Status = br_status r,
     b_StoragePath = br_storage_path r, b_StorageProviderID = br_storage_provider_id r,
     b_SizeBytes = scan_int64 (br_size_bytes r), b_EncryptedSizeBytes = scan_int64 (br_encrypted_size_bytes r),
     b_EncryptionAlgo = br_encryption_algo r, b_EncryptionKeyID = br_encryption_key_id r,
     b_Checksum = br_checksum r, b_EncryptedChecksum = br_encrypted_checksum r,
     b_VerifiedAt = br_verified_at r, b_VerifyStatus = br_verify_status r,
     b_DurationMs = scan_int64 (br_duration_ms r), b_LogOutput = [], b_StartedAt = br_started_at r,
     b_CompletedAt = br_completed_at r, b_NotifTargetIDs = br_notif_target_ids r,
     b_NotifyOnSuccess = (br_notify_on_success r = 1), b_NotifyOnFailure = (br_notify_on_failure r = 1),
     b_CreatedAt = br_created_at r\<rparr>"

text \<open>The optional filters of \<open>List\<close> and \<open>Count\<close>: an empty argument selects everything.\<close>

definition backup_filter :: "string \<Rightarrow> string \<Rightarrow> backup_row \<Rightarrow> bool" where
  "backup_filter cid did r \<longleftrightarrow> (cid \<noteq> [] \<longrightarrow> br_connection_id r = cid) \<and> (did \<noteq> [] \<longrightarrow> br_database_id r = did)"

text \<open>\<open>LIMIT n OFFSET m\<close>: the server rejects negative values.\<close>

definition sql_page :: "int \<Rightarrow> int \<Rightarrow> 'a list \<Rightarrow> 'a list res" where
  "sql_page limit offset xs =
     (if limit < 0 then Inl ''ERROR: LIMIT must not be negative (SQLSTATE 2201W)''
      else if offset < 0 then Inl ''ERROR: OFFSET must not be negative (SQLSTATE 2201X)''
      else Inr (take (nat limit) (drop (nat offset) xs)))"

definition BackupRepo_List :: "string \<Rightarrow> string \<Rightarrow> int \<Rightarrow> int \<Rightarrow> db \<Rightarrow> backup list res \<times> db" where
  "BackupRepo_List cid did limit offset d = wrap_err ''list backups: ''
     (db_select (\<lambda>d. sql_page limit offset
        (map scanBackup (order_desc br_created_at (filter (backup_filter cid did) (t_backups d))))) d)"

definition BackupRepo_GetByID :: "string \<Rightarrow> db \<Rightarrow> backup option res \<times> db" where
  "BackupRepo_GetByID i d = wrap_err (''get backup '' @ i @ '': '')
     (db_query (\<lambda>d. map_option scanBackup (row_find br_id i (t_backups d))) d)"

definition fill_backup :: "string \<Rightarrow> int \<Rightarrow> backup \<Rightarrow> backup" where
  "fill_backup i now b = b\<lparr>b_ID := i, b_CreatedAt := now\<rparr>"

text \<open>The columns of the INSERT; \<open>verified_at\<close> and \<open>log_output\<close> are not among them.\<close>

definition backup_columns :: "backup \<Rightarrow> backup_row" where
  "backup_columns b = \<lparr>br_id = b_ID b, br_connection_id = b_ConnectionID b, br_database_id = b_DatabaseID b,
     br_schedule_id = nullableStr (b_ScheduleID b), br_backup_type = b_BackupType b, br_status = b_Status b,
     br_storage_path = b_StoragePath b, br_storage_provider_id = nullableStr (b_StorageProviderID b),
     br_size_bytes = nullableInt64 (b_SizeBytes b),
     br_encrypted_size_bytes = nullableInt64 (b_EncryptedSizeBytes b),
     br_encryption_algo = b_EncryptionAlgo b, br_encryption_key_id = nullableStr (b_EncryptionKeyID b),
     br_checksum = b_Checksum b, br_encrypted_checksum = b_EncryptedChecksum b, br_verified_at = None,
     br_verify_status = b_VerifyStatus b, br_duration_ms = nullableInt64 (b_DurationMs b),
     br_log_output = None, br_notif_target_ids = b_NotifTargetIDs b,
     br_notify_on_success = boolToInt (b_NotifyOnSuccess b),
     br_notify_on_failure = boolToInt (b_NotifyOnFailure b), br_started_at = nullableTime (b_StartedAt b),
     br_completed_at = nullableTime (b_CompletedAt b), br_created_at = pg_time (b_CreatedAt b)\<rparr>"

definition set_backup :: "backup \<Rightarrow> backup_row \<Rightarrow> backup_row" where
  "set_backup b r = r\<lparr>br_status := b_Status b, br_storage_path := b_StoragePath b,
     br_storage_provider_id := nullableStr (b_StorageProviderID b),
     br_size_bytes := nullableInt64 (b_SizeBytes b),
     br_encrypted_size_bytes := nullableInt64 (b_EncryptedSizeBytes b), br_checksum := b_Checksum b,
     br_encrypted_checksum := b_EncryptedChecksum b, br_verified_at := nullableTime (b_VerifiedAt b),
     br_verify_status := b_VerifyStatus b, br_duration_ms := nullableInt64 (b_DurationMs b),
     br_log_output := Some (b_LogOutput b), br_completed_at := nullableTime (b_CompletedAt b)\<rparr>"

definition BackupRepo_Create :: "string \<Rightarrow> int \<Rightarrow> backup \<Rightarrow> db \<Rightarrow> backup res \<times> db" where
  "BackupRepo_Create newid now b d =
     (let b' = fill_backup newid now b
      in returning b' (wrap_err ''create backup: '' (db_exec (sql_insert_backup (backup_columns b')) d)))"

definition BackupRepo_Update :: "backup \<Rightarrow> db \<Rightarrow> unit res \<times> db" where
  "BackupRepo_Update b d = wrap_err (''update backup '' @ b_ID b @ '': '')
     (db_exec (sql_update_backup (b_ID b) (set_backup b)) d)"

definition BackupRepo_Delete :: "string \<Rightarrow> db \<Rightarrow> unit res \<times> db" where
  "BackupRepo_Delete i d = wrap_err (''delete backup '' @ i @ '': '') (db_exec (sql_delete_backup i) d)"

definition BackupRepo_ListBySchedule :: "string \<Rightarrow> db \<Rightarrow> backup list res \<times> db" where
  "BackupRepo_ListBySchedule sid d = wrap_err ''list backups by schedule: ''
     (db_query (\<lambda>d. map scanBackup (order_asc br_created_at
        (filter (\<lambda>r. br_schedule_id r = Some sid \<and> br_status r = ''success'') (t_backups d)))) d)"

text \<open>The successful backups of one type of a schedule, oldest first.\<close>

definition finished_of :: "string \<Rightarrow> string \<Rightarrow> db \<Rightarrow> backup_row list" where
  "finished_of sid btype d = order_asc br_created_at
     (filter (\<lambda>r. br_schedule_id r = Some sid \<and> br_backup_type r = btype \<and> br_status r = ''success'')
       (t_backups d))"

text \<open>The callers pass a positive \<open>keepCount\<close>; a negative one would slice out of range.\<close>

definition BackupRepo_ListOldestByBackupType ::
  "string \<Rightarrow> string \<Rightarrow> int \<Rightarrow> db \<Rightarrow> backup list res \<times> db" where
  "BackupRepo_ListOldestByBackupType sid btype keepCount d = wrap_err ''list oldest backups: ''
     (db_query (\<lambda>d. let bs = map scanBackup (finished_of sid btype d)
        in if int (length bs) \<le> keepCount then [] else take (nat (int (length bs) - keepCount)) bs) d)"

definition BackupRepo_Count :: "string \<Rightarrow> string \<Rightarrow> db \<Rightarrow> nat res \<times> db" where
  "BackupRepo_Count cid did d = wrap_err ''count backups: ''
     (db_query (\<lambda>d. length (filter (backup_filter cid did) (t_backups d))) d)"

definition BackupRepo_ListSlowest :: "int \<Rightarrow> db \<Rightarrow> backup list res \<times> db" where
  "BackupRepo_ListSlowest limit d = wrap_err ''list slowest: ''
     (db_select (\<lambda>d. sql_page limit 0 (map scanBackup (order_desc (\<lambda>r. the (br_duration_ms r))
        (filter (\<lambda>r. br_duration_ms r \<noteq> None \<and> br_status r = ''success'') (t_backups d))))) d)"

text \<open>\<open>ListStaleConnections\<close>: one result row per selected database of a connection, with the last
  completion of a successful backup; rows without one come first (\<open>NULLS FIRST\<close>).\<close>

definition last_completion :: "db \<Rightarrow> string \<Rightarrow> string \<Rightarrow> int option" where
  "last_completion d cid did =
     (let ts = List.map_filter br_completed_at (filter (\<lambda>b. br_connection_id b = cid \<and>
                 br_database_id b = did \<and> br_status b = ''success'') (t_backups d))
      in if ts = [] then None else Some (Max (set ts)))"

definition hours_since :: "int \<Rightarrow> int \<Rightarrow> rat" where
  "hours_since now t = rat_of_int (now - t) / 3600000000000"

definition stale_rows :: "int \<Rightarrow> int \<Rightarrow> db \<Rightarrow> (connection \<times> database_row \<times> int option) list" where
  "stale_rows hours now d = filter (\<lambda>(c, x, t). case t of None \<Rightarrow> True
       | Some v \<Rightarrow> rat_of_int hours < hours_since now v)
     (concat (map (\<lambda>c. map (\<lambda>x. (c, x, last_completion d (c_ID c) (dr_id x)))
        (filter (\<lambda>x. dr_connection_id x = c_ID c \<and> dr_is_selected x = 1) (t_databases d)))
      (t_connections d)))"

definition stale_alert :: "int \<Rightarrow> connection \<times> database_row \<times> int option \<Rightarrow> stale_backup_alert res" where
  "stale_alert now r = (case r of
     (c, x, None) \<Rightarrow> Inl (''scan stale alert: sql: Scan error on column index 6, name \"hours_since\": '' @
        ''converting NULL to float64 is unsupported'')
   | (c, x, Some t) \<Rightarrow> Inr \<lparr>a_ConnectionID = c_ID c, a_ConnectionName = c_Name c, a_DBType = c_DBType c,
        a_DatabaseID = dr_id x, a_DatabaseName = dr_db_name x, a_LastBackupAt = Some t,
        a_HoursSinceBackup = hours_since now t\<rparr>)"

text \<open>The scan loop: the first row that cannot be scanned fails the whole call.\<close>

fun scan_rows :: "('r \<Rightarrow> 'a res) \<Rightarrow> 'r list \<Rightarrow> 'a list res" where
  "scan_rows scan [] = Inr []"
| "scan_rows scan (r # rs) = (case scan r of Inl e \<Rightarrow> Inl e
     | Inr x \<Rightarrow> (case scan_rows scan rs of Inl e \<Rightarrow> Inl e | Inr xs \<Rightarrow> Inr (x # xs)))"

definition BackupRepo_ListStaleConnections ::
  "int \<Rightarrow> int \<Rightarrow> db \<Rightarrow> stale_backup_alert list res \<times> db" where
  "BackupRepo_ListStaleConnections hours now d =
     (case db_query (\<lambda>d. let rows = stale_rows hours now d in
          filter (\<lambda>(c, x, t). t = None) rows @
          sort_key (\<lambda>(c, x, t). the t) (filter (\<lambda>(c, x, t). t \<noteq> None) rows)) d of
        (Inl e, d') \<Rightarrow> (Inl (''list stale connections: '' @ e), d')
      | (Inr rows, d') \<Rightarrow> (scan_rows (stale_alert now) rows, d'))"

definition merge_backup :: "backup \<Rightarrow> backup \<Rightarrow> backup" where
  "merge_backup b old = old\<lparr>b_Status := b_Status b, b_StoragePath := b_StoragePath b,
     b_StorageProviderID := b_StorageProviderID b, b_SizeBytes := b_SizeBytes b,
     b_EncryptedSizeBytes := b_EncryptedSizeBytes b, b_Checksum := b_Checksum b,
     b_EncryptedChecksum := b_EncryptedChecksum b, b_VerifiedAt := map_option pg_time (b_VerifiedAt b),
     b_VerifyStatus := b_VerifyStatus b, b_DurationMs := b_DurationMs b, b_LogOutput := [],
     b_CompletedAt := map_option pg_time (b_CompletedAt b)\<rparr>"

definition backup_ints_ok :: "backup \<Rightarrow> bool" where
  "backup_ints_ok b \<longleftrightarrow> opt_int64_ok (b_SizeBytes b) \<and> opt_int64_ok (b_EncryptedSizeBytes b) \<and>
     opt_int64_ok (b_DurationMs b)"

lemma scanBackup_id [simp]: "b_ID (scanBackup r) = br_id r"
  by (simp add: scanBackup_def)

interpretation backup_rows: table_repository br_id t_backups t_backups_update check_backup
  fk_backup scanBackup backup_columns fill_backup "\<lambda>_. set_backup" sql_insert_backup
  b_ID backup_ints_ok "\<lambda>_. merge_backup" "\<lambda>k. ''get backup '' @ k @ '': ''" "''create backup: ''"
  "\<lambda>k. ''update backup '' @ k @ '': ''"
  by unfold_locales
    (auto simp: same_tables_fields sql_insert_backup_def backup_columns_def fill_backup_def
      set_backup_def merge_backup_def scanBackup_def backup_ints_ok_def intro: wf_insert_backup split: if_splits)

interpretation backup_repo: repository BackupRepo_GetByID BackupRepo_Create
  "\<lambda>_. BackupRepo_Update" b_ID backup_ints_ok "\<lambda>k now b. scanBackup (backup_columns (fill_backup k now b))"
  "\<lambda>_. merge_backup" "\<lambda>k d. map_option scanBackup (row_find br_id k (t_backups d))"
  using backup_rows.repository_axioms
  by (simp add: BackupRepo_GetByID_def [abs_def] BackupRepo_Create_def [abs_def]
      BackupRepo_Update_def [abs_def] sql_update_backup_def Let_def)

section \<open>RestoreRepo\<close>

definition scanRestore :: "restore_row \<Rightarrow> restore" where
  "scanRestore r = \<lparr>rs_ID = rr_id r, rs_BackupID = rr_backup_id r, rs_TargetConnection = rr_target_connection r,
     rs_Status = rr_status r, rs_DurationMs = scan_int64 (rr_duration_ms r), rs_LogOutput = [],
     rs_StartedAt = rr_started_at r, rs_CompletedAt = rr_completed_at r, rs_CreatedAt = rr_created_at r\<rparr>"

definition RestoreRepo_List :: "db \<Rightarrow> restore list res \<times> db" where
  "RestoreRepo_List d = wrap_err ''list restores: ''
     (db_query (\<lambda>d. map scanRestore (order_desc rr_created_at (t_restores d))) d)"

definition RestoreRepo_GetByID :: "string \<Rightarrow> db \<Rightarrow> restore option res \<times> db" where
  "RestoreRepo_GetByID i d = wrap_err (''get restore '' @ i @ '': '')
     (db_query (\<lambda>d. map_option scanRestore (row_find rr_id i (t_restores d))) d)"

definition fill_restore :: "string \<Rightarrow> int \<Rightarrow> restore \<Rightarrow> restore" where
  "fill_restore i now r = r\<lparr>rs_ID := i, rs_CreatedAt := now\<rparr>"

definition restore_columns :: "restore \<Rightarrow> restore_row" where
  "restore_columns r = \<lparr>rr_id = rs_ID r, rr_backup_id = rs_BackupID r,
     rr_target_connection = nullableStr (rs_TargetConnection r), rr_status = rs_Status r,
     rr_duration_ms = nullableInt64 (rs_DurationMs r), rr_log_output = None,
     rr_started_at = nullableTime (rs_StartedAt r), rr_completed_at = nullableTime (rs_CompletedAt r),
     rr_created_at = pg_time (rs_CreatedAt r)\<rparr>"

definition set_restore :: "restore \<Rightarrow> restore_row \<Rightarrow> restore_row" where
  "set_restore x r = r\<lparr>rr_status := rs_Status x, rr_duration_ms := nullableInt64 (rs_DurationMs x),
     rr_log_output := Some (rs_LogOutput x), rr_started_at := nullableTime (rs_StartedAt x),
     rr_completed_at := nullableTime (rs_CompletedAt x)\<rparr>"

definition RestoreRepo_Create :: "string \<Rightarrow> int \<Rightarrow> restore \<Rightarrow> db \<Rightarrow> restore res \<times> db" where
  "RestoreRepo_Create newid now r d =
     (let r' = fill_restore newid now r
      in returning r' (wrap_err ''create restore: '' (db_exec (sql_insert_restore (restore_columns r')) d)))"

definition RestoreRepo_Update :: "restore \<Rightarrow> db \<Rightarrow> unit res \<times> db" where
  "RestoreRepo_Update x d = wrap_err (''update restore '' @ rs_ID x @ '': '')
     (db_exec (sql_update_restore (rs_ID x) (set_restore x)) d)"

definition merge_restore :: "restore \<Rightarrow> restore \<Rightarrow> restore" where
  "merge_restore x old = old\<lparr>rs_Status := rs_Status x, rs_DurationMs := rs_DurationMs x,
     rs_LogOutput := [], rs_StartedAt := map_option pg_time (rs_StartedAt x),
     rs_CompletedAt := map_option pg_time (rs_CompletedAt x)\<rparr>"

interpretation restore_rows: table_repository rr_id t_restores t_restores_update check_restore
  fk_restore scanRestore restore_columns fill_restore "\<lambda>_. set_restore" sql_insert_restore
  rs_ID "\<lambda>x. opt_int64_ok (rs_DurationMs x)" "\<lambda>_. merge_restore"
  "\<lambda>k. ''get restore '' @ k @ '': ''" "''create restore: ''" "\<lambda>k. ''update restore '' @ k @ '': ''"
  by unfold_locales
    (auto simp: same_tables_fields sql_insert_restore_def restore_columns_def fill_restore_def
      set_restore_def merge_restore_def scanRestore_def intro: wf_insert_restore split: if_splits)

interpretation restore_repo: repository RestoreRepo_GetByID RestoreRepo_Create
  "\<lambda>_. RestoreRepo_Update" rs_ID "\<lambda>x. opt_int64_ok (rs_DurationMs x)"
  "\<lambda>k now r. scanRestore (restore_columns (fill_restore k now r))" "\<lambda>_. merge_restore"
  "\<lambda>k d. map_option scanRestore (row_find rr_id k (t_restores d))"
  using restore_rows.repository_axioms
  by (simp add: RestoreRepo_GetByID_def [abs_def] RestoreRepo_Create_def [abs_def]
      RestoreRepo_Update_def [abs_def] sql_update_restore_def Let_def)

end
