(* ===== verification/Encryption.thy ===== *)
theory Encryption
  imports Go_IO
begin

text \<open>
  \<open>internal/encryption/service.go\<close>: AES-256-GCM encryption of backups with Argon2id keys, as a
  blob (\<open>Encrypt\<close>, \<open>Decrypt\<close>) and as a framed stream (\<open>EncryptStream\<close>,
  \<open>DecryptStream\<close>, the \<open>encryptWriter\<close> and the \<open>decryptReader\<close>).

  The cryptographic library is the record \<open>crypto\<close>, a parameter of every operation; what the
  code relies on is stated by \<open>aead_ok\<close> and \<open>argon_ok\<close>. The system's random source
  is a function from positions to bytes, consumed from the front.
\<close>

section \<open>The cryptographic library and the random source\<close>

record crypto =
  x_argon2 :: "bytes \<Rightarrow> bytes \<Rightarrow> nat \<Rightarrow> nat \<Rightarrow> nat \<Rightarrow> nat \<Rightarrow> bytes"
    \<comment> \<open>\<open>argon2.IDKey(password, salt, time, memory, threads, keyLen)\<close>\<close>
  x_sha256 :: "bytes \<Rightarrow> bytes"
  x_seal :: "bytes \<Rightarrow> bytes \<Rightarrow> bytes \<Rightarrow> bytes" \<comment> \<open>\<open>gcm.Seal\<close>: key, nonce, plaintext\<close>
  x_open :: "bytes \<Rightarrow> bytes \<Rightarrow> bytes \<Rightarrow> bytes res" \<comment> \<open>\<open>gcm.Open\<close>: key, nonce, ciphertext\<close>

text \<open>Documented behaviour: \<open>Open\<close> inverts \<open>Seal\<close> under the same key and 12-byte nonce, the
  ciphertext is the plaintext's length and a 16-byte tag; \<open>IDKey\<close> returns \<open>keyLen\<close> bytes.\<close>

definition aead_ok :: "crypto \<Rightarrow> bool" where
  "aead_ok C \<longleftrightarrow>
     (\<forall>k n p. length n = 12 \<longrightarrow> x_open C k n (x_seal C k n p) = Inr p) \<and>
     (\<forall>k n p. length (x_seal C k n p) = length p + 16)"

definition argon_ok :: "crypto \<Rightarrow> bool" where
  "argon_ok C \<longleftrightarrow> (\<forall>pw salt t m th n. length (x_argon2 C pw salt t m th n) = n)"

lemma aead_okD:
  assumes "aead_ok C"
  shows "length n = 12 \<Longrightarrow> x_open C k n (x_seal C k n p) = Inr p"
    and "length (x_seal C k n p) = length p + 16"
  using assms by (simp_all add: aead_ok_def)

lemma argon_okD: "argon_ok C \<Longrightarrow> length (x_argon2 C pw salt t m th n) = n"
  by (simp add: argon_ok_def)

type_synonym rng = "nat \<Rightarrow> 8 word"

definition rand_read :: "nat \<Rightarrow> rng \<Rightarrow> bytes \<times> rng" where
  "rand_read n r = (map r [0..<n], \<lambda>i. r (i + n))"

lemma rand_read_length [simp]: "length (fst (rand_read n r)) = n"
  by (simp add: rand_read_def)

text \<open>\<open>aes.NewCipher\<close> accepts keys of 16, 24 or 32 bytes; \<open>cipher.NewGCM\<close> of an AES block
  does not fail.\<close>

definition aes_new_cipher :: "bytes \<Rightarrow> gerror option" where
  "aes_new_cipher key = (if length key \<in> set [16, 24, 32] then None
     else Some (''crypto/aes: invalid key size '' @ fmt_nat (length key)))"

section \<open>Keys, blobs and checksums\<close>

definition deriveKey :: "crypto \<Rightarrow> bytes \<Rightarrow> bytes \<Rightarrow> bytes" where
  "deriveKey C masterKey salt = x_argon2 C masterKey salt 1 (64 * 1024) 4 32"

definition GenerateKey :: "crypto \<Rightarrow> bytes \<Rightarrow> bytes \<Rightarrow> rng \<Rightarrow> (bytes \<times> bytes) \<times> rng" where
  "GenerateKey C masterKey salt r =
     (let (salt', r') = (if salt = [] then rand_read 16 r else (salt, r))
      in ((x_argon2 C masterKey salt' 1 (64 * 1024) 4 32, salt'), r'))"

definition Checksum :: "crypto \<Rightarrow> bytes \<Rightarrow> string" where
  "Checksum C data = hex_encode (x_sha256 C data)"

text \<open>The key identifier \<open>keyID\<close> is passed by every caller and read by none of the operations,
  in the model as in the code.\<close>

definition Encrypt :: "crypto \<Rightarrow> bytes \<Rightarrow> bytes \<Rightarrow> string \<Rightarrow> rng \<Rightarrow> bytes res \<times> rng" where
  "Encrypt C masterKey plaintext keyID r =
     (let (salt, r1) = rand_read 16 r; key = deriveKey C masterKey salt
      in case aes_new_cipher key of
           Some e \<Rightarrow> (Inl (''new cipher: '' @ e), r1)
         | None \<Rightarrow>
             (let (nonce, r2) = rand_read 12 r1; ciphertext = x_seal C key nonce plaintext
              in (Inr (salt @ nonce @ ciphertext), r2)))"

definition Decrypt :: "crypto \<Rightarrow> bytes \<Rightarrow> bytes \<Rightarrow> string \<Rightarrow> bytes res" where
  "Decrypt C masterKey ciphertext keyID =
     (if length ciphertext < 28 then Inl ''ciphertext too short''
      else let salt = take 16 ciphertext; nonce = take 12 (drop 16 ciphertext);
               encrypted = drop 28 ciphertext; key = deriveKey C masterKey salt
           in case aes_new_cipher key of
                Some e \<Rightarrow> Inl (''new cipher: '' @ e)
              | None \<Rightarrow> (case x_open C key nonce encrypted of
                           Inl e \<Rightarrow> Inl (''decrypt: '' @ e) | Inr pt \<Rightarrow> Inr pt))"

lemma deriveKey_cipher [simp]: "argon_ok C \<Longrightarrow> aes_new_cipher (deriveKey C mk salt) = None"
  by (simp add: aes_new_cipher_def deriveKey_def argon_okD)

lemma Encrypt_layout:
  assumes "argon_ok C"
  obtains salt nonce where "length salt = 16" "length nonce = 12"
    "fst (Encrypt C mk pt kid r) = Inr (salt @ nonce @ x_seal C (deriveKey C mk salt) nonce pt)"
proof -
  obtain salt r1 where s: "rand_read 16 r = (salt, r1)" by fastforce
  obtain nonce r2 where n: "rand_read 12 r1 = (nonce, r2)" by fastforce
  from s n have "length salt = 16" "length nonce = 12"
    using rand_read_length by (metis fst_conv)+
  moreover from assms s n
  have "fst (Encrypt C mk pt kid r) = Inr (salt @ nonce @ x_seal C (deriveKey C mk salt) nonce pt)"
    by (simp add: Encrypt_def)
  ultimately show thesis by (rule that)
qed

lemma Decrypt_layout:
  assumes "argon_ok C" "length salt = 16" "length nonce = 12"
  shows "Decrypt C mk (salt @ nonce @ ct) kid =
     (case x_open C (deriveKey C mk salt) nonce ct of Inl e \<Rightarrow> Inl (''decrypt: '' @ e) | Inr pt \<Rightarrow> Inr pt)"
  using assms by (simp add: Decrypt_def)

section \<open>The framed stream: writer\<close>

record 'd enc_writer =
  ew_dst :: 'd
  ew_key :: bytes
  ew_counter :: "64 word"

text \<open>Nonce of a frame: the counter in big-endian order and four zero bytes.\<close>

definition frame_nonce :: "64 word \<Rightarrow> bytes" where
  "frame_nonce c = be_bytes 8 (unat c) @ replicate 4 0"

definition EncryptStream ::
  "crypto \<Rightarrow> bytes \<Rightarrow> 'd writer \<Rightarrow> 'd \<Rightarrow> string \<Rightarrow> rng \<Rightarrow> ('d enc_writer res \<times> 'd) \<times> rng" where
  "EncryptStream C masterKey dw dst keyID r =
     (let (salt, r1) = rand_read 16 r; key = deriveKey C masterKey salt
      in case aes_new_cipher key of
           Some e \<Rightarrow> ((Inl (''new cipher: '' @ e), dst), r1)
         | None \<Rightarrow>
             (case dw dst salt of
                (Some e, d) \<Rightarrow> ((Inl (''write salt: '' @ e), d), r1)
              | (None, d) \<Rightarrow> ((Inr \<lparr>ew_dst = d, ew_key = key, ew_counter = 1\<rparr>, d), r1)))"

definition encryptWriter_Write ::
  "crypto \<Rightarrow> 'd writer \<Rightarrow> 'd enc_writer \<Rightarrow> bytes \<Rightarrow> nat res \<times> 'd enc_writer" where
  "encryptWriter_Write C dw w p =
     (let nonce = frame_nonce (ew_counter w);
          w1 = w\<lparr>ew_counter := ew_counter w + 1\<rparr>;
          ciphertext = x_seal C (ew_key w) nonce p;
          header = nonce @ be_bytes 4 (length ciphertext)
      in case dw (ew_dst w) header of
           (Some e, d) \<Rightarrow> (Inl (''encrypt frame header: '' @ e), w1\<lparr>ew_dst := d\<rparr>)
         | (None, d) \<Rightarrow>
             (case dw d ciphertext of
                (Some e, d') \<Rightarrow> (Inl (''encrypt frame data: '' @ e), w1\<lparr>ew_dst := d'\<rparr>)
              | (None, d') \<Rightarrow> (Inr (length p), w1\<lparr>ew_dst := d'\<rparr>)))"

definition encryptWriter_Close :: "'d writer \<Rightarrow> 'd enc_writer \<Rightarrow> gerror option \<times> 'd enc_writer" where
  "encryptWriter_Close dw w = (let (e, d) = dw (ew_dst w) (replicate 16 0) in (e, w\<lparr>ew_dst := d\<rparr>))"

text \<open>A caller's sequence of \<open>Write\<close> calls, given up at the first error.\<close>

fun write_all :: "crypto \<Rightarrow> 'd writer \<Rightarrow> 'd enc_writer \<Rightarrow> bytes list \<Rightarrow> gerror option \<times> 'd enc_writer" where
  "write_all C dw w [] = (None, w)"
| "write_all C dw w (p # ps) =
     (case encryptWriter_Write C dw w p of
        (Inl e, w') \<Rightarrow> (Some e, w') | (Inr _, w') \<Rightarrow> write_all C dw w' ps)"

text \<open>Abstractly, the stream is the concatenation of one frame per write.\<close>

definition frame :: "crypto \<Rightarrow> bytes \<Rightarrow> 64 word \<Rightarrow> bytes \<Rightarrow> bytes" where
  "frame C key c p = (let ct = x_seal C key (frame_nonce c) p
     in frame_nonce c @ be_bytes 4 (length ct) @ ct)"

fun frames :: "crypto \<Rightarrow> bytes \<Rightarrow> 64 word \<Rightarrow> bytes list \<Rightarrow> bytes" where
  "frames C key c [] = []"
| "frames C key c (p # ps) = frame C key c p @ frames C key (c + 1) ps"

definition eof_frame :: bytes where "eof_frame = replicate 16 0"

lemma frame_nonce_length [simp]: "length (frame_nonce c) = 12"
  by (simp add: frame_nonce_def)

lemma frame_nonce_inj: "frame_nonce a = frame_nonce b \<longleftrightarrow> a = b"
proof
  assume "frame_nonce a = frame_nonce b"
  then have "be_val (be_bytes 8 (unat a)) = be_val (be_bytes 8 (unat b))"
    by (simp add: frame_nonce_def)
  moreover have "unat x < 256 ^ 8" for x :: "64 word"
    using unsigned_less [of x, where ?'a = nat] by simp
  ultimately have "unat a = unat b" by (simp del: power_numeral)
  then show "a = b" by (simp add: word_unat_eq_iff)
qed simp


context io_writer
begin

text \<open>Writing one frame, and a sequence of frames, to a writer that is ready.\<close>

lemma Write_frame:
  assumes "ready (ew_dst w)"
  obtains w' where "encryptWriter_Write C dw w p = (Inr (length p), w')"
    "ready (ew_dst w')" "ew_key w' = ew_key w" "ew_counter w' = ew_counter w + 1"
    "written (ew_dst w') = written (ew_dst w) @ frame C (ew_key w) (ew_counter w) p"
proof -
  define nonce where "nonce = frame_nonce (ew_counter w)"
  define ct where "ct = x_seal C (ew_key w) nonce p"
  obtain d where d: "dw (ew_dst w) (nonce @ be_bytes 4 (length ct)) = (None, d)" "ready d"
    "written d = written (ew_dst w) @ nonce @ be_bytes 4 (length ct)"
    using dw_step [OF assms] by blast
  obtain d' where d': "dw d ct = (None, d')" "ready d'" "written d' = written d @ ct"
    using dw_step [OF d(2)] by blast
  have "encryptWriter_Write C dw w p =
      (Inr (length p), w\<lparr>ew_counter := ew_counter w + 1, ew_dst := d'\<rparr>)"
    using d(1) d'(1) by (simp add: encryptWriter_Write_def Let_def nonce_def ct_def)
  then show thesis
    by (rule that) (use d d' in \<open>simp_all add: frame_def Let_def nonce_def ct_def\<close>)
qed

lemma write_all_frames:
  assumes "ready (ew_dst w)"
  obtains w' where "write_all C dw w ps = (None, w')"
    "ready (ew_dst w')" "ew_key w' = ew_key w" "ew_counter w' = ew_counter w + of_nat (length ps)"
    "written (ew_dst w') = written (ew_dst w) @ frames C (ew_key w) (ew_counter w) ps"
  using assms
proof (induction ps arbitrary: w thesis)
  case Nil
  then show ?case by simp
next
  case (Cons p ps)
  obtain w1 where w1: "encryptWriter_Write C dw w p = (Inr (length p), w1)"
    "ready (ew_dst w1)" "ew_key w1 = ew_key w" "ew_counter w1 = ew_counter w + 1"
    "written (ew_dst w1) = written (ew_dst w) @ frame C (ew_key w) (ew_counter w) p"
    using Write_frame [OF Cons.prems(2)] by blast
  obtain w2 where "write_all C dw w1 ps = (None, w2)"
    "ready (ew_dst w2)" "ew_key w2 = ew_key w1" "ew_counter w2 = ew_counter w1 + of_nat (length ps)"
    "written (ew_dst w2) = written (ew_dst w1) @ frames C (ew_key w1) (ew_counter w1) ps"
    using Cons.IH [OF _ w1(2)] by blast
  with w1 show ?case by (intro Cons.prems(1)) (simp_all add: add.assoc)
qed

lemma Close_eof:
  assumes "ready (ew_dst w)"
  obtains w' where "encryptWriter_Close dw w = (None, w')" "ready (ew_dst w')"
    "ew_key w' = ew_key w" "written (ew_dst w') = written (ew_dst w) @ eof_frame"
  using dw_step [OF assms, of "replicate 16 0"]
  by (fastforce simp: encryptWriter_Close_def eof_frame_def)

lemma EncryptStream_salt:
  assumes "ready d" "argon_ok C"
  obtains w where "EncryptStream C mk dw d kid r = ((Inr w, ew_dst w), snd (rand_read 16 r))"
    "ready (ew_dst w)" "ew_counter w = 1"
    "ew_key w = deriveKey C mk (fst (rand_read 16 r))"
    "written (ew_dst w) = written d @ fst (rand_read 16 r)"
proof -
  obtain salt r1 where s: "rand_read 16 r = (salt, r1)" by fastforce
  obtain d' where "dw d salt = (None, d')" "ready d'" "written d' = written d @ salt"
    using dw_step [OF assms(1)] by blast
  with s assms(2) show thesis
    by (intro that [of "\<lparr>ew_dst = d', ew_key = deriveKey C mk salt, ew_counter = 1\<rparr>"])
      (simp_all add: EncryptStream_def)
qed

end

section \<open>The framed stream: reader\<close>

record dec_reader =
  dr_src :: bytes
  dr_key :: bytes
  dr_done :: bool
  dr_buf :: bytes
  dr_pos :: nat

definition DecryptStream :: "crypto \<Rightarrow> bytes \<Rightarrow> bytes \<Rightarrow> string \<Rightarrow> dec_reader res" where
  "DecryptStream C masterKey src keyID =
     (case read_full 16 src of
        (Inl e, _) \<Rightarrow> Inl (''read salt: '' @ e)
      | (Inr salt, s) \<Rightarrow>
          (let key = deriveKey C masterKey salt
           in case aes_new_cipher key of
                Some e \<Rightarrow> Inl (''new cipher: '' @ e)
              | None \<Rightarrow> Inr \<lparr>dr_src = s, dr_key = key, dr_done = False, dr_buf = [], dr_pos = 0\<rparr>))"

definition decryptReader_Read :: "crypto \<Rightarrow> dec_reader reader" where
  "decryptReader_Read C r n =
     (if dr_pos r < length (dr_buf r)
      then let chunk = take n (drop (dr_pos r) (dr_buf r))
           in ((chunk, None), r\<lparr>dr_pos := dr_pos r + length chunk\<rparr>)
      else if dr_done r then (([], Some EOF), r)
      else case read_full 16 (dr_src r) of
        (Inl e, s) \<Rightarrow> (([], Some (RErr (''read frame header: '' @ e))), r\<lparr>dr_src := s\<rparr>)
      | (Inr header, s) \<Rightarrow>
          (let frameLen = be_val (take 4 (drop 12 header))
           in if frameLen = 0 then (([], Some EOF), r\<lparr>dr_src := s, dr_done := True\<rparr>)
              else case read_full frameLen s of
                (Inl e, s') \<Rightarrow> (([], Some (RErr (''read frame data: '' @ e))), r\<lparr>dr_src := s'\<rparr>)
              | (Inr ciphertext, s') \<Rightarrow>
                  (case x_open C (dr_key r) (take 12 header) ciphertext of
                     Inl e \<Rightarrow> (([], Some (RErr (''decrypt frame: '' @ e))), r\<lparr>dr_src := s'\<rparr>)
                   | Inr plaintext \<Rightarrow>
                       (let chunk = take n plaintext
                        in ((chunk, None),
                            r\<lparr>dr_src := s', dr_buf := plaintext, dr_pos := length chunk\<rparr>)))))"

text \<open>What the reader's calls add up to: the abstract decoder of a frame sequence.\<close>

function dec_frames :: "crypto \<Rightarrow> bytes \<Rightarrow> bytes \<Rightarrow> bytes \<times> rerr" where
  "dec_frames C key src =
     (if length src < 16
      then ([], RErr (''read frame header: '' @ (if src = [] then ''EOF'' else ''unexpected EOF'')))
      else let n = be_val (take 4 (drop 12 src)); rest = drop 16 src
           in if n = 0 then ([], EOF)
              else if length rest < n
              then ([], RErr (''read frame data: '' @ (if rest = [] then ''EOF'' else ''unexpected EOF'')))
              else case x_open C key (take 12 src) (take n rest) of
                     Inl e \<Rightarrow> ([], RErr (''decrypt frame: '' @ e))
                   | Inr pt \<Rightarrow> (pt @ fst (dec_frames C key (drop n rest)), snd (dec_frames C key (drop n rest))))"
  by pat_completeness auto
termination
  by (relation "measure (\<lambda>(C, key, src). length src)") auto

declare dec_frames.simps [simp del]

definition dr_todo :: "crypto \<Rightarrow> dec_reader \<Rightarrow> bytes \<times> rerr" where
  "dr_todo C r = (let rest = (if dr_done r then ([], EOF) else dec_frames C (dr_key r) (dr_src r))
     in (drop (dr_pos r) (dr_buf r) @ fst rest, snd rest))"

definition dr_budget :: "crypto \<Rightarrow> dec_reader \<Rightarrow> nat" where
  "dr_budget C r = length (fst (dr_todo C r)) + length (dr_src r)"

lemma header_fields:
  assumes "16 \<le> length src"
  shows "take 4 (drop 12 (take 16 src)) = take 4 (drop 12 src)"
    and "take 12 (take 16 src) = take 12 src"
  using assms by (simp_all add: take_drop min_def)

lemma Read_buffered:
  assumes "dr_pos r < length (dr_buf r)" "0 < n"
    and rd: "decryptReader_Read C r n = ((bs, None), r')"
  shows "dr_todo C r = (bs @ fst (dr_todo C r'), snd (dr_todo C r')) \<and> dr_budget C r' < dr_budget C r"
proof -
  let ?rest = "drop (dr_pos r) (dr_buf r)"
  from assms have bs: "bs = take n ?rest" and r': "r' = r\<lparr>dr_pos := dr_pos r + length bs\<rparr>"
    by (auto simp: decryptReader_Read_def Let_def)
  have split: "?rest = bs @ drop (dr_pos r + length bs) (dr_buf r)"
    using bs by (metis add.commute append_take_drop_id drop_drop length_take min.cobounded2
        append_eq_conv_conj)
  have "0 < length bs" using assms(1,2) bs by simp
  with split r' show ?thesis by (simp add: dr_todo_def dr_budget_def Let_def)
qed

lemma Read_frame:
  assumes "\<not> dr_pos r < length (dr_buf r)"
    and rd: "decryptReader_Read C r n = ((bs, None), r')"
  shows "dr_todo C r = (bs @ fst (dr_todo C r'), snd (dr_todo C r')) \<and> dr_budget C r' < dr_budget C r"
proof -
  let ?s = "dr_src r" let ?n = "be_val (take 4 (drop 12 ?s))"
  have len: "16 \<le> length ?s" and nd: "\<not> dr_done r"
    using assms by (auto simp: decryptReader_Read_def read_full_def split: if_splits)
  have n0: "?n \<noteq> 0" and dlen: "?n \<le> length ?s - 16"
    using assms len nd header_fields [OF len]
    by (auto simp: decryptReader_Read_def read_full_def Let_def split: if_splits sum.splits)
  obtain pt where pt: "x_open C (dr_key r) (take 12 ?s) (take ?n (drop 16 ?s)) = Inr pt"
    and bs: "bs = take n pt"
    and r': "r' = r\<lparr>dr_src := drop ?n (drop 16 ?s), dr_buf := pt, dr_pos := length bs\<rparr>"
    using assms len nd n0 dlen header_fields [OF len]
    by (auto simp: decryptReader_Read_def read_full_def Let_def split: sum.splits)
  have "drop (length bs) pt = drop n pt" using bs by (simp add: drop_eq_Nil2 min_def)
  then have split: "bs @ drop (length bs) pt = pt" using bs by simp
  have "dec_frames C (dr_key r) ?s =
      (pt @ fst (dec_frames C (dr_key r) (dr_src r')), snd (dec_frames C (dr_key r) (dr_src r')))"
    using len n0 dlen pt r' by (subst dec_frames.simps) (simp add: Let_def)
  with split r' nd assms(1) have t: "dr_todo C r = (bs @ fst (dr_todo C r'), snd (dr_todo C r'))"
    by (simp add: dr_todo_def Let_def)
  moreover have "length (dr_src r') < length ?s" using r' len n0 by simp
  ultimately show ?thesis by (simp add: dr_budget_def)
qed

lemma Read_stop:
  assumes rd: "decryptReader_Read C r n = ((bs, Some e), r')"
  shows "dr_todo C r = (bs, e)"
proof -
  let ?s = "dr_src r"
  have pos: "\<not> dr_pos r < length (dr_buf r)" and bs: "bs = []"
    using assms by (auto simp: decryptReader_Read_def Let_def split: if_splits prod.splits sum.splits)
  show ?thesis
  proof (cases "dr_done r \<or> length ?s < 16")
    case True
    with assms pos bs show ?thesis
      by (auto simp: decryptReader_Read_def read_full_def dr_todo_def dec_frames.simps Let_def
          split: if_splits)
  next
    case False
    then have len: "16 \<le> length ?s" by simp
    have "dec_frames C (dr_key r) ?s = ([], e)"
      using assms pos False header_fields [OF len]
      by (subst dec_frames.simps)
        (auto simp: decryptReader_Read_def read_full_def Let_def split: if_splits sum.splits)
    with pos bs False show ?thesis by (simp add: dr_todo_def Let_def)
  qed
qed

lemma Read_data:
  assumes "0 < n" "decryptReader_Read C r n = ((bs, None), r')"
  shows "dr_todo C r = (bs @ fst (dr_todo C r'), snd (dr_todo C r')) \<and> dr_budget C r' < dr_budget C r"
  using assms Read_buffered Read_frame by (cases "dr_pos r < length (dr_buf r)") blast+

interpretation dec: io_reader "decryptReader_Read C" "dr_todo C" "dr_budget C" for C
  by unfold_locales (erule (1) Read_data, erule Read_stop)


section \<open>Decoding what the writer wrote\<close>

definition small_writes :: "bytes list \<Rightarrow> bool" where
  "small_writes ps \<longleftrightarrow> (\<forall>p \<in> set ps. length p + 16 < 2 ^ 32)"

lemma small_writes_simps [simp]:
  "small_writes []"
  "small_writes (p # ps) \<longleftrightarrow> length p + 16 < 2 ^ 32 \<and> small_writes ps"
  by (simp_all add: small_writes_def)

lemma dec_frames_frame:
  assumes "aead_ok C" "length p + 16 < 2 ^ 32"
  shows "dec_frames C key (frame C key c p @ rest) =
    (p @ fst (dec_frames C key rest), snd (dec_frames C key rest))"
proof -
  let ?ct = "x_seal C key (frame_nonce c) p"
  have len: "length ?ct = length p + 16" using assms(1) by (simp add: aead_okD)
  have n: "be_val (take 4 (drop 12 (frame C key c p @ rest))) = length ?ct"
    using assms(2) len by (simp add: frame_def Let_def)
  have "x_open C key (frame_nonce c) ?ct = Inr p" using assms(1) by (simp add: aead_okD)
  then show ?thesis
    using n len by (subst dec_frames.simps) (simp add: frame_def Let_def)
qed

lemma dec_frames_eof: "dec_frames C key (eof_frame @ rest) = ([], EOF)"
  by (subst dec_frames.simps) (simp add: eof_frame_def Let_def)

lemma dec_frames_frames:
  assumes "aead_ok C" "small_writes ps"
  shows "dec_frames C key (frames C key c ps @ rest) =
    (concat ps @ fst (dec_frames C key rest), snd (dec_frames C key rest))"
  using assms(2)
  by (induction ps arbitrary: c) (simp_all add: dec_frames_frame [OF assms(1)])

text \<open>A frame cut short is never read as the end of the stream.\<close>

lemma dec_frames_short: "length src < 16 \<Longrightarrow> \<exists>e. dec_frames C key src = ([], RErr e)"
  by (subst dec_frames.simps) simp

lemma dec_frames_cut_frame:
  assumes "aead_ok C" "length p + 16 < 2 ^ 32" "m < length (frame C key c p)"
  shows "\<exists>e. dec_frames C key (take m (frame C key c p)) = ([], RErr e)"
proof (cases "m < 16")
  case True
  then show ?thesis by (intro dec_frames_short) (simp add: min_less_iff_disj)
next
  case False
  let ?ct = "x_seal C key (frame_nonce c) p" let ?f = "frame C key c p"
  have len: "length ?ct = length p + 16" using assms(1) by (simp add: aead_okD)
  have f: "length ?f = 16 + length ?ct" by (simp add: frame_def Let_def)
  have "take 4 (drop 12 (take m ?f)) = be_bytes 4 (length ?ct)"
    using False by (simp add: frame_def Let_def take_drop)
  then have n: "be_val (take 4 (drop 12 (take m ?f))) = length ?ct"
    using assms(2) len by simp
  have "length (take m ?f) = m" "length (drop 16 (take m ?f)) < length ?ct"
    using assms(3) f False by simp_all
  then show ?thesis
    using n len False by (subst dec_frames.simps) (simp add: Let_def)
qed

lemma dec_frames_cut:
  assumes "aead_ok C" "small_writes ps" "m < length (frames C key c ps @ eof_frame)"
  shows "\<exists>e k. dec_frames C key (take m (frames C key c ps @ eof_frame)) = (concat (take k ps), RErr e)"
  using assms(2,3)
proof (induction ps arbitrary: c m)
  case Nil
  then have "m < 16" by (simp add: eof_frame_def)
  then have "\<exists>e. dec_frames C key (take m eof_frame) = ([], RErr e)"
    by (intro dec_frames_short) (simp add: min_less_iff_disj)
  then show ?case by auto
next
  case (Cons p ps)
  let ?f = "frame C key c p" let ?rest = "frames C key (c + 1) ps @ eof_frame"
  show ?case
  proof (cases "m < length ?f")
    case True
    then obtain e where "dec_frames C key (take m ?f) = ([], RErr e)"
      using dec_frames_cut_frame [OF assms(1) _ True] Cons.prems(1) by auto
    with True have "dec_frames C key (take m (?f @ ?rest)) = (concat (take 0 (p # ps)), RErr e)"
      by simp
    then show ?thesis by (metis append_assoc frames.simps(2))
  next
    case False
    then have "m - length ?f < length ?rest" using Cons.prems by simp
    then obtain e k where "dec_frames C key (take (m - length ?f) ?rest) = (concat (take k ps), RErr e)"
      using Cons.IH Cons.prems by fastforce
    then have "dec_frames C key (take m (?f @ ?rest)) = (concat (take (Suc k) (p # ps)), RErr e)"
      using False Cons.prems dec_frames_frame [OF assms(1)] by simp
    then show ?thesis by (metis append_assoc frames.simps(2))
  qed
qed

section \<open>Streams end to end\<close>

text \<open>A producer's run: open the stream on a pipe, write the chunks, close once or more often
  (the backup pipeline closes twice).\<close>

fun close_times :: "'d writer \<Rightarrow> nat \<Rightarrow> 'd enc_writer \<Rightarrow> gerror option \<times> 'd enc_writer" where
  "close_times dw 0 w = (None, w)"
| "close_times dw (Suc n) w =
     (case encryptWriter_Close dw w of
        (Some e, w') \<Rightarrow> (Some e, w') | (None, w') \<Rightarrow> close_times dw n w')"

definition encrypt_run :: "crypto \<Rightarrow> bytes \<Rightarrow> bytes list \<Rightarrow> nat \<Rightarrow> rng \<Rightarrow> bytes res" where
  "encrypt_run C mk ps closes r =
     (case fst (EncryptStream C mk pipe_write new_pipe ''default'' r) of
        (Inl e, _) \<Rightarrow> Inl e
      | (Inr w, _) \<Rightarrow>
          (case write_all C pipe_write w ps of
             (Some e, _) \<Rightarrow> Inl e
           | (None, w') \<Rightarrow>
               (case close_times pipe_write closes w' of
                  (Some e, _) \<Rightarrow> Inl e | (None, w'') \<Rightarrow> Inr (pp_data (ew_dst w'')))))"

definition decrypt_run :: "crypto \<Rightarrow> bytes \<Rightarrow> nat \<Rightarrow> nat \<Rightarrow> bytes \<Rightarrow> (bytes \<times> rerr) option" where
  "decrypt_run C mk fuel bufsize src =
     (case DecryptStream C mk src ''default'' of
        Inl e \<Rightarrow> Some ([], RErr e) | Inr r \<Rightarrow> io_copy (decryptReader_Read C) fuel bufsize r)"

lemma close_times_eofs:
  assumes "\<not> pp_closed (ew_dst w)"
  obtains w' where "close_times pipe_write n w = (None, w')" "\<not> pp_closed (ew_dst w')"
    "pp_data (ew_dst w') = pp_data (ew_dst w) @ concat (replicate n eof_frame)"
  using assms
proof (induction n arbitrary: w thesis)
  case 0
  then show ?case by simp
next
  case (Suc n)
  obtain w1 where w1: "encryptWriter_Close pipe_write w = (None, w1)" "\<not> pp_closed (ew_dst w1)"
    "pp_data (ew_dst w1) = pp_data (ew_dst w) @ eof_frame"
    using pipe_end.Close_eof [OF Suc.prems(2)] by blast
  obtain w2 where "close_times pipe_write n w1 = (None, w2)" "\<not> pp_closed (ew_dst w2)"
    "pp_data (ew_dst w2) = pp_data (ew_dst w1) @ concat (replicate n eof_frame)"
    using Suc.IH [OF _ w1(2)] by blast
  with w1 show ?case by (intro Suc.prems(1)) simp_all
qed

lemma encrypt_run_eq:
  assumes "argon_ok C"
  shows "encrypt_run C mk ps closes r =
    (let salt = fst (rand_read 16 r); key = deriveKey C mk salt
     in Inr (salt @ frames C key 1 ps @ concat (replicate closes eof_frame)))"
proof -
  obtain w where w: "EncryptStream C mk pipe_write new_pipe ''default'' r =
      ((Inr w, ew_dst w), snd (rand_read 16 r))"
    "\<not> pp_closed (ew_dst w)" "ew_counter w = 1" "ew_key w = deriveKey C mk (fst (rand_read 16 r))"
    "pp_data (ew_dst w) = fst (rand_read 16 r)"
    using pipe_end.EncryptStream_salt [of new_pipe C] assms by (metis append_Nil new_pipe_ready)
  obtain w' where w': "write_all C pipe_write w ps = (None, w')" "\<not> pp_closed (ew_dst w')"
    "pp_data (ew_dst w') = pp_data (ew_dst w) @ frames C (ew_key w) (ew_counter w) ps"
    using pipe_end.write_all_frames [OF w(2)] by blast
  obtain w'' where "close_times pipe_write closes w' = (None, w'')"
    "pp_data (ew_dst w'') = pp_data (ew_dst w') @ concat (replicate closes eof_frame)"
    using close_times_eofs [OF w'(2)] by blast
  with w w' show ?thesis by (simp add: encrypt_run_def Let_def)
qed

lemma decrypt_run_eq:
  assumes "argon_ok C" "16 \<le> length src" "0 < n"
    and "length (fst (dec_frames C (deriveKey C mk (take 16 src)) (drop 16 src))) + length src < fuel"
  shows "decrypt_run C mk fuel n src =
    Some (dec_frames C (deriveKey C mk (take 16 src)) (drop 16 src))"
proof -
  let ?r = "\<lparr>dr_src = drop 16 src, dr_key = deriveKey C mk (take 16 src), dr_done = False,
             dr_buf = [], dr_pos = 0\<rparr>"
  have ds: "DecryptStream C mk src ''default'' = Inr ?r"
    using assms by (simp add: DecryptStream_def read_full_def)
  have todo: "dr_todo C ?r = dec_frames C (deriveKey C mk (take 16 src)) (drop 16 src)"
    by (simp add: dr_todo_def)
  then have "dr_budget C ?r < fuel" using assms(4) by (simp add: dr_budget_def)
  then have "io_copy (decryptReader_Read C) fuel n ?r = Some (dr_todo C ?r)"
    using dec.io_copy_todo assms(3) by blast
  with ds todo show ?thesis by (simp add: decrypt_run_def)
qed


text \<open>The whole way through the writer and back through the reader.\<close>

lemma stream_decodes:
  assumes "aead_ok C" "argon_ok C" "small_writes ps" "0 < n"
  shows "\<exists>s. encrypt_run C mk ps (Suc k) r = Inr s \<and>
    decrypt_run C mk (Suc (extra + length (concat ps) + length s)) n s = Some (concat ps, EOF)"
proof -
  let ?salt = "fst (rand_read 16 r)" let ?key = "deriveKey C mk ?salt"
  let ?s = "?salt @ frames C ?key 1 ps @ eof_frame @ concat (replicate k eof_frame)"
  have e: "encrypt_run C mk ps (Suc k) r = Inr ?s"
    using encrypt_run_eq [OF assms(2)] by (simp add: Let_def)
  have d: "dec_frames C ?key (frames C ?key 1 ps @ eof_frame @ concat (replicate k eof_frame)) =
      (concat ps, EOF)"
    using dec_frames_frames [OF assms(1,3)] by (simp add: dec_frames_eof)
  have "decrypt_run C mk (Suc (extra + length (concat ps) + length ?s)) n ?s = Some (concat ps, EOF)"
    using decrypt_run_eq [OF assms(2) _ assms(4), of ?s mk] d by (simp add: rand_read_length)
  with e show ?thesis by blast
qed

section \<open>A concrete library for the witnesses\<close>

text \<open>Enough structure to satisfy the documented laws: a plaintext followed by a 16-byte tag, a
  constant key, and a 32-byte digest made of the first bytes.\<close>

definition demo_crypto :: crypto where
  "demo_crypto = \<lparr>
     x_argon2 = (\<lambda>pw salt t m th n. replicate n 7),
     x_sha256 = (\<lambda>bs. take 32 (bs @ replicate 32 0)),
     x_seal = (\<lambda>k n p. p @ replicate 16 9),
     x_open = (\<lambda>k n c. if 16 \<le> length c \<and> drop (length c - 16) c = replicate 16 9
       then Inr (take (length c - 16) c) else Inl ''cipher: message authentication failed'')\<rparr>"

lemma demo_crypto_ok [simp]: "aead_ok demo_crypto" "argon_ok demo_crypto"
  by (simp_all add: aead_ok_def argon_ok_def demo_crypto_def)

section \<open>Properties\<close>

text \<open>Claim C1. Round trip of the framed stream: what \<open>EncryptStream\<close> and any sequence of
  \<open>Write\<close> calls (each below the 32-bit frame length) and at least one \<open>Close\<close> put on the
  pipe, \<open>DecryptStream\<close> read through \<open>io.Copy\<close> with any buffer size gives back in full and
  without error.\<close>

theorem stream_roundtrip:
  assumes "aead_ok C" "argon_ok C" "small_writes ps" "0 < n"
  shows "\<exists>s. encrypt_run C mk ps (Suc k) r = Inr s \<and>
    decrypt_run C mk (Suc (extra + length (concat ps) + length s)) n s = Some (concat ps, EOF)"
  using assms by (rule stream_decodes)

theorem stream_roundtrip_witness:
  "\<exists>s. encrypt_run demo_crypto [1] [[1, 2], [], [3]] (Suc 1) (\<lambda>_. 0) = Inr s \<and>
    decrypt_run demo_crypto [1] (Suc (0 + length (concat [[1, 2], [], [3 :: 8 word]]) + length s)) 2 s =
      Some ([1, 2, 3], EOF)"
  using stream_roundtrip [of demo_crypto "[[1, 2], [], [3]]" 2 "[1]" 1 "\<lambda>_. 0" 0]
  by simp

text \<open>Claim C2. Truncation is detected: a stream cut anywhere before its end marker is complete
  yields the plaintext of some leading writes and then an error, never a clean end.\<close>

theorem stream_truncation_detected:
  assumes "aead_ok C" "argon_ok C" "small_writes ps" "0 < n"
    and "encrypt_run C mk ps 1 r = Inr s" "m < length s"
  shows "\<exists>fuel k e. decrypt_run C mk fuel n (take m s) = Some (concat (take k ps), RErr e)"
proof -
  let ?salt = "fst (rand_read 16 r)" let ?key = "deriveKey C mk ?salt"
  let ?rest = "frames C ?key 1 ps @ eof_frame"
  have s: "s = ?salt @ ?rest" using encrypt_run_eq [OF assms(2)] assms(5) by (simp add: Let_def)
  show ?thesis
  proof (cases "m < 16")
    case True
    then have "\<exists>e. DecryptStream C mk (take m s) ''default'' = Inl e"
      by (simp add: DecryptStream_def read_full_def min_less_iff_disj)
    then obtain e where "decrypt_run C mk 0 n (take m s) = Some (concat (take 0 ps), RErr e)"
      by (auto simp: decrypt_run_def)
    then show ?thesis by blast
  next
    case False
    then have t: "take m s = ?salt @ take (m - 16) ?rest" using s by simp
    have "m - 16 < length ?rest" using assms(6) s False by simp
    then obtain e k where d: "dec_frames C ?key (take (m - 16) ?rest) = (concat (take k ps), RErr e)"
      using dec_frames_cut [OF assms(1,3)] by blast
    let ?fuel = "Suc (length (concat (take k ps)) + length (take m s))"
    have "decrypt_run C mk ?fuel n (take m s) = Some (concat (take k ps), RErr e)"
      using decrypt_run_eq [OF assms(2) _ assms(4), of "take m s" mk ?fuel] d t by simp
    then show ?thesis by blast
  qed
qed

theorem stream_truncation_detected_witness:
  "\<exists>s. encrypt_run demo_crypto [1] [[1, 2], [3]] 1 (\<lambda>_. 0) = Inr s \<and> 40 < length s \<and>
    (\<exists>fuel k e. decrypt_run demo_crypto [1] fuel 8 (take 40 s) = Some (concat (take k [[1, 2], [3]]), RErr e))"
proof -
  obtain s where s: "encrypt_run demo_crypto [1] [[1, 2], [3]] 1 (\<lambda>_. 0) = Inr s" and "40 < length s"
    using encrypt_run_eq [OF demo_crypto_ok(2)]
    by (simp add: Let_def frame_def eof_frame_def demo_crypto_def)
  then show ?thesis
    using stream_truncation_detected [OF demo_crypto_ok _ _ s, of 8 40] by simp
qed



text \<open>Claim C40. The end of a stream is not authenticated: whoever can write the stored object can
  drop any number of trailing frames and append sixteen zero bytes, and the reader accepts the shortened
  plaintext without error.\<close>

theorem stream_end_forgeable:
  assumes "aead_ok C" "argon_ok C" "small_writes ps" "0 < n"
    and "encrypt_run C mk ps 1 r = Inr s"
  shows "\<exists>m fuel. decrypt_run C mk fuel n (take m s @ replicate 16 0) = Some (concat (take k ps), EOF)"
proof -
  let ?salt = "fst (rand_read 16 r)" let ?key = "deriveKey C mk ?salt"
  have frames_take: "\<exists>m. take m (frames C ?key c qs) = frames C ?key c (take k qs)" for k c qs
  proof (induction qs arbitrary: k c)
    case (Cons q qs)
    show ?case
    proof (cases k)
      case (Suc k')
      obtain m where "take m (frames C ?key (c + 1) qs) = frames C ?key (c + 1) (take k' qs)"
        using Cons.IH by blast
      then have "take (length (frame C ?key c q) + m) (frames C ?key c (q # qs)) =
          frames C ?key c (take k (q # qs))" using Suc by simp
      then show ?thesis by blast
    qed (auto intro: exI [of _ 0])
  qed simp
  obtain m where m: "take m (frames C ?key 1 ps) = frames C ?key 1 (take k ps)"
    using frames_take by blast
  let ?cut = "frames C ?key 1 (take k ps)"
  have s: "s = ?salt @ frames C ?key 1 ps @ eof_frame"
    using encrypt_run_eq [OF assms(2)] assms(5) by (simp add: Let_def)
  have "take (min m (length (frames C ?key 1 ps))) (frames C ?key 1 ps) = ?cut"
    using m by (cases "m \<le> length (frames C ?key 1 ps)") simp_all
  then have t: "take (16 + min m (length (frames C ?key 1 ps))) s = ?salt @ ?cut" using s by simp
  have "small_writes (take k ps)" using assms(3) by (auto simp: small_writes_def dest: in_set_takeD)
  then have d: "dec_frames C ?key (?cut @ eof_frame) = (concat (take k ps), EOF)"
    using dec_frames_frames [OF assms(1), of "take k ps" ?key 1 eof_frame]
      dec_frames_eof [of C ?key "[]"] by simp
  let ?src = "?salt @ ?cut @ eof_frame"
  have "decrypt_run C mk (Suc (length (concat (take k ps)) + length ?src)) n ?src =
      Some (concat (take k ps), EOF)"
    using decrypt_run_eq [OF assms(2) _ assms(4), of ?src mk] d by simp
  with t show ?thesis unfolding eof_frame_def by (metis append_assoc)
qed

theorem stream_end_forgeable_witness:
  "\<exists>s m fuel. encrypt_run demo_crypto [1] [[1, 2], [3]] 1 (\<lambda>_. 0) = Inr s \<and>
    decrypt_run demo_crypto [1] fuel 8 (take m s @ replicate 16 0) = Some ([1, 2], EOF)"
proof -
  obtain s where s: "encrypt_run demo_crypto [1] [[1, 2], [3]] 1 (\<lambda>_. 0) = Inr s"
    using encrypt_run_eq [OF demo_crypto_ok(2)] by (simp add: Let_def)
  then show ?thesis
    using stream_end_forgeable [OF demo_crypto_ok _ _ s, of 8 1] by auto
qed

text \<open>Blob encryption: \<open>Decrypt\<close> of what \<open>Encrypt\<close> produced is the plaintext
  under any random bytes, and an input without room for salt and nonce is rejected.\<close>

theorem blob_roundtrip:
  assumes "aead_ok C" "argon_ok C" "length data < 28"
  shows "(\<exists>ct. fst (Encrypt C mk pt kid r) = Inr ct \<and> length ct = length pt + 44 \<and>
      Decrypt C mk ct kid' = Inr pt) \<and>
    Decrypt C mk data kid = Inl ''ciphertext too short''"
proof -
  obtain salt nonce where "length salt = 16" "length nonce = 12"
    "fst (Encrypt C mk pt kid r) = Inr (salt @ nonce @ x_seal C (deriveKey C mk salt) nonce pt)"
    using Encrypt_layout [OF assms(2)] by blast
  then show ?thesis
    using assms Decrypt_layout [OF assms(2)] by (simp add: aead_okD) (simp add: Decrypt_def)
qed

theorem blob_roundtrip_witness:
  "(\<exists>ct. fst (Encrypt demo_crypto [1] [5, 6] ''default'' (\<lambda>_. 3)) = Inr ct \<and> length ct = length [5, 6 :: 8 word] + 44 \<and>
     Decrypt demo_crypto [1] ct ''default'' = Inr [5, 6]) \<and>
   Decrypt demo_crypto [1] [4] ''default'' = Inl ''ciphertext too short''"
  by (rule blob_roundtrip) simp_all

end
