(* ===== verification/World.thy ===== *)
theory World
  imports Encryption Schema_Invariant
begin

text \<open>
  The state the services act on and the code they call outside the repository. A \<open>world\<close>
  holds the database, the random source, the clock and the UUID generator (as streams that are
  consumed from the front), the state of the object store and the effects that leave the program:
  notifications handed to the notifier, child processes run and files written.

  The record \<open>ext\<close> collects the external functions as parameters: the cryptographic library,
  \<open>compress/gzip\<close>, the minio client, \<open>os/exec\<close> and \<open>time.Format\<close>. The laws the
  code relies on are the predicates \<open>gzip_ok\<close> and \<open>store_ok\<close>.
\<close>

section \<open>External functions\<close>

text \<open>\<open>exec.Cmd\<close>: program, arguments and the environment added to the parent's.\<close>

record cmd =
  cmd_name :: string
  cmd_args :: "string list"
  cmd_env :: "string list"

text \<open>What happens when a dump command is run with its stdout piped.\<close>

record dump_outcome =
  do_pipe_err :: "gerror option" \<comment> \<open>\<open>StdoutPipe\<close>\<close>
  do_start_err :: "gerror option" \<comment> \<open>\<open>Start\<close>\<close>
  do_stdout :: bytes \<comment> \<open>what can be read\<close>
  do_read_err :: "gerror option" \<comment> \<open>an error that ends reading, other than end of file\<close>
  do_wait_err :: "gerror option" \<comment> \<open>\<open>Wait\<close>: exit status\<close>

text \<open>The minio client, on an abstract store state \<open>'s\<close>. \<open>os_get\<close> is \<open>GetObject\<close>
  followed by reading the object: an immediate error, or the bytes read and the error that ended
  the reading.\<close>

record 's object_store =
  os_new :: "storage_config \<Rightarrow> gerror option"
  os_put :: "storage_config \<Rightarrow> string \<Rightarrow> bytes \<Rightarrow> 's \<Rightarrow> gerror option \<times> 's"
  os_get :: "storage_config \<Rightarrow> string \<Rightarrow> 's \<Rightarrow> (bytes \<times> gerror option) res"
  os_remove :: "storage_config \<Rightarrow> string \<Rightarrow> 's \<Rightarrow> gerror option \<times> 's"
  os_list :: "storage_config \<Rightarrow> string \<Rightarrow> 's \<Rightarrow> string res list"
  os_bucket :: "storage_config \<Rightarrow> 's \<Rightarrow> bool res"
  os_stat :: "storage_config \<Rightarrow> string \<Rightarrow> 's \<Rightarrow> (string \<times> gerror) option" \<comment> \<open>error code and text\<close>

record 's ext =
  x_crypto :: crypto
  x_gzip :: "bytes \<Rightarrow> bytes list" \<comment> \<open>the writes a \<open>gzip.Writer\<close> makes for an input, \<open>Close\<close> included\<close>
  x_gunzip_new :: "bytes \<Rightarrow> gerror option" \<comment> \<open>\<open>gzip.NewReader\<close>\<close>
  x_gunzip :: "bytes \<Rightarrow> bytes res" \<comment> \<open>reading a \<open>gzip.Reader\<close> to its end\<close>
  x_store :: "'s object_store"
  x_format :: "int \<Rightarrow> string" \<comment> \<open>\<open>Format(\"20060102-150405\")\<close>\<close>
  x_json :: "(string \<times> string) list \<Rightarrow> string" \<comment> \<open>\<open>json.Marshal\<close> of a string map\<close>
  x_lookpath :: "string \<Rightarrow> bool" \<comment> \<open>\<open>exec.LookPath\<close> finds the program\<close>
  x_dump :: "cmd \<Rightarrow> int \<Rightarrow> dump_outcome" \<comment> \<open>a dump started at a time\<close>
  x_run :: "cmd \<Rightarrow> bytes \<Rightarrow> int \<Rightarrow> gerror option \<times> string" \<comment> \<open>\<open>Run\<close> with stdin, at a time: error, stderr\<close>

text \<open>Decompressing what the compressor wrote gives the input back; it hands its output on in pieces
  whose length fits a frame.\<close>

definition gzip_ok :: "'s ext \<Rightarrow> bool" where
  "gzip_ok X \<longleftrightarrow> (\<forall>d. x_gunzip_new X (concat (x_gzip X d)) = None \<and>
     x_gunzip X (concat (x_gzip X d)) = Inr d \<and> small_writes (x_gzip X d))"

text \<open>A successful \<open>PutObject\<close> makes the object readable in full under the same configuration,
  other keys of the bucket keep their state, and a read has no effect on the store.\<close>

definition store_ok :: "'s object_store \<Rightarrow> bool" where
  "store_ok S \<longleftrightarrow> (\<forall>cfg key bs s s'. os_put S cfg key bs s = (None, s') \<longrightarrow>
     os_get S cfg key s' = Inr (bs, None) \<and> (\<forall>k. k \<noteq> key \<longrightarrow> os_get S cfg k s' = os_get S cfg k s))"

definition sha_ok :: "crypto \<Rightarrow> bool" where
  "sha_ok C \<longleftrightarrow> (\<forall>x. length (x_sha256 C x) = 32)"

lemma gzip_okD: "gzip_ok X \<Longrightarrow> x_gunzip_new X (concat (x_gzip X d)) = None"
  "gzip_ok X \<Longrightarrow> x_gunzip X (concat (x_gzip X d)) = Inr d"
  "gzip_ok X \<Longrightarrow> small_writes (x_gzip X d)"
  by (simp_all add: gzip_ok_def)

lemma store_okD:
  assumes "store_ok S" "os_put S cfg key bs s = (None, s')"
  shows "os_get S cfg key s' = Inr (bs, None)" and "k \<noteq> key \<Longrightarrow> os_get S cfg k s' = os_get S cfg k s"
  using assms by (simp_all add: store_ok_def)

section \<open>The world\<close>

text \<open>The arguments of one \<open>NotifyBackupResult\<close> call.\<close>

record notify_call =
  nc_targets :: "string list"
  nc_backup :: string
  nc_db :: string
  nc_dbtype :: string
  nc_status :: string
  nc_size :: int
  nc_duration :: int
  nc_log :: string

record 's world =
  w_db :: db
  w_rng :: rng
  w_clock :: "nat \<Rightarrow> int"
  w_uuids :: "nat \<Rightarrow> string"
  w_store :: 's
  w_notes :: "notify_call list"
  w_runs :: "(cmd \<times> bytes) list"
  w_files :: "string \<rightharpoonup> string"

definition on_db :: "(db \<Rightarrow> 'a \<times> db) \<Rightarrow> 's world \<Rightarrow> 'a \<times> 's world" where
  "on_db f w = (case f (w_db w) of (x, d) \<Rightarrow> (x, w\<lparr>w_db := d\<rparr>))"

definition on_rng :: "(rng \<Rightarrow> 'a \<times> rng) \<Rightarrow> 's world \<Rightarrow> 'a \<times> 's world" where
  "on_rng f w = (case f (w_rng w) of (x, r) \<Rightarrow> (x, w\<lparr>w_rng := r\<rparr>))"

definition time_now :: "'s world \<Rightarrow> int \<times> 's world" where
  "time_now w = (w_clock w 0, w\<lparr>w_clock := (\<lambda>n. w_clock w (Suc n))\<rparr>)"

definition uuid_new :: "'s world \<Rightarrow> string \<times> 's world" where
  "uuid_new w = (w_uuids w 0, w\<lparr>w_uuids := (\<lambda>n. w_uuids w (Suc n))\<rparr>)"

text \<open>Sequencing of fallible operations: the first error is returned.\<close>

definition and_then :: "'a res \<times> 'w \<Rightarrow> ('a \<Rightarrow> 'w \<Rightarrow> 'b res \<times> 'w) \<Rightarrow> 'b res \<times> 'w" where
  "and_then p f = (case p of (Inl e, w) \<Rightarrow> (Inl e, w) | (Inr x, w) \<Rightarrow> f x w)"

lemma and_then_simps [simp]:
  "and_then (Inl e, w) f = (Inl e, w)" "and_then (Inr x, w) f = f x w"
  by (simp_all add: and_then_def)

text \<open>Case rules: an operation that only used the database, or nothing but the clock.\<close>

lemma on_db_fields [simp]:
  "w_db (snd (on_db f w)) = snd (f (w_db w))" "w_rng (snd (on_db f w)) = w_rng w"
  "w_clock (snd (on_db f w)) = w_clock w" "w_uuids (snd (on_db f w)) = w_uuids w"
  "w_store (snd (on_db f w)) = w_store w" "w_notes (snd (on_db f w)) = w_notes w"
  "w_runs (snd (on_db f w)) = w_runs w" "fst (on_db f w) = fst (f (w_db w))"
  by (simp_all add: on_db_def split: prod.splits)

lemma on_rng_fields [simp]:
  "w_db (snd (on_rng g w)) = w_db w" "w_rng (snd (on_rng g w)) = snd (g (w_rng w))"
  "w_store (snd (on_rng g w)) = w_store w" "fst (on_rng g w) = fst (g (w_rng w))"
  "w_uuids (snd (on_rng g w)) = w_uuids w" "w_clock (snd (on_rng g w)) = w_clock w"
  by (simp_all add: on_rng_def split: prod.splits)

lemma time_now_fields [simp]:
  "w_db (snd (time_now w)) = w_db w" "w_store (snd (time_now w)) = w_store w"
  "w_uuids (snd (time_now w)) = w_uuids w" "w_notes (snd (time_now w)) = w_notes w"
  "w_runs (snd (time_now w)) = w_runs w" "w_rng (snd (time_now w)) = w_rng w"
  by (simp_all add: time_now_def)

lemma uuid_new_fields [simp]:
  "w_db (snd (uuid_new w)) = w_db w" "w_store (snd (uuid_new w)) = w_store w"
  "w_clock (snd (uuid_new w)) = w_clock w" "w_notes (snd (uuid_new w)) = w_notes w"
  "w_runs (snd (uuid_new w)) = w_runs w" "w_rng (snd (uuid_new w)) = w_rng w"
  by (simp_all add: uuid_new_def)

text \<open>\<open>w\<close> and \<open>w'\<close> differ at most in how much of the fault script was consumed.\<close>

definition read_only :: "'s world \<Rightarrow> 's world \<Rightarrow> bool" where
  "read_only w w' \<longleftrightarrow> same_tables (w_db w) (w_db w') \<and> w' = w\<lparr>w_db := w_db w'\<rparr>"

lemma read_only_refl [simp]: "read_only w w"
  by (simp add: read_only_def)

lemma read_only_trans: "read_only a b \<Longrightarrow> read_only b c \<Longrightarrow> read_only a c"
  unfolding read_only_def by (metis same_tables_trans world.surjective world.update_convs(1))

lemma read_only_fields:
  assumes "read_only w w'"
  shows "same_tables (w_db w) (w_db w')" "w_rng w' = w_rng w" "w_clock w' = w_clock w"
    "w_uuids w' = w_uuids w" "w_store w' = w_store w" "w_notes w' = w_notes w" "w_runs w' = w_runs w" "w_files w' = w_files w"
  using assms by (cases w; cases w'; simp add: read_only_def)+

lemma on_db_read_only:
  assumes "\<And>d. same_tables d (snd (f d))"
  shows "read_only w (snd (on_db f w))"
  using assms [of "w_db w"] by (auto simp: read_only_def on_db_def split: prod.splits)

lemma wrap_query_same [simp]: "same_tables d (snd (wrap_err ctx (db_query q d)))"
  by simp

lemma and_then_reads:
  assumes "read_only w (snd p)" "\<And>x w1. read_only w w1 \<Longrightarrow> p = (Inr x, w1) \<Longrightarrow> read_only w (snd (f x w1))"
  shows "read_only w (snd (and_then p f))"
  using assms by (cases p; cases "fst p") auto

lemma and_then_result: "and_then p f = (Inr y, w') \<Longrightarrow> \<exists>x w. p = (Inr x, w) \<and> f x w = (Inr y, w')"
  by (cases p; cases "fst p") auto

lemma wrap_err_result: "wrap_err ctx p = (Inr x, w) \<Longrightarrow> p = (Inr x, w)"
  by (cases p; cases "fst p") auto

lemma on_db_result: "on_db f w = (Inr x, w') \<Longrightarrow> \<exists>d'. f (w_db w) = (Inr x, d') \<and> w' = w\<lparr>w_db := d'\<rparr>"
  by (auto simp: on_db_def split: prod.splits)

lemma on_db_step: "on_db f w = (x, w') \<Longrightarrow> (\<And>d. same_tables d (snd (f d))) \<Longrightarrow> same_tables (w_db w) (w_db w')"
  by (auto simp: on_db_def split: prod.splits) (metis snd_conv)

section \<open>A concrete environment for the witnesses\<close>

text \<open>An object store as a map; identity compression behind a one-byte header; commands that always
  succeed and dump three bytes.\<close>

definition demo_store :: "(string \<times> string \<Rightarrow> bytes option) object_store" where
  "demo_store = \<lparr>
     os_new = (\<lambda>cfg. None),
     os_put = (\<lambda>cfg key bs s. (None, s((cfg_Bucket cfg, key) := Some bs))),
     os_get = (\<lambda>cfg key s. case s (cfg_Bucket cfg, key) of
        None \<Rightarrow> Inr ([], Some ''The specified key does not exist.'') | Some bs \<Rightarrow> Inr (bs, None)),
     os_remove = (\<lambda>cfg key s. (None, s((cfg_Bucket cfg, key) := None))),
     os_list = (\<lambda>cfg prefix s. []),
     os_bucket = (\<lambda>cfg s. Inr True),
     os_stat = (\<lambda>cfg key s. if s (cfg_Bucket cfg, key) = None then Some (''NoSuchKey'', ''no such key'') else None)\<rparr>"

definition demo_ext :: "(string \<times> string \<Rightarrow> bytes option) ext" where
  "demo_ext = \<lparr>
     x_crypto = demo_crypto,
     x_gzip = (\<lambda>d. [31] # map (\<lambda>b. [b]) d),
     x_gunzip_new = (\<lambda>z. if z = [] \<or> hd z \<noteq> 31 then Some ''gzip: invalid header'' else None),
     x_gunzip = (\<lambda>z. Inr (tl z)),
     x_store = demo_store,
     x_format = (\<lambda>t. fmt_d t),
     x_json = (\<lambda>m. ''{}''),
     x_lookpath = (\<lambda>p. False),
     x_dump = (\<lambda>c t. \<lparr>do_pipe_err = None, do_start_err = None, do_stdout = [10, 20, 30],
        do_read_err = None, do_wait_err = None\<rparr>),
     x_run = (\<lambda>c i t. (None, []))\<rparr>"

lemma demo_ext_fields [simp]:
  "x_crypto demo_ext = demo_crypto" "x_store demo_ext = demo_store"
  by (simp_all add: demo_ext_def)

lemma demo_ext_dump: "x_dump demo_ext c t = \<lparr>do_pipe_err = None, do_start_err = None, do_stdout = [10, 20, 30],
    do_read_err = None, do_wait_err = None\<rparr>"
  by (simp add: demo_ext_def)

lemma demo_ext_ok [simp]: "gzip_ok demo_ext" "store_ok demo_store" "sha_ok demo_crypto"
  by (auto simp: gzip_ok_def store_ok_def sha_ok_def demo_ext_def demo_store_def demo_crypto_def
      small_writes_def concat_map_singleton)

end
