(* ===== verification/Storage.thy ===== *)
theory Storage
  imports World Repo_Catalog
begin

text \<open>
  \<open>internal/storage\<close>: encryption of provider credentials at rest (\<open>crypto.go\<close>), the
  provider service with masking (\<open>provider_service.go\<close>), the S3 client (\<open>s3.go\<close>), and the
  \<open>ProviderService\<close> interface the backup and restore services look providers up through, as
  the locale \<open>provider_lookup\<close>.
\<close>

section \<open>Credential encryption\<close>

definition NewCredentialEncryptor :: "crypto \<Rightarrow> string \<Rightarrow> bytes" where
  "NewCredentialEncryptor C masterKey =
     (let k = (if masterKey = [] then ''jagad-default-credential-key'' else masterKey)
      in x_sha256 C (bytes_of_string k))"

definition Credential_Encrypt :: "crypto \<Rightarrow> bytes \<Rightarrow> bytes \<Rightarrow> rng \<Rightarrow> bytes res \<times> rng" where
  "Credential_Encrypt C key plaintext r =
     (case aes_new_cipher key of
        Some e \<Rightarrow> (Inl (''aes new cipher: '' @ e), r)
      | None \<Rightarrow> (let (nonce, r') = rand_read 12 r; ciphertext = x_seal C key nonce plaintext
                 in (Inr (nonce @ ciphertext), r')))"

definition Credential_Decrypt :: "crypto \<Rightarrow> bytes \<Rightarrow> bytes \<Rightarrow> bytes res" where
  "Credential_Decrypt C key data =
     (case aes_new_cipher key of
        Some e \<Rightarrow> Inl (''aes new cipher: '' @ e)
      | None \<Rightarrow>
          if length data < 12 then Inl ''ciphertext too short''
          else let nonce = take 12 data; ciphertext = drop 12 data
               in case x_open C key nonce ciphertext of
                    Inl e \<Rightarrow> Inl (''decrypt: '' @ e) | Inr plaintext \<Rightarrow> Inr plaintext)"

definition MustEncrypt :: "crypto \<Rightarrow> bytes \<Rightarrow> bytes \<Rightarrow> rng \<Rightarrow> bytes \<times> rng" where
  "MustEncrypt C key plaintext r =
     (if plaintext = [] then ([], r)
      else case Credential_Encrypt C key plaintext r of
             (Inl e, r') \<Rightarrow> (plaintext, r') | (Inr enc, r') \<Rightarrow> (enc, r'))"

definition MustDecrypt :: "crypto \<Rightarrow> bytes \<Rightarrow> bytes \<Rightarrow> bytes" where
  "MustDecrypt C key data =
     (if data = [] then []
      else case Credential_Decrypt C key data of Inl e \<Rightarrow> data | Inr dec \<Rightarrow> dec)"

lemma credential_key_length: "sha_ok C \<Longrightarrow> aes_new_cipher (NewCredentialEncryptor C mk) = None"
  by (simp add: NewCredentialEncryptor_def Let_def sha_ok_def aes_new_cipher_def)

lemma MustDecrypt_MustEncrypt:
  assumes "aead_ok C" "aes_new_cipher key = None"
  shows "MustDecrypt C key (fst (MustEncrypt C key pt r)) = pt"
proof (cases "pt = []")
  case True
  then show ?thesis by (simp add: MustEncrypt_def MustDecrypt_def)
next
  case False
  obtain nonce r' where n: "rand_read 12 r = (nonce, r')" by fastforce
  then have l: "length nonce = 12" by (metis fst_conv rand_read_length)
  with False n assms(2) have "fst (MustEncrypt C key pt r) = nonce @ x_seal C key nonce pt"
    by (simp add: MustEncrypt_def Credential_Encrypt_def)
  moreover have "nonce \<noteq> []" using l by auto
  ultimately show ?thesis
    using assms l by (simp add: MustDecrypt_def Credential_Decrypt_def aead_okD)
qed

lemma MustEncrypt_empty [simp]: "MustEncrypt C key [] r = ([], r)"
  by (simp add: MustEncrypt_def)

section \<open>S3 client\<close>

text \<open>The client is the configuration it was made with.\<close>

definition NewS3Client :: "'s ext \<Rightarrow> storage_config \<Rightarrow> storage_config res" where
  "NewS3Client X cfg =
     (if cfg_Bucket cfg = [] then Inl ''bucket name is required''
      else case os_new (x_store X) cfg of
             Some e \<Rightarrow> Inl (''create s3 client: '' @ e) | None \<Rightarrow> Inr cfg)"

definition S3_UploadStream :: "'s ext \<Rightarrow> storage_config \<Rightarrow> string \<Rightarrow> bytes \<Rightarrow> 's world \<Rightarrow> gerror option \<times> 's world" where
  "S3_UploadStream X cfg key content w =
     (case os_put (x_store X) cfg key content (w_store w) of
        (Some e, s) \<Rightarrow> (Some (''s3 upload stream '' @ key @ '': '' @ e), w\<lparr>w_store := s\<rparr>)
      | (None, s) \<Rightarrow> (None, w\<lparr>w_store := s\<rparr>))"

definition S3_Upload :: "'s ext \<Rightarrow> storage_config \<Rightarrow> string \<Rightarrow> bytes \<Rightarrow> 's world \<Rightarrow> gerror option \<times> 's world" where
  "S3_Upload X cfg key content w =
     (case os_put (x_store X) cfg key content (w_store w) of
        (Some e, s) \<Rightarrow> (Some (''s3 upload '' @ key @ '': '' @ e), w\<lparr>w_store := s\<rparr>)
      | (None, s) \<Rightarrow> (None, w\<lparr>w_store := s\<rparr>))"

text \<open>What was written to the writer before the copy ended, and the error.\<close>

definition S3_Download :: "'s ext \<Rightarrow> storage_config \<Rightarrow> string \<Rightarrow> 's world \<Rightarrow> bytes \<times> gerror option" where
  "S3_Download X cfg key w =
     (case os_get (x_store X) cfg key (w_store w) of
        Inl e \<Rightarrow> ([], Some (''s3 get '' @ key @ '': '' @ e))
      | Inr (bs, Some e) \<Rightarrow> (bs, Some (''s3 download '' @ key @ '': '' @ e))
      | Inr (bs, None) \<Rightarrow> (bs, None))"

definition S3_Delete :: "'s ext \<Rightarrow> storage_config \<Rightarrow> string \<Rightarrow> 's world \<Rightarrow> gerror option \<times> 's world" where
  "S3_Delete X cfg key w =
     (case os_remove (x_store X) cfg key (w_store w) of
        (Some e, s) \<Rightarrow> (Some (''s3 delete '' @ key @ '': '' @ e), w\<lparr>w_store := s\<rparr>)
      | (None, s) \<Rightarrow> (None, w\<lparr>w_store := s\<rparr>))"

fun list_keys :: "string \<Rightarrow> string list \<Rightarrow> string res list \<Rightarrow> string list res" where
  "list_keys prefix keys [] = Inr keys"
| "list_keys prefix keys (Inl e # os) = Inl (''s3 list '' @ prefix @ '': '' @ e)"
| "list_keys prefix keys (Inr k # os) = list_keys prefix (keys @ [k]) os"

definition S3_List :: "'s ext \<Rightarrow> storage_config \<Rightarrow> string \<Rightarrow> 's world \<Rightarrow> string list res" where
  "S3_List X cfg prefix w = list_keys prefix [] (os_list (x_store X) cfg prefix (w_store w))"

definition S3_BucketExists :: "'s ext \<Rightarrow> storage_config \<Rightarrow> 's world \<Rightarrow> gerror option" where
  "S3_BucketExists X cfg w =
     (case os_bucket (x_store X) cfg (w_store w) of
        Inl e \<Rightarrow> Some (''bucket check: '' @ e)
      | Inr False \<Rightarrow> Some (''bucket \"'' @ cfg_Bucket cfg @ ''\" does not exist'')
      | Inr True \<Rightarrow> None)"

definition S3_Exists :: "'s ext \<Rightarrow> storage_config \<Rightarrow> string \<Rightarrow> 's world \<Rightarrow> bool res" where
  "S3_Exists X cfg key w =
     (case os_stat (x_store X) cfg key (w_store w) of
        None \<Rightarrow> Inr True
      | Some (code, e) \<Rightarrow> if code = ''NoSuchKey'' \<or> code = ''NotFound'' then Inr False else Inl e)"

lemma S3_Upload_fields:
  assumes "S3_UploadStream X cfg key content w = (e, w')"
  shows "w_db w' = w_db w" "w_rng w' = w_rng w" "w_clock w' = w_clock w" "w_uuids w' = w_uuids w"
    "w_notes w' = w_notes w" "w_runs w' = w_runs w"
  using assms by (auto simp: S3_UploadStream_def split: prod.splits option.splits)

lemma S3_Upload_Download:
  assumes "store_ok (x_store X)" "S3_UploadStream X cfg key content w = (None, w')"
  shows "S3_Download X cfg key w' = (content, None)"
    and "k \<noteq> key \<Longrightarrow> S3_Download X cfg k w' = S3_Download X cfg k w"
  using assms store_okD [OF assms(1)]
  by (auto simp: S3_UploadStream_def S3_Download_def split: prod.splits option.splits)

section \<open>Provider service\<close>

type_synonym provider_svc = bytes \<comment> \<open>the key of its \<open>CredentialEncryptor\<close>\<close>

definition NewProviderService :: "'s ext \<Rightarrow> string \<Rightarrow> provider_svc" where
  "NewProviderService X masterKey = NewCredentialEncryptor (x_crypto X) masterKey"

definition decrypted :: "'s ext \<Rightarrow> provider_svc \<Rightarrow> string \<Rightarrow> string" where
  "decrypted X svc s = string_of_bytes (MustDecrypt (x_crypto X) svc (bytes_of_string s))"

definition encrypted :: "'s ext \<Rightarrow> provider_svc \<Rightarrow> string \<Rightarrow> rng \<Rightarrow> string \<times> rng" where
  "encrypted X svc s r =
     (case MustEncrypt (x_crypto X) svc (bytes_of_string s) r of (bs, r') \<Rightarrow> (string_of_bytes bs, r'))"

definition masked :: "'s ext \<Rightarrow> provider_svc \<Rightarrow> provider \<Rightarrow> provider" where
  "masked X svc p = p\<lparr>p_AccessKey := decrypted X svc (p_AccessKey p), p_SecretKey := secret_mask\<rparr>"

definition unsealed :: "'s ext \<Rightarrow> provider_svc \<Rightarrow> provider \<Rightarrow> provider" where
  "unsealed X svc p = p\<lparr>p_AccessKey := decrypted X svc (p_AccessKey p),
     p_SecretKey := decrypted X svc (p_SecretKey p)\<rparr>"

definition ProviderService_List :: "'s ext \<Rightarrow> provider_svc \<Rightarrow> 's world \<Rightarrow> provider list res \<times> 's world" where
  "ProviderService_List X svc w = and_then (on_db StorageProviderRepo_List w)
     (\<lambda>ps w. (Inr (map (masked X svc) ps), w))"

definition ProviderService_GetByID ::
  "'s ext \<Rightarrow> provider_svc \<Rightarrow> string \<Rightarrow> 's world \<Rightarrow> provider option res \<times> 's world" where
  "ProviderService_GetByID X svc i w = and_then (on_db (StorageProviderRepo_GetByID i) w)
     (\<lambda>p w. case p of None \<Rightarrow> (Inr None, w) | Some p \<Rightarrow> (Inr (Some (masked X svc p)), w))"

definition GetDecrypted ::
  "'s ext \<Rightarrow> provider_svc \<Rightarrow> string \<Rightarrow> 's world \<Rightarrow> provider option res \<times> 's world" where
  "GetDecrypted X svc i w = and_then (on_db (StorageProviderRepo_GetByID i) w)
     (\<lambda>p w. case p of None \<Rightarrow> (Inr None, w) | Some p \<Rightarrow> (Inr (Some (unsealed X svc p)), w))"

definition GetDefault :: "'s ext \<Rightarrow> provider_svc \<Rightarrow> 's world \<Rightarrow> provider option res \<times> 's world" where
  "GetDefault X svc w = and_then (on_db StorageProviderRepo_GetDefault w)
     (\<lambda>p w. case p of None \<Rightarrow> (Inr None, w) | Some p \<Rightarrow> (Inr (Some (masked X svc p)), w))"

definition ProviderService_Create ::
  "'s ext \<Rightarrow> provider_svc \<Rightarrow> provider \<Rightarrow> 's world \<Rightarrow> provider res \<times> 's world" where
  "ProviderService_Create X svc p w =
     (if p_Name p = [] then (Inl ''provider name is required'', w)
      else if p_Endpoint p = [] then (Inl ''endpoint is required'', w)
      else if p_Bucket p = [] then (Inl ''bucket is required'', w)
      else
        let p1 = p\<lparr>p_ProviderType := (if p_ProviderType p = [] then ''s3'' else p_ProviderType p),
                   p_Region := (if p_Region p = [] then ''auto'' else p_Region p)\<rparr>;
            (ak, w1) = on_rng (encrypted X svc (p_AccessKey p1)) w;
            (sk, w2) = on_rng (encrypted X svc (p_SecretKey p1)) w1;
            p2 = p1\<lparr>p_AccessKey := ak, p_SecretKey := sk\<rparr>
        in and_then (if p_IsDefault p2 then on_db (StorageProviderRepo_ClearDefault []) w2 else (Inr (), w2))
             (\<lambda>_ w3. let (i, w4) = uuid_new w3; (now, w5) = time_now w4
                in on_db (StorageProviderRepo_Create i now p2) w5))"

text \<open>A masked or empty credential keeps the stored one.\<close>

definition keep_or_encrypt ::
  "'s ext \<Rightarrow> provider_svc \<Rightarrow> string \<Rightarrow> string \<Rightarrow> 's world \<Rightarrow> string \<times> 's world" where
  "keep_or_encrypt X svc existing new w =
     (if new = secret_mask \<or> new = [] then (existing, w) else on_rng (encrypted X svc new) w)"

definition ProviderService_Update ::
  "'s ext \<Rightarrow> provider_svc \<Rightarrow> provider \<Rightarrow> 's world \<Rightarrow> provider res \<times> 's world" where
  "ProviderService_Update X svc p w =
     and_then (on_db (StorageProviderRepo_GetByID (p_ID p)) w) (\<lambda>existing w1.
       case existing of
         None \<Rightarrow> (Inl ''provider not found'', w1)
       | Some ex \<Rightarrow>
           let (ak, w2) = keep_or_encrypt X svc (p_AccessKey ex) (p_AccessKey p) w1;
               (sk, w3) = keep_or_encrypt X svc (p_SecretKey ex) (p_SecretKey p) w2;
               p1 = p\<lparr>p_AccessKey := ak, p_SecretKey := sk,
                      p_ProviderType := (if p_ProviderType p = [] then p_ProviderType ex else p_ProviderType p),
                      p_Region := (if p_Region p = [] then p_Region ex else p_Region p)\<rparr>
           in and_then (if p_IsDefault p1 then on_db (StorageProviderRepo_ClearDefault (p_ID p1)) w3 else (Inr (), w3))
                (\<lambda>_ w4. let (now, w5) = time_now w4
                   in and_then (on_db (StorageProviderRepo_Update now p1) w5)
                        (\<lambda>_ w6. (Inr (p1\<lparr>p_UpdatedAt := now\<rparr>), w6))))"

definition ProviderService_Delete :: "string \<Rightarrow> 's world \<Rightarrow> unit res \<times> 's world" where
  "ProviderService_Delete i w = on_db (StorageProviderRepo_Delete i) w"

definition provider_config :: "provider \<Rightarrow> storage_config" where
  "provider_config p = \<lparr>cfg_Endpoint = p_Endpoint p, cfg_Region = p_Region p, cfg_Bucket = p_Bucket p,
     cfg_AccessKey = p_AccessKey p, cfg_SecretKey = p_SecretKey p, cfg_PathStyle = p_PathStyle p\<rparr>"

definition TestConnection :: "'s ext \<Rightarrow> provider \<Rightarrow> 's world \<Rightarrow> gerror option" where
  "TestConnection X p w =
     (case NewS3Client X (provider_config p) of
        Inl e \<Rightarrow> Some (''create client: '' @ e)
      | Inr client \<Rightarrow>
          (case S3_BucketExists X client w of
             Some e \<Rightarrow> Some (''connection test failed: '' @ e) | None \<Rightarrow> None))"

definition CreateS3ClientFromProvider :: "'s ext \<Rightarrow> provider \<Rightarrow> storage_config res" where
  "CreateS3ClientFromProvider X p = NewS3Client X (provider_config p)"

text \<open>\<open>handleSetDefault\<close> of the provider handler, up to the HTTP response: the masked provider is
  read, marked and passed to \<open>Update\<close>.\<close>

definition handleSetDefault ::
  "'s ext \<Rightarrow> provider_svc \<Rightarrow> string \<Rightarrow> 's world \<Rightarrow> provider res \<times> 's world" where
  "handleSetDefault X svc i w =
     and_then (ProviderService_GetByID X svc i w) (\<lambda>p w1. case p of
         None \<Rightarrow> (Inl ''provider not found'', w1)
       | Some p \<Rightarrow> ProviderService_Update X svc (p\<lparr>p_IsDefault := True\<rparr>) w1)"

section \<open>Looking providers up\<close>

text \<open>The \<open>ProviderService\<close> interface of the backup and restore packages: \<open>GetDecrypted\<close> and
  \<open>GetDefault\<close> only read, and return what the provider table holds.\<close>

locale provider_lookup =
  fixes get_decrypted :: "string \<Rightarrow> 's world \<Rightarrow> provider option res \<times> 's world"
    and get_default :: "'s world \<Rightarrow> provider option res \<times> 's world"
    and named :: "string \<Rightarrow> db \<Rightarrow> provider option"
    and the_default :: "db \<Rightarrow> provider option"
  assumes named_same: "same_tables d d' \<Longrightarrow> named i d' = named i d"
    and default_same: "same_tables d d' \<Longrightarrow> the_default d' = the_default d"
    and get_decrypted_result: "get_decrypted i w = (Inr v, w') \<Longrightarrow> v = named i (w_db w)"
    and get_default_result: "get_default w = (Inr v, w') \<Longrightarrow> v = the_default (w_db w)"
    and get_decrypted_reads: "read_only w (snd (get_decrypted i w))"
    and get_default_reads: "read_only w (snd (get_default w))"
    and get_decrypted_no_faults: "faults (w_db w) = [] \<Longrightarrow> get_decrypted i w = (Inr (named i (w_db w)), w)"
    and get_default_no_faults: "faults (w_db w) = [] \<Longrightarrow> get_default w = (Inr (the_default (w_db w)), w)"

text \<open>\<open>resolveProvider\<close> of the backup service and of the restore service. They differ on an
  identifier that names no provider: an error for the first, the default for the second.\<close>

definition resolveProvider ::
  "(string \<Rightarrow> 's world \<Rightarrow> provider option res \<times> 's world) \<Rightarrow>
   ('s world \<Rightarrow> provider option res \<times> 's world) \<Rightarrow> string option \<Rightarrow> 's world \<Rightarrow> provider res \<times> 's world" where
  "resolveProvider getDecrypted getDefault providerID w =
     (case providerID of
        Some (c # cs) \<Rightarrow>
          and_then (wrap_err (''get storage provider '' @ (c # cs) @ '': '') (getDecrypted (c # cs) w))
            (\<lambda>p w. case p of None \<Rightarrow> (Inl (''storage provider '' @ (c # cs) @ '' not found''), w)
                   | Some p \<Rightarrow> (Inr p, w))
      | _ \<Rightarrow>
          and_then (wrap_err ''get default provider: '' (getDefault w))
            (\<lambda>p w. case p of None \<Rightarrow> (Inl (''no storage provider configured '' @ em_dash @
                              '' add one in Settings > Storage''), w)
                   | Some p \<Rightarrow> (Inr p, w)))"

definition restore_default ::
  "('s world \<Rightarrow> provider option res \<times> 's world) \<Rightarrow> 's world \<Rightarrow> provider res \<times> 's world" where
  "restore_default getDefault w =
     and_then (wrap_err ''get default provider: '' (getDefault w))
       (\<lambda>p w. case p of None \<Rightarrow> (Inl ''no storage provider configured'', w) | Some p \<Rightarrow> (Inr p, w))"

definition restore_resolveProvider ::
  "(string \<Rightarrow> 's world \<Rightarrow> provider option res \<times> 's world) \<Rightarrow>
   ('s world \<Rightarrow> provider option res \<times> 's world) \<Rightarrow> string option \<Rightarrow> 's world \<Rightarrow> provider res \<times> 's world" where
  "restore_resolveProvider getDecrypted getDefault providerID w =
     (case providerID of
        Some (c # cs) \<Rightarrow>
          and_then (wrap_err (''get storage provider '' @ (c # cs) @ '': '') (getDecrypted (c # cs) w))
            (\<lambda>p w. case p of Some p \<Rightarrow> (Inr p, w) | None \<Rightarrow> restore_default getDefault w)
      | _ \<Rightarrow> restore_default getDefault w)"

context provider_lookup
begin

lemma resolve_named:
  assumes "resolveProvider get_decrypted get_default (Some i) w = (Inr p, w')" "i \<noteq> []"
  shows "named i (w_db w) = Some p"
  using assms by (cases i)
    (auto simp: resolveProvider_def dest!: and_then_result wrap_err_result get_decrypted_result split: option.splits)

lemma resolve_default:
  assumes "resolveProvider get_decrypted get_default pid w = (Inr p, w')" "pid = None \<or> pid = Some []"
  shows "the_default (w_db w) = Some p"
  using assms
  by (auto simp: resolveProvider_def dest!: and_then_result wrap_err_result get_default_result split: option.splits)

lemma resolve_reads: "read_only w (snd (resolveProvider get_decrypted get_default pid w))"
proof -
  have "read_only w (snd (and_then (wrap_err ctx (get_decrypted i w)) (\<lambda>p w. case p of
      None \<Rightarrow> (Inl e, w) | Some p \<Rightarrow> (Inr p, w))))" for i ctx e
    by (rule and_then_reads) (auto simp: get_decrypted_reads split: option.splits)
  moreover have "read_only w (snd (and_then (wrap_err ctx (get_default w)) (\<lambda>p w. case p of
      None \<Rightarrow> (Inl e, w) | Some p \<Rightarrow> (Inr p, w))))" for ctx e
    by (rule and_then_reads) (auto simp: get_default_reads split: option.splits)
  ultimately show ?thesis by (simp add: resolveProvider_def split: option.splits list.splits)
qed

lemma restore_default_reads: "read_only w (snd (restore_default get_default w))"
  unfolding restore_default_def
  by (rule and_then_reads) (auto simp: get_default_reads split: option.splits)

lemma restore_resolve_reads: "read_only w (snd (restore_resolveProvider get_decrypted get_default pid w))"
proof -
  have "read_only w (snd (and_then (wrap_err ctx (get_decrypted i w)) (\<lambda>p w. case p of
      Some p \<Rightarrow> (Inr p, w) | None \<Rightarrow> restore_default get_default w)))" for i ctx
    by (rule and_then_reads)
      (auto simp: get_decrypted_reads split: option.splits intro: read_only_trans [OF _ restore_default_reads])
  then show ?thesis
    by (simp add: restore_resolveProvider_def restore_default_reads split: option.splits list.splits)
qed

lemma resolve_no_faults:
  assumes "faults (w_db w) = []" "i \<noteq> []" "named i (w_db w) = Some p"
  shows "resolveProvider get_decrypted get_default (Some i) w = (Inr p, w)"
    and "restore_resolveProvider get_decrypted get_default (Some i) w = (Inr p, w)"
  using assms by (cases i; simp add: resolveProvider_def restore_resolveProvider_def get_decrypted_no_faults)+

end

definition provider_view :: "string \<Rightarrow> db \<Rightarrow> provider option" where
  "provider_view i d = map_option scanProvider (row_find pr_id i (t_providers d))"

definition default_view :: "db \<Rightarrow> provider option" where
  "default_view d = map_option scanProvider (find (\<lambda>r. pr_is_default r = 1) (t_providers d))"

lemma GetByID_reads: "same_tables d (snd (StorageProviderRepo_GetByID i d))"
  by (simp add: StorageProviderRepo_GetByID_def)

lemma GetDefault_reads: "same_tables d (snd (StorageProviderRepo_GetDefault d))"
  by (simp add: StorageProviderRepo_GetDefault_def)

lemma GetDefault_view:
  "StorageProviderRepo_GetDefault d = (Inr v, d') \<Longrightarrow> v = default_view d"
  by (auto simp: StorageProviderRepo_GetDefault_def default_view_def dest!: wrapped_query dest: same_tables_fields)

lemma GetByID_view:
  "StorageProviderRepo_GetByID i d = (Inr v, d') \<Longrightarrow> v = provider_view i d"
  by (auto simp: StorageProviderRepo_GetByID_def provider_view_def dest!: wrapped_query dest: same_tables_fields)

interpretation providers_svc: provider_lookup "GetDecrypted X svc" "GetDefault X svc"
  "\<lambda>i d. map_option (unsealed X svc) (provider_view i d)" "\<lambda>d. map_option (masked X svc) (default_view d)"
proof (unfold_locales, goal_cases)
  case (1 d d' i)
  then show ?case by (simp add: provider_view_def same_tables_fields)
next
  case (2 d d')
  then show ?case by (simp add: default_view_def same_tables_fields)
next
  case (3 i w v w')
  then show ?case
    by (auto simp: GetDecrypted_def dest!: and_then_result on_db_result GetByID_view split: option.splits)
next
  case (4 w v w')
  then show ?case
    by (auto simp: GetDefault_def dest!: and_then_result on_db_result GetDefault_view split: option.splits)
next
  case (5 w i)
  show ?case unfolding GetDecrypted_def
    by (rule and_then_reads) (auto intro: on_db_read_only GetByID_reads split: option.splits)
next
  case (6 w)
  show ?case unfolding GetDefault_def
    by (rule and_then_reads) (auto intro: on_db_read_only GetDefault_reads split: option.splits)
next
  case (7 w i)
  then show ?case
    by (simp add: GetDecrypted_def on_db_def StorageProviderRepo_GetByID_def provider_view_def split: option.splits)
next
  case (8 w)
  then show ?case
    by (simp add: GetDefault_def on_db_def StorageProviderRepo_GetDefault_def default_view_def split: option.splits)
qed

section \<open>Operations on the provider table\<close>

lemma decrypted_encrypted:
  assumes "aead_ok (x_crypto X)" "sha_ok (x_crypto X)"
  shows "decrypted X (NewProviderService X mk) (fst (encrypted X (NewProviderService X mk) s r)) = s"
proof -
  let ?k = "NewProviderService X mk"
  have "aes_new_cipher ?k = None" using assms(2) by (simp add: NewProviderService_def credential_key_length)
  then have "MustDecrypt (x_crypto X) ?k (fst (MustEncrypt (x_crypto X) ?k (bytes_of_string s) r)) = bytes_of_string s"
    by (rule MustDecrypt_MustEncrypt [OF assms(1)])
  then show ?thesis by (auto simp: decrypted_def encrypted_def split: prod.splits)
qed

text \<open>A created provider is in the table as it was returned, its credentials encrypted.\<close>

lemma Create_stored:
  assumes "ProviderService_Create X svc p w = (Inr p', w')"
  obtains r1 r2 where "provider_view (p_ID p') (w_db w') = Some (scanProvider (provider_columns p'))"
    "p_AccessKey p' = fst (encrypted X svc (p_AccessKey p) r1)"
    "p_SecretKey p' = fst (encrypted X svc (p_SecretKey p) r2)"
    "p_Name p' = p_Name p" "p_Endpoint p' = p_Endpoint p" "p_Bucket p' = p_Bucket p"
proof -
  define p1 where "p1 = p\<lparr>p_ProviderType := (if p_ProviderType p = [] then ''s3'' else p_ProviderType p),
     p_Region := (if p_Region p = [] then ''auto'' else p_Region p)\<rparr>"
  obtain ak w1 where ak: "on_rng (encrypted X svc (p_AccessKey p1)) w = (ak, w1)" by fastforce
  obtain sk w2 where sk: "on_rng (encrypted X svc (p_SecretKey p1)) w1 = (sk, w2)" by fastforce
  define p2 where "p2 = p1\<lparr>p_AccessKey := ak, p_SecretKey := sk\<rparr>"
  have df: "p_IsDefault p1 = p_IsDefault p2" by (simp add: p2_def)
  have "and_then (if p_IsDefault p2 then on_db (StorageProviderRepo_ClearDefault []) w2 else (Inr (), w2))
      (\<lambda>_ w3. let (i, w4) = uuid_new w3; (now, w5) = time_now w4
         in on_db (StorageProviderRepo_Create i now p2) w5) = (Inr p', w')"
    using assms ak sk
    by (simp add: ProviderService_Create_def p1_def [symmetric] p2_def [symmetric] df split: if_splits)
  from and_then_result [OF this] obtain w3 where l: "(let (i, w4) = uuid_new w3; (now, w5) = time_now w4
      in on_db (StorageProviderRepo_Create i now p2) w5) = (Inr p', w')"
    by blast
  obtain i w4 where "uuid_new w3 = (i, w4)" by fastforce
  moreover obtain now w5 where "time_now w4 = (now, w5)" by fastforce
  ultimately have c: "on_db (StorageProviderRepo_Create i now p2) w5 = (Inr p', w')"
    using l by simp
  obtain d' where d': "StorageProviderRepo_Create i now p2 (w_db w5) = (Inr p', d')" "w_db w' = d'"
    using on_db_result [OF c] by auto
  then have p': "p' = fill_provider i now p2"
    unfolding StorageProviderRepo_Create_def Let_def by (auto elim: returning_exec_ok)
  moreover from this d' have "provider_view (p_ID p') (w_db w') = Some (scanProvider (provider_columns p'))"
    using provider_repo.create_view [OF TrueI d'(1)] by (simp add: provider_view_def fill_provider_def)
  moreover have "ak = fst (encrypted X svc (p_AccessKey p) (w_rng w))"
    "sk = fst (encrypted X svc (p_SecretKey p) (w_rng w1))"
    using ak sk by (metis fst_conv on_rng_fields(4) p1_def provider.select_convs(7,8) provider.surjective
        provider.update_convs(3,5))+
  ultimately show thesis
    by (intro that) (simp_all add: fill_provider_def p2_def p1_def)
qed

section \<open>At most one default\<close>

definition only_default :: "string \<Rightarrow> db \<Rightarrow> bool" where
  "only_default i d \<longleftrightarrow> (\<forall>r \<in> set (t_providers d). pr_is_default r = 1 \<longrightarrow> pr_id r = i)"

definition one_default :: "db \<Rightarrow> bool" where
  "one_default d \<longleftrightarrow> (\<forall>r \<in> set (t_providers d). \<forall>r' \<in> set (t_providers d).
     pr_is_default r = 1 \<longrightarrow> pr_is_default r' = 1 \<longrightarrow> pr_id r = pr_id r')"

definition ids_given :: "db \<Rightarrow> bool" where
  "ids_given d \<longleftrightarrow> (\<forall>r \<in> set (t_providers d). pr_id r \<noteq> [])"

text \<open>The invariant of the provider table; generated identifiers are never empty.\<close>

definition providers_ok :: "'s world \<Rightarrow> bool" where
  "providers_ok w \<longleftrightarrow> db_wf (w_db w) \<and> one_default (w_db w) \<and> ids_given (w_db w) \<and> (\<forall>n. w_uuids w n \<noteq> [])"

definition db_providers_ok :: "db \<Rightarrow> bool" where
  "db_providers_ok d \<longleftrightarrow> db_wf d \<and> one_default d \<and> ids_given d"

lemmas provider_inv_defs = only_default_def one_default_def ids_given_def db_providers_ok_def

lemma providers_ok_db: "providers_ok w \<longleftrightarrow> db_providers_ok (w_db w) \<and> (\<forall>n. w_uuids w n \<noteq> [])"
  by (auto simp: providers_ok_def db_providers_ok_def)

lemma db_providers_same: "same_tables d d' \<Longrightarrow> db_providers_ok d' = db_providers_ok d"
  by (simp add: provider_inv_defs db_wf_same same_tables_fields)

lemma db_providers_exec:
  assumes "db_providers_ok d" "\<And>d d'. db_providers_ok d \<Longrightarrow> x d = Inr d' \<Longrightarrow> db_providers_ok d'"
  shows "db_providers_ok (snd (db_exec x d))"
proof -
  obtain r d' where e: "db_exec x d = (r, d')" by fastforce
  show ?thesis
  proof (cases r)
    case (Inl err)
    with e assms(1) show ?thesis by (simp add: db_providers_same [OF db_exec_error])
  next
    case (Inr u)
    with e obtain d0 where "same_tables d d0" "x d0 = Inr d'" by (auto elim: db_exec_ok)
    then have "db_providers_ok d0" using assms(1) by (simp add: db_providers_same)
    then show ?thesis using assms(2) [OF _ \<open>x d0 = Inr d'\<close>] e by simp
  qed
qed

lemma one_default_iff: "one_default d \<longleftrightarrow> (\<exists>i. only_default i d)"
  unfolding one_default_def only_default_def by metis

lemma clear_default_ok:
  assumes "db_providers_ok d" "sql_clear_default e d = Inr d'"
  shows "db_providers_ok d' \<and> only_default e d'"
proof -
  have "only_default e d'" "ids_given d'"
    using assms by (auto simp: sql_clear_default_def provider_inv_defs split: if_splits)
  moreover have "db_wf d'" using assms wf_clear_default by (auto simp: db_providers_ok_def)
  ultimately show ?thesis by (auto simp: db_providers_ok_def one_default_iff)
qed

lemma insert_provider_ok:
  assumes "db_providers_ok d" "sql_insert_provider r d = Inr d'" "pr_is_default r = 1 \<Longrightarrow> only_default [] d" "pr_id r \<noteq> []"
  shows "db_providers_ok d'"
proof -
  have t: "t_providers d' = t_providers d @ [r]" using assms(2) by (auto simp: sql_insert_provider_def split: if_splits)
  obtain i where i: "only_default i d" using assms(1) by (auto simp: db_providers_ok_def one_default_iff)
  have g: "ids_given d" using assms(1) by (simp add: db_providers_ok_def)
  have "only_default (if pr_is_default r = 1 then pr_id r else i) d'"
    using i assms(3) g t by (auto simp: only_default_def ids_given_def)
  moreover have "db_wf d'" using assms(1,2) wf_insert_provider by (auto simp: db_providers_ok_def)
  moreover have "ids_given d'" using g t assms(4) by (auto simp: ids_given_def)
  ultimately show ?thesis unfolding db_providers_ok_def one_default_iff by blast
qed

lemma update_provider_ok:
  assumes "db_providers_ok d" "sql_update_provider i (set_provider now p) d = Inr d'"
    "p_IsDefault p \<Longrightarrow> only_default i d"
  shows "db_providers_ok d'"
proof -
  have "db_wf d'"
    using assms(1) providers.wf_sql_update [OF _ _ assms(2) [unfolded sql_update_provider_def]]
    by (simp add: db_providers_ok_def set_provider_def)
  moreover have t: "t_providers d' = row_upd pr_id i (set_provider now p) (t_providers d)"
    using assms(2) by (auto simp: sql_update_provider_def sql_update_def row_find_None_iff row_upd_absent
        split: option.splits if_splits)
  obtain j where j: "only_default j d" using assms(1) by (auto simp: db_providers_ok_def one_default_iff)
  have "only_default (if p_IsDefault p then i else j) d'"
    using j assms(3) t by (auto simp: only_default_def set_row_upd set_provider_def split: if_splits)
  moreover have "ids_given d'"
    using assms(1) t by (auto simp: db_providers_ok_def ids_given_def set_row_upd set_provider_def split: if_splits)
  ultimately show ?thesis unfolding db_providers_ok_def one_default_iff by blast
qed

lemma delete_provider_ok:
  assumes "db_providers_ok d" "sql_delete_provider i d = Inr d'"
  shows "db_providers_ok d'"
proof -
  have t: "t_providers d' = row_del pr_id i (t_providers d)"
    using assms(2) by (auto simp: sql_delete_provider_def split: if_splits)
  obtain j where j: "only_default j d" using assms(1) by (auto simp: db_providers_ok_def one_default_iff)
  then have "only_default j d'" using t by (auto simp: only_default_def)
  moreover have "ids_given d'" using assms(1) t by (auto simp: db_providers_ok_def ids_given_def)
  moreover have "db_wf d'" using assms wf_delete_provider by (auto simp: db_providers_ok_def)
  ultimately show ?thesis unfolding db_providers_ok_def one_default_iff by blast
qed

lemma ClearDefault_ok:
  assumes "db_providers_ok d"
  shows "db_providers_ok (snd (StorageProviderRepo_ClearDefault e d))"
    and "StorageProviderRepo_ClearDefault e d = (Inr u, d') \<Longrightarrow> only_default e d'"
proof -
  show "db_providers_ok (snd (StorageProviderRepo_ClearDefault e d))"
    unfolding StorageProviderRepo_ClearDefault_def wrap_err_simps
    by (rule db_providers_exec) (auto simp: assms clear_default_ok)
  assume "StorageProviderRepo_ClearDefault e d = (Inr u, d')"
  then obtain d0 where "same_tables d d0" "sql_clear_default e d0 = Inr d'"
    unfolding StorageProviderRepo_ClearDefault_def by (auto elim: wrapped_exec_ok)
  then show "only_default e d'" using assms clear_default_ok db_providers_same by blast
qed

lemma db_providers_exec_guarded:
  assumes "db_providers_ok d" "G \<Longrightarrow> only_default e d"
    "\<And>d d'. db_providers_ok d \<Longrightarrow> (G \<Longrightarrow> only_default e d) \<Longrightarrow> x d = Inr d' \<Longrightarrow> db_providers_ok d'"
  shows "db_providers_ok (snd (db_exec x d))"
proof -
  obtain r d' where e: "db_exec x d = (r, d')" by fastforce
  show ?thesis
  proof (cases r)
    case (Inl err)
    with e assms(1) show ?thesis by (simp add: db_providers_same [OF db_exec_error])
  next
    case (Inr u)
    with e obtain d0 where d0: "same_tables d d0" "x d0 = Inr d'" by (auto elim: db_exec_ok)
    then have "db_providers_ok d0" "G \<Longrightarrow> only_default e d0"
      using assms(1,2) by (simp_all add: db_providers_same only_default_def same_tables_fields)
    then show ?thesis using assms(3) [OF _ _ d0(2)] e by simp
  qed
qed

lemma RepoCreate_ok:
  assumes "db_providers_ok d" "i \<noteq> []" "p_IsDefault p \<Longrightarrow> only_default [] d"
  shows "db_providers_ok (snd (StorageProviderRepo_Create i now p d))"
  unfolding StorageProviderRepo_Create_def Let_def returning_simps wrap_err_simps
  using assms(1,3)
  by (rule db_providers_exec_guarded)
    (auto elim!: insert_provider_ok simp: provider_columns_def fill_provider_def assms(2))

lemma RepoUpdate_ok:
  assumes "db_providers_ok d" "p_IsDefault p \<Longrightarrow> only_default (p_ID p) d"
  shows "db_providers_ok (snd (StorageProviderRepo_Update now p d))"
  unfolding StorageProviderRepo_Update_def wrap_err_simps
  using assms by (rule db_providers_exec_guarded) (auto elim!: update_provider_ok)

lemma RepoDelete_ok: "db_providers_ok d \<Longrightarrow> db_providers_ok (snd (StorageProviderRepo_Delete i d))"
  unfolding StorageProviderRepo_Delete_def wrap_err_simps
  by (rule db_providers_exec) (auto elim: delete_provider_ok)

text \<open>The service operations, one at a time.\<close>

lemma on_db_providers_ok:
  assumes "providers_ok w" "\<And>d. db_providers_ok d \<Longrightarrow> db_providers_ok (snd (f d))"
  shows "providers_ok (snd (on_db f w))"
  using assms by (simp add: providers_ok_db)

lemma on_rng_providers_ok: "providers_ok w \<Longrightarrow> providers_ok (snd (on_rng f w))"
  by (simp add: providers_ok_db)

lemma tick_providers_ok:
  "providers_ok w \<Longrightarrow> providers_ok (snd (time_now w))"
  "providers_ok w \<Longrightarrow> providers_ok (snd (uuid_new w)) \<and> fst (uuid_new w) \<noteq> []"
  by (simp_all add: providers_ok_db) (simp add: uuid_new_def)

lemma read_only_providers_ok: "providers_ok w \<Longrightarrow> read_only w w' \<Longrightarrow> providers_ok w'"
  by (metis db_providers_same providers_ok_db read_only_fields(1,4))

lemma and_then_providers_ok:
  assumes "providers_ok (snd p)" "\<And>x w. p = (Inr x, w) \<Longrightarrow> providers_ok w \<Longrightarrow> providers_ok (snd (f x w))"
  shows "providers_ok (snd (and_then p f))"
  using assms by (cases p; cases "fst p") auto

text \<open>Clearing the other defaults, when the provider is to be the default.\<close>

lemma clear_if_default:
  assumes "providers_ok w"
  shows "providers_ok (snd (if c then on_db (StorageProviderRepo_ClearDefault e) w else (Inr (), w)))"
    and "(if c then on_db (StorageProviderRepo_ClearDefault e) w else (Inr (), w)) = (Inr u, w') \<Longrightarrow>
      c \<Longrightarrow> only_default e (w_db w')"
  using assms ClearDefault_ok
  by (auto simp: providers_ok_db split: if_splits dest!: on_db_result)

lemma Create_providers_ok:
  assumes "providers_ok w"
  shows "providers_ok (snd (ProviderService_Create X svc p w))"
proof -
  define p1 where "p1 = p\<lparr>p_ProviderType := (if p_ProviderType p = [] then ''s3'' else p_ProviderType p),
     p_Region := (if p_Region p = [] then ''auto'' else p_Region p)\<rparr>"
  obtain ak w1 where ak: "on_rng (encrypted X svc (p_AccessKey p1)) w = (ak, w1)" by fastforce
  obtain sk w2 where sk: "on_rng (encrypted X svc (p_SecretKey p1)) w1 = (sk, w2)" by fastforce
  have w2: "providers_ok w2" using assms on_rng_providers_ok ak sk by (metis snd_conv)
  define p2 where "p2 = p1\<lparr>p_AccessKey := ak, p_SecretKey := sk\<rparr>"
  define clear where "clear = (if p_IsDefault p2 then on_db (StorageProviderRepo_ClearDefault []) w2 else (Inr (), w2))"
  define rest where "rest = (\<lambda>(_ :: unit) w3 :: 'a world. let (i, w4) = uuid_new w3; (now, w5) = time_now w4
      in on_db (StorageProviderRepo_Create i now p2) w5)"
  have "providers_ok (snd (and_then clear rest))"
  proof (rule and_then_providers_ok)
    show "providers_ok (snd clear)" unfolding clear_def by (rule clear_if_default(1) [OF w2])
    fix x w3 assume c: "clear = (Inr x, w3)" and w3: "providers_ok w3"
    obtain i w4 where i: "uuid_new w3 = (i, w4)" by fastforce
    obtain now w5 where t: "time_now w4 = (now, w5)" by fastforce
    have w5: "providers_ok w5" "i \<noteq> []" "w_db w5 = w_db w3"
      using tick_providers_ok [OF w3] tick_providers_ok(1) [of w4] i t
      by (metis fst_conv snd_conv, metis fst_conv snd_conv, metis snd_conv time_now_fields(1) uuid_new_fields(1))
    then have "p_IsDefault p2 \<Longrightarrow> only_default [] (w_db w5)"
      using clear_if_default(2) [OF w2 c [unfolded clear_def]] by simp
    then have "providers_ok (snd (on_db (StorageProviderRepo_Create i now p2) w5))"
      using w5 RepoCreate_ok [OF _ w5(2)] by (simp add: providers_ok_db)
    then show "providers_ok (snd (rest x w3))" using i t by (simp add: rest_def)
  qed
  moreover have df: "p_IsDefault p1 = p_IsDefault p2" by (simp add: p2_def)
  ultimately show ?thesis
    using assms ak sk
    by (simp add: ProviderService_Create_def p1_def [symmetric] p2_def [symmetric] df clear_def rest_def)
qed

lemma keep_or_encrypt_fields:
  assumes "keep_or_encrypt X svc old new w = (s, w')"
  shows "w_db w' = w_db w" "w_uuids w' = w_uuids w" "w_store w' = w_store w"
  using assms on_rng_fields by (auto simp: keep_or_encrypt_def split: if_splits) (metis on_rng_fields(1,3,5) snd_conv)+

text \<open>The part of \<open>Update\<close> that follows the lookup.\<close>

definition update_existing ::
  "'s ext \<Rightarrow> provider_svc \<Rightarrow> provider \<Rightarrow> provider \<Rightarrow> 's world \<Rightarrow> provider res \<times> 's world" where
  "update_existing X svc ex p w1 =
     (let (ak, w2) = keep_or_encrypt X svc (p_AccessKey ex) (p_AccessKey p) w1;
          (sk, w3) = keep_or_encrypt X svc (p_SecretKey ex) (p_SecretKey p) w2;
          p1 = p\<lparr>p_AccessKey := ak, p_SecretKey := sk,
                 p_ProviderType := (if p_ProviderType p = [] then p_ProviderType ex else p_ProviderType p),
                 p_Region := (if p_Region p = [] then p_Region ex else p_Region p)\<rparr>
      in and_then (if p_IsDefault p1 then on_db (StorageProviderRepo_ClearDefault (p_ID p1)) w3 else (Inr (), w3))
           (\<lambda>_ w4. let (now, w5) = time_now w4
              in and_then (on_db (StorageProviderRepo_Update now p1) w5)
                   (\<lambda>_ w6. (Inr (p1\<lparr>p_UpdatedAt := now\<rparr>), w6))))"

definition save_provider :: "provider \<Rightarrow> 's world \<Rightarrow> provider res \<times> 's world" where
  "save_provider p1 w3 =
     and_then (if p_IsDefault p1 then on_db (StorageProviderRepo_ClearDefault (p_ID p1)) w3 else (Inr (), w3))
       (\<lambda>_ w4. let (now, w5) = time_now w4
          in and_then (on_db (StorageProviderRepo_Update now p1) w5)
               (\<lambda>_ w6. (Inr (p1\<lparr>p_UpdatedAt := now\<rparr>), w6)))"

lemma update_existing_eq:
  assumes "keep_or_encrypt X svc (p_AccessKey ex) (p_AccessKey p) w = (ak, w2)"
    "keep_or_encrypt X svc (p_SecretKey ex) (p_SecretKey p) w2 = (sk, w3)"
  shows "update_existing X svc ex p w = save_provider (p\<lparr>p_AccessKey := ak, p_SecretKey := sk,
     p_ProviderType := (if p_ProviderType p = [] then p_ProviderType ex else p_ProviderType p),
     p_Region := (if p_Region p = [] then p_Region ex else p_Region p)\<rparr>) w3"
  by (simp only: update_existing_def save_provider_def assms Let_def prod.case)

lemma save_provider_ok:
  assumes w3: "providers_ok w3"
  shows "providers_ok (snd (save_provider p1 w3))"
  unfolding save_provider_def
proof (rule and_then_providers_ok)
  let ?clear = "if p_IsDefault p1 then on_db (StorageProviderRepo_ClearDefault (p_ID p1)) w3 else (Inr (), w3)"
  show "providers_ok (snd ?clear)" by (rule clear_if_default(1) [OF w3])
  fix x w4 assume c: "?clear = (Inr x, w4)" and w4: "providers_ok w4"
  obtain now w5 where t: "time_now w4 = (now, w5)" by fastforce
  have w5: "providers_ok w5" "w_db w5 = w_db w4"
    using tick_providers_ok(1) [OF w4] t time_now_fields(1) [of w4] by simp_all
  then have "p_IsDefault p1 \<Longrightarrow> only_default (p_ID p1) (w_db w5)"
    using clear_if_default(2) [OF w3 c] by simp
  then have "providers_ok (snd (on_db (StorageProviderRepo_Update now p1) w5))"
    using w5 RepoUpdate_ok by (simp add: providers_ok_db)
  then have "providers_ok (snd (and_then (on_db (StorageProviderRepo_Update now p1) w5)
      (\<lambda>_ w6. (Inr (p1\<lparr>p_UpdatedAt := now\<rparr>), w6))))"
    by (rule and_then_providers_ok) simp
  then show "providers_ok (snd (let (now, w5) = time_now w4
      in and_then (on_db (StorageProviderRepo_Update now p1) w5) (\<lambda>_ w6. (Inr (p1\<lparr>p_UpdatedAt := now\<rparr>), w6))))"
    using t by simp
qed

lemma update_existing_ok:
  assumes "providers_ok w1"
  shows "providers_ok (snd (update_existing X svc ex p w1))"
proof -
  obtain ak w2 where ak: "keep_or_encrypt X svc (p_AccessKey ex) (p_AccessKey p) w1 = (ak, w2)" by fastforce
  obtain sk w3 where sk: "keep_or_encrypt X svc (p_SecretKey ex) (p_SecretKey p) w2 = (sk, w3)" by fastforce
  have "providers_ok w3"
    using assms keep_or_encrypt_fields [OF ak] keep_or_encrypt_fields [OF sk] by (simp add: providers_ok_db)
  then show ?thesis unfolding update_existing_eq [OF ak sk] by (rule save_provider_ok)
qed

lemma Update_existing:
  "ProviderService_Update X svc p w =
     and_then (on_db (StorageProviderRepo_GetByID (p_ID p)) w) (\<lambda>ex w1. case ex of
       None \<Rightarrow> (Inl ''provider not found'', w1) | Some ex \<Rightarrow> update_existing X svc ex p w1)"
  unfolding ProviderService_Update_def update_existing_def ..

lemma Update_providers_ok:
  assumes "providers_ok w"
  shows "providers_ok (snd (ProviderService_Update X svc p w))"
  unfolding Update_existing
proof (rule and_then_providers_ok)
  show "providers_ok (snd (on_db (StorageProviderRepo_GetByID (p_ID p)) w))"
    using assms by (rule read_only_providers_ok) (rule on_db_read_only, rule GetByID_reads)
qed (simp split: option.splits add: update_existing_ok)

lemma Delete_providers_ok: "providers_ok w \<Longrightarrow> providers_ok (snd (ProviderService_Delete i w))"
  unfolding ProviderService_Delete_def by (rule on_db_providers_ok) (auto intro: RepoDelete_ok)

lemma GetByID_svc_reads: "read_only w (snd (ProviderService_GetByID X svc i w))"
  unfolding ProviderService_GetByID_def
  by (rule and_then_reads) (auto intro: on_db_read_only GetByID_reads split: option.splits)

lemma SetDefault_providers_ok:
  assumes "providers_ok w"
  shows "providers_ok (snd (handleSetDefault X svc i w))"
  unfolding handleSetDefault_def
proof (rule and_then_providers_ok)
  show "providers_ok (snd (ProviderService_GetByID X svc i w))"
    using assms by (rule read_only_providers_ok) (rule GetByID_svc_reads)
qed (simp split: option.splits add: Update_providers_ok)

text \<open>A successful update, and what it left in the table.\<close>

lemma save_provider_stored:
  assumes "save_provider p1 w3 = (Inr p', w')" "db_wf (w_db w3)" "provider_view (p_ID p1) (w_db w3) \<noteq> None"
  obtains now old where "provider_view (p_ID p1) (w_db w') = Some (merge_provider now p1 old)"
proof -
  let ?clear = "if p_IsDefault p1 then on_db (StorageProviderRepo_ClearDefault (p_ID p1)) w3 else (Inr (), w3)"
  from and_then_result [OF assms(1) [unfolded save_provider_def]] obtain w4 where c: "?clear = (Inr (), w4)" and
    l: "(let (now, w5) = time_now w4 in and_then (on_db (StorageProviderRepo_Update now p1) w5)
          (\<lambda>_ w6. (Inr (p1\<lparr>p_UpdatedAt := now\<rparr>), w6))) = (Inr p', w')" by auto
  obtain now w5 where t: "time_now w4 = (now, w5)" by fastforce
  with l have "and_then (on_db (StorageProviderRepo_Update now p1) w5)
      (\<lambda>_ w6. (Inr (p1\<lparr>p_UpdatedAt := now\<rparr>), w6)) = (Inr p', w')" by simp
  from and_then_result [OF this] have "on_db (StorageProviderRepo_Update now p1) w5 = (Inr (), w')" by auto
  from on_db_result [OF this] have u: "StorageProviderRepo_Update now p1 (w_db w5) = (Inr (), w_db w')" by auto
  have row: "has_row pr_id (p_ID p1) (t_providers (w_db w3))"
    using assms(3) by (simp add: provider_view_def has_row_find)
  have "db_wf (w_db w4) \<and> has_row pr_id (p_ID p1) (t_providers (w_db w4))"
  proof (cases "p_IsDefault p1")
    case True
    then have "on_db (StorageProviderRepo_ClearDefault (p_ID p1)) w3 = (Inr (), w4)" using c by simp
    from on_db_result [OF this] obtain d' where
      d': "StorageProviderRepo_ClearDefault (p_ID p1) (w_db w3) = (Inr (), d')" "w_db w4 = d'" by auto
    then obtain d0 where d0: "same_tables (w_db w3) d0" "sql_clear_default (p_ID p1) d0 = Inr d'"
      unfolding StorageProviderRepo_ClearDefault_def by (auto elim: wrapped_exec_ok)
    then have "db_wf d'" using assms(2) wf_clear_default db_wf_same by blast
    moreover have "map pr_id (t_providers d') = map pr_id (t_providers d0)"
      using d0(2) by (auto simp: sql_clear_default_def)
    ultimately show ?thesis
      using d' d0(1) row unfolding has_row_def by (simp add: same_tables_fields)
  next
    case False
    then show ?thesis using c row assms(2) by simp
  qed
  moreover have "w_db w5 = w_db w4" using t by (metis snd_conv time_now_fields(1))
  ultimately obtain old where "provider_view (p_ID p1) (w_db w5) = Some old" and wf: "db_wf (w_db w5)"
    by (auto simp: provider_view_def has_row_find)
  then have "provider_view (p_ID p1) (w_db w') = Some (merge_provider now p1 old)"
    using provider_repo.update_view [OF TrueI wf u] by (auto simp: provider_view_def)
  then show thesis by (rule that)
qed

lemma update_existing_stored:
  assumes "update_existing X svc ex p w = (Inr p', w')" "db_wf (w_db w)" "provider_view (p_ID p) (w_db w) \<noteq> None"
  obtains q where "provider_view (p_ID p) (w_db w') = Some q"
    "p_AccessKey q = fst (keep_or_encrypt X svc (p_AccessKey ex) (p_AccessKey p) w)"
    "p_SecretKey q = fst (keep_or_encrypt X svc (p_SecretKey ex) (p_SecretKey p)
        (snd (keep_or_encrypt X svc (p_AccessKey ex) (p_AccessKey p) w)))"
    "p_Endpoint q = p_Endpoint p" "p_Bucket q = p_Bucket p" "p_IsDefault q = p_IsDefault p"
proof -
  obtain ak w2 where ak: "keep_or_encrypt X svc (p_AccessKey ex) (p_AccessKey p) w = (ak, w2)" by fastforce
  obtain sk w3 where sk: "keep_or_encrypt X svc (p_SecretKey ex) (p_SecretKey p) w2 = (sk, w3)" by fastforce
  define p1 where "p1 = p\<lparr>p_AccessKey := ak, p_SecretKey := sk,
     p_ProviderType := (if p_ProviderType p = [] then p_ProviderType ex else p_ProviderType p),
     p_Region := (if p_Region p = [] then p_Region ex else p_Region p)\<rparr>"
  have w3: "w_db w3 = w_db w" using keep_or_encrypt_fields(1) ak sk by metis
  have "save_provider p1 w3 = (Inr p', w')"
    using assms(1) update_existing_eq [OF ak sk] by (simp only: p1_def)
  then obtain now old where "provider_view (p_ID p1) (w_db w') = Some (merge_provider now p1 old)"
    using assms(2,3) w3 by (auto elim!: save_provider_stored simp: p1_def)
  then have "provider_view (p_ID p) (w_db w') = Some (merge_provider now p1 old)" by (simp add: p1_def)
  then show thesis
    by (rule that) (use ak sk in \<open>simp_all add: merge_provider_def p1_def\<close>)
qed

lemma Update_lookup:
  assumes "ProviderService_Update X svc p w = (Inr p', w1)" "provider_view (p_ID p) (w_db w) = Some ex"
  obtains w0 where "same_tables (w_db w) (w_db w0)" "update_existing X svc ex p w0 = (Inr p', w1)"
proof -
  obtain r w0 where g: "on_db (StorageProviderRepo_GetByID (p_ID p)) w = (r, w0)" by fastforce
  show thesis
  proof (cases r)
    case (Inl e)
    with g assms(1) show thesis by (simp add: Update_existing)
  next
    case (Inr e)
    with on_db_result [of "StorageProviderRepo_GetByID (p_ID p)" w e w0] g assms(2) have "e = Some ex"
      by (auto dest: GetByID_view)
    with g Inr assms(1) have "update_existing X svc ex p w0 = (Inr p', w1)" by (simp add: Update_existing)
    moreover have "read_only w (snd (on_db (StorageProviderRepo_GetByID (p_ID p)) w))"
      by (rule on_db_read_only) (rule GetByID_reads)
    then have "same_tables (w_db w) (w_db w0)" by (simp add: g read_only_fields(1))
    ultimately show thesis using that by blast
  qed
qed

section \<open>Properties\<close>

text \<open>Claim C7. Credentials survive encryption at rest: whatever access and secret key a provider is
  created with, a later \<open>GetDecrypted\<close> of it returns exactly these, with its endpoint and bucket.\<close>

theorem credentials_roundtrip:
  assumes "aead_ok (x_crypto X)" "sha_ok (x_crypto X)"
    and "ProviderService_Create X (NewProviderService X mk) p w = (Inr p', w1)"
    and "GetDecrypted X (NewProviderService X mk) (p_ID p') w1 = (Inr v, w2)"
  shows "\<exists>q. v = Some q \<and> p_AccessKey q = p_AccessKey p \<and> p_SecretKey q = p_SecretKey p \<and>
    p_Endpoint q = p_Endpoint p \<and> p_Bucket q = p_Bucket p"
proof -
  obtain r1 r2 where c: "provider_view (p_ID p') (w_db w1) = Some (scanProvider (provider_columns p'))"
    "p_AccessKey p' = fst (encrypted X (NewProviderService X mk) (p_AccessKey p) r1)"
    "p_SecretKey p' = fst (encrypted X (NewProviderService X mk) (p_SecretKey p) r2)"
    "p_Endpoint p' = p_Endpoint p" "p_Bucket p' = p_Bucket p"
    using Create_stored [OF assms(3)] by metis
  from providers_svc.get_decrypted_result [OF assms(4)] c(1)
  have "v = Some (unsealed X (NewProviderService X mk) (scanProvider (provider_columns p')))" by simp
  then show ?thesis
    using c by (simp add: unsealed_def scanProvider_def provider_columns_def decrypted_encrypted [OF assms(1,2)])
qed

definition demo_provider :: provider where
  "demo_provider = \<lparr>p_ID = [], p_Name = ''main'', p_ProviderType = [], p_Endpoint = ''s3.local'', p_Region = [],
     p_Bucket = ''b'', p_AccessKey = ''ak'', p_SecretKey = ''sk'', p_PathStyle = True, p_IsDefault = True,
     p_CreatedAt = 0, p_UpdatedAt = 0\<rparr>"

definition demo_world :: "(string \<times> string \<Rightarrow> bytes option) world" where
  "demo_world = \<lparr>w_db = empty_db, w_rng = (\<lambda>_. 0), w_clock = (\<lambda>n. 1000000000 * int n),
     w_uuids = (\<lambda>n. replicate (Suc n) CHR ''u''), w_store = Map.empty, w_notes = [], w_runs = [], w_files = Map.empty\<rparr>"

lemma demo_world_ok: "providers_ok demo_world"
  by (simp add: providers_ok_db db_providers_ok_def demo_world_def empty_db_wf one_default_def ids_given_def)
    (simp add: empty_db_def)

lemma demo_create:
  "\<exists>p' w1. ProviderService_Create demo_ext svc demo_provider demo_world = (Inr p', w1) \<and> p_ID p' = ''u'' \<and>
     faults (w_db w1) = []"
  by (simp add: ProviderService_Create_def demo_provider_def demo_world_def on_rng_def on_db_def
      StorageProviderRepo_ClearDefault_def StorageProviderRepo_Create_def uuid_new_def time_now_def
      sql_clear_default_def sql_insert_provider_def provider_columns_def fill_provider_def check_provider_def
      has_row_def empty_db_def Let_def split: prod.splits)

theorem credentials_roundtrip_witness:
  "\<exists>p' w1 q w2. ProviderService_Create demo_ext (NewProviderService demo_ext ''k'') demo_provider demo_world = (Inr p', w1) \<and>
     GetDecrypted demo_ext (NewProviderService demo_ext ''k'') (p_ID p') w1 = (Inr (Some q), w2) \<and>
     p_AccessKey q = ''ak'' \<and> p_SecretKey q = ''sk''"
proof -
  obtain p' w1 where c: "ProviderService_Create demo_ext (NewProviderService demo_ext ''k'') demo_provider demo_world = (Inr p', w1)"
    and f: "faults (w_db w1) = []" using demo_create by blast
  obtain v where g: "GetDecrypted demo_ext (NewProviderService demo_ext ''k'') (p_ID p') w1 = (Inr v, w1)"
    using providers_svc.get_decrypted_no_faults [OF f] by blast
  have "aead_ok (x_crypto demo_ext)" "sha_ok (x_crypto demo_ext)" by simp_all
  from credentials_roundtrip [OF this c g] c g show ?thesis
    by (auto simp: demo_provider_def)
qed

text \<open>Claim C6. At most one provider is the default: the invariant of the provider table (schema, unique
  default, non-empty identifiers) is kept by \<open>Create\<close>, \<open>Update\<close>, \<open>Delete\<close> and
  \<open>handleSetDefault\<close>, whatever statement fails on the way.\<close>

theorem one_default_kept:
  assumes "providers_ok w"
  shows "providers_ok (snd (ProviderService_Create X svc p w)) \<and> providers_ok (snd (ProviderService_Update X svc p w)) \<and>
    providers_ok (snd (ProviderService_Delete i w)) \<and> providers_ok (snd (handleSetDefault X svc i w))"
  using assms Create_providers_ok Update_providers_ok Delete_providers_ok SetDefault_providers_ok by blast

theorem one_default_kept_witness:
  "providers_ok (snd (ProviderService_Create demo_ext [] demo_provider demo_world)) \<and>
   providers_ok (snd (ProviderService_Update demo_ext [] demo_provider demo_world)) \<and>
   providers_ok (snd (ProviderService_Delete ''u'' demo_world)) \<and>
   providers_ok (snd (handleSetDefault demo_ext [] ''u'' demo_world))"
  by (rule one_default_kept [OF demo_world_ok])

text \<open>Claim C8. An update with masked or empty credentials keeps the stored ones and any other value
  replaces them: this is what \<open>GetDecrypted\<close> returns after a successful \<open>Update\<close>.\<close>

theorem update_credentials:
  assumes "aead_ok (x_crypto X)" "sha_ok (x_crypto X)" "svc = NewProviderService X mk" "db_wf (w_db w)"
    and "provider_view (p_ID p) (w_db w) = Some ex"
    and "ProviderService_Update X svc p w = (Inr p', w1)" "GetDecrypted X svc (p_ID p) w1 = (Inr v, w2)"
  shows "\<exists>q. v = Some q \<and> p_IsDefault q = p_IsDefault p \<and>
    p_AccessKey q = (if p_AccessKey p = secret_mask \<or> p_AccessKey p = [] then decrypted X svc (p_AccessKey ex) else p_AccessKey p) \<and>
    p_SecretKey q = (if p_SecretKey p = secret_mask \<or> p_SecretKey p = [] then decrypted X svc (p_SecretKey ex) else p_SecretKey p)"
proof -
  obtain w0 where s: "same_tables (w_db w) (w_db w0)" and "update_existing X svc ex p w0 = (Inr p', w1)"
    using Update_lookup [OF assms(6,5)] by blast
  then obtain q where q: "provider_view (p_ID p) (w_db w1) = Some q"
    "p_AccessKey q = fst (keep_or_encrypt X svc (p_AccessKey ex) (p_AccessKey p) w0)"
    "p_SecretKey q = fst (keep_or_encrypt X svc (p_SecretKey ex) (p_SecretKey p)
        (snd (keep_or_encrypt X svc (p_AccessKey ex) (p_AccessKey p) w0)))" "p_IsDefault q = p_IsDefault p"
    using assms(4,5) s by (auto elim!: update_existing_stored simp: db_wf_same provider_view_def same_tables_fields)
  have "decrypted X svc (fst (keep_or_encrypt X svc old new x)) =
      (if new = secret_mask \<or> new = [] then decrypted X svc old else new)" for old new x
    using decrypted_encrypted [OF assms(1,2)] assms(3) by (simp add: keep_or_encrypt_def)
  moreover have "v = Some (unsealed X svc q)" using providers_svc.get_decrypted_result [OF assms(7)] q(1) by simp
  ultimately show ?thesis using q by (simp add: unsealed_def)
qed

definition demo_provider_row :: provider_row where
  "demo_provider_row = \<lparr>pr_id = ''u'', pr_name = ''main'', pr_provider_type = ''s3'', pr_endpoint = ''s3.local'',
     pr_region = ''auto'', pr_bucket = ''b'', pr_access_key_encrypted = [1], pr_secret_key_encrypted = [2],
     pr_path_style = 1, pr_is_default = 1, pr_created_at = 0, pr_updated_at = 0\<rparr>"

definition demo_world1 :: "(string \<times> string \<Rightarrow> bytes option) world" where
  "demo_world1 = demo_world\<lparr>w_db := empty_db\<lparr>t_providers := [demo_provider_row]\<rparr>\<rparr>"

lemma demo_world1_wf: "db_wf (w_db demo_world1)"
  by (simp add: demo_world1_def empty_db_def db_wf_def keys_ok_def checks_ok_def refs_ok_def check_provider_def
      demo_provider_row_def)

lemma demo_world1_no_faults: "faults (w_db demo_world1) = []"
  by (simp add: demo_world1_def empty_db_def)

lemma demo_world1_provider: "provider_view ''u'' (w_db demo_world1) = Some (scanProvider demo_provider_row)"
  "default_view (w_db demo_world1) = Some (scanProvider demo_provider_row)"
  by (simp_all add: provider_view_def default_view_def demo_world1_def row_find_def)
    (simp_all add: demo_provider_row_def)

lemma demo_update:
  "\<exists>p' w1. ProviderService_Update demo_ext svc (demo_provider\<lparr>p_ID := ''u'', p_SecretKey := secret_mask\<rparr>) demo_world1 =
      (Inr p', w1) \<and> faults (w_db w1) = []"
  by (simp add: Update_existing update_existing_def keep_or_encrypt_def demo_provider_def on_rng_def on_db_def
      StorageProviderRepo_ClearDefault_def StorageProviderRepo_Update_def StorageProviderRepo_GetByID_def
      time_now_def sql_clear_default_def sql_update_provider_def sql_update_def set_provider_def
      check_provider_def row_find_def demo_world1_def demo_world_def demo_provider_row_def empty_db_def
      scanProvider_def Let_def split: prod.splits)

theorem update_credentials_witness:
  "\<exists>p' w1 q w2. ProviderService_Update demo_ext (NewProviderService demo_ext ''k'')
       (demo_provider\<lparr>p_ID := ''u'', p_SecretKey := secret_mask\<rparr>) demo_world1 = (Inr p', w1) \<and>
     GetDecrypted demo_ext (NewProviderService demo_ext ''k'') ''u'' w1 = (Inr (Some q), w2) \<and>
     p_AccessKey q = ''ak'' \<and> p_SecretKey q = decrypted demo_ext (NewProviderService demo_ext ''k'') (string_of_bytes [2])"
proof -
  let ?svc = "NewProviderService demo_ext ''k''"
  let ?p = "demo_provider\<lparr>p_ID := ''u'', p_SecretKey := secret_mask\<rparr>"
  obtain p' w1 where u: "ProviderService_Update demo_ext ?svc ?p demo_world1 = (Inr p', w1)"
    and f: "faults (w_db w1) = []" using demo_update by blast
  obtain v where g: "GetDecrypted demo_ext ?svc (p_ID ?p) w1 = (Inr v, w1)"
    using providers_svc.get_decrypted_no_faults [OF f] by blast
  have "provider_view (p_ID ?p) (w_db demo_world1) = Some (scanProvider demo_provider_row)"
    by (simp add: demo_world1_provider)
  moreover have "aead_ok (x_crypto demo_ext)" "sha_ok (x_crypto demo_ext)" by simp_all
  moreover have "length ''ak'' \<noteq> length secret_mask" by (simp add: secret_mask_def length_concat sum_list_replicate)
  then have "''ak'' \<noteq> secret_mask" by metis
  ultimately show ?thesis
    using update_credentials [OF _ _ refl demo_world1_wf _ u g] u g
    by (auto simp: demo_provider_def scanProvider_def demo_provider_row_def)
qed

text \<open>Claim C9. The secret of the default provider is not available to its users: \<open>GetDefault\<close> returns
  the mask in its place, so the S3 client of a backup without an explicit provider is built with the
  mask as its secret key, while an explicitly named provider gives its stored secret.\<close>

theorem default_provider_secret_is_mask:
  assumes "resolveProvider (GetDecrypted X svc) (GetDefault X svc) pid w = (Inr p, w')"
    and "CreateS3ClientFromProvider X p = Inr client"
  shows "(pid = None \<or> pid = Some [] \<longrightarrow> cfg_SecretKey client = secret_mask) \<and>
    (\<forall>i. pid = Some i \<and> i \<noteq> [] \<longrightarrow> (\<exists>q. provider_view i (w_db w) = Some q \<and>
       cfg_SecretKey client = decrypted X svc (p_SecretKey q)))"
proof -
  have client: "client = provider_config p"
    using assms(2) by (auto simp: CreateS3ClientFromProvider_def NewS3Client_def split: if_splits option.splits)
  show ?thesis
  proof (intro conjI impI allI, goal_cases)
    case 1
    with assms(1) have "map_option (masked X svc) (default_view (w_db w)) = Some p"
      by (rule providers_svc.resolve_default)
    then show ?case using client by (auto simp: provider_config_def masked_def)
  next
    case (2 i)
    then have "map_option (unsealed X svc) (provider_view i (w_db w)) = Some p"
      using assms(1) providers_svc.resolve_named by blast
    then show ?case using client by (auto simp: provider_config_def unsealed_def)
  qed
qed

theorem default_provider_secret_is_mask_witness:
  "\<exists>p w' client. resolveProvider (GetDecrypted demo_ext []) (GetDefault demo_ext []) None demo_world1 = (Inr p, w') \<and>
     CreateS3ClientFromProvider demo_ext p = Inr client \<and> cfg_SecretKey client = secret_mask"
proof -
  let ?p = "masked demo_ext [] (scanProvider demo_provider_row)"
  have r: "resolveProvider (GetDecrypted demo_ext []) (GetDefault demo_ext []) None demo_world1 = (Inr ?p, demo_world1)"
    using providers_svc.get_default_no_faults [OF demo_world1_no_faults]
    by (simp add: resolveProvider_def demo_world1_provider)
  have "p_Bucket ?p = ''b''" by (simp add: masked_def scanProvider_def demo_provider_row_def)
  then have c: "CreateS3ClientFromProvider demo_ext ?p = Inr (provider_config ?p)"
    by (simp add: CreateS3ClientFromProvider_def NewS3Client_def demo_store_def)
      (simp add: provider_config_def)
  from default_provider_secret_is_mask [OF r c] r c show ?thesis by blast
qed

end
