(* ===== verification/Backup_Service.thy ===== *)
theory Backup_Service
  imports Storage Repo_Backups
begin

text \<open>
  \<open>internal/backup/service.go\<close> and \<open>incremental.go\<close>: starting, running, verifying,
  deleting and expiring backups. An operation that the code starts in a goroutine is returned as a
  \<open>job\<close> by the operation that starts it; the theory of jobs gives the interleavings. The
  streaming pipeline of a full backup (dump, gzip, encryption, upload) is run to its end before the
  upload: the object a successful upload stores is everything the pipeline wrote, and after a failed
  upload the code ignores what the pipeline returns. Messages printed to stdout are not modelled.
\<close>

section \<open>Incremental engines and their registry\<close>

type_synonym metadata = "(string \<times> string) list"

record incremental_schedule =
  is_ID :: string
  is_ConnectionID :: string
  is_DatabaseID :: string
  is_BackupType :: string
  is_StorageProviderID :: string
  is_EncryptionEnabled :: bool
  is_EncryptionKeyID :: string

record 's incremental_engine =
  eng_DBType :: string
  eng_BackupFull :: "incremental_schedule \<Rightarrow> connection \<Rightarrow> string \<Rightarrow> 's world \<Rightarrow> metadata res \<times> 's world"
  eng_BackupIncremental :: "incremental_schedule \<Rightarrow> connection \<Rightarrow> string \<Rightarrow> 's world \<Rightarrow> metadata res \<times> 's world"

type_synonym 's registry = "(string \<times> 's incremental_engine) list"

definition NewIncrementalEngineRegistry :: "'s registry" where
  "NewIncrementalEngineRegistry = []"

fun Registry_Register :: "'s registry \<Rightarrow> 's incremental_engine \<Rightarrow> 's registry" where
  "Registry_Register [] e = [(eng_DBType e, e)]"
| "Registry_Register ((k, x) # r) e =
     (if k = eng_DBType e then (k, e) # r else (k, x) # Registry_Register r e)"

definition Registry_Get :: "'s registry \<Rightarrow> string \<Rightarrow> 's incremental_engine res" where
  "Registry_Get r dbType = (case map_of r dbType of
     None \<Rightarrow> Inl (''no incremental engine for database type: '' @ dbType) | Some e \<Rightarrow> Inr e)"

definition Registry_HasEngine :: "'s registry \<Rightarrow> string \<Rightarrow> bool" where
  "Registry_HasEngine r dbType \<longleftrightarrow> map_of r dbType \<noteq> None"

definition Registry_List :: "'s registry \<Rightarrow> string list" where
  "Registry_List r = map fst r"

lemma Registry_Get_Register: "map_of (Registry_Register r e) k = (if k = eng_DBType e then Some e else map_of r k)"
  by (induction r e rule: Registry_Register.induct) auto

section \<open>The service\<close>

record 's backup_svc =
  bs_provSvc :: provider_svc
  bs_encSvc :: "bytes option" \<comment> \<open>the master key of the encryption service, if one is set\<close>
  bs_notifier :: bool \<comment> \<open>a notifier is set\<close>
  bs_incrRegistry :: "'s registry option"

text \<open>\<open>make(chan struct{}, 3)\<close>\<close>

definition semaphore_size :: nat where "semaphore_size = 3"

definition NewService :: "provider_svc \<Rightarrow> 's backup_svc" where
  "NewService provSvc = \<lparr>bs_provSvc = provSvc, bs_encSvc = None, bs_notifier = False, bs_incrRegistry = None\<rparr>"

definition SetEncryptionService :: "bytes \<Rightarrow> 's backup_svc \<Rightarrow> 's backup_svc" where
  "SetEncryptionService encSvc s = s\<lparr>bs_encSvc := Some encSvc\<rparr>"

definition SetNotifier :: "bool \<Rightarrow> 's backup_svc \<Rightarrow> 's backup_svc" where
  "SetNotifier n s = s\<lparr>bs_notifier := n\<rparr>"

definition SetIncrementalEngineRegistry :: "'s registry \<Rightarrow> 's backup_svc \<Rightarrow> 's backup_svc" where
  "SetIncrementalEngineRegistry r s = s\<lparr>bs_incrRegistry := Some r\<rparr>"

definition int64PtrToInt64 :: "int option \<Rightarrow> int" where
  "int64PtrToInt64 p = (case p of None \<Rightarrow> 0 | Some v \<Rightarrow> v)"

definition notify :: "notify_call \<Rightarrow> 's world \<Rightarrow> 's world" where
  "notify c w = w\<lparr>w_notes := w_notes w @ [c]\<rparr>"

subsection \<open>Ends of a run\<close>

text \<open>\<open>x, err := find(id); if err == nil && x != nil { name = x.field }\<close>\<close>

definition lookup_field :: "(string \<Rightarrow> db \<Rightarrow> 'a option res \<times> db) \<Rightarrow> ('a \<Rightarrow> string) \<Rightarrow> string \<Rightarrow> 's world \<Rightarrow> string \<times> 's world" where
  "lookup_field getter field i w =
     (if i = [] then ([], w)
      else case on_db (getter i) w of
             (Inr (Some x), w') \<Rightarrow> (field x, w') | (_, w') \<Rightarrow> ([], w'))"

definition failBackup :: "'s backup_svc \<Rightarrow> backup \<Rightarrow> string \<Rightarrow> 's world \<Rightarrow> backup \<times> 's world" where
  "failBackup s b logOutput w =
     (let (now, w1) = time_now w;
          b' = b\<lparr>b_CompletedAt := Some now, b_Status := ''failed'', b_LogOutput := logOutput\<rparr>;
          (_, w2) = on_db (BackupRepo_Update b') w1
      in if bs_notifier s \<and> b_NotifyOnFailure b'
         then let (connDBType, w3) = lookup_field ConnectionRepo_GetByID c_DBType (b_ConnectionID b') w2;
                  (dbName, w4) = lookup_field ConnectionRepo_GetDatabase d_DBName (b_DatabaseID b') w3
              in (b', notify \<lparr>nc_targets = b_NotifTargetIDs b', nc_backup = b_ID b', nc_db = dbName,
                    nc_dbtype = connDBType, nc_status = ''failed'', nc_size = int64PtrToInt64 (b_SizeBytes b'),
                    nc_duration = int64PtrToInt64 (b_DurationMs b'), nc_log = logOutput\<rparr> w4)
         else (b', w2))"

definition completeBackup ::
  "'s backup_svc \<Rightarrow> backup \<Rightarrow> connection \<Rightarrow> connection_database \<Rightarrow> string \<Rightarrow> int \<Rightarrow> string option \<Rightarrow>
   's world \<Rightarrow> backup \<times> 's world" where
  "completeBackup s b conn db logOutput startTime providerID w =
     (let (now, w1) = time_now w;
          b' = b\<lparr>b_DurationMs := Some (duration_ms startTime now), b_CompletedAt := Some now,
                 b_Status := ''success'', b_LogOutput := logOutput, b_StorageProviderID := providerID\<rparr>;
          (_, w2) = on_db (BackupRepo_Update b') w1
      in if bs_notifier s \<and> b_NotifyOnSuccess b'
         then (b', notify \<lparr>nc_targets = b_NotifTargetIDs b', nc_backup = b_ID b', nc_db = d_DBName db,
                 nc_dbtype = c_DBType conn, nc_status = ''success'', nc_size = int64PtrToInt64 (b_SizeBytes b'),
                 nc_duration = int64PtrToInt64 (b_DurationMs b'), nc_log = b_LogOutput b'\<rparr> w2)
         else (b', w2))"

subsection \<open>Full backups\<close>

definition buildDumpCmd :: "'s ext \<Rightarrow> connection \<Rightarrow> string \<Rightarrow> cmd" where
  "buildDumpCmd X conn dbName =
     (if c_DBType conn = ''postgresql'' then
        \<lparr>cmd_name = ''pg_dump'',
         cmd_args = [''-h'', c_Host conn, ''-p'', fmt_d (c_Port conn), ''-U'', c_Username conn, ''-d'', dbName,
           ''--no-password'', ''--clean'', ''--if-exists'', ''--format=c''],
         cmd_env = [''PGPASSWORD='' @ c_Password conn]\<rparr>
      else if c_DBType conn = ''mysql'' \<or> c_DBType conn = ''mariadb'' then
        \<lparr>cmd_name = (if c_DBType conn = ''mariadb'' \<and> x_lookpath X ''mariadb-dump'' then ''mariadb-dump'' else ''mysqldump''),
         cmd_args = [''-h'', c_Host conn, ''-P'', fmt_d (c_Port conn), ''-u'', c_Username conn,
           ''--password='' @ c_Password conn, ''--single-transaction'', ''--routines'', ''--triggers'', ''--events'', dbName],
         cmd_env = []\<rparr>
      else \<lparr>cmd_name = ''false'', cmd_args = [], cmd_env = []\<rparr>)"

definition compress_error :: "gerror \<Rightarrow> gerror" where
  "compress_error e = ''compress: '' @ e"

text \<open>The compression goroutine on the bytes and the read error of the dump: what it writes to the pipe,
  the checksum of the compressed bytes, and what it sends to \<open>errChan\<close>. With encryption the writer
  is closed twice, by the explicit call and by the deferred one.\<close>

definition compress_stream ::
  "'s ext \<Rightarrow> bytes option \<Rightarrow> bytes \<Rightarrow> gerror option \<Rightarrow> rng \<Rightarrow> (bytes \<times> string \<times> gerror option) \<times> rng" where
  "compress_stream X enc dump readErr r =
     (let chunks = x_gzip X dump; checksum = hex_encode (x_sha256 (x_crypto X) (concat chunks))
      in case enc of
           None \<Rightarrow>
             ((concat chunks, checksum, map_option compress_error readErr), r)
         | Some masterKey \<Rightarrow>
             (case EncryptStream (x_crypto X) masterKey pipe_write new_pipe ''default'' r of
                ((Inl e, d), r') \<Rightarrow> ((pp_data d, checksum, Some (''encrypt stream init: '' @ e)), r')
              | ((Inr ew, _), r') \<Rightarrow>
                  (let (writeErr, ew1) = write_all (x_crypto X) pipe_write ew chunks;
                       (_, ew2) = encryptWriter_Close pipe_write ew1;
                       (_, ew3) = encryptWriter_Close pipe_write ew2;
                       copyErr = (case writeErr of None \<Rightarrow> readErr | Some e \<Rightarrow> Some e)
                   in ((pp_data (ew_dst ew3), checksum, map_option compress_error copyErr), r'))))"

definition storage_key :: "'s ext \<Rightarrow> connection \<Rightarrow> connection_database \<Rightarrow> string \<Rightarrow> int \<Rightarrow> string" where
  "storage_key X conn db backupID startTime =
     ''backups/'' @ c_Name conn @ ''/'' @ d_DBName db @ ''/'' @ backupID @ ''-'' @ x_format X startTime @ ''.'' @ ''sql.gz''"

definition runFullBackup ::
  "'s ext \<Rightarrow> 's backup_svc \<Rightarrow> backup \<Rightarrow> connection \<Rightarrow> connection_database \<Rightarrow> provider \<Rightarrow> int \<Rightarrow>
   's world \<Rightarrow> backup \<times> 's world" where
  "runFullBackup X s b conn db prov startTime w =
     (case CreateS3ClientFromProvider X prov of
        Inl e \<Rightarrow> failBackup s b (''STORAGE CLIENT ERROR: '' @ e @ nl) w
      | Inr client \<Rightarrow>
          let key = storage_key X conn db (b_ID b) startTime;
              b1 = b\<lparr>b_StoragePath := key\<rparr>;
              log0 = ''BACKUP: streaming '' @ c_DBType conn @ '' '' @ d_DBName db @ nl;
              out = x_dump X (buildDumpCmd X conn (d_DBName db)) startTime
          in case do_pipe_err out of
               Some e \<Rightarrow> failBackup s b1 (log0 @ ''STDOUT PIPE ERROR: '' @ e @ nl) w
             | None \<Rightarrow>
                 (case do_start_err out of
                    Some e \<Rightarrow> failBackup s b1 (log0 @ ''DUMP START ERROR: '' @ e @ nl) w
                  | None \<Rightarrow>
                      let log1 = log0 @ ''DUMP: '' @ c_DBType conn @ '' started'' @ nl;
                          ((content, checksum, compErr), w1) =
                            on_rng (compress_stream X (bs_encSvc s) (do_stdout out) (do_read_err out)) w
                      in case S3_UploadStream X client key content w1 of
                           (Some e, w2) \<Rightarrow> failBackup s b1 (log1 @ ''UPLOAD ERROR: '' @ e @ nl) w2
                         | (None, w2) \<Rightarrow>
                             (case compErr of
                                Some e \<Rightarrow> failBackup s b1 (log1 @ ''COMPRESS ERROR: '' @ e @ nl) w2
                              | None \<Rightarrow>
                                  (case do_wait_err out of
                                     Some e \<Rightarrow> failBackup s b1 (log1 @ ''DUMP PROCESS ERROR: '' @ e @ nl) w2
                                   | None \<Rightarrow>
                                       let rawSize = int (length (do_stdout out));
                                           log2 = log1 @ ''DUMP: '' @ fmt_d rawSize @ '' bytes uncompressed'' @ nl;
                                           b2 = b1\<lparr>b_SizeBytes := Some rawSize,
                                                   b_Checksum := (if bs_encSvc s \<noteq> None then checksum else b_Checksum b1)\<rparr>
                                       in completeBackup s b2 conn db log2 startTime (Some (p_ID prov)) w2))))"

subsection \<open>Incremental backups\<close>

definition incremental_request ::
  "'s backup_svc \<Rightarrow> backup \<Rightarrow> connection \<Rightarrow> connection_database \<Rightarrow> provider \<Rightarrow> incremental_schedule" where
  "incremental_request s b conn db prov =
     \<lparr>is_ID = [], is_ConnectionID = c_ID conn, is_DatabaseID = d_DBName db,
      is_BackupType = b_BackupType b, is_StorageProviderID = p_ID prov,
      is_EncryptionEnabled = (bs_encSvc s \<noteq> None), is_EncryptionKeyID = []\<rparr>"

definition call_engine ::
  "'s incremental_engine \<Rightarrow> backup list res \<Rightarrow> incremental_schedule \<Rightarrow> connection \<Rightarrow> backup \<Rightarrow> 's world \<Rightarrow>
   metadata res \<times> 's world" where
  "call_engine engine prevFull incrSch conn b w =
     (let hasPrevious = (case prevFull of Inl e \<Rightarrow> False | Inr bs \<Rightarrow> length bs > 0)
      in if hasPrevious \<and> b_BackupType b = ''incremental''
         then eng_BackupIncremental engine incrSch conn (b_ID b) w
         else eng_BackupFull engine incrSch conn (b_ID b) w)"

text \<open>The fields taken from the engine's metadata.\<close>

definition with_metadata :: "metadata \<Rightarrow> connection \<Rightarrow> backup \<Rightarrow> backup" where
  "with_metadata meta conn b =
     (let b1 = b\<lparr>b_StoragePath := (case map_of meta ''s3_key'' of Some key \<Rightarrow> key
                   | None \<Rightarrow> ''incremental/'' @ c_Name conn @ ''/'' @ b_ID b)\<rparr>
      in case map_of meta ''size_bytes'' of
           None \<Rightarrow> b1
         | Some sz \<Rightarrow> b1\<lparr>b_SizeBytes := Some (case sscanf_d sz of None \<Rightarrow> 0 | Some v \<Rightarrow> v)\<rparr>)"

definition runIncrementalBackup ::
  "'s ext \<Rightarrow> 's backup_svc \<Rightarrow> backup \<Rightarrow> connection \<Rightarrow> connection_database \<Rightarrow> provider \<Rightarrow> int \<Rightarrow>
   's world \<Rightarrow> backup \<times> 's world" where
  "runIncrementalBackup X s b conn db prov startTime w =
     (case bs_incrRegistry s of
        None \<Rightarrow> failBackup s b (''INCREMENTAL ENGINE ERROR: no incremental engine registry configured'' @ nl) w
      | Some reg \<Rightarrow>
          (case Registry_Get reg (c_DBType conn) of
             Inl e \<Rightarrow> failBackup s b (''INCREMENTAL ENGINE ERROR: '' @ e @ nl) w
           | Inr engine \<Rightarrow>
               let log0 = ''INCREMENTAL: running '' @ b_BackupType b @ '' via '' @ eng_DBType engine @ '' engine'' @ nl;
                   (prevFull, w1) = on_db (BackupRepo_ListOldestByBackupType [] ''incremental'' 1) w
               in case call_engine engine prevFull (incremental_request s b conn db prov) conn b w1 of
                    (Inl e, w2) \<Rightarrow> failBackup s b (log0 @ ''ENGINE ERROR: '' @ e @ nl) w2
                  | (Inr meta, w2) \<Rightarrow>
                      let log1 = log0 @ eng_DBType engine @ '' metadata: '' @ x_json X meta @ nl
                      in completeBackup s ((with_metadata meta conn b)\<lparr>b_LogOutput := log1\<rparr>) conn db log1 startTime
                           (Some (p_ID prov)) w2))"

subsection \<open>Starting and running\<close>

text \<open>The arguments of \<open>go s.runBackup(b, conn, db)\<close>.\<close>

record job =
  j_backup :: backup
  j_conn :: connection
  j_db :: connection_database

definition new_backup ::
  "string \<Rightarrow> string \<Rightarrow> string \<Rightarrow> string option \<Rightarrow> string option \<Rightarrow> string list \<Rightarrow> bool \<Rightarrow> bool \<Rightarrow> backup" where
  "new_backup connectionID databaseID backupType scheduleID storageProviderID notifTargetIDs notifOnSuccess notifOnFailure =
     zero_backup\<lparr>b_ConnectionID := connectionID, b_DatabaseID := databaseID, b_ScheduleID := scheduleID,
       b_BackupType := backupType, b_Status := ''running'', b_VerifyStatus := ''pending'',
       b_StorageProviderID := storageProviderID, b_NotifTargetIDs := notifTargetIDs,
       b_NotifyOnSuccess := notifOnSuccess, b_NotifyOnFailure := notifOnFailure\<rparr>"

text \<open>Creating the record and starting the goroutine.\<close>

definition launch :: "backup \<Rightarrow> connection \<Rightarrow> connection_database \<Rightarrow> 's world \<Rightarrow> (backup \<times> job) res \<times> 's world" where
  "launch b conn db w =
     (let (i, w1) = uuid_new w; (now, w2) = time_now w1
      in and_then (wrap_err ''create backup record: '' (on_db (BackupRepo_Create i now b) w2))
           (\<lambda>b' w3. (Inr (b', \<lparr>j_backup = b', j_conn = conn, j_db = db\<rparr>), w3)))"

definition StartBackup ::
  "string \<Rightarrow> string \<Rightarrow> string \<Rightarrow> string option \<Rightarrow> string option \<Rightarrow> string list \<Rightarrow> bool \<Rightarrow> bool \<Rightarrow>
   's world \<Rightarrow> (backup \<times> job) res \<times> 's world" where
  "StartBackup connectionID databaseID backupType scheduleID storageProviderID notifTargetIDs notifOnSuccess notifOnFailure w =
     and_then (wrap_err ''get connection: '' (on_db (ConnectionRepo_GetByID connectionID) w)) (\<lambda>conn w1.
       case conn of None \<Rightarrow> (Inl ''connection not found'', w1)
     | Some conn \<Rightarrow>
         and_then (wrap_err ''get database: '' (on_db (ConnectionRepo_GetDatabase databaseID) w1)) (\<lambda>db w2.
           case db of None \<Rightarrow> (Inl ''database not found'', w2)
         | Some db \<Rightarrow> launch (new_backup connectionID databaseID backupType scheduleID storageProviderID
                             notifTargetIDs notifOnSuccess notifOnFailure) conn db w2))"

text \<open>The body of \<open>runBackup\<close> between acquiring and releasing the semaphore.\<close>

definition runBackup :: "'s ext \<Rightarrow> 's backup_svc \<Rightarrow> job \<Rightarrow> 's world \<Rightarrow> backup \<times> 's world" where
  "runBackup X s j w =
     (let (startTime, w1) = time_now w;
          b = (j_backup j)\<lparr>b_StartedAt := Some startTime\<rparr>
      in case resolveProvider (GetDecrypted X (bs_provSvc s)) (GetDefault X (bs_provSvc s)) (b_StorageProviderID b) w1 of
           (Inl e, w2) \<Rightarrow> failBackup s b (''STORAGE PROVIDER ERROR: '' @ e @ nl) w2
         | (Inr prov, w2) \<Rightarrow>
             if b_BackupType b = ''incremental''
             then runIncrementalBackup X s b (j_conn j) (j_db j) prov startTime w2
             else runFullBackup X s b (j_conn j) (j_db j) prov startTime w2)"

section \<open>Reading, deleting, downloading\<close>

definition Backup_List :: "string \<Rightarrow> string \<Rightarrow> int \<Rightarrow> int \<Rightarrow> 's world \<Rightarrow> backup list res \<times> 's world" where
  "Backup_List cid did limit offset w =
     (let limit' = (if limit \<le> 0 \<or> limit > 100 then 50 else limit)
      in on_db (BackupRepo_List cid did limit' offset) w)"

definition Backup_Get :: "string \<Rightarrow> 's world \<Rightarrow> backup option res \<times> 's world" where
  "Backup_Get i w = on_db (BackupRepo_GetByID i) w"

text \<open>Deleting the stored object: every failure on the way is ignored.\<close>

definition delete_object :: "'s ext \<Rightarrow> 's backup_svc \<Rightarrow> backup \<Rightarrow> 's world \<Rightarrow> 's world" where
  "delete_object X s b w =
     (case b_StorageProviderID b of
        Some (c # cs) \<Rightarrow>
          (case GetDecrypted X (bs_provSvc s) (c # cs) w of
             (Inr (Some prov), w1) \<Rightarrow>
               (case CreateS3ClientFromProvider X prov of
                  Inl e \<Rightarrow> w1 | Inr client \<Rightarrow> snd (S3_Delete X client (b_StoragePath b) w1))
           | (_, w1) \<Rightarrow> w1)
      | _ \<Rightarrow> w)"

definition Backup_Delete :: "'s ext \<Rightarrow> 's backup_svc \<Rightarrow> string \<Rightarrow> 's world \<Rightarrow> unit res \<times> 's world" where
  "Backup_Delete X s i w =
     and_then (on_db (BackupRepo_GetByID i) w) (\<lambda>b w1. case b of
         None \<Rightarrow> (Inl ''backup not found'', w1)
       | Some b \<Rightarrow> on_db (BackupRepo_Delete i) (delete_object X s b w1))"

text \<open>\<open>Download\<close>: the bytes that reached the writer, and the error.\<close>

definition Backup_Download :: "'s ext \<Rightarrow> 's backup_svc \<Rightarrow> string \<Rightarrow> 's world \<Rightarrow> (bytes \<times> gerror option) \<times> 's world" where
  "Backup_Download X s i w =
     (case on_db (BackupRepo_GetByID i) w of
        (Inl e, w1) \<Rightarrow> (([], Some (''get backup: '' @ e)), w1)
      | (Inr None, w1) \<Rightarrow> (([], Some ''backup not found''), w1)
      | (Inr (Some b), w1) \<Rightarrow>
          (case b_StorageProviderID b of
             Some (c # cs) \<Rightarrow>
               (case GetDecrypted X (bs_provSvc s) (c # cs) w1 of
                  (Inl e, w2) \<Rightarrow> (([], Some (''get storage provider: '' @ e)), w2)
                | (Inr None, w2) \<Rightarrow> (([], Some ''storage provider not found''), w2)
                | (Inr (Some prov), w2) \<Rightarrow>
                    (case CreateS3ClientFromProvider X prov of
                       Inl e \<Rightarrow> (([], Some (''create storage client: '' @ e)), w2)
                     | Inr client \<Rightarrow>
                         (case S3_Download X client (b_StoragePath b) w2 of
                            (bs, Some e) \<Rightarrow> ((bs, Some (''download from storage: '' @ e)), w2)
                          | (bs, None) \<Rightarrow> ((bs, None), w2))))
           | _ \<Rightarrow> (([], Some ''backup has no storage provider''), w1)))"

record stats_response =
  st_TotalBackups :: nat
  st_TotalSize :: int
  st_ByType :: "string \<rightharpoonup> nat"
  st_ByStatus :: "string \<rightharpoonup> nat"
  st_SuccessRate :: rat

text \<open>\<open>m[k]++\<close> on a map, where a missing key counts as zero.\<close>

definition incr :: "(string \<rightharpoonup> nat) \<Rightarrow> string \<Rightarrow> (string \<rightharpoonup> nat)" where
  "incr m k = m(k \<mapsto> Suc (case m k of None \<Rightarrow> 0 | Some n \<Rightarrow> n))"

definition count_backup :: "backup \<Rightarrow> stats_response \<Rightarrow> stats_response" where
  "count_backup b st = st\<lparr>st_TotalBackups := Suc (st_TotalBackups st), st_ByType := incr (st_ByType st) (b_BackupType b),
     st_ByStatus := incr (st_ByStatus st) (b_Status b),
     st_TotalSize := st_TotalSize st + (case b_SizeBytes b of None \<Rightarrow> 0 | Some n \<Rightarrow> n)\<rparr>"

definition stats_of :: "backup list \<Rightarrow> stats_response" where
  "stats_of bs =
     (let st = fold count_backup bs \<lparr>st_TotalBackups = 0, st_TotalSize = 0, st_ByType = Map.empty,
                 st_ByStatus = Map.empty, st_SuccessRate = 0\<rparr>
      in if st_TotalBackups st > 0
         then st\<lparr>st_SuccessRate := of_nat (case st_ByStatus st ''success'' of None \<Rightarrow> 0 | Some n \<Rightarrow> n)
                   / of_nat (st_TotalBackups st) * 100\<rparr>
         else st)"

definition Backup_Stats :: "'s world \<Rightarrow> stats_response res \<times> 's world" where
  "Backup_Stats w = and_then (on_db (BackupRepo_List [] [] 10000 0) w) (\<lambda>bs w1. (Inr (stats_of bs), w1))"

definition SlowestBackups :: "int \<Rightarrow> 's world \<Rightarrow> backup list res \<times> 's world" where
  "SlowestBackups limit w = on_db (BackupRepo_ListSlowest limit) w"

definition Freshness :: "int \<Rightarrow> 's world \<Rightarrow> stale_backup_alert list res \<times> 's world" where
  "Freshness hours w = (let (now, w1) = time_now w in on_db (BackupRepo_ListStaleConnections hours now) w1)"

section \<open>Verification\<close>

text \<open>The result carries the struct that is handed to \<open>go s.runVerification(b)\<close>.\<close>

definition StartVerification :: "string \<Rightarrow> 's world \<Rightarrow> backup res \<times> 's world" where
  "StartVerification i w =
     and_then (wrap_err ''get backup: '' (on_db (BackupRepo_GetByID i) w)) (\<lambda>b w1. case b of
         None \<Rightarrow> (Inl ''backup not found'', w1)
       | Some b \<Rightarrow>
           if b_Status b \<noteq> ''success'' then (Inl (''cannot verify backup with status: '' @ b_Status b), w1)
           else let b' = b\<lparr>b_VerifyStatus := ''verifying'', b_Status := ''verifying''\<rparr>
                in and_then (wrap_err ''update verify status: '' (on_db (BackupRepo_Update b') w1))
                     (\<lambda>_ w2. (Inr b', w2)))"

definition failVerification :: "backup \<Rightarrow> string \<Rightarrow> 's world \<Rightarrow> backup \<times> 's world" where
  "failVerification b logOutput w =
     (let (now, w1) = time_now w;
          b' = b\<lparr>b_VerifiedAt := Some now, b_VerifyStatus := ''failed'', b_Status := ''failed'', b_LogOutput := logOutput\<rparr>;
          (_, w2) = on_db (BackupRepo_Update b') w1
      in (b', w2))"

definition passVerification :: "backup \<Rightarrow> string \<Rightarrow> 's world \<Rightarrow> backup \<times> 's world" where
  "passVerification b logOutput w =
     (let (now, w1) = time_now w;
          b' = b\<lparr>b_VerifiedAt := Some now, b_VerifyStatus := ''passed'', b_Status := ''success'', b_LogOutput := logOutput\<rparr>;
          (_, w2) = on_db (BackupRepo_Update b') w1
      in (b', w2))"

text \<open>\<open>io.Copy(hash, decReader)\<close> with its 32 KB buffer.\<close>

definition copy_decrypted :: "crypto \<Rightarrow> dec_reader \<Rightarrow> bytes \<times> rerr" where
  "copy_decrypted C r = the (io_copy (decryptReader_Read C) (Suc (dr_budget C r)) (32 * 1024) r)"

text \<open>The end of a verification, once the stream has been read.\<close>

definition compare_checksum :: "'s ext \<Rightarrow> backup \<Rightarrow> string \<Rightarrow> bytes \<Rightarrow> gerror option \<Rightarrow> 's world \<Rightarrow> backup \<times> 's world" where
  "compare_checksum X b log0 data dlErr w =
     (case dlErr of
        Some e \<Rightarrow> failVerification b (log0 @ ''DOWNLOAD ERROR: download: '' @ e @ nl) w
      | None \<Rightarrow>
          let computed = hex_encode (x_sha256 (x_crypto X) data);
              log1 = log0 @ ''CHECKSUM: computed='' @ computed @ nl
          in if b_Checksum b \<noteq> [] then
               if computed = b_Checksum b
               then passVerification b (log1 @ ''VERIFY: checksum MATCH '' @ em_dash @ '' integrity verified'' @ nl) w
               else failVerification b (log1 @ ''VERIFY: checksum MISMATCH '' @ em_dash @ '' stored='' @ b_Checksum b @
                      '', computed='' @ computed @ nl) w
             else passVerification (b\<lparr>b_Checksum := computed\<rparr>)
                    (log1 @ ''VERIFY: no stored checksum '' @ em_dash @ '' saved computed checksum'' @ nl) w)"

definition runVerification :: "'s ext \<Rightarrow> 's backup_svc \<Rightarrow> backup \<Rightarrow> 's world \<Rightarrow> backup \<times> 's world" where
  "runVerification X s b w =
     (let log0 = ''VERIFY: starting verification for backup '' @ b_ID b @ nl
      in if b_BackupType b = ''incremental'' \<and> bs_incrRegistry s \<noteq> None
         then passVerification b (log0 @ ''VERIFY: incremental backup '' @ em_dash @
                '' verification via pgBackRest/XtraBackup not yet supported'' @ nl @
                ''VERIFY: check backup log output for tool-specific backup status'' @ nl) w
         else case resolveProvider (GetDecrypted X (bs_provSvc s)) (GetDefault X (bs_provSvc s)) (b_StorageProviderID b) w of
             (Inl e, w1) \<Rightarrow> failVerification b (log0 @ ''STORAGE PROVIDER ERROR: '' @ e @ nl) w1
           | (Inr prov, w1) \<Rightarrow>
               (case CreateS3ClientFromProvider X prov of
                  Inl e \<Rightarrow> failVerification b (log0 @ ''STORAGE CLIENT ERROR: '' @ e @ nl) w1
                | Inr client \<Rightarrow>
                    let (content, dlErr) = S3_Download X client (b_StoragePath b) w1
                    in case bs_encSvc s of
                         Some masterKey \<Rightarrow>
                           if b_EncryptedSizeBytes b \<noteq> None \<and> the (b_EncryptedSizeBytes b) > 0
                           then case DecryptStream (x_crypto X) masterKey content ''default'' of
                               Inl e \<Rightarrow> failVerification b (log0 @ ''DECRYPT STREAM INIT ERROR: '' @ e @ nl) w1
                             | Inr r \<Rightarrow>
                                 let log1 = log0 @ ''DECRYPT: streaming decrypt OK'' @ nl
                                 in (case copy_decrypted (x_crypto X) r of
                                       (data, RErr e) \<Rightarrow> failVerification b (log1 @ ''VERIFY STREAM ERROR: '' @ e @ nl) w1
                                     | (data, EOF) \<Rightarrow> compare_checksum X b log1 data dlErr w1)
                           else compare_checksum X b log0 content dlErr w1
                       | None \<Rightarrow> compare_checksum X b log0 content dlErr w1))"

section \<open>Retention\<close>

text \<open>\<open>for _, b := range old { s.Delete(b.ID) }\<close>, errors only printed.\<close>

fun delete_all :: "'s ext \<Rightarrow> 's backup_svc \<Rightarrow> backup list \<Rightarrow> 's world \<Rightarrow> 's world" where
  "delete_all X s [] w = w"
| "delete_all X s (b # bs) w = delete_all X s bs (snd (Backup_Delete X s (b_ID b) w))"

definition expire :: "'s ext \<Rightarrow> 's backup_svc \<Rightarrow> string \<Rightarrow> string \<Rightarrow> int \<Rightarrow> 's world \<Rightarrow> 's world" where
  "expire X s scheduleID btype keep w =
     (if keep > 0
      then case on_db (BackupRepo_ListOldestByBackupType scheduleID btype keep) w of
             (Inl e, w1) \<Rightarrow> w1 | (Inr old, w1) \<Rightarrow> delete_all X s old w1
      else w)"

definition EnforceRetention :: "'s ext \<Rightarrow> 's backup_svc \<Rightarrow> string \<Rightarrow> int \<Rightarrow> int \<Rightarrow> 's world \<Rightarrow> 's world" where
  "EnforceRetention X s scheduleID retentionFull retentionIncr w =
     expire X s scheduleID ''incremental'' retentionIncr (expire X s scheduleID ''full'' retentionFull w)"

end
