(* ===== verification/Backup_Proofs.thy ===== *)
theory Backup_Proofs
  imports Backup_Service
begin

text \<open>
  Lemmas of the backup service and its properties: what a run leaves in the database and in the object
  store, the schema invariant, deletion, retention, verification and statistics.
\<close>

section \<open>What the operations leave alone\<close>

lemma ConnectionRepo_reads:
  "same_tables d (snd (ConnectionRepo_GetByID i d))" "same_tables d (snd (ConnectionRepo_GetDatabase i d))"
  by (simp_all add: ConnectionRepo_GetByID_def ConnectionRepo_GetDatabase_def)

lemma lookup_field_reads:
  assumes "\<And>i d. same_tables d (snd (getter i d))"
  shows "read_only w (snd (lookup_field getter f i w))"
proof -
  have "read_only w (snd (on_db (getter i) w))" by (rule on_db_read_only) (rule assms)
  then show ?thesis by (auto simp: lookup_field_def split: prod.splits sum.splits option.splits)
qed

lemma lookup_field_faults:
  assumes "\<And>i d. faults d = [] \<Longrightarrow> faults (snd (getter i d)) = []" "faults (w_db w) = []"
  shows "faults (w_db (snd (lookup_field getter f i w))) = []"
proof -
  obtain x w1 where g: "on_db (getter i) w = (x, w1)" by fastforce
  then have "w_db w1 = snd (getter i (w_db w))" using on_db_fields(1) [of "getter i" w] by simp
  then have "faults (w_db w1) = []" using assms by simp
  with g show ?thesis by (auto simp: lookup_field_def assms(2) split: sum.splits option.splits)
qed

lemma connection_reads_faults:
  "faults d = [] \<Longrightarrow> faults (snd (ConnectionRepo_GetByID i d)) = []"
  "faults d = [] \<Longrightarrow> faults (snd (ConnectionRepo_GetDatabase i d)) = []"
  by (simp_all add: ConnectionRepo_GetByID_def ConnectionRepo_GetDatabase_def)

lemma BackupRepo_Update_faults: "faults d = [] \<Longrightarrow> faults (snd (BackupRepo_Update b d)) = []"
  by (auto simp: BackupRepo_Update_def db_exec_def db_try_def sql_update_backup_def sql_update_def wrap_err_def
      split: prod.splits option.splits sum.splits if_splits list.splits)

lemma notify_fields [simp]:
  "w_db (notify c w) = w_db w" "w_store (notify c w) = w_store w" "w_uuids (notify c w) = w_uuids w"
  by (simp_all add: notify_def)

definition failed_struct :: "backup \<Rightarrow> string \<Rightarrow> int \<Rightarrow> backup" where
  "failed_struct b l now = b\<lparr>b_CompletedAt := Some now, b_Status := ''failed'', b_LogOutput := l\<rparr>"

text \<open>\<open>failBackup\<close> is one update of the backup row, then reads and the notification.\<close>

lemma failBackup_effect:
  assumes "failBackup s b l w = (b', w')"
  shows "b' = failed_struct b l (w_clock w 0)"
    and "same_tables (snd (BackupRepo_Update b' (w_db w))) (w_db w')"
    and "w_store w' = w_store w" "w_uuids w' = w_uuids w" "faults (w_db w) = [] \<Longrightarrow> faults (w_db w') = []"
proof -
  obtain now w1 where t: "time_now w = (now, w1)" by fastforce
  then have now: "now = w_clock w 0" and w1: "w_db w1 = w_db w" "w_store w1 = w_store w" "w_uuids w1 = w_uuids w"
    by (auto simp: time_now_def)
  define b1 where "b1 = b\<lparr>b_CompletedAt := Some now, b_Status := ''failed'', b_LogOutput := l\<rparr>"
  obtain u w2 where u: "on_db (BackupRepo_Update b1) w1 = (u, w2)" by fastforce
  then have w2: "w_db w2 = snd (BackupRepo_Update b1 (w_db w))" "w_store w2 = w_store w" "w_uuids w2 = w_uuids w"
    using w1 on_db_fields [of "BackupRepo_Update b1" w1] by simp_all
  obtain ct w3 where l3: "lookup_field ConnectionRepo_GetByID c_DBType (b_ConnectionID b1) w2 = (ct, w3)" by fastforce
  obtain dn w4 where l4: "lookup_field ConnectionRepo_GetDatabase d_DBName (b_DatabaseID b1) w3 = (dn, w4)" by fastforce
  have "read_only w2 w3"
    using lookup_field_reads [where getter = ConnectionRepo_GetByID and w = w2, OF ConnectionRepo_reads(1)] l3
    by (metis snd_conv)
  moreover have "read_only w3 w4"
    using lookup_field_reads [where getter = ConnectionRepo_GetDatabase and w = w3, OF ConnectionRepo_reads(2)] l4
    by (metis snd_conv)
  ultimately have r: "read_only w2 w4" by (rule read_only_trans)
  have "b' = b1 \<and> (w' = w2 \<or> (\<exists>c. w' = notify c w4))"
    using assms t u l3 l4 by (auto simp: failBackup_def Let_def b1_def split: if_splits)
  then show "b' = failed_struct b l (w_clock w 0)"
    "same_tables (snd (BackupRepo_Update b' (w_db w))) (w_db w')"
    "w_store w' = w_store w" "w_uuids w' = w_uuids w"
    using w2 read_only_fields [OF r] by (auto simp: failed_struct_def b1_def now)
  have "faults (w_db w4) = [] \<and> faults (w_db w2) = []" if "faults (w_db w) = []"
  proof -
    have "faults (w_db w2) = []" using w2(1) BackupRepo_Update_faults [OF that] by simp
    then show ?thesis
      using lookup_field_faults [where getter = ConnectionRepo_GetByID and w = w2, OF connection_reads_faults(1)] l3
        lookup_field_faults [where getter = ConnectionRepo_GetDatabase and w = w3, OF connection_reads_faults(2)] l4
      by (metis snd_conv)
  qed
  then show "faults (w_db w) = [] \<Longrightarrow> faults (w_db w') = []"
    using \<open>b' = b1 \<and> (w' = w2 \<or> (\<exists>c. w' = notify c w4))\<close> by auto
qed

definition success_struct :: "backup \<Rightarrow> string \<Rightarrow> int \<Rightarrow> string option \<Rightarrow> int \<Rightarrow> backup" where
  "success_struct b l start pid now = b\<lparr>b_DurationMs := Some (duration_ms start now), b_CompletedAt := Some now,
     b_Status := ''success'', b_LogOutput := l, b_StorageProviderID := pid\<rparr>"

lemma completeBackup_effect:
  assumes "completeBackup s b conn db l start pid w = (b', w')"
  shows "b' = success_struct b l start pid (w_clock w 0)"
    and "w_db w' = snd (BackupRepo_Update b' (w_db w))"
    and "w_store w' = w_store w" "w_uuids w' = w_uuids w"
proof -
  obtain now w1 where t: "time_now w = (now, w1)" by fastforce
  then have now: "now = w_clock w 0" and w1: "w_db w1 = w_db w" "w_store w1 = w_store w" "w_uuids w1 = w_uuids w"
    by (auto simp: time_now_def)
  define b1 where "b1 = success_struct b l start pid now"
  obtain u w2 where u: "on_db (BackupRepo_Update b1) w1 = (u, w2)" by fastforce
  then have w2: "w_db w2 = snd (BackupRepo_Update b1 (w_db w))" "w_store w2 = w_store w" "w_uuids w2 = w_uuids w"
    using w1 on_db_fields [of "BackupRepo_Update b1" w1] by simp_all
  have "b' = b1 \<and> (w' = w2 \<or> (\<exists>c. w' = notify c w2))"
    using assms t u by (auto simp: completeBackup_def Let_def b1_def success_struct_def split: if_splits)
  then show "b' = success_struct b l start pid (w_clock w 0)" "w_db w' = snd (BackupRepo_Update b' (w_db w))"
    "w_store w' = w_store w" "w_uuids w' = w_uuids w"
    using w2 by (auto simp: b1_def now)
qed

section \<open>The outcomes of a run\<close>

text \<open>A run ends with one update of the backup row by a struct that is failed or successful; before it
  the database was only read.\<close>

definition ends_run :: "backup \<Rightarrow> db \<Rightarrow> backup \<Rightarrow> db \<Rightarrow> bool" where
  "ends_run b d b' d' \<longleftrightarrow> (\<exists>d0. same_tables d d0 \<and> same_tables (snd (BackupRepo_Update b' d0)) d' \<and>
     (faults d = [] \<longrightarrow> faults d0 = [] \<and> faults d' = [])) \<and>
     b_ID b' = b_ID b \<and> b_VerifyStatus b' = b_VerifyStatus b \<and> b_Status b' \<in> {''success'', ''failed''} \<and>
     b_CompletedAt b' \<noteq> None \<and>
     (b_StorageProviderID b' = b_StorageProviderID b \<or>
       (\<exists>p. b_StorageProviderID b' = Some p \<and> has_row pr_id p (t_providers d)))"

lemma failBackup_ends:
  assumes "failBackup s b1 l w1 = (b', w')" "same_tables d (w_db w1)" "faults d = [] \<longrightarrow> faults (w_db w1) = []"
    "b_ID b1 = b_ID b" "b_VerifyStatus b1 = b_VerifyStatus b" "b_StorageProviderID b1 = b_StorageProviderID b"
  shows "ends_run b d b' (w_db w')"
  using failBackup_effect [OF assms(1)] assms(2-6) unfolding ends_run_def
  by (auto simp: failed_struct_def intro!: exI [of _ "w_db w1"])

lemma completeBackup_ends:
  assumes "completeBackup s b1 conn db l start (Some p) w1 = (b', w')" "same_tables d (w_db w1)"
    "faults d = [] \<longrightarrow> faults (w_db w1) = []" "b_ID b1 = b_ID b" "b_VerifyStatus b1 = b_VerifyStatus b"
    "has_row pr_id p (t_providers d)"
  shows "ends_run b d b' (w_db w')"
  using completeBackup_effect [OF assms(1)] assms(2-6) unfolding ends_run_def
  by (auto simp: success_struct_def BackupRepo_Update_faults intro!: exI [of _ "w_db w1"])

lemma runFullBackup_ends:
  assumes "runFullBackup X s b conn db prov start w = (b', w')" "has_row pr_id (p_ID prov) (t_providers (w_db w))"
  shows "ends_run b (w_db w) b' (w_db w')"
proof -
  have up: "w_db w2 = w_db w" if "on_rng f w = (x, w1)" "S3_UploadStream X c k content w1 = (e, w2)"
    for f x w1 c k content e w2 using that S3_Upload_fields(1) on_rng_fields(1) [of f w] by (metis snd_conv)
  show ?thesis
    using assms unfolding runFullBackup_def
    by (auto simp: Let_def up split: sum.splits option.splits prod.splits if_splits
        elim!: failBackup_ends completeBackup_ends)
qed

text \<open>What the service relies on in an incremental engine: it leaves the tables alone.\<close>

definition db_kept :: "'s world \<Rightarrow> 's world \<Rightarrow> bool" where
  "db_kept w w' \<longleftrightarrow> same_tables (w_db w) (w_db w') \<and> (faults (w_db w) = [] \<longrightarrow> faults (w_db w') = [])"

definition engine_ok :: "'s incremental_engine \<Rightarrow> bool" where
  "engine_ok e \<longleftrightarrow> (\<forall>sch conn i w. db_kept w (snd (eng_BackupFull e sch conn i w)) \<and>
     db_kept w (snd (eng_BackupIncremental e sch conn i w)))"

definition svc_ok :: "'s backup_svc \<Rightarrow> bool" where
  "svc_ok s \<longleftrightarrow> (case bs_incrRegistry s of None \<Rightarrow> True | Some r \<Rightarrow> \<forall>(k, e) \<in> set r. engine_ok e)"

lemma engine_okD:
  assumes "svc_ok s" "bs_incrRegistry s = Some r" "Registry_Get r t = Inr e"
  shows "engine_ok e"
  using assms by (auto simp: svc_ok_def Registry_Get_def split: option.splits dest!: map_of_SomeD)

lemma db_kept_trans: "db_kept a b \<Longrightarrow> db_kept b c \<Longrightarrow> db_kept a c"
  by (auto simp: db_kept_def intro: same_tables_trans)

lemma query_kept: "faults d = [] \<Longrightarrow> faults (snd (wrap_err ctx (db_query q d))) = []"
  by simp

lemma ListOldest_kept:
  "same_tables d (snd (BackupRepo_ListOldestByBackupType sid bt k d))"
  "faults d = [] \<Longrightarrow> faults (snd (BackupRepo_ListOldestByBackupType sid bt k d)) = []"
  by (simp_all add: BackupRepo_ListOldestByBackupType_def)

lemma runIncrementalBackup_ends:
  assumes "runIncrementalBackup X s b conn db prov start w = (b', w')" "svc_ok s"
    "has_row pr_id (p_ID prov) (t_providers (w_db w))"
  shows "ends_run b (w_db w) b' (w_db w')"
proof (cases "bs_incrRegistry s")
  case None
  with assms(1) show ?thesis by (auto simp: runIncrementalBackup_def elim!: failBackup_ends)
next
  case (Some reg)
  show ?thesis
  proof (cases "Registry_Get reg (c_DBType conn)")
    case (Inl e)
    with assms(1) Some show ?thesis by (auto simp: runIncrementalBackup_def elim!: failBackup_ends)
  next
    case (Inr engine)
    then have eng: "engine_ok engine" using engine_okD [OF assms(2) Some] by blast
    obtain prev w1 where p: "on_db (BackupRepo_ListOldestByBackupType [] ''incremental'' 1) w = (prev, w1)" by fastforce
    then have k1: "db_kept w w1"
      using on_db_fields(1) [of "BackupRepo_ListOldestByBackupType [] ''incremental'' 1" w]
      by (simp add: db_kept_def ListOldest_kept)
    obtain r w2 where r: "call_engine engine prev (incremental_request s b conn db prov) conn b w1 = (r, w2)" by fastforce
    have "db_kept w1 (snd (call_engine engine prev (incremental_request s b conn db prov) conn b w1))"
      using eng by (simp add: call_engine_def engine_ok_def Let_def)
    then have "db_kept w w2" using k1 r db_kept_trans by fastforce
    then have k2: "same_tables (w_db w) (w_db w2)" "faults (w_db w) = [] \<longrightarrow> faults (w_db w2) = []"
      by (simp_all add: db_kept_def)
    show ?thesis
    proof (cases r)
      case (Inl e)
      with assms(1) Some Inr p r k2 show ?thesis
        by (auto simp: runIncrementalBackup_def Let_def elim!: failBackup_ends)
    next
      case (Inr meta)
      have m: "b_ID (with_metadata meta conn b) = b_ID b" "b_VerifyStatus (with_metadata meta conn b) = b_VerifyStatus b"
        by (simp_all add: with_metadata_def Let_def split: option.splits)
      from assms(1,3) Some Inr \<open>Registry_Get reg (c_DBType conn) = Inr engine\<close> p r k2 m show ?thesis
        by (auto simp: runIncrementalBackup_def Let_def elim!: completeBackup_ends)
    qed
  qed
qed

lemma resolved_has_row:
  assumes "resolveProvider (GetDecrypted X svc) (GetDefault X svc) pid w = (Inr p, w')"
  shows "has_row pr_id (p_ID p) (t_providers (w_db w))"
proof (cases "pid = None \<or> pid = Some []")
  case True
  from providers_svc.resolve_default [OF assms True] obtain r where
    "find (\<lambda>r. pr_is_default r = 1) (t_providers (w_db w)) = Some r" "p = masked X svc (scanProvider r)"
    by (auto simp: default_view_def)
  then show ?thesis by (auto simp: find_Some_iff has_row_def masked_def scanProvider_def)
next
  case False
  then obtain i where "pid = Some i" "i \<noteq> []" by (cases pid) auto
  with providers_svc.resolve_named assms obtain r where
    "row_find pr_id i (t_providers (w_db w)) = Some r" "p = unsealed X svc (scanProvider r)"
    by (fastforce simp: provider_view_def)
  then show ?thesis by (auto dest!: row_find_Some simp: has_row_def unsealed_def scanProvider_def)
qed

text \<open>Looking a provider up, without faults, leaves none.\<close>

lemma lookup_kept: "db_kept w (snd (resolveProvider (GetDecrypted X svc) (GetDefault X svc) pid w))"
proof -
  let ?r = "resolveProvider (GetDecrypted X svc) (GetDefault X svc) pid w"
  have "same_tables (w_db w) (w_db (snd ?r))"
    by (rule read_only_fields(1)) (rule providers_svc.resolve_reads)
  moreover have "faults (w_db (snd ?r)) = []" if "faults (w_db w) = []"
    using providers_svc.get_decrypted_no_faults [OF that] providers_svc.get_default_no_faults [OF that] that
    by (auto simp: resolveProvider_def split: option.splits list.splits)
  ultimately show ?thesis by (simp add: db_kept_def)
qed

lemma ends_run_before:
  assumes "ends_run b1 d1 b' d'" "same_tables d d1" "faults d = [] \<longrightarrow> faults d1 = []"
    "b_ID b1 = b_ID b" "b_VerifyStatus b1 = b_VerifyStatus b" "b_StorageProviderID b1 = b_StorageProviderID b"
  shows "ends_run b d b' d'"
  using assms unfolding ends_run_def
  by (auto simp: same_tables_fields intro: same_tables_trans)

lemma runBackup_ends:
  assumes "runBackup X s j w = (b', w')" "svc_ok s"
  shows "ends_run (j_backup j) (w_db w) b' (w_db w')"
proof -
  obtain start w1 where t: "time_now w = (start, w1)" by fastforce
  then have w1: "w_db w1 = w_db w" by (auto simp: time_now_def)
  define b where "b = (j_backup j)\<lparr>b_StartedAt := Some start\<rparr>"
  have b: "b_ID b = b_ID (j_backup j)" "b_VerifyStatus b = b_VerifyStatus (j_backup j)"
    "b_StorageProviderID b = b_StorageProviderID (j_backup j)" by (simp_all add: b_def)
  obtain r w2 where r: "resolveProvider (GetDecrypted X (bs_provSvc s)) (GetDefault X (bs_provSvc s))
      (b_StorageProviderID b) w1 = (r, w2)" by fastforce
  then have k: "same_tables (w_db w) (w_db w2)" "faults (w_db w) = [] \<longrightarrow> faults (w_db w2) = []"
    using lookup_kept [of w1 X "bs_provSvc s" "b_StorageProviderID b"] w1 by (simp_all add: db_kept_def)
  show ?thesis
  proof (cases r)
    case (Inl e)
    then have "failBackup s b (''STORAGE PROVIDER ERROR: '' @ e @ nl) w2 = (b', w')"
      using assms(1) t r by (simp add: runBackup_def b_def)
    then show ?thesis using k b by (rule failBackup_ends)
  next
    case (Inr prov)
    have row: "has_row pr_id (p_ID prov) (t_providers (w_db w2))"
      using resolved_has_row r Inr k(1) w1 by (fastforce simp: same_tables_fields)
    have "ends_run b (w_db w2) b' (w_db w')"
    proof (cases "b_BackupType b = ''incremental''")
      case True
      then have "runIncrementalBackup X s b (j_conn j) (j_db j) prov start w2 = (b', w')"
        using assms(1) t r Inr by (simp add: runBackup_def b_def)
      then show ?thesis using assms(2) row by (rule runIncrementalBackup_ends)
    next
      case False
      then have "runFullBackup X s b (j_conn j) (j_db j) prov start w2 = (b', w')"
        using assms(1) t r Inr by (simp add: runBackup_def b_def)
      then show ?thesis using row by (rule runFullBackup_ends)
    qed
    then show ?thesis using k b by (rule ends_run_before)
  qed
qed

section \<open>Starting\<close>

lemma get_connection_step:
  assumes "wrap_err ctx (on_db (ConnectionRepo_GetByID cid) w) = (Inr oc, w')"
  shows "oc = row_find c_ID cid (t_connections (w_db w)) \<and> same_tables (w_db w) (w_db w') \<and>
    w_store w' = w_store w \<and> (faults (w_db w) = [] \<longrightarrow> w' = w)"
proof -
  from on_db_result [OF wrap_err_result [OF assms]] obtain d where
    d: "ConnectionRepo_GetByID cid (w_db w) = (Inr oc, d)" "w' = w\<lparr>w_db := d\<rparr>" by auto
  then have "same_tables (w_db w) d" "oc = row_find c_ID cid (t_connections d)"
    by (auto simp: ConnectionRepo_GetByID_def dest!: wrapped_query)
  moreover have "faults (w_db w) = [] \<longrightarrow> d = w_db w" using d by (auto simp: ConnectionRepo_GetByID_def)
  ultimately show ?thesis using d by (auto simp: same_tables_fields)
qed

lemma get_database_step:
  assumes "wrap_err ctx (on_db (ConnectionRepo_GetDatabase did) w) = (Inr od, w')"
  shows "od = map_option scan_database (row_find dr_id did (t_databases (w_db w))) \<and> same_tables (w_db w) (w_db w') \<and>
    w_store w' = w_store w \<and> (faults (w_db w) = [] \<longrightarrow> w' = w)"
proof -
  from on_db_result [OF wrap_err_result [OF assms]] obtain d where
    d: "ConnectionRepo_GetDatabase did (w_db w) = (Inr od, d)" "w' = w\<lparr>w_db := d\<rparr>" by auto
  then have "same_tables (w_db w) d" "od = map_option scan_database (row_find dr_id did (t_databases d))"
    by (auto simp: ConnectionRepo_GetDatabase_def dest!: wrapped_query)
  moreover have "faults (w_db w) = [] \<longrightarrow> d = w_db w" using d by (auto simp: ConnectionRepo_GetDatabase_def)
  ultimately show ?thesis using d by (auto simp: same_tables_fields)
qed

lemma launch_result:
  assumes "launch b0 conn db w = (Inr (b, j), w')"
  obtains i now d0 where "j = \<lparr>j_backup = b, j_conn = conn, j_db = db\<rparr>" "b = fill_backup i now b0"
    "same_tables (w_db w) d0" "sql_insert_backup (backup_columns b) d0 = Inr (w_db w')" "w_store w' = w_store w"
    "faults (w_db w) = [] \<longrightarrow> faults (w_db w') = []"
proof -
  obtain i w1 where i: "uuid_new w = (i, w1)" by fastforce
  obtain now w2 where now: "time_now w1 = (now, w2)" by fastforce
  have w2: "w_db w2 = w_db w" "w_store w2 = w_store w"
    using i now by (auto simp: uuid_new_def time_now_def)
  from assms i now have "and_then (wrap_err ''create backup record: '' (on_db (BackupRepo_Create i now b0) w2))
      (\<lambda>b' w3. (Inr (b', \<lparr>j_backup = b', j_conn = conn, j_db = db\<rparr>), w3)) = (Inr (b, j), w')"
    by (simp add: launch_def)
  from and_then_result [OF this] have
    c: "wrap_err ''create backup record: '' (on_db (BackupRepo_Create i now b0) w2) = (Inr b, w')" and
    j: "j = \<lparr>j_backup = b, j_conn = conn, j_db = db\<rparr>" by auto
  from on_db_result [OF wrap_err_result [OF c]] w2 obtain d' where
    cr: "BackupRepo_Create i now b0 (w_db w) = (Inr b, d')" and w': "w' = w2\<lparr>w_db := d'\<rparr>" by auto
  then obtain d0 where "same_tables (w_db w) d0" "sql_insert_backup (backup_columns (fill_backup i now b0)) d0 = Inr d'"
    "b = fill_backup i now b0"
    unfolding BackupRepo_Create_def Let_def by (auto elim: returning_exec_ok)
  moreover have "faults d' = []" if "faults (w_db w) = []"
    using cr that by (auto simp: BackupRepo_Create_def Let_def sql_insert_backup_def split: if_splits)
  ultimately show thesis using j w' w2 by (intro that) auto
qed

lemma StartBackup_result:
  assumes "StartBackup cid did bt sid pid targets nos nof w = (Inr (b, j), w')"
  obtains i now d0 conn x where "j = \<lparr>j_backup = b, j_conn = conn, j_db = scan_database x\<rparr>"
    "b = fill_backup i now (new_backup cid did bt sid pid targets nos nof)"
    "same_tables (w_db w) d0" "sql_insert_backup (backup_columns b) d0 = Inr (w_db w')" "w_store w' = w_store w"
    "row_find c_ID cid (t_connections (w_db w)) = Some conn" "row_find dr_id did (t_databases (w_db w)) = Some x"
    "faults (w_db w) = [] \<longrightarrow> faults (w_db w') = []"
proof -
  define b0 where "b0 = new_backup cid did bt sid pid targets nos nof"
  from and_then_result [OF assms [unfolded StartBackup_def]] obtain oc wa where
    c: "wrap_err ''get connection: '' (on_db (ConnectionRepo_GetByID cid) w) = (Inr oc, wa)" and
    rest: "(case oc of None \<Rightarrow> (Inl ''connection not found'', wa) | Some conn \<Rightarrow>
         and_then (wrap_err ''get database: '' (on_db (ConnectionRepo_GetDatabase did) wa)) (\<lambda>db w2.
           case db of None \<Rightarrow> (Inl ''database not found'', w2) | Some db \<Rightarrow> launch b0 conn db w2)) = (Inr (b, j), w')"
    unfolding b0_def by blast
  from rest obtain conn where conn: "oc = Some conn" by (cases oc) auto
  with rest have "and_then (wrap_err ''get database: '' (on_db (ConnectionRepo_GetDatabase did) wa)) (\<lambda>db w2.
      case db of None \<Rightarrow> (Inl ''database not found'', w2) | Some db \<Rightarrow> launch b0 conn db w2) = (Inr (b, j), w')" by simp
  from and_then_result [OF this] obtain od wb where
    d: "wrap_err ''get database: '' (on_db (ConnectionRepo_GetDatabase did) wa) = (Inr od, wb)" and
    rest: "(case od of None \<Rightarrow> (Inl ''database not found'', wb) | Some db \<Rightarrow> launch b0 conn db wb) = (Inr (b, j), w')"
    by blast
  from rest obtain db where db: "od = Some db" and "launch b0 conn db wb = (Inr (b, j), w')" by (cases od) auto
  from this(2) obtain i now d0 where l: "j = \<lparr>j_backup = b, j_conn = conn, j_db = db\<rparr>" "b = fill_backup i now b0"
    "same_tables (w_db wb) d0" "sql_insert_backup (backup_columns b) d0 = Inr (w_db w')" "w_store w' = w_store wb"
    "faults (w_db wb) = [] \<longrightarrow> faults (w_db w') = []" by (rule launch_result)
  note st = get_connection_step [OF c] get_database_step [OF d]
  have "map_option scan_database (row_find dr_id did (t_databases (w_db w))) = Some db"
    using st db by (auto simp: same_tables_fields)
  then obtain x where "row_find dr_id did (t_databases (w_db w)) = Some x" "db = scan_database x" by auto
  moreover have "same_tables (w_db w) d0" using st l(3) same_tables_trans by blast
  ultimately show thesis using st l conn by (intro that [of conn x i now d0]) (auto simp: b0_def)
qed

section \<open>Rows after a run\<close>

lemma insert_backup_result:
  assumes "sql_insert_backup r d = Inr d'"
  shows "d' = d\<lparr>t_backups := t_backups d @ [r]\<rparr>" "fk_backup d r" "check_backup r"
    "\<not> has_row br_id (br_id r) (t_backups d)"
  using assms by (auto simp: sql_insert_backup_def split: if_splits)

lemma update_backup_row:
  assumes "db_wf d" "faults d = []" "row_find br_id (b_ID b) (t_backups d) = Some r"
    "ref_ok pr_id (b_StorageProviderID b) (t_providers d)"
    "b_Status b \<in> {''running'', ''success'', ''failed'', ''verifying''}"
    "b_VerifyStatus b \<in> {''pending'', ''passed'', ''failed''}"
  shows "BackupRepo_Update b d = (Inr (), d\<lparr>t_backups := row_upd br_id (b_ID b) (set_backup b) (t_backups d)\<rparr>)"
proof -
  have r: "r \<in> set (t_backups d)" using row_find_Some [OF assms(3)] by simp
  then have "check_backup r" "fk_backup d r" using assms(1) by (auto simp: db_wf_def checks_ok_def refs_ok_def)
  then have "check_backup (set_backup b r)" "fk_backup d (set_backup b r)"
    using assms(4-6) by (auto simp: check_backup_def fk_backup_def set_backup_def)
  then show ?thesis
    using assms(2) backups.sql_update_checked [OF assms(3)]
    by (simp add: BackupRepo_Update_def sql_update_backup_def)
qed

text \<open>The row of a job: it exists, and the struct's references are those of an existing provider.\<close>

definition job_recorded :: "job \<Rightarrow> db \<Rightarrow> bool" where
  "job_recorded j d \<longleftrightarrow> has_row br_id (b_ID (j_backup j)) (t_backups d) \<and>
     ref_ok pr_id (b_StorageProviderID (j_backup j)) (t_providers d) \<and>
     b_VerifyStatus (j_backup j) \<in> {''pending'', ''passed'', ''failed''}"

lemma ends_run_faults: "ends_run b d b' d' \<Longrightarrow> faults d = [] \<Longrightarrow> faults d' = []"
  unfolding ends_run_def by blast

lemma ends_run_wf: "ends_run b d b' d' \<Longrightarrow> db_wf d \<Longrightarrow> db_wf d'"
  unfolding ends_run_def using backup_repo.update_wf db_wf_same by blast

lemma ends_run_row:
  assumes "ends_run (j_backup j) d b' d'" "db_wf d" "faults d = []" "job_recorded j d"
  shows "\<exists>r. row_find br_id (b_ID (j_backup j)) (t_backups d) = Some r \<and>
      row_find br_id (b_ID (j_backup j)) (t_backups d') = Some (set_backup b' r)"
    and "k \<noteq> b_ID (j_backup j) \<Longrightarrow> row_find br_id k (t_backups d') = row_find br_id k (t_backups d)"
proof -
  from assms(1) obtain d0 where d0: "same_tables d d0" "same_tables (snd (BackupRepo_Update b' d0)) d'" "faults d0 = []"
    and b': "b_ID b' = b_ID (j_backup j)" "b_VerifyStatus b' = b_VerifyStatus (j_backup j)"
      "b_Status b' \<in> {''success'', ''failed''}"
      "b_StorageProviderID b' = b_StorageProviderID (j_backup j) \<or>
         (\<exists>p. b_StorageProviderID b' = Some p \<and> has_row pr_id p (t_providers d))"
    using assms(3) unfolding ends_run_def by blast
  obtain r where r: "row_find br_id (b_ID b') (t_backups d0) = Some r"
    using assms(4) b'(1) d0(1) by (auto simp: job_recorded_def has_row_find same_tables_fields)
  have "ref_ok pr_id (b_StorageProviderID b') (t_providers d0)"
    using b'(4) assms(4) d0(1) by (auto simp: job_recorded_def same_tables_fields ref_ok_def)
  then have "BackupRepo_Update b' d0 = (Inr (), d0\<lparr>t_backups := row_upd br_id (b_ID b') (set_backup b') (t_backups d0)\<rparr>)"
    using update_backup_row [OF _ d0(3) r] assms(2,4) b' d0(1) by (auto simp: db_wf_same job_recorded_def)
  then have t: "t_backups d' = row_upd br_id (b_ID b') (set_backup b') (t_backups d)"
    using d0 by (simp add: same_tables_fields)
  have key: "br_id (set_backup b' x) = br_id x" for x by (simp add: set_backup_def)
  show "\<exists>r. row_find br_id (b_ID (j_backup j)) (t_backups d) = Some r \<and>
      row_find br_id (b_ID (j_backup j)) (t_backups d') = Some (set_backup b' r)"
    using r t b'(1) d0(1) by (intro exI [of _ r]) (simp add: key same_tables_fields)
  show "row_find br_id k (t_backups d') = row_find br_id k (t_backups d)" if "k \<noteq> b_ID (j_backup j)"
    using t b'(1) that by (simp add: key)
qed

end
