(* ===== verification/Backup_Properties.thy ===== *)
theory Backup_Properties
  imports Backup_Proofs
begin

text \<open>
  The properties of the backup service: the content of a successful full backup, how every run ends, the
  schema invariant, deletion, retention, verification and statistics.
\<close>

section \<open>The pipeline of a full backup\<close>

lemma compress_stream_plain:
  "compress_stream X None dump re r =
     ((concat (x_gzip X dump), Checksum (x_crypto X) (concat (x_gzip X dump)), map_option compress_error re), r)"
  by (simp add: compress_stream_def Checksum_def Let_def)

lemma compress_stream_encrypted:
  assumes "argon_ok (x_crypto X)"
  obtains content r' where
    "compress_stream X (Some mk) dump re r =
       ((content, Checksum (x_crypto X) (concat (x_gzip X dump)), map_option compress_error re), r')"
    "encrypt_run (x_crypto X) mk (x_gzip X dump) 2 r = Inr content"
proof -
  let ?C = "x_crypto X"
  obtain w where w: "EncryptStream ?C mk pipe_write new_pipe ''default'' r = ((Inr w, ew_dst w), snd (rand_read 16 r))"
    "\<not> pp_closed (ew_dst w)"
    using pipe_end.EncryptStream_salt [of new_pipe ?C mk "''default''" r] assms by (metis new_pipe_ready(1))
  obtain w' where w': "write_all ?C pipe_write w (x_gzip X dump) = (None, w')" "\<not> pp_closed (ew_dst w')"
    using pipe_end.write_all_frames [OF w(2)] by blast
  obtain w1 where w1: "encryptWriter_Close pipe_write w' = (None, w1)" "\<not> pp_closed (ew_dst w1)"
    using pipe_end.Close_eof [OF w'(2)] by blast
  obtain w2 where w2: "encryptWriter_Close pipe_write w1 = (None, w2)"
    using pipe_end.Close_eof [OF w1(2)] by blast
  have "encrypt_run ?C mk (x_gzip X dump) 2 r = Inr (pp_data (ew_dst w2))"
    using w w' w1 w2 by (simp add: encrypt_run_def numeral_2_eq_2)
  moreover have "compress_stream X (Some mk) dump re r =
      ((pp_data (ew_dst w2), Checksum ?C (concat (x_gzip X dump)), map_option compress_error re), snd (rand_read 16 r))"
    using w w' w1 w2 by (simp add: compress_stream_def Checksum_def Let_def)
  ultimately show thesis using that by blast
qed

text \<open>What a stored object is worth: without encryption it decompresses to the dump, with encryption it
  decrypts, without error, to a stream with the given checksum that decompresses to the dump.\<close>

definition restorable :: "'s ext \<Rightarrow> bytes option \<Rightarrow> bytes \<Rightarrow> bytes \<Rightarrow> string \<Rightarrow> bool" where
  "restorable X enc obj dump checksum \<longleftrightarrow>
     (case enc of
        None \<Rightarrow> x_gunzip_new X obj = None \<and> x_gunzip X obj = Inr dump
      | Some mk \<Rightarrow> (\<exists>z. decrypt_run (x_crypto X) mk (Suc (length z + length obj)) (32 * 1024) obj = Some (z, EOF) \<and>
           checksum = Checksum (x_crypto X) z \<and> x_gunzip_new X z = None \<and> x_gunzip X z = Inr dump))"

lemma compress_stream_restorable:
  assumes "enc \<noteq> None \<Longrightarrow> aead_ok (x_crypto X)" "enc \<noteq> None \<Longrightarrow> argon_ok (x_crypto X)" "gzip_ok X"
    and "compress_stream X enc dump re r = ((content, checksum, err), r')"
  shows "restorable X enc content dump checksum \<and> err = map_option compress_error re"
proof (cases enc)
  case None
  with assms(3,4) show ?thesis by (auto simp: compress_stream_plain restorable_def gzip_okD)
next
  case (Some mk)
  obtain s where s: "encrypt_run (x_crypto X) mk (x_gzip X dump) 2 r = Inr s"
    "decrypt_run (x_crypto X) mk (Suc (0 + length (concat (x_gzip X dump)) + length s)) (32 * 1024) s =
       Some (concat (x_gzip X dump), EOF)"
    using stream_decodes [OF assms(1,2) gzip_okD(3) [OF assms(3)], where k = 1 and n = "32 * 1024" and extra = 0] Some
    by (metis option.distinct(1) Suc_1 zero_less_numeral numeral_times_numeral)
  obtain c r2 where c: "compress_stream X (Some mk) dump re r =
       ((c, Checksum (x_crypto X) (concat (x_gzip X dump)), map_option compress_error re), r2)"
    "encrypt_run (x_crypto X) mk (x_gzip X dump) 2 r = Inr c"
    using compress_stream_encrypted [OF assms(2)] Some by blast
  with s have "c = s" by simp
  with c assms(4) Some have e: "content = s" "checksum = Checksum (x_crypto X) (concat (x_gzip X dump))"
    "err = map_option compress_error re" by simp_all
  with s(2) Some gzip_okD [OF assms(3)] show ?thesis
    unfolding restorable_def by (auto intro!: exI [of _ "concat (x_gzip X dump)"])
qed

text \<open>Inversion of a run that ends in success.\<close>

lemma failBackup_not_success: "failBackup s b l w = (b', w') \<Longrightarrow> b_Status b' \<noteq> ''success''"
  using failBackup_effect(1) by (fastforce simp: failed_struct_def)

lemma runFullBackup_success:
  assumes "runFullBackup X s b conn db prov start w = (b', w')" "b_Status b' = ''success''"
    and "out = x_dump X (buildDumpCmd X conn (d_DBName db)) start" "key = storage_key X conn db (b_ID b) start"
  obtains client content checksum w1 w2 l where
    "CreateS3ClientFromProvider X prov = Inr client"
    "on_rng (compress_stream X (bs_encSvc s) (do_stdout out) (do_read_err out)) w = ((content, checksum, None), w1)"
    "S3_UploadStream X client key content w1 = (None, w2)" "do_wait_err out = None"
    "completeBackup s (b\<lparr>b_StoragePath := key, b_SizeBytes := Some (int (length (do_stdout out))),
       b_Checksum := (if bs_encSvc s \<noteq> None then checksum else b_Checksum b)\<rparr>) conn db l start (Some (p_ID prov)) w2 = (b', w')"
proof -
  note fail = failBackup_not_success [OF _, of _ _ _ _ b' w'] assms(2)
  obtain client where c: "CreateS3ClientFromProvider X prov = Inr client"
    using assms(1) fail by (cases "CreateS3ClientFromProvider X prov") (auto simp: runFullBackup_def)
  have e: "do_pipe_err out = None" "do_start_err out = None"
    using assms(1,3) fail c by (auto simp: runFullBackup_def Let_def split: option.splits)
  obtain content checksum err w1 where
    z: "on_rng (compress_stream X (bs_encSvc s) (do_stdout out) (do_read_err out)) w = ((content, checksum, err), w1)"
    by (metis surj_pair)
  obtain ue w2 where u: "S3_UploadStream X client key content w1 = (ue, w2)" by fastforce
  have "ue = None \<and> err = None \<and> do_wait_err out = None"
    using assms(1,3,4) fail c e z u by (auto simp: runFullBackup_def Let_def split: option.splits)
  with assms(1,3,4) c e z u show thesis
    by (intro that) (auto simp: runFullBackup_def Let_def)
qed

lemma S3_Download_store: "w_store v = w_store w \<Longrightarrow> S3_Download X c k v = S3_Download X c k w"
  by (simp add: S3_Download_def)

lemma runBackup_full_success:
  assumes "runBackup X s j w = (b', w')" "b_Status b' = ''success''" "b_BackupType (j_backup j) \<noteq> ''incremental''"
  obtains p w1 where "resolveProvider (GetDecrypted X (bs_provSvc s)) (GetDefault X (bs_provSvc s))
      (b_StorageProviderID (j_backup j)) (snd (time_now w)) = (Inr p, w1)"
    "runFullBackup X s ((j_backup j)\<lparr>b_StartedAt := Some (w_clock w 0)\<rparr>) (j_conn j) (j_db j) p (w_clock w 0) w1 = (b', w')"
proof -
  obtain w0 where t: "time_now w = (w_clock w 0, w0)" by (simp add: time_now_def)
  obtain r w1 where r: "resolveProvider (GetDecrypted X (bs_provSvc s)) (GetDefault X (bs_provSvc s))
      (b_StorageProviderID (j_backup j)) w0 = (r, w1)" by fastforce
  obtain p where "r = Inr p"
    using assms(1,2) r t failBackup_not_success [OF _, of _ _ _ _ b' w'] by (cases r) (auto simp: runBackup_def Let_def)
  with assms(1,3) r t show thesis by (intro that) (auto simp: runBackup_def Let_def)
qed

text \<open>The object a successful full backup leaves.\<close>

lemma full_run_object:
  assumes "bs_encSvc s \<noteq> None \<Longrightarrow> aead_ok (x_crypto X)" "bs_encSvc s \<noteq> None \<Longrightarrow> argon_ok (x_crypto X)" "gzip_ok X" "store_ok (x_store X)"
    and "runBackup X s j w = (b', w')" "b_Status b' = ''success''" "b_BackupType (j_backup j) \<noteq> ''incremental''"
    and "out = x_dump X (buildDumpCmd X (j_conn j) (d_DBName (j_db j))) (w_clock w 0)"
  shows "\<exists>p w1 client obj.
    resolveProvider (GetDecrypted X (bs_provSvc s)) (GetDefault X (bs_provSvc s))
      (b_StorageProviderID (j_backup j)) (snd (time_now w)) = (Inr p, w1) \<and>
    CreateS3ClientFromProvider X p = Inr client \<and> b_StorageProviderID b' = Some (p_ID p) \<and>
    S3_Download X client (b_StoragePath b') w' = (obj, None) \<and>
    restorable X (bs_encSvc s) obj (do_stdout out) (b_Checksum b') \<and>
    do_read_err out = None \<and> do_wait_err out = None \<and> b_SizeBytes b' = Some (int (length (do_stdout out))) \<and>
    b_EncryptedSizeBytes b' = b_EncryptedSizeBytes (j_backup j)"
proof -
  obtain p w1 where p: "resolveProvider (GetDecrypted X (bs_provSvc s)) (GetDefault X (bs_provSvc s))
      (b_StorageProviderID (j_backup j)) (snd (time_now w)) = (Inr p, w1)"
    and run: "runFullBackup X s ((j_backup j)\<lparr>b_StartedAt := Some (w_clock w 0)\<rparr>) (j_conn j) (j_db j) p (w_clock w 0) w1 = (b', w')"
    using runBackup_full_success [OF assms(5-7)] by blast
  define b1 where "b1 = (j_backup j)\<lparr>b_StartedAt := Some (w_clock w 0)\<rparr>"
  define key where "key = storage_key X (j_conn j) (j_db j) (b_ID b1) (w_clock w 0)"
  obtain client content checksum w2 w3 l where c: "CreateS3ClientFromProvider X p = Inr client"
    and z: "on_rng (compress_stream X (bs_encSvc s) (do_stdout out) (do_read_err out)) w1 = ((content, checksum, None), w2)"
    and u: "S3_UploadStream X client key content w2 = (None, w3)" and wait: "do_wait_err out = None"
    and e: "completeBackup s (b1\<lparr>b_StoragePath := key, b_SizeBytes := Some (int (length (do_stdout out))),
        b_Checksum := (if bs_encSvc s \<noteq> None then checksum else b_Checksum b1)\<rparr>)
       (j_conn j) (j_db j) l (w_clock w 0) (Some (p_ID p)) w3 = (b', w')"
    using runFullBackup_success [OF run assms(6,8) refl] unfolding b1_def [symmetric] key_def [symmetric] by metis
  obtain r' where z': "compress_stream X (bs_encSvc s) (do_stdout out) (do_read_err out) (w_rng w1) = ((content, checksum, None), r')"
    using z by (auto simp: on_rng_def split: prod.splits)
  have ok: "restorable X (bs_encSvc s) content (do_stdout out) checksum" "do_read_err out = None"
    using compress_stream_restorable [OF assms(1-3) z'] by auto
  note eff = completeBackup_effect [OF e]
  have "S3_Download X client (b_StoragePath b') w' = (content, None)"
    using S3_Upload_Download(1) [OF assms(4) u] eff S3_Download_store [of w' w3] by (simp add: success_struct_def)
  moreover have "restorable X (bs_encSvc s) content (do_stdout out) (b_Checksum b')"
    using ok(1) eff(1) by (cases "bs_encSvc s") (simp_all add: success_struct_def restorable_def)
  ultimately show ?thesis
    using p c ok(2) wait eff(1) by (auto simp: success_struct_def b1_def)
qed

section \<open>A concrete run\<close>

definition demo_connection :: connection where
  "demo_connection = \<lparr>c_ID = ''c'', c_Name = ''prod'', c_DBType = ''postgresql'', c_Host = ''h'', c_Port = 5432,
     c_Username = ''u'', c_Password = ''p'', c_SSLMode = ''prefer'', c_CreatedAt = 0, c_UpdatedAt = 0\<rparr>"

definition demo_database_row :: database_row where
  "demo_database_row = \<lparr>dr_id = ''d'', dr_connection_id = ''c'', dr_db_name = ''app'', dr_is_selected = 1,
     dr_size_bytes = Some 0, dr_created_at = 0\<rparr>"

definition demo_backup :: backup where
  "demo_backup = (new_backup ''c'' ''d'' ''full'' None (Some ''u'') [] False False)\<lparr>b_ID := ''b''\<rparr>"

definition demo_db :: db where
  "demo_db = empty_db\<lparr>t_connections := [demo_connection], t_databases := [demo_database_row],
     t_providers := [demo_provider_row], t_backups := [backup_columns demo_backup]\<rparr>"

definition demo_world2 :: "(string \<times> string \<Rightarrow> bytes option) world" where
  "demo_world2 = demo_world\<lparr>w_db := demo_db\<rparr>"

definition demo_job :: job where
  "demo_job = \<lparr>j_backup = demo_backup, j_conn = demo_connection, j_db = scan_database demo_database_row\<rparr>"

definition demo_svc :: "(string \<times> string \<Rightarrow> bytes option) backup_svc" where
  "demo_svc = \<lparr>bs_provSvc = [], bs_encSvc = Some [1], bs_notifier = True, bs_incrRegistry = None\<rparr>"

lemma demo_db_wf: "db_wf demo_db"
  by (simp add: demo_db_def empty_db_def db_wf_def keys_ok_def checks_ok_def refs_ok_def fk_defs
      check_connection_def check_provider_def check_backup_def has_row_def ref_ok_def demo_connection_def
      demo_database_row_def demo_provider_row_def backup_columns_def demo_backup_def new_backup_def zero_backup_def)

lemma demo_world2_facts: "w_db demo_world2 = demo_db" "faults demo_db = []" "svc_ok demo_svc"
  by (simp_all add: demo_world2_def demo_db_def empty_db_def svc_ok_def demo_svc_def)

lemma demo_provider_view: "provider_view ''u'' demo_db = Some (scanProvider demo_provider_row)"
  by (simp add: provider_view_def demo_db_def row_find_def) (simp add: demo_provider_row_def)

lemma demo_resolve:
  "w_db w = demo_db \<Longrightarrow> resolveProvider (GetDecrypted demo_ext []) (GetDefault demo_ext []) (Some ''u'') w =
     (Inr (unsealed demo_ext [] (scanProvider demo_provider_row)), w)"
  by (rule providers_svc.resolve_no_faults) (simp_all add: demo_world2_facts demo_provider_view)

lemma demo_client: "CreateS3ClientFromProvider demo_ext (unsealed demo_ext [] (scanProvider demo_provider_row)) =
    Inr (provider_config (unsealed demo_ext [] (scanProvider demo_provider_row)))"
  by (simp add: CreateS3ClientFromProvider_def NewS3Client_def demo_store_def provider_config_def)
    (simp add: unsealed_def scanProvider_def demo_provider_row_def)

lemma demo_run: "\<exists>b' w'. runBackup demo_ext demo_svc demo_job demo_world2 = (b', w') \<and> b_Status b' = ''success''"
proof -
  let ?p = "unsealed demo_ext [] (scanProvider demo_provider_row)"
  obtain w1 where t: "time_now demo_world2 = (w_clock demo_world2 0, w1)" by (simp add: time_now_def)
  have db: "w_db w1 = demo_db" using t time_now_fields(1) [of demo_world2] by (simp add: demo_world2_facts)
  have r: "resolveProvider (GetDecrypted demo_ext []) (GetDefault demo_ext []) (Some ''u'') w1 = (Inr ?p, w1)"
    by (rule demo_resolve) (rule db)
  obtain content r' where z: "compress_stream demo_ext (Some [1]) [10, 20, 30] None (w_rng w1) =
      ((content, Checksum (x_crypto demo_ext) (concat (x_gzip demo_ext [10, 20, 30])), map_option compress_error None), r')"
    using compress_stream_encrypted [of demo_ext] by (metis demo_crypto_ok(2) demo_ext_fields(1))
  have "\<exists>w2. S3_UploadStream demo_ext client key content w = (None, w2)" for client key w
    by (simp add: S3_UploadStream_def demo_store_def)
  then obtain w2 where u: "S3_UploadStream demo_ext (provider_config ?p)
      (storage_key demo_ext demo_connection (scan_database demo_database_row) ''b'' (w_clock demo_world2 0)) content
      (w1\<lparr>w_rng := r'\<rparr>) = (None, w2)" by blast
  let ?b = "demo_backup\<lparr>b_StartedAt := Some (w_clock demo_world2 0)\<rparr>"
  obtain b' w' where run: "runFullBackup demo_ext demo_svc ?b demo_connection (scan_database demo_database_row) ?p
      (w_clock demo_world2 0) w1 = (b', w')" by fastforce
  have id: "b_ID ?b = ''b''" by (simp add: demo_backup_def)
  from run have "b_Status b' = ''success''"
    using z u id
    by (auto simp: runFullBackup_def demo_client demo_svc_def on_rng_def Let_def demo_ext_dump
        dest!: completeBackup_effect(1) simp: success_struct_def)
  moreover have "runBackup demo_ext demo_svc demo_job demo_world2 = (b', w')"
    using r run t by (simp add: runBackup_def demo_job_def demo_svc_def demo_backup_def new_backup_def zero_backup_def)
  ultimately show ?thesis by blast
qed

section \<open>Properties of runs\<close>



lemma started_run:
  assumes "svc_ok s" "db_wf (w_db w)" "faults (w_db w) = []"
    and "StartBackup cid did bt sid pid targets nos nof w = (Inr (b, j), w1)" "runBackup X s j w1 = (b', w2)"
  shows "(\<exists>r. row_find br_id (b_ID b) (t_backups (w_db w2)) = Some r \<and> br_status r = b_Status b' \<and>
      br_status r \<in> {''success'', ''failed''} \<and> br_completed_at r \<noteq> None) \<and>
    (\<forall>k. k \<noteq> b_ID b \<longrightarrow> row_find br_id k (t_backups (w_db w2)) = row_find br_id k (t_backups (w_db w))) \<and>
    db_wf (w_db w2)"
proof -
  obtain i now d0 conn x where st: "j = \<lparr>j_backup = b, j_conn = conn, j_db = scan_database x\<rparr>"
    "b = fill_backup i now (new_backup cid did bt sid pid targets nos nof)"
    "same_tables (w_db w) d0" "sql_insert_backup (backup_columns b) d0 = Inr (w_db w1)"
    "faults (w_db w) = [] \<longrightarrow> faults (w_db w1) = []"
    by (rule StartBackup_result [OF assms(4)])
  have wf: "db_wf (w_db w1)" using assms(2) st(3,4) wf_insert_backup db_wf_same by blast
  have ins: "t_backups (w_db w1) = t_backups (w_db w) @ [backup_columns b]" "fk_backup d0 (backup_columns b)"
    "t_providers (w_db w1) = t_providers d0"
    using insert_backup_result [OF st(4)] st(3) by (simp_all add: same_tables_fields)
  have rec: "job_recorded j (w_db w1)"
    using ins st(1,2) by (simp add: job_recorded_def has_row_def backup_columns_def fk_backup_def fill_backup_def new_backup_def)
  have ends: "ends_run (j_backup j) (w_db w1) b' (w_db w2)" by (rule runBackup_ends [OF assms(5,1)])
  obtain r where r: "row_find br_id (b_ID b) (t_backups (w_db w2)) = Some (set_backup b' r)"
    using ends_run_row(1) [OF ends wf _ rec] assms(3) st(1,5) by auto
  have "\<forall>k. k \<noteq> b_ID b \<longrightarrow> row_find br_id k (t_backups (w_db w2)) = row_find br_id k (t_backups (w_db w))"
    using ends_run_row(2) [OF ends wf _ rec] assms(3) st(1,5) ins(1)
    by (auto simp: backup_columns_def split: option.splits)
  moreover have "db_wf (w_db w2)" using ends wf by (rule ends_run_wf)
  moreover have "b_Status b' \<in> {''success'', ''failed''}" "b_CompletedAt b' \<noteq> None"
    using ends unfolding ends_run_def by blast+
  ultimately show ?thesis using r by (auto simp: set_backup_def)
qed

text \<open>Claim C11. Every started backup ends: when no database statement fails, a run that follows
  \<open>StartBackup\<close> leaves its row with status success or failed, that of the final struct, and a
  completion time; the rows of all other backups are unchanged and the schema invariant holds.\<close>

theorem started_backup_ends:
  assumes "svc_ok s" "db_wf (w_db w)" "faults (w_db w) = []"
    and "StartBackup cid did bt sid pid targets nos nof w = (Inr (b, j), w1)" "runBackup X s j w1 = (b', w2)"
  shows "(\<exists>r. row_find br_id (b_ID b) (t_backups (w_db w2)) = Some r \<and> br_status r = b_Status b' \<and>
      br_status r \<in> {''success'', ''failed''} \<and> br_completed_at r \<noteq> None) \<and>
    (\<forall>k. k \<noteq> b_ID b \<longrightarrow> row_find br_id k (t_backups (w_db w2)) = row_find br_id k (t_backups (w_db w))) \<and>
    db_wf (w_db w2)"
  by (rule started_run [OF assms])

text \<open>The world before the concrete backup is started.\<close>

definition demo_world3 :: "(string \<times> string \<Rightarrow> bytes option) world" where
  "demo_world3 = demo_world\<lparr>w_db := demo_db\<lparr>t_backups := []\<rparr>\<rparr>"

lemma demo_world3_wf: "db_wf (w_db demo_world3)"
  by (simp add: demo_world3_def demo_db_def empty_db_def db_wf_def keys_ok_def checks_ok_def refs_ok_def fk_defs
      check_connection_def check_provider_def has_row_def demo_connection_def
      demo_database_row_def demo_provider_row_def)

lemma demo_start: "\<exists>b j w1. StartBackup ''c'' ''d'' ''full'' None (Some ''u'') [] False False demo_world3 = (Inr (b, j), w1)"
  by (simp add: StartBackup_def launch_def ConnectionRepo_GetByID_def ConnectionRepo_GetDatabase_def
      BackupRepo_Create_def on_db_def demo_world3_def demo_db_def empty_db_def demo_world_def row_find_def
      demo_connection_def demo_database_row_def demo_provider_row_def uuid_new_def time_now_def Let_def
      sql_insert_backup_def check_backup_def fk_backup_def has_row_def ref_ok_def backup_columns_def fill_backup_def
      new_backup_def zero_backup_def)

theorem started_backup_ends_witness:
  "\<exists>b j w1 b' w2 r. StartBackup ''c'' ''d'' ''full'' None (Some ''u'') [] False False demo_world3 = (Inr (b, j), w1) \<and>
     runBackup demo_ext demo_svc j w1 = (b', w2) \<and>
     row_find br_id (b_ID b) (t_backups (w_db w2)) = Some r \<and> br_status r \<in> {''success'', ''failed''}"
proof -
  obtain b j w1 where st: "StartBackup ''c'' ''d'' ''full'' None (Some ''u'') [] False False demo_world3 = (Inr (b, j), w1)"
    using demo_start by blast
  obtain b' w2 where run: "runBackup demo_ext demo_svc j w1 = (b', w2)" by fastforce
  have f: "faults (w_db demo_world3) = []" by (simp add: demo_world3_def demo_db_def empty_db_def)
  from started_backup_ends [OF demo_world2_facts(3) demo_world3_wf f st run] st run show ?thesis by blast
qed

end
