(* ===== verification/Backup_Upkeep.thy ===== *)
theory Backup_Upkeep
  imports Backup_Properties
begin

text \<open>
  Properties of what happens to backups after they were made: deletion, retention, verification,
  statistics; the schema invariant over every operation of the service.
\<close>

section \<open>Effects on the database\<close>

lemma and_then_wf:
  assumes "db_wf (w_db (snd p))" "\<And>x w. p = (Inr x, w) \<Longrightarrow> db_wf (w_db w) \<Longrightarrow> db_wf (w_db (snd (f x w)))"
  shows "db_wf (w_db (snd (and_then p f)))"
  using assms by (cases p; cases "fst p") auto

lemma read_only_wf: "db_wf (w_db w) \<Longrightarrow> read_only w w' \<Longrightarrow> db_wf (w_db w')"
  by (simp add: db_wf_same [OF read_only_fields(1)])

lemma BackupRepo_GetByID_reads: "same_tables d (snd (BackupRepo_GetByID i d))"
  by (simp add: BackupRepo_GetByID_def)

lemma GetByID_world_reads: "read_only w (snd (on_db (BackupRepo_GetByID i) w))"
  by (rule on_db_read_only) (rule BackupRepo_GetByID_reads)

lemma GetDecrypted_step: "GetDecrypted X svc i w = (r, w') \<Longrightarrow> read_only w w'"
  using providers_svc.get_decrypted_reads [of w X svc i] by simp

lemma delete_object_tables: "same_tables (w_db w) (w_db (delete_object X s b w))"
proof -
  have "same_tables (w_db w) (w_db (snd (S3_Delete X c k w1)))" if "read_only w w1" for c k w1
    using that by (auto simp: S3_Delete_def read_only_fields split: prod.splits option.splits)
  then show ?thesis
    by (auto simp: delete_object_def split: option.splits list.splits prod.splits sum.splits
        dest!: GetDecrypted_step intro: read_only_fields(1))
qed

lemma BackupRepo_Delete_wf: "db_wf d \<Longrightarrow> db_wf (snd (BackupRepo_Delete i d))"
  unfolding BackupRepo_Delete_def by (simp add: db_wf_exec wf_delete_backup)

lemma Backup_Delete_wf:
  assumes "db_wf (w_db w)"
  shows "db_wf (w_db (snd (Backup_Delete X s i w)))"
  unfolding Backup_Delete_def
proof (rule and_then_wf)
  show "db_wf (w_db (snd (on_db (BackupRepo_GetByID i) w)))"
    using assms GetByID_world_reads by (rule read_only_wf)
  fix x :: "backup option" and w1 :: "'a world" assume "db_wf (w_db w1)"
  then show "db_wf (w_db (snd (case x of None \<Rightarrow> (Inl ''backup not found'', w1)
      | Some b \<Rightarrow> on_db (BackupRepo_Delete i) (delete_object X s b w1))))"
    by (auto split: option.splits intro!: BackupRepo_Delete_wf simp: db_wf_same [OF delete_object_tables])
qed

lemma delete_all_wf: "db_wf (w_db w) \<Longrightarrow> db_wf (w_db (delete_all X s bs w))"
  by (induction bs arbitrary: w) (simp_all add: Backup_Delete_wf)

lemma ListOldest_reads: "read_only w (snd (on_db (BackupRepo_ListOldestByBackupType sid bt k) w))"
  by (rule on_db_read_only) (simp add: ListOldest_kept)

lemma expire_wf: "db_wf (w_db w) \<Longrightarrow> db_wf (w_db (expire X s sid bt k w))"
  using ListOldest_reads [of w sid bt k]
  by (auto simp: expire_def delete_all_wf read_only_wf split: prod.splits sum.splits)

text \<open>The ends of a verification are one update of the row.\<close>

lemma verification_ends:
  assumes "failVerification b l w = (b', w') \<or> passVerification b l w = (b', w')"
  shows "w_db w' = snd (BackupRepo_Update b' (w_db w))" "w_store w' = w_store w" "b_ID b' = b_ID b"
    "b_EncryptedSizeBytes b' = b_EncryptedSizeBytes b"
  using assms by (auto simp: failVerification_def passVerification_def Let_def on_db_def time_now_def split: prod.splits)

lemma failVerification_status: "failVerification b l w = (b', w') \<Longrightarrow> b_Status b' = ''failed'' \<and> b_VerifyStatus b' = ''failed''"
  by (auto simp: failVerification_def Let_def split: prod.splits)

lemma passVerification_status:
  "passVerification b l w = (b', w') \<Longrightarrow> b_Status b' = ''success'' \<and> b_VerifyStatus b' = ''passed'' \<and> b_Checksum b' = b_Checksum b"
  by (auto simp: passVerification_def Let_def split: prod.splits)

lemma compare_checksum_cases:
  assumes "compare_checksum X b l data dlErr w = (b', w')"
  shows "(\<exists>l. failVerification b l w = (b', w')) \<or>
    (dlErr = None \<and> (b_Checksum b \<noteq> [] \<longrightarrow> Checksum (x_crypto X) data = b_Checksum b) \<and>
     (\<exists>l. passVerification (b\<lparr>b_Checksum := Checksum (x_crypto X) data\<rparr>) l w = (b', w')))"
proof -
  have "b\<lparr>b_Checksum := c\<rparr> = b" if "c = b_Checksum b" for c using that by simp
  then show ?thesis
    using assms by (auto simp: compare_checksum_def Checksum_def Let_def split: option.splits if_splits)
qed

lemma compare_checksum_wf:
  assumes "compare_checksum X b l data dlErr w = (b', w')" "db_wf (w_db w)"
  shows "db_wf (w_db w')"
  using compare_checksum_cases [OF assms(1)] assms(2) verification_ends(1) backup_repo.update_wf
  by (metis (no_types, lifting))

text \<open>The bytes a verification hashes: the decrypted stream if the backup has an encrypted size.\<close>

definition hashed_data :: "'s ext \<Rightarrow> 's backup_svc \<Rightarrow> backup \<Rightarrow> bytes \<Rightarrow> bytes option" where
  "hashed_data X s b content =
     (case bs_encSvc s of
        None \<Rightarrow> Some content
      | Some mk \<Rightarrow>
          if b_EncryptedSizeBytes b \<noteq> None \<and> the (b_EncryptedSizeBytes b) > 0
          then case DecryptStream (x_crypto X) mk content ''default'' of
                 Inl e \<Rightarrow> None
               | Inr r \<Rightarrow> (case copy_decrypted (x_crypto X) r of (data, EOF) \<Rightarrow> Some data | _ \<Rightarrow> None)
          else Some content)"

definition unverifiable :: "'s backup_svc \<Rightarrow> backup \<Rightarrow> bool" where
  "unverifiable s b \<longleftrightarrow> b_BackupType b = ''incremental'' \<and> bs_incrRegistry s \<noteq> None"

lemma runVerification_cases:
  assumes "runVerification X s b w = (b', w')"
  obtains (fail) w1 l where "read_only w w1" "failVerification b l w1 = (b', w')"
  | (skip) l where "unverifiable s b" "passVerification b l w = (b', w')"
  | (compare) w1 p client content data dlErr l where "\<not> unverifiable s b" "read_only w w1"
      "resolveProvider (GetDecrypted X (bs_provSvc s)) (GetDefault X (bs_provSvc s)) (b_StorageProviderID b) w = (Inr p, w1)"
      "CreateS3ClientFromProvider X p = Inr client" "S3_Download X client (b_StoragePath b) w1 = (content, dlErr)"
      "hashed_data X s b content = Some data" "compare_checksum X b l data dlErr w1 = (b', w')"
proof (cases "unverifiable s b")
  case True
  with assms skip show thesis by (auto simp: runVerification_def unverifiable_def Let_def)
next
  case nu: False
  obtain r w1 where r: "resolveProvider (GetDecrypted X (bs_provSvc s)) (GetDefault X (bs_provSvc s))
      (b_StorageProviderID b) w = (r, w1)" by fastforce
  then have ro: "read_only w w1"
    using providers_svc.resolve_reads [of w X "bs_provSvc s" "b_StorageProviderID b"] by simp
  show thesis
  proof (cases r)
    case (Inl e)
    with assms nu r ro fail show thesis by (auto simp: runVerification_def unverifiable_def Let_def)
  next
    case (Inr p)
    show thesis
    proof (cases "CreateS3ClientFromProvider X p")
      case (Inl e)
      with assms nu r \<open>r = Inr p\<close> ro fail show thesis by (auto simp: runVerification_def unverifiable_def Let_def)
    next
      case (Inr client)
      obtain content dlErr where d: "S3_Download X client (b_StoragePath b) w1 = (content, dlErr)" by fastforce
      note known = nu r \<open>r = Inr p\<close> Inr d
      show thesis
      proof (cases "hashed_data X s b content")
        case None
        with assms known have "\<exists>l. failVerification b l w1 = (b', w')"
          by (auto simp: runVerification_def unverifiable_def hashed_data_def Let_def
              split: option.splits if_splits sum.splits prod.splits rerr.splits)
        with ro fail show thesis by blast
      next
        case (Some data)
        with assms known have "\<exists>l. compare_checksum X b l data dlErr w1 = (b', w')"
          by (auto simp: runVerification_def unverifiable_def hashed_data_def Let_def
              split: option.splits if_splits sum.splits prod.splits rerr.splits)
        with known ro Some compare show thesis by blast
      qed
    qed
  qed
qed

lemma runVerification_wf:
  assumes "db_wf (w_db w)"
  shows "db_wf (w_db (snd (runVerification X s b w)))"
proof -
  obtain b' w' where v: "runVerification X s b w = (b', w')" by fastforce
  from v have "db_wf (w_db w')"
  proof (cases rule: runVerification_cases)
    case (fail w1 l)
    then show ?thesis
      using assms verification_ends(1) [of b l w1 b' w'] read_only_wf backup_repo.update_wf by metis
  next
    case (skip l)
    then show ?thesis using assms verification_ends(1) [of b l w b' w'] backup_repo.update_wf by metis
  next
    case (compare w1 p client content data dlErr l)
    show ?thesis using compare(7) read_only_wf [OF assms compare(2)] by (rule compare_checksum_wf)
  qed
  with v show ?thesis by simp
qed

text \<open>\<open>StartBackup\<close> and \<open>StartVerification\<close>, on every path.\<close>

lemma launch_wf: "db_wf (w_db w) \<Longrightarrow> db_wf (w_db (snd (launch b conn db w)))"
proof -
  assume wf: "db_wf (w_db w)"
  obtain i w1 where i: "uuid_new w = (i, w1)" by fastforce
  obtain now w2 where now: "time_now w1 = (now, w2)" by fastforce
  have "w_db w2 = w_db w" using i now by (auto simp: uuid_new_def time_now_def)
  then have "db_wf (w_db (snd (on_db (BackupRepo_Create i now b) w2)))"
    using wf by (simp add: backup_repo.create_wf)
  then show ?thesis
    using i now by (auto simp: launch_def intro!: and_then_wf)
qed

lemma reads_wf:
  assumes "db_wf d"
  shows "db_wf (snd (ConnectionRepo_GetByID i d))" "db_wf (snd (ConnectionRepo_GetDatabase i d))"
    "db_wf (snd (BackupRepo_GetByID i d))"
  using assms db_wf_same [OF ConnectionRepo_reads(1)] db_wf_same [OF ConnectionRepo_reads(2)]
    db_wf_same [OF BackupRepo_GetByID_reads] by simp_all

lemma StartBackup_wf:
  assumes "db_wf (w_db w)"
  shows "db_wf (w_db (snd (StartBackup cid did bt sid pid targets nos nof w)))"
proof -
  let ?b = "new_backup cid did bt sid pid targets nos nof"
  have step: "db_wf (w_db (snd (and_then (wrap_err ctx (on_db (ConnectionRepo_GetDatabase did) w1)) (\<lambda>db w2.
      case db of None \<Rightarrow> (Inl e, w2) | Some db \<Rightarrow> launch ?b conn db w2))))" if "db_wf (w_db w1)" for w1 conn ctx e
    by (rule and_then_wf)
      (auto simp: reads_wf that launch_wf split: option.splits)
  show ?thesis
    unfolding StartBackup_def
    by (rule and_then_wf) (auto simp: reads_wf assms step split: option.splits)
qed

lemma StartVerification_wf:
  assumes "db_wf (w_db w)"
  shows "db_wf (w_db (snd (StartVerification i w)))"
proof -
  have step: "db_wf (w_db (snd (and_then (wrap_err ctx (on_db (BackupRepo_Update b) w1)) (\<lambda>_ w2. (Inr b, w2)))))"
    if "db_wf (w_db w1)" for w1 ctx b
    using that by (intro and_then_wf) (auto simp: backup_repo.update_wf)
  show ?thesis
    unfolding StartVerification_def
    by (rule and_then_wf)
      (auto simp: reads_wf assms Let_def split: option.splits intro!: step)
qed

lemma runBackup_wf:
  assumes "svc_ok s" "db_wf (w_db w)"
  shows "db_wf (w_db (snd (runBackup X s j w)))"
proof -
  obtain b' w' where r: "runBackup X s j w = (b', w')" by fastforce
  show ?thesis using ends_run_wf [OF runBackup_ends [OF r assms(1)] assms(2)] r by simp
qed

section \<open>Properties\<close>

text \<open>Every operation of the backup service keeps the schema invariant (unique keys, CHECK
  constraints, no dangling reference), on success and on every error path, whatever database
  statements fail.\<close>

theorem backup_service_keeps_schema:
  assumes "svc_ok s" "db_wf (w_db w)"
  shows "db_wf (w_db (snd (StartBackup cid did bt sid pid targets nos nof w))) \<and>
    db_wf (w_db (snd (runBackup X s j w))) \<and> db_wf (w_db (snd (Backup_Delete X s i w))) \<and>
    db_wf (w_db (snd (StartVerification i w))) \<and> db_wf (w_db (snd (runVerification X s b w))) \<and>
    db_wf (w_db (EnforceRetention X s schedID retFull retIncr w))"
  using assms
  by (simp add: StartBackup_wf runBackup_wf Backup_Delete_wf StartVerification_wf runVerification_wf
      EnforceRetention_def expire_wf)

theorem backup_service_keeps_schema_witness:
  "db_wf (w_db (snd (StartBackup ''c'' ''d'' ''full'' None None [] True True demo_world2))) \<and>
    db_wf (w_db (snd (runBackup demo_ext demo_svc demo_job demo_world2))) \<and>
    db_wf (w_db (snd (Backup_Delete demo_ext demo_svc ''b'' demo_world2))) \<and>
    db_wf (w_db (snd (StartVerification ''b'' demo_world2))) \<and>
    db_wf (w_db (snd (runVerification demo_ext demo_svc demo_backup demo_world2))) \<and>
    db_wf (w_db (EnforceRetention demo_ext demo_svc ''s'' 7 30 demo_world2))"
  by (rule backup_service_keeps_schema) (simp_all add: demo_world2_facts demo_db_wf)

lemma StartVerification_refused:
  "\<exists>e. fst (StartVerification i w) = Inl e \<and> same_tables (w_db w) (w_db (snd (StartVerification i w)))"
proof -
  obtain r w1 where g: "on_db (BackupRepo_GetByID i) w = (r, w1)" by fastforce
  then have ro: "same_tables (w_db w) (w_db w1)"
    using read_only_fields(1) [OF GetByID_world_reads [of w i]] by simp
  show ?thesis
  proof (cases r)
    case (Inl e)
    with g ro show ?thesis by (simp add: StartVerification_def)
  next
    case (Inr ob)
    show ?thesis
    proof (cases ob)
      case None
      with Inr g ro show ?thesis by (simp add: StartVerification_def)
    next
      case (Some b)
      from on_db_result [of "BackupRepo_GetByID i" w ob w1] g Inr obtain d where
        d: "BackupRepo_GetByID i (w_db w) = (Inr ob, d)" "w_db w1 = d" by auto
      then obtain row where row: "row_find br_id i (t_backups (w_db w1)) = Some row" "b = scanBackup row"
        using Some by (auto simp: BackupRepo_GetByID_def dest!: wrapped_query sym [of "Some _"])
      have id: "b_ID b = i" using row_find_Some [OF row(1)] row(2) by simp
      let ?b = "b\<lparr>b_VerifyStatus := ''verifying'', b_Status := ''verifying''\<rparr>"
      have bad: "\<not> check_backup (set_backup ?b row)" by (simp add: check_backup_def set_backup_def)
      obtain u d2 where u: "BackupRepo_Update ?b (w_db w1) = (u, d2)" by fastforce
      have "\<exists>e. u = Inl e"
      proof (cases u)
        case (Inr x)
        with u obtain d0 where "same_tables (w_db w1) d0" "sql_update_backup i (set_backup ?b) d0 = Inr d2"
          using id by (auto simp: BackupRepo_Update_def elim!: wrapped_exec_ok)
        with row bad show ?thesis by (simp add: sql_update_backup_def sql_update_def same_tables_fields)
      qed simp
      then obtain e where e: "u = Inl e" by blast
      with u have "same_tables (w_db w1) d2" by (auto simp: BackupRepo_Update_def dest: wrapped_exec_error)
      then have "same_tables (w_db w) d2" using ro same_tables_trans by blast
      with g Inr Some u e ro show ?thesis
        by (auto simp: StartVerification_def on_db_def Let_def)
    qed
  qed
qed

text \<open>Claim C12. Verification can never be started: \<open>StartVerification\<close> returns an error for every
  backup in every state, because the value it writes to \<open>verify_status\<close> violates the column's
  CHECK constraint; no row is changed.\<close>

theorem verification_never_starts:
  "\<exists>e. fst (StartVerification i w) = Inl e \<and> same_tables (w_db w) (w_db (snd (StartVerification i w)))"
  by (rule StartVerification_refused)

end
