(* ===== verification/Http.thy ===== *)
theory Http
  imports Jagad_Prelude
begin

text \<open>
  The HTTP layer the handlers share (\<open>internal/httputil/response.go\<close>,
  \<open>internal/api/response.go\<close>): a handler is a function from the decoded request to a response
  and the new state. A response is a status and a body; a body is the value handed to the JSON encoder,
  the error object of \<open>WriteError\<close>, or nothing. Parsing the request and encoding the value are
  the standard library's: a handler takes the outcome of decoding the body, \<open>None\<close> for an error.
\<close>

datatype 'a body = Json 'a | Error_Object string | No_Body

type_synonym 'a response = "nat \<times> 'a body"

definition WriteJSON :: "nat \<Rightarrow> 'a \<Rightarrow> 'a response" where
  "WriteJSON status data = (status, Json data)"

definition WriteError :: "nat \<Rightarrow> string \<Rightarrow> 'a response" where
  "WriteError status message = (status, Error_Object message)"

definition no_content :: "'a response" where
  "no_content = (204, No_Body)"

text \<open>The three shapes of a handler: a value or an error; a value that may be missing; an action.\<close>

definition respond :: "nat \<Rightarrow> nat \<Rightarrow> 'a res \<times> 'w \<Rightarrow> 'a response \<times> 'w" where
  "respond good bad p = (case p of (Inl e, w) \<Rightarrow> (WriteError bad e, w) | (Inr x, w) \<Rightarrow> (WriteJSON good x, w))"

definition respond_found :: "string \<Rightarrow> ('a \<Rightarrow> 'w \<Rightarrow> 'b response \<times> 'w) \<Rightarrow> 'a option res \<times> 'w \<Rightarrow> 'b response \<times> 'w" where
  "respond_found missing f p =
     (case p of (Inl e, w) \<Rightarrow> (WriteError 500 e, w)
      | (Inr None, w) \<Rightarrow> (WriteError 404 missing, w) | (Inr (Some x), w) \<Rightarrow> f x w)"

definition respond_done :: "unit res \<times> 'w \<Rightarrow> 'a response \<times> 'w" where
  "respond_done p = (case p of (Inl e, w) \<Rightarrow> (WriteError 500 e, w) | (Inr _, w) \<Rightarrow> (no_content, w))"

definition ok_json :: "'a \<Rightarrow> 'w \<Rightarrow> 'a response \<times> 'w" where
  "ok_json x w = (WriteJSON 200 x, w)"

text \<open>A request body that does not decode never reaches the service.\<close>

definition with_body :: "string \<Rightarrow> ('r \<Rightarrow> 'w \<Rightarrow> 'a response \<times> 'w) \<Rightarrow> 'r option \<Rightarrow> 'w \<Rightarrow> 'a response \<times> 'w" where
  "with_body message f req w = (case req of None \<Rightarrow> (WriteError 400 message, w) | Some x \<Rightarrow> f x w)"

lemma response_simps [simp]:
  "respond good bad (Inl e, w) = (WriteError bad e, w)" "respond good bad (Inr x, w) = (WriteJSON good x, w)"
  "respond_found m f (Inl e, w) = (WriteError 500 e, w)" "respond_found m f (Inr None, w) = (WriteError 404 m, w)"
  "respond_found m f (Inr (Some y), w) = f y w"
  "respond_done (Inl e, w) = (WriteError 500 e, w)" "respond_done (Inr u, w) = (no_content, w)"
  "with_body m g None w = (WriteError 400 m, w)" "with_body m g (Some r) w = g r w"
  by (simp_all add: respond_def respond_found_def respond_done_def with_body_def)

lemma response_status [simp]:
  "fst (WriteJSON s x) = s" "fst (WriteError s m) = s" "fst no_content = 204"
  by (simp_all add: WriteJSON_def WriteError_def no_content_def)

text \<open>Which status a response can have.\<close>

lemma respond_state [simp]: "snd (respond good bad p) = snd p"
  by (auto simp: respond_def split: prod.splits sum.splits)

lemma respond_done_state [simp]: "snd (respond_done p) = snd p"
  by (auto simp: respond_done_def split: prod.splits sum.splits)

lemma respond_done_ok: "fst (fst (respond_done p)) = 204 \<longleftrightarrow> is_ok (fst p)"
  by (auto simp: respond_done_def split: prod.splits sum.splits)

text \<open>\<open>Middleware\<close> of \<open>api/response.go\<close>: the CORS headers, and an answer of its own to a preflight
  request.\<close>

definition cors_headers :: "(string \<times> string) list" where
  "cors_headers = [(''Access-Control-Allow-Origin'', ''*''),
     (''Access-Control-Allow-Methods'', ''GET, POST, PUT, DELETE, OPTIONS''),
     (''Access-Control-Allow-Headers'', ''Content-Type, Authorization'')]"

definition Middleware :: "string \<Rightarrow> ('w \<Rightarrow> 'a response \<times> 'w) \<Rightarrow> 'w \<Rightarrow> ((string \<times> string) list \<times> 'a response) \<times> 'w" where
  "Middleware httpMethod nextHandler w =
     (if httpMethod = ''OPTIONS'' then ((cors_headers, (200, No_Body)), w)
      else case nextHandler w of (r, w') \<Rightarrow> ((cors_headers, r), w'))"

end
