(* ===== verification/Restore_Service.thy ===== *)
theory Restore_Service
  imports Backup_Upkeep Http
begin

text \<open>
  \<open>internal/restore/service.go\<close>: starting and running a restore, and its HTTP handler. As for
  backups, the goroutine \<open>StartRestore\<close> starts is returned as a \<open>restore_job\<close>.
\<close>

section \<open>The service\<close>

record restore_svc =
  rv_provSvc :: provider_svc
  rv_encSvc :: "bytes option" \<comment> \<open>the master key of the encryption service, if one is set\<close>

definition Restore_NewService :: "provider_svc \<Rightarrow> restore_svc" where
  "Restore_NewService provSvc = \<lparr>rv_provSvc = provSvc, rv_encSvc = None\<rparr>"

definition Restore_SetEncryptionService :: "bytes \<Rightarrow> restore_svc \<Rightarrow> restore_svc" where
  "Restore_SetEncryptionService encSvc s = s\<lparr>rv_encSvc := Some encSvc\<rparr>"

definition Restore_List :: "'s world \<Rightarrow> restore list res \<times> 's world" where
  "Restore_List w = on_db RestoreRepo_List w"

definition Restore_Get :: "string \<Rightarrow> 's world \<Rightarrow> restore option res \<times> 's world" where
  "Restore_Get i w = on_db (RestoreRepo_GetByID i) w"

text \<open>The arguments of \<open>go s.runRestore(res, b, conn)\<close>.\<close>

record restore_job =
  rj_restore :: restore
  rj_backup :: backup
  rj_conn :: connection

definition new_restore :: "string \<Rightarrow> string \<Rightarrow> restore" where
  "new_restore backupID targetConnectionID =
     zero_restore\<lparr>rs_BackupID := backupID, rs_Status := ''running'',
       rs_TargetConnection := (if targetConnectionID \<noteq> [] then Some targetConnectionID else None)\<rparr>"

definition launch_restore :: "restore \<Rightarrow> backup \<Rightarrow> connection \<Rightarrow> 's world \<Rightarrow> (restore \<times> restore_job) res \<times> 's world" where
  "launch_restore r b conn w =
     (let (i, w1) = uuid_new w; (now, w2) = time_now w1
      in and_then (wrap_err ''create restore record: '' (on_db (RestoreRepo_Create i now r) w2))
           (\<lambda>r' w3. (Inr (r', \<lparr>rj_restore = r', rj_backup = b, rj_conn = conn\<rparr>), w3)))"

definition StartRestore :: "string \<Rightarrow> string \<Rightarrow> 's world \<Rightarrow> (restore \<times> restore_job) res \<times> 's world" where
  "StartRestore backupID targetConnectionID w =
     and_then (wrap_err ''get backup: '' (on_db (BackupRepo_GetByID backupID) w)) (\<lambda>b w1. case b of
         None \<Rightarrow> (Inl ''backup not found'', w1)
       | Some b \<Rightarrow>
           if b_Status b \<noteq> ''success'' then (Inl (''cannot restore backup with status: '' @ b_Status b), w1)
           else let connID = (if targetConnectionID \<noteq> [] then targetConnectionID else b_ConnectionID b)
                in and_then (wrap_err ''get target connection: '' (on_db (ConnectionRepo_GetByID connID) w1))
                     (\<lambda>conn w2. case conn of None \<Rightarrow> (Inl ''target connection not found'', w2)
                       | Some conn \<Rightarrow> launch_restore (new_restore backupID targetConnectionID) b conn w2))"

section \<open>Running a restore\<close>

definition failRestore :: "restore \<Rightarrow> string \<Rightarrow> 's world \<Rightarrow> restore \<times> 's world" where
  "failRestore r logOutput w =
     (let (now, w1) = time_now w;
          r' = r\<lparr>rs_CompletedAt := Some now, rs_Status := ''failed'', rs_LogOutput := logOutput\<rparr>;
          (_, w2) = on_db (RestoreRepo_Update r') w1
      in (r', w2))"

definition decompressData :: "'s ext \<Rightarrow> bytes \<Rightarrow> bytes res" where
  "decompressData X data =
     (case x_gunzip_new X data of
        Some e \<Rightarrow> Inl (''create gzip reader: '' @ e)
      | None \<Rightarrow> (case x_gunzip X data of Inl e \<Rightarrow> Inl (''decompress: '' @ e) | Inr d \<Rightarrow> Inr d))"

text \<open>\<open>cmd.Run()\<close> with the data on its standard input. Its outcome may depend on the time; the
  clock is not consumed.\<close>

definition run_cmd :: "'s ext \<Rightarrow> cmd \<Rightarrow> bytes \<Rightarrow> 's world \<Rightarrow> (gerror option \<times> string) \<times> 's world" where
  "run_cmd X c input w = (x_run X c input (w_clock w 0), w\<lparr>w_runs := w_runs w @ [(c, input)]\<rparr>)"

definition pgRestore_cmd :: "connection \<Rightarrow> cmd" where
  "pgRestore_cmd conn =
     \<lparr>cmd_name = ''pg_restore'',
      cmd_args = [''-h'', c_Host conn, ''-p'', fmt_d (c_Port conn), ''-U'', c_Username conn, ''--clean'', ''--if-exists'',
        ''--dbname'', ''postgres''],
      cmd_env = [''PGPASSWORD='' @ c_Password conn]\<rparr>"

definition pgRestore :: "'s ext \<Rightarrow> connection \<Rightarrow> bytes \<Rightarrow> 's world \<Rightarrow> gerror option \<times> 's world" where
  "pgRestore X conn data w =
     (case run_cmd X (pgRestore_cmd conn) data w of
        ((Some e, stderr), w') \<Rightarrow> (Some (''pg_restore: '' @ e @ nl @ ''stderr: '' @ stderr), w')
      | ((None, _), w') \<Rightarrow> (None, w'))"

definition mySQLRestore_tool :: "'s ext \<Rightarrow> connection \<Rightarrow> string" where
  "mySQLRestore_tool X conn = (if c_DBType conn = ''mariadb'' \<and> x_lookpath X ''mariadb'' then ''mariadb'' else ''mysql'')"

definition mySQLRestore_cmd :: "'s ext \<Rightarrow> connection \<Rightarrow> cmd" where
  "mySQLRestore_cmd X conn =
     \<lparr>cmd_name = mySQLRestore_tool X conn,
      cmd_args = [''-h'', c_Host conn, ''-P'', fmt_d (c_Port conn), ''-u'', c_Username conn, ''--password='' @ c_Password conn],
      cmd_env = []\<rparr>"

definition mySQLRestore :: "'s ext \<Rightarrow> connection \<Rightarrow> bytes \<Rightarrow> 's world \<Rightarrow> gerror option \<times> 's world" where
  "mySQLRestore X conn data w =
     (case run_cmd X (mySQLRestore_cmd X conn) data w of
        ((Some e, stderr), w') \<Rightarrow> (Some (mySQLRestore_tool X conn @ '' restore: '' @ e @ nl @ ''stderr: '' @ stderr), w')
      | ((None, _), w') \<Rightarrow> (None, w'))"

definition executeRestore :: "'s ext \<Rightarrow> connection \<Rightarrow> bytes \<Rightarrow> 's world \<Rightarrow> gerror option \<times> 's world" where
  "executeRestore X conn data w =
     (if c_DBType conn = ''postgresql'' then pgRestore X conn data w
      else if c_DBType conn = ''mysql'' \<or> c_DBType conn = ''mariadb'' then mySQLRestore X conn data w
      else (Some (''unsupported database type: '' @ c_DBType conn), w))"

text \<open>The steps from the downloaded object on: decrypt, decompress, run the tool.\<close>

definition restore_decrypt :: "'s ext \<Rightarrow> restore_svc \<Rightarrow> backup \<Rightarrow> bytes \<Rightarrow> string \<Rightarrow> (bytes \<times> string) res" where
  "restore_decrypt X s b data log0 =
     (case rv_encSvc s of
        Some mk \<Rightarrow>
          if b_EncryptedSizeBytes b \<noteq> None \<and> the (b_EncryptedSizeBytes b) > 0
          then (case Decrypt (x_crypto X) mk data ''default'' of
                  Inl e \<Rightarrow> Inl (log0 @ ''DECRYPT ERROR: '' @ e @ nl)
                | Inr pt \<Rightarrow> Inr (pt, log0 @ ''DECRYPT: OK (AES-256-GCM)'' @ nl))
          else Inr (data, log0)
      | None \<Rightarrow> Inr (data, log0))"

definition restore_data :: "'s ext \<Rightarrow> restore_svc \<Rightarrow> backup \<Rightarrow> bytes \<Rightarrow> string \<Rightarrow> (bytes \<times> string) res" where
  "restore_data X s b obj log0 =
     (case restore_decrypt X s b obj log0 of
        Inl l \<Rightarrow> Inl l
      | Inr (data, log1) \<Rightarrow>
          (case decompressData X data of
             Inl e \<Rightarrow> Inl (log1 @ ''DECOMPRESS ERROR: '' @ e @ nl)
           | Inr out \<Rightarrow> Inr (out, log1 @ ''DECOMPRESS: '' @ fmt_d (int (length data)) @ '' -> '' @
                          fmt_d (int (length out)) @ '' bytes'' @ nl)))"

definition passRestore :: "restore \<Rightarrow> string \<Rightarrow> int \<Rightarrow> 's world \<Rightarrow> restore \<times> 's world" where
  "passRestore r logOutput startTime w =
     (let (now, w1) = time_now w;
          r' = r\<lparr>rs_DurationMs := Some (duration_ms startTime now), rs_CompletedAt := Some now,
                 rs_Status := ''success'', rs_LogOutput := logOutput\<rparr>;
          (_, w2) = on_db (RestoreRepo_Update r') w1
      in (r', w2))"

definition runRestore :: "'s ext \<Rightarrow> restore_svc \<Rightarrow> restore_job \<Rightarrow> 's world \<Rightarrow> restore \<times> 's world" where
  "runRestore X s j w =
     (let (startTime, w1) = time_now w;
          r = (rj_restore j)\<lparr>rs_StartedAt := Some startTime\<rparr>; b = rj_backup j
      in case restore_resolveProvider (GetDecrypted X (rv_provSvc s)) (GetDefault X (rv_provSvc s)) (b_StorageProviderID b) w1 of
           (Inl e, w2) \<Rightarrow> failRestore r (''STORAGE PROVIDER ERROR: '' @ e @ nl) w2
         | (Inr prov, w2) \<Rightarrow>
             (case CreateS3ClientFromProvider X prov of
                Inl e \<Rightarrow> failRestore r (''STORAGE CLIENT ERROR: '' @ e @ nl) w2
              | Inr client \<Rightarrow>
                  (case S3_Download X client (b_StoragePath b) w2 of
                     (_, Some e) \<Rightarrow> failRestore r (''DOWNLOAD ERROR: '' @ e @ nl) w2
                   | (obj, None) \<Rightarrow>
                       let log1 = ''DOWNLOAD: '' @ b_StoragePath b @ '' ('' @ fmt_d (int (length obj)) @ '' bytes)'' @ nl
                       in (case restore_data X s b obj log1 of
                             Inl l \<Rightarrow> failRestore r l w2
                           | Inr (data, log2) \<Rightarrow>
                               (case executeRestore X (rj_conn j) data w2 of
                                  (Some e, w3) \<Rightarrow> failRestore r (log2 @ ''RESTORE ERROR: '' @ e @ nl) w3
                                | (None, w3) \<Rightarrow> passRestore r (log2 @ ''RESTORE: OK'' @ nl) startTime w3)))))"

section \<open>The handler\<close>

definition Restore_handleList :: "'s world \<Rightarrow> restore list response \<times> 's world" where
  "Restore_handleList w = respond 200 500 (Restore_List w)"

definition Restore_handleGet :: "string \<Rightarrow> 's world \<Rightarrow> restore response \<times> 's world" where
  "Restore_handleGet i w = respond_found ''restore not found'' ok_json (Restore_Get i w)"

definition Restore_handleRestore :: "string \<Rightarrow> string option \<Rightarrow> 's world \<Rightarrow> (restore \<times> restore_job) response \<times> 's world" where
  "Restore_handleRestore backupID =
     with_body ''invalid request body'' (\<lambda>target w. respond 201 400 (StartRestore backupID target w))"

end
