(* ===== verification/Restore_Properties.thy ===== *)
theory Restore_Properties
  imports Restore_Service
begin

text \<open>
  Properties of restores: what the restore tool is given for a backup this program made, how every
  restore ends, and that no restore undoes the encryption of a backup.
\<close>

section \<open>Steps of a restore\<close>

lemma RestoreRepo_Update_other:
  "t_providers (snd (RestoreRepo_Update x d)) = t_providers d" "t_connections (snd (RestoreRepo_Update x d)) = t_connections d"
  "t_backups (snd (RestoreRepo_Update x d)) = t_backups d"
  by (auto simp: RestoreRepo_Update_def db_exec_def db_try_def sql_update_restore_def sql_update_def wrap_err_def
      split: prod.splits option.splits sum.splits if_splits list.splits)

lemma failRestore_effect:
  assumes "failRestore r l w = (r', w')"
  shows "rs_Status r' = ''failed''" "rs_ID r' = rs_ID r" "w_runs w' = w_runs w"
    "w_db w' = snd (RestoreRepo_Update r' (w_db w))" "rs_CompletedAt r' \<noteq> None" "w_store w' = w_store w"
  using assms by (auto simp: failRestore_def on_db_def time_now_def Let_def split: prod.splits)

lemma passRestore_effect:
  assumes "passRestore r l start w = (r', w')"
  shows "rs_Status r' = ''success''" "rs_ID r' = rs_ID r" "w_runs w' = w_runs w"
    "w_db w' = snd (RestoreRepo_Update r' (w_db w))" "rs_CompletedAt r' \<noteq> None" "w_store w' = w_store w"
  using assms by (auto simp: passRestore_def on_db_def time_now_def Let_def split: prod.splits)

definition restore_cmd :: "'s ext \<Rightarrow> connection \<Rightarrow> cmd" where
  "restore_cmd X conn = (if c_DBType conn = ''postgresql'' then pgRestore_cmd conn else mySQLRestore_cmd X conn)"

lemma executeRestore_run:
  assumes "executeRestore X conn data w = (e, w')" "c_DBType conn \<in> {''postgresql'', ''mysql'', ''mariadb''}"
  shows "w' = w\<lparr>w_runs := w_runs w @ [(restore_cmd X conn, data)]\<rparr>"
    "e = None \<longleftrightarrow> fst (x_run X (restore_cmd X conn) data (w_clock w 0)) = None"
  using assms
  by (auto simp: executeRestore_def pgRestore_def mySQLRestore_def run_cmd_def restore_cmd_def split: prod.splits option.splits)

text \<open>A run whose provider, client and object are known.\<close>

lemma runRestore_run:
  assumes run: "runRestore X s j w = (r', w')"
    and p: "restore_resolveProvider (GetDecrypted X (rv_provSvc s)) (GetDefault X (rv_provSvc s))
      (b_StorageProviderID (rj_backup j)) (snd (time_now w)) = (Inr p, w1)"
    and c: "CreateS3ClientFromProvider X p = Inr client"
    and d: "S3_Download X client (b_StoragePath (rj_backup j)) w1 = (obj, None)"
    and t: "c_DBType (rj_conn j) \<in> {''postgresql'', ''mysql'', ''mariadb''}"
  shows "case restore_data X s (rj_backup j) obj
          (''DOWNLOAD: '' @ b_StoragePath (rj_backup j) @ '' ('' @ fmt_d (int (length obj)) @ '' bytes)'' @ nl) of
      Inl l \<Rightarrow> rs_Status r' = ''failed'' \<and> w_runs w' = w_runs w1
    | Inr (data, l) \<Rightarrow> w_runs w' = w_runs w1 @ [(restore_cmd X (rj_conn j), data)] \<and>
        (rs_Status r' = ''success'' \<longleftrightarrow> fst (x_run X (restore_cmd X (rj_conn j)) data (w_clock w1 0)) = None)"
proof -
  obtain start w0 where t0: "time_now w = (start, w0)" by fastforce
  define log where "log = ''DOWNLOAD: '' @ b_StoragePath (rj_backup j) @ '' ('' @ fmt_d (int (length obj)) @ '' bytes)'' @ nl"
  define r where "r = (rj_restore j)\<lparr>rs_StartedAt := Some start\<rparr>"
  from run t0 p c d have run: "(case restore_data X s (rj_backup j) obj log of
      Inl l \<Rightarrow> failRestore r l w1
    | Inr (data, log2) \<Rightarrow>
        (case executeRestore X (rj_conn j) data w1 of
           (Some e, w3) \<Rightarrow> failRestore r (log2 @ ''RESTORE ERROR: '' @ e @ nl) w3
         | (None, w3) \<Rightarrow> passRestore r (log2 @ ''RESTORE: OK'' @ nl) start w3)) = (r', w')"
    unfolding runRestore_def Let_def log_def r_def by simp
  show ?thesis
  proof (cases "restore_data X s (rj_backup j) obj log")
    case (Inl l)
    with run have "failRestore r l w1 = (r', w')" by simp
    note failRestore_effect [OF this]
    with Inl show ?thesis unfolding log_def [symmetric] by simp
  next
    case (Inr dl)
    obtain data l where dl: "dl = (data, l)" by fastforce
    obtain e w3 where e: "executeRestore X (rj_conn j) data w1 = (e, w3)" by fastforce
    note ex = executeRestore_run [OF e t]
    show ?thesis
    proof (cases e)
      case None
      with run Inr dl e have "passRestore r (l @ ''RESTORE: OK'' @ nl) start w3 = (r', w')" by simp
      note passRestore_effect [OF this]
      with Inr dl ex None show ?thesis unfolding log_def [symmetric] by simp
    next
      case (Some m)
      with run Inr dl e have "failRestore r (l @ ''RESTORE ERROR: '' @ m @ nl) w3 = (r', w')" by simp
      note failRestore_effect [OF this]
      with Inr dl ex Some show ?thesis unfolding log_def [symmetric] by simp
    qed
  qed
qed

text \<open>Without an encrypted size in the struct, the object goes to the decompressor as it is.\<close>

lemma restore_data_plain:
  assumes "b_EncryptedSizeBytes b = None"
  shows "restore_data X s b obj l0 =
    (case decompressData X obj of Inl e \<Rightarrow> Inl (l0 @ ''DECOMPRESS ERROR: '' @ e @ nl)
     | Inr out \<Rightarrow> Inr (out, l0 @ ''DECOMPRESS: '' @ fmt_d (int (length obj)) @ '' -> '' @
         fmt_d (int (length out)) @ '' bytes'' @ nl))"
  using assms by (simp add: restore_data_def restore_decrypt_def split: option.splits)

section \<open>Starting a restore\<close>

lemma get_backup_step:
  assumes "wrap_err ctx (on_db (BackupRepo_GetByID i) w) = (Inr ob, w')"
  shows "ob = map_option scanBackup (row_find br_id i (t_backups (w_db w))) \<and> same_tables (w_db w) (w_db w') \<and>
    w_store w' = w_store w \<and> w_runs w' = w_runs w \<and> (faults (w_db w) = [] \<longrightarrow> w' = w)"
proof -
  from on_db_result [OF wrap_err_result [OF assms]] obtain d where
    d: "BackupRepo_GetByID i (w_db w) = (Inr ob, d)" "w' = w\<lparr>w_db := d\<rparr>" by auto
  then have "same_tables (w_db w) d" "ob = map_option scanBackup (row_find br_id i (t_backups d))"
    by (auto simp: BackupRepo_GetByID_def dest!: wrapped_query)
  moreover have "faults (w_db w) = [] \<longrightarrow> d = w_db w" using d by (auto simp: BackupRepo_GetByID_def)
  ultimately show ?thesis using d by (auto simp: same_tables_fields)
qed

lemma launch_restore_result:
  assumes "launch_restore r0 b conn w = (Inr (r, j), w')"
  shows "j = \<lparr>rj_restore = r, rj_backup = b, rj_conn = conn\<rparr>" "w_store w' = w_store w" "w_runs w' = w_runs w"
    "t_providers (w_db w') = t_providers (w_db w)" "faults (w_db w) = [] \<Longrightarrow> faults (w_db w') = []"
    "\<exists>i now. r = fill_restore i now r0"
proof -
  obtain i w1 where i: "uuid_new w = (i, w1)" by fastforce
  obtain now w2 where now: "time_now w1 = (now, w2)" by fastforce
  have w2: "w_db w2 = w_db w" "w_store w2 = w_store w" "w_runs w2 = w_runs w"
    using i now by (auto simp: uuid_new_def time_now_def)
  from assms i now have "and_then (wrap_err ''create restore record: '' (on_db (RestoreRepo_Create i now r0) w2))
      (\<lambda>r' w3. (Inr (r', \<lparr>rj_restore = r', rj_backup = b, rj_conn = conn\<rparr>), w3)) = (Inr (r, j), w')"
    by (simp add: launch_restore_def)
  from and_then_result [OF this] have
    c: "wrap_err ''create restore record: '' (on_db (RestoreRepo_Create i now r0) w2) = (Inr r, w')" and
    j: "j = \<lparr>rj_restore = r, rj_backup = b, rj_conn = conn\<rparr>" by auto
  from on_db_result [OF wrap_err_result [OF c]] w2 obtain d' where
    cr: "RestoreRepo_Create i now r0 (w_db w) = (Inr r, d')" and w': "w' = w2\<lparr>w_db := d'\<rparr>" by auto
  then obtain d0 where "same_tables (w_db w) d0" "sql_insert_restore (restore_columns (fill_restore i now r0)) d0 = Inr d'"
    "r = fill_restore i now r0"
    unfolding RestoreRepo_Create_def Let_def by (auto elim: returning_exec_ok)
  then have p: "t_providers d' = t_providers (w_db w)" "\<exists>i now. r = fill_restore i now r0"
    by (auto simp: sql_insert_restore_def same_tables_fields split: if_splits)
  have "faults d' = []" if "faults (w_db w) = []"
    using cr that by (auto simp: RestoreRepo_Create_def Let_def sql_insert_restore_def split: if_splits)
  with j w' w2 p show "j = \<lparr>rj_restore = r, rj_backup = b, rj_conn = conn\<rparr>" "w_store w' = w_store w"
    "w_runs w' = w_runs w" "t_providers (w_db w') = t_providers (w_db w)"
    "faults (w_db w) = [] \<Longrightarrow> faults (w_db w') = []" "\<exists>i now. r = fill_restore i now r0" by auto
qed

lemma StartRestore_result:
  assumes "StartRestore bid target w = (Inr (r, j), w')"
  obtains row conn where "row_find br_id bid (t_backups (w_db w)) = Some row" "br_status row = ''success''"
    "row_find c_ID (if target \<noteq> [] then target else br_connection_id row) (t_connections (w_db w)) = Some conn"
    "j = \<lparr>rj_restore = r, rj_backup = scanBackup row, rj_conn = conn\<rparr>"
    "w_store w' = w_store w" "w_runs w' = w_runs w" "t_providers (w_db w') = t_providers (w_db w)"
    "faults (w_db w) = [] \<longrightarrow> faults (w_db w') = []" "rs_Status r = ''running''" "rs_BackupID r = bid"
proof -
  define e1 e2 e3 where e: "e1 = ''backup not found''" "e2 = ''cannot restore backup with status: ''" "e3 = ''target connection not found''"
  from and_then_result [OF assms [unfolded StartRestore_def]] obtain ob wa where
    g: "wrap_err ''get backup: '' (on_db (BackupRepo_GetByID bid) w) = (Inr ob, wa)" and
    rest: "(case ob of None \<Rightarrow> (Inl e1, wa) | Some b \<Rightarrow>
           if b_Status b \<noteq> ''success'' then (Inl (e2 @ b_Status b), wa)
           else let connID = (if target \<noteq> [] then target else b_ConnectionID b)
                in and_then (wrap_err ''get target connection: '' (on_db (ConnectionRepo_GetByID connID) wa))
                     (\<lambda>conn w2. case conn of None \<Rightarrow> (Inl e3, w2)
                       | Some conn \<Rightarrow> launch_restore (new_restore bid target) b conn w2)) = (Inr (r, j), w')"
    unfolding e by blast
  from rest obtain b where b: "ob = Some b" by (cases ob) auto
  with rest have st: "b_Status b = ''success''" by (auto split: if_splits)
  define cid where "cid = (if target \<noteq> [] then target else b_ConnectionID b)"
  from rest b st have "and_then (wrap_err ''get target connection: '' (on_db (ConnectionRepo_GetByID cid) wa))
      (\<lambda>conn w2. case conn of None \<Rightarrow> (Inl e3, w2)
         | Some conn \<Rightarrow> launch_restore (new_restore bid target) b conn w2) = (Inr (r, j), w')"
    by (simp add: Let_def cid_def)
  from and_then_result [OF this] obtain oc wb where
    c: "wrap_err ''get target connection: '' (on_db (ConnectionRepo_GetByID cid) wa) = (Inr oc, wb)" and
    rest: "(case oc of None \<Rightarrow> (Inl e3, wb) | Some conn \<Rightarrow> launch_restore (new_restore bid target) b conn wb) = (Inr (r, j), w')"
    by blast
  from rest obtain conn where conn: "oc = Some conn" and l: "launch_restore (new_restore bid target) b conn wb = (Inr (r, j), w')"
    by (cases oc) auto
  note s1 = get_backup_step [OF g] and s2 = get_connection_step [OF c] and s3 = launch_restore_result [OF l]
  obtain dx where "w' = w'" "wb = wa\<lparr>w_db := dx\<rparr>"
    using on_db_result [OF wrap_err_result [OF c]] by auto
  then have runs: "w_runs wb = w_runs wa" by simp
  from s1 b obtain row where row: "row_find br_id bid (t_backups (w_db w)) = Some row" "b = scanBackup row"
    by (cases "row_find br_id bid (t_backups (w_db w))") auto
  show thesis
  proof (rule that [OF row(1)])
    show "br_status row = ''success''" using st row(2) by (simp add: scanBackup_def)
    show "row_find c_ID (if target \<noteq> [] then target else br_connection_id row) (t_connections (w_db w)) = Some conn"
      using s1 s2 conn row(2) by (simp add: cid_def scanBackup_def same_tables_fields split: if_splits)
    show "j = \<lparr>rj_restore = r, rj_backup = scanBackup row, rj_conn = conn\<rparr>" using s3(1) row(2) by simp
    show "w_store w' = w_store w" using s1 s2 s3(2) by simp
    show "w_runs w' = w_runs w" using s1 runs s3(3) by simp
    show "t_providers (w_db w') = t_providers (w_db w)"
      using s3(4) same_tables_trans [of "w_db w" "w_db wa" "w_db wb"] s1 s2 by (simp add: same_tables_fields)
    show "faults (w_db w) = [] \<longrightarrow> faults (w_db w') = []" using s1 s2 s3(5) by auto
    show "rs_Status r = ''running''" "rs_BackupID r = bid"
      using s3(6) by (auto simp: fill_restore_def new_restore_def zero_restore_def)
  qed
qed

section \<open>From a backup to its restore\<close>

lemma BackupRepo_Update_other:
  "t_providers (snd (BackupRepo_Update b d)) = t_providers d" "t_connections (snd (BackupRepo_Update b d)) = t_connections d"
  "t_restores (snd (BackupRepo_Update b d)) = t_restores d"
  by (auto simp: BackupRepo_Update_def db_exec_def db_try_def sql_update_backup_def sql_update_def wrap_err_def
      split: prod.splits option.splits sum.splits if_splits list.splits)

lemma ends_run_other:
  assumes "ends_run b d b' d'"
  shows "t_providers d' = t_providers d" "t_connections d' = t_connections d" "t_restores d' = t_restores d"
proof -
  obtain d0 where "same_tables d d0" "same_tables (snd (BackupRepo_Update b' d0)) d'"
    using assms unfolding ends_run_def by blast
  then show "t_providers d' = t_providers d" "t_connections d' = t_connections d" "t_restores d' = t_restores d"
    by (simp_all add: same_tables_fields BackupRepo_Update_other)
qed

text \<open>What is known after a full backup was started and ended in success: the row a restore reads, and
  the object it will download.\<close>

lemma backup_ready:
  assumes "gzip_ok X" "store_ok (x_store X)" "svc_ok s" "db_wf (w_db w)" "faults (w_db w) = []"
    and "bs_encSvc s \<noteq> None \<Longrightarrow> aead_ok (x_crypto X)" "bs_encSvc s \<noteq> None \<Longrightarrow> argon_ok (x_crypto X)"
    and start: "StartBackup cid did bt sid (Some pid) targets nos nof w = (Inr (b, j), w1)"
    and run: "runBackup X s j w1 = (b', w2)" "b_Status b' = ''success''" and "bt \<noteq> ''incremental''" "pid \<noteq> []"
  obtains row p client obj conn db where
    "row_find br_id (b_ID b) (t_backups (w_db w2)) = Some row" "br_connection_id row = cid"
    "b_StorageProviderID (scanBackup row) = Some pid" "b_EncryptedSizeBytes (scanBackup row) = None"
    "provider_view pid (w_db w2) = Some p"
    "CreateS3ClientFromProvider X (unsealed X (bs_provSvc s) p) = Inr client"
    "\<And>v. w_store v = w_store w2 \<Longrightarrow> S3_Download X client (b_StoragePath (scanBackup row)) v = (obj, None)"
    "row_find c_ID cid (t_connections (w_db w)) = Some conn" "row_find dr_id did (t_databases (w_db w)) = Some db"
    "restorable X (bs_encSvc s) obj
       (do_stdout (x_dump X (buildDumpCmd X conn (dr_db_name db)) (w_clock w1 0))) (b_Checksum b')"
    "db_wf (w_db w2)" "faults (w_db w2) = []" "t_connections (w_db w2) = t_connections (w_db w)"
proof -
  obtain i now d0 conn x where st: "j = \<lparr>j_backup = b, j_conn = conn, j_db = scan_database x\<rparr>"
    "b = fill_backup i now (new_backup cid did bt sid (Some pid) targets nos nof)"
    "same_tables (w_db w) d0" "sql_insert_backup (backup_columns b) d0 = Inr (w_db w1)"
    "row_find c_ID cid (t_connections (w_db w)) = Some conn" "row_find dr_id did (t_databases (w_db w)) = Some x"
    "faults (w_db w) = [] \<longrightarrow> faults (w_db w1) = []"
    by (rule StartBackup_result [OF start])
  have b: "b_StorageProviderID b = Some pid" "b_BackupType b = bt" "b_EncryptedSizeBytes b = None" "b_ConnectionID b = cid"
    by (simp_all add: st(2) fill_backup_def new_backup_def zero_backup_def)
  have wf: "db_wf (w_db w1)" and f1: "faults (w_db w1) = []"
    using assms(4,5) st(3,4,7) wf_insert_backup db_wf_same by blast+
  have ins: "t_backups (w_db w1) = t_backups (w_db w) @ [backup_columns b]" "fk_backup d0 (backup_columns b)"
    "t_providers (w_db w1) = t_providers d0" "t_connections (w_db w1) = t_connections d0"
    using insert_backup_result [OF st(4)] st(3) by (simp_all add: same_tables_fields)
  have rec: "job_recorded j (w_db w1)"
    using ins st(1,2) by (simp add: job_recorded_def has_row_def backup_columns_def fk_backup_def fill_backup_def new_backup_def)
  have ends: "ends_run (j_backup j) (w_db w1) b' (w_db w2)" by (rule runBackup_ends [OF run(1) assms(3)])
  have f2: "faults (w_db w2) = []" by (rule ends_run_faults [OF ends f1])
  have none: "row_find br_id (b_ID b) (t_backups (w_db w)) = None"
    using insert_backup_result(4) [OF st(4)] st(3)
    by (auto simp: has_row_find backup_columns_def same_tables_fields split: option.splits)
  have row: "row_find br_id (b_ID b) (t_backups (w_db w2)) = Some (set_backup b' (backup_columns b))"
    using ends_run_row(1) [OF ends wf f1 rec] st(1) ins(1) none by (auto simp: backup_columns_def)
  obtain p v1 client obj where p: "resolveProvider (GetDecrypted X (bs_provSvc s)) (GetDefault X (bs_provSvc s))
      (b_StorageProviderID (j_backup j)) (snd (time_now w1)) = (Inr p, v1)"
    and c: "CreateS3ClientFromProvider X p = Inr client" and sp: "b_StorageProviderID b' = Some (p_ID p)"
    and d: "S3_Download X client (b_StoragePath b') w2 = (obj, None)"
    and ok: "restorable X (bs_encSvc s) obj (do_stdout (x_dump X (buildDumpCmd X conn (d_DBName (scan_database x))) (w_clock w1 0)))
        (b_Checksum b')" and enc: "b_EncryptedSizeBytes b' = None"
    using full_run_object [OF assms(6,7,1,2) run _ refl] st(1) b assms(11) by fastforce
  have "map_option (unsealed X (bs_provSvc s)) (provider_view pid (w_db (snd (time_now w1)))) = Some p"
    using providers_svc.resolve_named [OF p [unfolded st(1) job.simps b(1)]] assms(12) by simp
  then obtain q where q: "provider_view pid (w_db w1) = Some q" "p = unsealed X (bs_provSvc s) q"
    by (cases "provider_view pid (w_db w1)") auto
  then have "provider_view pid (w_db w2) = Some q" "p_ID p = pid"
    using ends_run_other(1) [OF ends] by (auto simp: provider_view_def unsealed_def scanProvider_def dest!: row_find_Some)
  moreover have "t_connections (w_db w2) = t_connections (w_db w)"
    using ends_run_other(2) [OF ends] ins(4) st(3) by (simp add: same_tables_fields)
  moreover have "S3_Download X client (b_StoragePath b') v = (obj, None)" if "w_store v = w_store w2" for v
    using d S3_Download_store [OF that] by simp
  ultimately show thesis
    using that [OF row, of q client obj conn x] q(2) c sp ok enc st(5,6) wf ends_run_wf [OF ends wf] f2 b assms(12)
    by (simp add: scanBackup_def set_backup_def backup_columns_def nullableStr_def nullableInt64_def scan_database_def)
qed

text \<open>A backup that was started, ran and succeeded, then a restore of it: the tool gets what the
  decompressor makes of the stored object, whatever encryption service either side has.\<close>

lemma restore_of_backup:
  assumes "gzip_ok X" "store_ok (x_store X)" "svc_ok s" "db_wf (w_db w)" "faults (w_db w) = []"
    and "bs_encSvc s \<noteq> None \<Longrightarrow> aead_ok (x_crypto X)" "bs_encSvc s \<noteq> None \<Longrightarrow> argon_ok (x_crypto X)"
    and "StartBackup cid did bt sid (Some pid) targets nos nof w = (Inr (b, j), w1)"
    and "runBackup X s j w1 = (b', w2)" "b_Status b' = ''success''" "bt \<noteq> ''incremental''" "pid \<noteq> []"
    and start: "StartRestore (b_ID b) target w2 = (Inr (r, rj), w3)" and "rv_provSvc rv = bs_provSvc s"
    and run: "runRestore X rv rj w3 = (r', w4)"
  obtains obj conn db rconn where
    "row_find c_ID cid (t_connections (w_db w)) = Some conn" "row_find dr_id did (t_databases (w_db w)) = Some db"
    "row_find c_ID (if target \<noteq> [] then target else cid) (t_connections (w_db w)) = Some rconn"
    "restorable X (bs_encSvc s) obj
       (do_stdout (x_dump X (buildDumpCmd X conn (dr_db_name db)) (w_clock w1 0))) (b_Checksum b')"
    "case decompressData X obj of
       Inl e \<Rightarrow> rs_Status r' = ''failed'' \<and> w_runs w4 = w_runs w3
     | Inr data \<Rightarrow> w_runs w4 = w_runs w3 @ [(restore_cmd X rconn, data)] \<and>
         (rs_Status r' = ''success'' \<longleftrightarrow> fst (x_run X (restore_cmd X rconn) data (w_clock w3 1)) = None)"
proof -
  obtain row p client obj conn db where row: "row_find br_id (b_ID b) (t_backups (w_db w2)) = Some row" "br_connection_id row = cid"
    and sp: "b_StorageProviderID (scanBackup row) = Some pid" and enc: "b_EncryptedSizeBytes (scanBackup row) = None"
    and p: "provider_view pid (w_db w2) = Some p" "CreateS3ClientFromProvider X (unsealed X (bs_provSvc s) p) = Inr client"
    and d: "\<And>v. w_store v = w_store w2 \<Longrightarrow> S3_Download X client (b_StoragePath (scanBackup row)) v = (obj, None)"
    and rows: "row_find c_ID cid (t_connections (w_db w)) = Some conn" "row_find dr_id did (t_databases (w_db w)) = Some db"
    and ok: "restorable X (bs_encSvc s) obj
       (do_stdout (x_dump X (buildDumpCmd X conn (dr_db_name db)) (w_clock w1 0))) (b_Checksum b')"
    and w2: "db_wf (w_db w2)" "faults (w_db w2) = []" "t_connections (w_db w2) = t_connections (w_db w)"
    using backup_ready [OF assms(1-12)] by metis
  obtain rconn where rconn: "row_find c_ID (if target \<noteq> [] then target else cid) (t_connections (w_db w)) = Some rconn"
    and rj: "rj = \<lparr>rj_restore = r, rj_backup = scanBackup row, rj_conn = rconn\<rparr>"
    and w3: "w_store w3 = w_store w2" "t_providers (w_db w3) = t_providers (w_db w2)" "faults (w_db w3) = []"
    using StartRestore_result [OF start] row w2(2,3) by (metis option.inject)
  have ty: "c_DBType rconn \<in> {''postgresql'', ''mysql'', ''mariadb''}"
    using row_find_Some [OF rconn] assms(4) by (auto simp: db_wf_def checks_ok_def check_connection_def)
  obtain t0 v where v: "time_now w3 = (t0, v)" by fastforce
  then have v': "w_db v = w_db w3" "w_store v = w_store w3" "w_runs v = w_runs w3" by (auto simp: time_now_def)
  have pv: "map_option (unsealed X (bs_provSvc s)) (provider_view pid (w_db v)) = Some (unsealed X (bs_provSvc s) p)"
  proof -
    have "provider_view pid (w_db v) = provider_view pid (w_db w2)" using v' w3 by (simp add: provider_view_def)
    then show ?thesis using p(1) by simp
  qed
  have clock: "w_clock v 0 = w_clock w3 1" using v by (auto simp: time_now_def)
  have res: "restore_resolveProvider (GetDecrypted X (rv_provSvc rv)) (GetDefault X (rv_provSvc rv))
      (b_StorageProviderID (rj_backup rj)) (snd (time_now w3)) = (Inr (unsealed X (bs_provSvc s) p), v)"
    using providers_svc.resolve_no_faults(2) [OF _ assms(12) pv] v v' w3 assms(14) by (simp add: rj sp)
  have dl: "S3_Download X client (b_StoragePath (rj_backup rj)) v = (obj, None)"
    using d v' w3 by (simp add: rj)
  have enc': "b_EncryptedSizeBytes (rj_backup rj) = None" using enc by (simp add: rj)
  have out: "case decompressData X obj of
       Inl e \<Rightarrow> rs_Status r' = ''failed'' \<and> w_runs w4 = w_runs w3
     | Inr data \<Rightarrow> w_runs w4 = w_runs w3 @ [(restore_cmd X rconn, data)] \<and>
         (rs_Status r' = ''success'' \<longleftrightarrow> fst (x_run X (restore_cmd X rconn) data (w_clock w3 1)) = None)"
    using runRestore_run [OF run res p(2) dl] ty v'(3) unfolding restore_data_plain [OF enc']
    by (cases "decompressData X obj") (auto simp: rj clock)
  show thesis by (rule that [OF rows rconn ok out])
qed

section \<open>How a restore starts and ends\<close>

text \<open>A refused restore changes no row.\<close>

lemma launch_restore_error:
  assumes "launch_restore r0 b conn w = (Inl e, w')"
  shows "same_tables (w_db w) (w_db w')"
proof -
  obtain i w1 where i: "uuid_new w = (i, w1)" by fastforce
  obtain now w2 where now: "time_now w1 = (now, w2)" by fastforce
  have db: "w_db w2 = w_db w" using i now by (auto simp: uuid_new_def time_now_def)
  obtain x d where x: "RestoreRepo_Create i now r0 (w_db w) = (x, d)" by fastforce
  have "x = Inl y \<Longrightarrow> same_tables (w_db w) d" for y
    using x by (auto simp: RestoreRepo_Create_def Let_def dest: returning_exec_error)
  then show ?thesis using assms i now x db by (cases x) (auto simp: launch_restore_def on_db_def)
qed

lemma StartRestore_error:
  assumes "StartRestore bid target w = (Inl e, w')"
  shows "same_tables (w_db w) (w_db w')"
proof -
  obtain x wa where g: "on_db (BackupRepo_GetByID bid) w = (x, wa)" by fastforce
  have s1: "same_tables (w_db w) (w_db wa)" using on_db_step [OF g BackupRepo_GetByID_reads] .
  show ?thesis
  proof (cases "\<exists>b. x = Inr (Some b) \<and> b_Status b = ''success''")
    case False
    with assms g s1 show ?thesis by (cases x) (auto simp: StartRestore_def split: option.splits if_splits)
  next
    case True
    then obtain b where b: "x = Inr (Some b)" "b_Status b = ''success''" by blast
    obtain y wb where c: "on_db (ConnectionRepo_GetByID (if target \<noteq> [] then target else b_ConnectionID b)) wa = (y, wb)"
      by fastforce
    have s2: "same_tables (w_db w) (w_db wb)"
      using s1 on_db_step [OF c ConnectionRepo_reads(1)] same_tables_trans by blast
    show ?thesis
    proof (cases "\<exists>conn. y = Inr (Some conn)")
      case False
      with assms g b c s2 show ?thesis by (cases y) (auto simp: StartRestore_def Let_def split: option.splits)
    next
      case True
      then obtain conn where "y = Inr (Some conn)" by blast
      with assms g b c have "launch_restore (new_restore bid target) b conn wb = (Inl e, w')"
        by (simp add: StartRestore_def Let_def)
      then show ?thesis using s2 launch_restore_error same_tables_trans by blast
    qed
  qed
qed

definition restore_ended :: "'s ext \<Rightarrow> restore_job \<Rightarrow> 's world \<Rightarrow> restore \<Rightarrow> 's world \<Rightarrow> bool" where
  "restore_ended X j w r' w' \<longleftrightarrow>
     (rs_Status r' = ''failed'' \<and>
        (w_runs w' = w_runs w \<or> (\<exists>data. w_runs w' = w_runs w @ [(restore_cmd X (rj_conn j), data)])) \<or>
      rs_Status r' = ''success'' \<and> (\<exists>data. w_runs w' = w_runs w @ [(restore_cmd X (rj_conn j), data)])) \<and>
     rs_ID r' = rs_ID (rj_restore j) \<and> rs_CompletedAt r' \<noteq> None \<and> w_store w' = w_store w \<and>
     (\<exists>d. same_tables (w_db w) d \<and> w_db w' = snd (RestoreRepo_Update r' d))"

lemma failRestore_ended:
  assumes "failRestore r l w1 = (r', w')" "rs_ID r = rs_ID (rj_restore j)" "same_tables (w_db w) (w_db w1)"
    "w_store w1 = w_store w" "w_runs w1 = w_runs w \<or> (\<exists>data. w_runs w1 = w_runs w @ [(restore_cmd X (rj_conn j), data)])"
  shows "restore_ended X j w r' w'"
  using failRestore_effect [OF assms(1)] assms(2-5) unfolding restore_ended_def by auto

lemma passRestore_ended:
  assumes "passRestore r l t w1 = (r', w')" "rs_ID r = rs_ID (rj_restore j)" "same_tables (w_db w) (w_db w1)"
    "w_store w1 = w_store w" "w_runs w1 = w_runs w @ [(restore_cmd X (rj_conn j), data)]"
  shows "restore_ended X j w r' w'"
  using passRestore_effect [OF assms(1)] assms(2-5) unfolding restore_ended_def by auto

lemma executeRestore_cases:
  assumes "executeRestore X conn data w = (e, w')"
  shows "w_db w' = w_db w" "w_store w' = w_store w"
    "w_runs w' = w_runs w @ [(restore_cmd X conn, data)] \<or> w_runs w' = w_runs w \<and> e \<noteq> None"
  using assms
  by (auto simp: executeRestore_def pgRestore_def mySQLRestore_def run_cmd_def restore_cmd_def split: prod.splits option.splits if_splits)

lemma runRestore_ended:
  assumes "runRestore X s j w = (r', w')"
  shows "restore_ended X j w r' w'"
proof -
  obtain start w0 where t0: "time_now w = (start, w0)" by fastforce
  define r where "r = (rj_restore j)\<lparr>rs_StartedAt := Some start\<rparr>"
  have rid: "rs_ID r = rs_ID (rj_restore j)" by (simp add: r_def)
  obtain p w1 where p: "restore_resolveProvider (GetDecrypted X (rv_provSvc s)) (GetDefault X (rv_provSvc s))
      (b_StorageProviderID (rj_backup j)) w0 = (p, w1)" by fastforce
  have "read_only w0 w1"
    using providers_svc.restore_resolve_reads [of w0 X "rv_provSvc s" "b_StorageProviderID (rj_backup j)"] p by simp
  then have ro: "same_tables (w_db w) (w_db w1)" "w_store w1 = w_store w" "w_runs w1 = w_runs w"
    using t0 read_only_fields [of w0 w1] by (auto simp: time_now_def)
  have fail: "failRestore r l w1 = (r', w') \<Longrightarrow> restore_ended X j w r' w'" for l
    by (erule failRestore_ended) (use rid ro in auto)
  have step: "restore_ended X j w r' w'"
    if run: "(case executeRestore X (rj_conn j) data w1 of
           (Some e, w3) \<Rightarrow> failRestore r (l @ m @ e @ nl) w3
         | (None, w3) \<Rightarrow> passRestore r (l @ m') start w3) = (r', w')" for data l m m'
  proof -
    obtain e w3 where e: "executeRestore X (rj_conn j) data w1 = (e, w3)" by fastforce
    note ex = executeRestore_cases [OF e]
    show ?thesis
    proof (cases e)
      case None
      with run e have "passRestore r (l @ m') start w3 = (r', w')" by simp
      then show ?thesis by (rule passRestore_ended) (use rid ro ex None in auto)
    next
      case (Some x)
      with run e have "failRestore r (l @ m @ x @ nl) w3 = (r', w')" by simp
      then show ?thesis by (rule failRestore_ended) (use rid ro ex in auto)
    qed
  qed
  note run = assms [unfolded runRestore_def Let_def t0 prod.case r_def [symmetric] p]
  show ?thesis
  proof (cases p)
    case (Inl e)
    with run fail show ?thesis by simp
  next
    case (Inr prov)
    note run = run [unfolded Inr prod.case sum.case]
    show ?thesis
    proof (cases "CreateS3ClientFromProvider X prov")
      case (Inl e)
      with run fail show ?thesis by simp
    next
      case (Inr client)
      note run = run [unfolded Inr sum.case]
      obtain obj de where d: "S3_Download X client (b_StoragePath (rj_backup j)) w1 = (obj, de)" by fastforce
      note run = run [unfolded d prod.case]
      show ?thesis
      proof (cases de)
        case (Some e)
        with run fail show ?thesis by simp
      next
        case None
        note run = run [unfolded None option.case]
        show ?thesis
        proof (cases "restore_data X s (rj_backup j) obj
            (''DOWNLOAD: '' @ b_StoragePath (rj_backup j) @ '' ('' @ fmt_d (int (length obj)) @ '' bytes)'' @ nl)")
          case (Inl l)
          note run = run [unfolded Inl sum.case]
          then show ?thesis by (rule fail)
        next
          case (Inr dl)
          obtain data l where dl: "dl = (data, l)" by fastforce
          note run = run [unfolded Inr sum.case dl prod.case]
          then show ?thesis by (rule step)
        qed
      qed
    qed
  qed
qed

section \<open>A concrete chain\<close>

lemma demo_full_success:
  assumes "runFullBackup demo_ext s b conn db prov start w = (b', w')"
    "CreateS3ClientFromProvider demo_ext prov = Inr client"
  shows "b_Status b' = ''success''"
proof -
  obtain content checksum err w1 where
    z: "on_rng (compress_stream demo_ext (bs_encSvc s) [10, 20, 30] None) w = ((content, checksum, err), w1)"
    by (metis surj_pair)
  then have "err = None"
    using compress_stream_restorable [of "bs_encSvc s" demo_ext "[10, 20, 30]" None "w_rng w" content checksum err]
    by (auto simp: on_rng_def split: prod.splits)
  moreover obtain w2 where "S3_UploadStream demo_ext client (storage_key demo_ext conn db (b_ID b) start) content w1 = (None, w2)"
    by (simp add: S3_UploadStream_def demo_store_def)
  ultimately show ?thesis
    using assms z by (auto simp: runFullBackup_def Let_def demo_ext_dump success_struct_def dest!: completeBackup_effect(1))
qed

lemma demo_job_success:
  assumes "bs_provSvc s = []" "faults (w_db w) = []" "provider_view ''u'' (w_db w) = Some (scanProvider demo_provider_row)"
    "b_StorageProviderID (j_backup j) = Some ''u''" "b_BackupType (j_backup j) \<noteq> ''incremental''"
    and run: "runBackup demo_ext s j w = (b', w')"
  shows "b_Status b' = ''success''"
proof -
  obtain t w1 where t: "time_now w = (t, w1)" by fastforce
  then have db: "w_db w1 = w_db w" by (auto simp: time_now_def)
  let ?p = "unsealed demo_ext [] (scanProvider demo_provider_row)"
  have "resolveProvider (GetDecrypted demo_ext []) (GetDefault demo_ext []) (Some ''u'') w1 = (Inr ?p, w1)"
    by (rule providers_svc.resolve_no_faults(1)) (simp_all add: assms db)
  with run t assms have "\<exists>b. runFullBackup demo_ext s b (j_conn j) (j_db j) ?p t w1 = (b', w')"
    by (auto simp: runBackup_def Let_def)
  then show ?thesis using demo_full_success demo_client by blast
qed

lemma demo_restore_start:
  assumes "row_find br_id bid (t_backups (w_db w)) = Some row" "br_status row = ''success''"
    "row_find c_ID (br_connection_id row) (t_connections (w_db w)) = Some conn" "faults (w_db w) = []" "t_restores (w_db w) = []"
  shows "\<exists>r rj w'. StartRestore bid [] w = (Inr (r, rj), w')"
proof -
  have g: "on_db (BackupRepo_GetByID bid) w = (Inr (Some (scanBackup row)), w)"
    using assms(1,4) by (simp add: on_db_def BackupRepo_GetByID_def)
  have c: "on_db (ConnectionRepo_GetByID (br_connection_id row)) w = (Inr (Some conn), w)"
    using assms(3,4) by (simp add: on_db_def ConnectionRepo_GetByID_def)
  have fk: "has_row br_id bid (t_backups (w_db w))" using assms(1) by (simp add: has_row_find)
  have l: "\<exists>r rj w'. launch_restore (new_restore bid []) b conn w = (Inr (r, rj), w')" for b
  proof -
    obtain i w1 where i: "uuid_new w = (i, w1)" by fastforce
    obtain now w2 where now: "time_now w1 = (now, w2)" by fastforce
    have db: "w_db w2 = w_db w" using i now by (auto simp: uuid_new_def time_now_def)
    let ?r = "fill_restore i now (new_restore bid [])"
    have "\<exists>d'. RestoreRepo_Create i now (new_restore bid []) (w_db w2) = (Inr ?r, d')"
      using assms(4,5) fk unfolding db
      by (simp add: RestoreRepo_Create_def Let_def sql_insert_restore_def check_restore_def restore_columns_def fill_restore_def
          new_restore_def zero_restore_def has_row_def [of rr_id] fk_restore_def ref_ok_def)
    then obtain w3 where "on_db (RestoreRepo_Create i now (new_restore bid [])) w2 = (Inr ?r, w3)"
      by (auto simp: on_db_def)
    then show ?thesis by (simp add: launch_restore_def i now)
  qed
  have "b_Status (scanBackup row) = ''success''" "b_ConnectionID (scanBackup row) = br_connection_id row"
    using assms(2) by (simp_all add: scanBackup_def)
  then show ?thesis using g c l by (simp add: StartRestore_def)
qed

lemma demo_chain:
  assumes "bs_provSvc s = []" "svc_ok s"
  obtains b j w1 b' w2 r rj w3 where
    "StartBackup ''c'' ''d'' ''full'' None (Some ''u'') [] False False demo_world3 = (Inr (b, j), w1)"
    "runBackup demo_ext s j w1 = (b', w2)" "b_Status b' = ''success''"
    "StartRestore (b_ID b) [] w2 = (Inr (r, rj), w3)"
proof -
  obtain b j w1 where st: "StartBackup ''c'' ''d'' ''full'' None (Some ''u'') [] False False demo_world3 = (Inr (b, j), w1)"
    using demo_start by blast
  obtain b' w2 where run: "runBackup demo_ext s j w1 = (b', w2)" by fastforce
  obtain i now d0 conn x where j: "j = \<lparr>j_backup = b, j_conn = conn, j_db = scan_database x\<rparr>"
    "b = fill_backup i now (new_backup ''c'' ''d'' ''full'' None (Some ''u'') [] False False)"
    "same_tables (w_db demo_world3) d0" "sql_insert_backup (backup_columns b) d0 = Inr (w_db w1)"
    "faults (w_db demo_world3) = [] \<longrightarrow> faults (w_db w1) = []"
    by (rule StartBackup_result [OF st])
  have f: "faults (w_db demo_world3) = []" by (simp add: demo_world3_def demo_db_def empty_db_def)
  have t: "t_providers (w_db w1) = t_providers demo_db" "t_restores (w_db w1) = []"
    using insert_backup_result(1) [OF j(4)] j(3) by (simp_all add: same_tables_fields demo_world3_def demo_db_def empty_db_def)
  have pv: "provider_view ''u'' (w_db w1) = Some (scanProvider demo_provider_row)"
    using demo_provider_view t(1) by (simp add: provider_view_def)
  have ok: "b_Status b' = ''success''"
    by (rule demo_job_success [OF assms(1) _ pv _ _ run])
      (use j f in \<open>simp_all add: fill_backup_def new_backup_def\<close>)
  have laws: "gzip_ok demo_ext" "store_ok (x_store demo_ext)" "aead_ok (x_crypto demo_ext)" "argon_ok (x_crypto demo_ext)"
    "''full'' \<noteq> ''incremental''" "''u'' \<noteq> []" by simp_all
  obtain row conn where row: "row_find br_id (b_ID b) (t_backups (w_db w2)) = Some row" "br_connection_id row = ''c''"
    "row_find c_ID ''c'' (t_connections (w_db demo_world3)) = Some conn" "faults (w_db w2) = []"
    "t_connections (w_db w2) = t_connections (w_db demo_world3)"
    using backup_ready [OF laws(1,2) assms(2) demo_world3_wf f laws(3,4) st run ok laws(5,6)] by metis
  have ends: "ends_run (j_backup j) (w_db w1) b' (w_db w2)" by (rule runBackup_ends [OF run assms(2)])
  have "t_restores (w_db w2) = []" using ends_run_other(3) [OF ends] t(2) by simp
  moreover have "br_status row = ''success''"
    using started_run [OF assms(2) demo_world3_wf f st run] row(1) ok by simp
  ultimately obtain r rj w3 where "StartRestore (b_ID b) [] w2 = (Inr (r, rj), w3)"
    using demo_restore_start [OF row(1)] row by auto
  then show thesis using that st run ok by blast
qed

section \<open>Properties\<close>


definition demo_plain_svc :: "(string \<times> string \<Rightarrow> bytes option) backup_svc" where
  "demo_plain_svc = demo_svc\<lparr>bs_encSvc := None\<rparr>"

definition demo_restore_svc :: restore_svc where
  "demo_restore_svc = \<lparr>rv_provSvc = [], rv_encSvc = Some [1]\<rparr>"

lemma demo_svcs:
  "bs_provSvc demo_plain_svc = []" "svc_ok demo_plain_svc" "bs_encSvc demo_plain_svc = None" "bs_provSvc demo_svc = []"
  "rv_provSvc demo_restore_svc = bs_provSvc demo_plain_svc" "rv_provSvc demo_restore_svc = bs_provSvc demo_svc"
  "bs_encSvc demo_svc = Some [1]" "faults (w_db demo_world3) = []"
  by (simp_all add: demo_plain_svc_def demo_svc_def svc_ok_def demo_restore_svc_def demo_world3_def demo_db_def empty_db_def)


text \<open>Claim C16. Encryption is never undone by a restore: for a full backup made with an encryption service,
  the stored object is decryptable to the dump, but the restore, with or without an encryption service,
  hands the encrypted object itself to the decompressor; when that rejects it the restore fails without
  running the tool, and otherwise the tool gets its output.\<close>

theorem encrypted_backup_not_decrypted:
  assumes "gzip_ok X" "store_ok (x_store X)" "svc_ok s" "bs_encSvc s = Some mk" "aead_ok (x_crypto X)" "argon_ok (x_crypto X)"
    and "db_wf (w_db w)" "faults (w_db w) = []"
    and "StartBackup cid did bt sid (Some pid) targets nos nof w = (Inr (b, j), w1)"
    and "runBackup X s j w1 = (b', w2)" "b_Status b' = ''success''" "bt \<noteq> ''incremental''" "pid \<noteq> []"
    and "StartRestore (b_ID b) target w2 = (Inr (r, rj), w3)" "rv_provSvc rv = bs_provSvc s"
    and "runRestore X rv rj w3 = (r', w4)"
  shows "\<exists>obj dump cmd. restorable X (Some mk) obj dump (b_Checksum b') \<and>
    (case decompressData X obj of
       Inl e \<Rightarrow> rs_Status r' = ''failed'' \<and> w_runs w4 = w_runs w3
     | Inr data \<Rightarrow> w_runs w4 = w_runs w3 @ [(cmd, data)])"
proof -
  obtain obj conn db rconn where "row_find c_ID cid (t_connections (w_db w)) = Some conn"
    "row_find dr_id did (t_databases (w_db w)) = Some db"
    "row_find c_ID (if target \<noteq> [] then target else cid) (t_connections (w_db w)) = Some rconn"
    "restorable X (bs_encSvc s) obj
       (do_stdout (x_dump X (buildDumpCmd X conn (dr_db_name db)) (w_clock w1 0))) (b_Checksum b')"
    "case decompressData X obj of
       Inl e \<Rightarrow> rs_Status r' = ''failed'' \<and> w_runs w4 = w_runs w3
     | Inr data \<Rightarrow> w_runs w4 = w_runs w3 @ [(restore_cmd X rconn, data)] \<and>
         (rs_Status r' = ''success'' \<longleftrightarrow> fst (x_run X (restore_cmd X rconn) data (w_clock w3 1)) = None)"
    by (rule restore_of_backup [OF assms(1-3,7,8) assms(5,6,9-16)])
  with assms(4) show ?thesis
    by (intro exI [of _ obj] exI [of _ "do_stdout (x_dump X (buildDumpCmd X conn (dr_db_name db)) (w_clock w1 0))"]
        exI [of _ "restore_cmd X rconn"]) (auto split: sum.splits)
qed

theorem encrypted_backup_not_decrypted_witness:
  "\<exists>b j w1 b' w2 r rj w3 r' w4 obj dump c.
    StartBackup ''c'' ''d'' ''full'' None (Some ''u'') [] False False demo_world3 = (Inr (b, j), w1) \<and>
    runBackup demo_ext demo_svc j w1 = (b', w2) \<and> StartRestore (b_ID b) [] w2 = (Inr (r, rj), w3) \<and>
    runRestore demo_ext demo_restore_svc rj w3 = (r', w4) \<and> restorable demo_ext (Some [1]) obj dump (b_Checksum b') \<and>
    (case decompressData demo_ext obj of
       Inl e \<Rightarrow> rs_Status r' = ''failed'' \<and> w_runs w4 = w_runs w3 | Inr data \<Rightarrow> w_runs w4 = w_runs w3 @ [(c, data)])"
proof -
  obtain b j w1 b' w2 r rj w3 where
    st: "StartBackup ''c'' ''d'' ''full'' None (Some ''u'') [] False False demo_world3 = (Inr (b, j), w1)"
    and run: "runBackup demo_ext demo_svc j w1 = (b', w2)" "b_Status b' = ''success''"
    and rst: "StartRestore (b_ID b) [] w2 = (Inr (r, rj), w3)"
    by (rule demo_chain [OF demo_svcs(4) demo_world2_facts(3)])
  obtain r' w4 where rr: "runRestore demo_ext demo_restore_svc rj w3 = (r', w4)" by fastforce
  have "store_ok (x_store demo_ext)" "aead_ok (x_crypto demo_ext)" "argon_ok (x_crypto demo_ext)"
    "''full'' \<noteq> ''incremental''" "''u'' \<noteq> []" by simp_all
  from encrypted_backup_not_decrypted [OF demo_ext_ok(1) this(1) demo_world2_facts(3) demo_svcs(7) this(2,3)
      demo_world3_wf demo_svcs(8) st run this(4,5) rst demo_svcs(6) rr] st run(1) rst rr show ?thesis by blast
qed

text \<open>Claim C20. A restore is started only from a backup whose row says success, towards an existing
  connection (the given one, else the backup's); a refused request is an error and changes no row.\<close>

theorem restore_started_from_success:
  "case StartRestore bid target w of
     (Inl e, w') \<Rightarrow> same_tables (w_db w) (w_db w')
   | (Inr (r, j), w') \<Rightarrow> \<exists>row conn. row_find br_id bid (t_backups (w_db w)) = Some row \<and> br_status row = ''success'' \<and>
       row_find c_ID (if target \<noteq> [] then target else br_connection_id row) (t_connections (w_db w)) = Some conn \<and>
       j = \<lparr>rj_restore = r, rj_backup = scanBackup row, rj_conn = conn\<rparr> \<and> rs_Status r = ''running''"
proof -
  obtain x w' where x: "StartRestore bid target w = (x, w')" by fastforce
  show ?thesis
  proof (cases x)
    case (Inl e)
    with x show ?thesis using StartRestore_error by simp
  next
    case (Inr rj)
    obtain r j where rj: "rj = (r, j)" by fastforce
    obtain row conn where "row_find br_id bid (t_backups (w_db w)) = Some row" "br_status row = ''success''"
      "row_find c_ID (if target \<noteq> [] then target else br_connection_id row) (t_connections (w_db w)) = Some conn"
      "j = \<lparr>rj_restore = r, rj_backup = scanBackup row, rj_conn = conn\<rparr>" "rs_Status r = ''running''"
      by (rule StartRestore_result [OF x [unfolded Inr rj]])
    with x Inr rj show ?thesis by simp
  qed
qed

text \<open>Claim C21. Every restore ends: the final struct is failed, or it is successful and exactly one restore
  command of the target connection was run; it has a completion time, the object store is untouched and the
  only change of the database is the update of the restore's row.\<close>

theorem restore_ends: "restore_ended X j w (fst (runRestore X s j w)) (snd (runRestore X s j w))"
  by (rule runRestore_ended) simp

end
