(* ===== verification/Backup_Retention.thy ===== *)
theory Backup_Retention
  imports Backup_Upkeep
begin

text \<open>
  Properties of deletion, retention, verification results and statistics
  (\<open>Delete\<close>, \<open>EnforceRetention\<close>, \<open>runVerification\<close> and \<open>Stats\<close> of
  \<open>internal/backup/service.go\<close>).
\<close>

section \<open>Deleting\<close>

text \<open>A deletion keeps the rows of all tables or removes the one row.\<close>

lemma BackupRepo_Delete_cases:
  assumes "BackupRepo_Delete i d = (r, d')"
  shows "t_restores d' = t_restores d"
    and "(\<exists>e. r = Inl e) \<and> t_backups d' = t_backups d \<or> r = Inr () \<and> t_backups d' = row_del br_id i (t_backups d)"
  using assms
  by (auto simp: BackupRepo_Delete_def db_exec_def db_try_def sql_delete_backup_def wrap_err_def
      split: prod.splits option.splits sum.splits if_splits list.splits)

lemma Backup_Delete_cases:
  assumes "Backup_Delete X s i w = (r, w')"
  shows "t_restores (w_db w') = t_restores (w_db w) \<and>
    ((\<exists>e. r = Inl e) \<and> t_backups (w_db w') = t_backups (w_db w) \<or>
     r = Inr () \<and> t_backups (w_db w') = row_del br_id i (t_backups (w_db w)))"
proof -
  obtain x w1 where g: "on_db (BackupRepo_GetByID i) w = (x, w1)" by fastforce
  have s1: "same_tables (w_db w) (w_db w1)"
    using read_only_fields(1) [OF GetByID_world_reads [of w i]] g by simp
  show ?thesis
  proof (cases "\<exists>b. x = Inr (Some b)")
    case False
    with assms g s1 show ?thesis
      by (cases x) (auto simp: Backup_Delete_def same_tables_fields split: option.splits)
  next
    case True
    then obtain b where "x = Inr (Some b)" by blast
    with assms g have "on_db (BackupRepo_Delete i) (delete_object X s b w1) = (r, w')" by (simp add: Backup_Delete_def)
    then obtain d where d: "BackupRepo_Delete i (w_db (delete_object X s b w1)) = (r, d)" "w_db w' = d"
      by (auto simp: on_db_def split: prod.splits)
    have "same_tables (w_db w) (w_db (delete_object X s b w1))"
      using s1 delete_object_tables same_tables_trans by blast
    with BackupRepo_Delete_cases [OF d(1)] d(2) show ?thesis by (auto simp: same_tables_fields)
  qed
qed

lemma delete_all_rows:
  "\<exists>D \<subseteq> b_ID ` set bs. t_backups (w_db (delete_all X s bs w)) = filter (\<lambda>r. br_id r \<notin> D) (t_backups (w_db w)) \<and>
     t_restores (w_db (delete_all X s bs w)) = t_restores (w_db w)"
proof (induction bs arbitrary: w)
  case Nil
  show ?case by (intro exI [of _ "{}"]) simp
next
  case (Cons b bs)
  obtain r w1 where r: "Backup_Delete X s (b_ID b) w = (r, w1)" by fastforce
  obtain D where D: "D \<subseteq> b_ID ` set bs"
    "t_backups (w_db (delete_all X s bs w1)) = filter (\<lambda>r. br_id r \<notin> D) (t_backups (w_db w1))"
    "t_restores (w_db (delete_all X s bs w1)) = t_restores (w_db w1)"
    using Cons.IH [of w1] by blast
  from Backup_Delete_cases [OF r] consider "t_backups (w_db w1) = t_backups (w_db w)"
    | "t_backups (w_db w1) = row_del br_id (b_ID b) (t_backups (w_db w))" by blast
  then show ?case
  proof cases
    case 1
    with D r Backup_Delete_cases [OF r] show ?thesis by (intro exI [of _ D]) auto
  next
    case 2
    with D r Backup_Delete_cases [OF r] show ?thesis
      by (intro exI [of _ "insert (b_ID b) D"]) (auto simp: row_del_def intro!: filter_cong)
  qed
qed

text \<open>Without faults and without restores that refer to them, the rows all go.\<close>

lemma delete_object_faults: "faults (w_db w) = [] \<Longrightarrow> faults (w_db (delete_object X s b w)) = []"
proof -
  assume f: "faults (w_db w) = []"
  have g: "GetDecrypted X (bs_provSvc s) i w = (Inr (map_option (unsealed X (bs_provSvc s)) (provider_view i (w_db w))), w)" for i
    by (rule providers_svc.get_decrypted_no_faults [OF f])
  have "w_db (snd (S3_Delete X c k w)) = w_db w" for c k
    by (auto simp: S3_Delete_def split: prod.splits option.splits)
  then show ?thesis
    using f by (auto simp: delete_object_def g split: option.splits list.splits sum.splits)
qed

lemma BackupRepo_Delete_ok:
  assumes "faults d = []" "\<forall>r \<in> set (t_restores d). rr_backup_id r \<noteq> i"
  shows "snd (BackupRepo_Delete i d) = d\<lparr>t_backups := row_del br_id i (t_backups d)\<rparr>"
  using assms by (simp add: BackupRepo_Delete_def sql_delete_backup_def list_ex_iff)

lemma Backup_Delete_no_faults:
  assumes "faults (w_db w) = []" "\<forall>r \<in> set (t_restores (w_db w)). rr_backup_id r \<noteq> i"
  shows "t_backups (w_db (snd (Backup_Delete X s i w))) = row_del br_id i (t_backups (w_db w))"
    and "faults (w_db (snd (Backup_Delete X s i w))) = []"
proof -
  have g: "on_db (BackupRepo_GetByID i) w = (Inr (map_option scanBackup (row_find br_id i (t_backups (w_db w)))), w)"
    using assms(1) by (simp add: on_db_def BackupRepo_GetByID_def)
  have ok: "snd (BackupRepo_Delete i (w_db (delete_object X s b w))) =
      w_db (delete_object X s b w)\<lparr>t_backups := row_del br_id i (t_backups (w_db w))\<rparr>" for b
    using BackupRepo_Delete_ok [of "w_db (delete_object X s b w)" i] assms
      same_tables_fields [OF delete_object_tables [of w X s b]] delete_object_faults [of w X s b] by simp
  show "t_backups (w_db (snd (Backup_Delete X s i w))) = row_del br_id i (t_backups (w_db w))"
    "faults (w_db (snd (Backup_Delete X s i w))) = []"
    using assms(1) delete_object_faults
    by (auto simp: Backup_Delete_def g ok row_del_absent row_find_None_iff split: option.splits)
qed

lemma delete_all_no_faults:
  assumes "faults (w_db w) = []" "\<forall>r \<in> set (t_restores (w_db w)). rr_backup_id r \<notin> b_ID ` set bs"
  shows "t_backups (w_db (delete_all X s bs w)) = filter (\<lambda>r. br_id r \<notin> b_ID ` set bs) (t_backups (w_db w)) \<and>
    faults (w_db (delete_all X s bs w)) = []"
  using assms
proof (induction bs arbitrary: w)
  case (Cons b bs)
  obtain r w1 where r: "Backup_Delete X s (b_ID b) w = (r, w1)" by fastforce
  have one: "t_backups (w_db w1) = row_del br_id (b_ID b) (t_backups (w_db w))" "faults (w_db w1) = []"
    using Backup_Delete_no_faults [of w "b_ID b" X s] Cons.prems r by auto
  have "\<forall>r \<in> set (t_restores (w_db w1)). rr_backup_id r \<notin> b_ID ` set bs"
    using Backup_Delete_cases [OF r] Cons.prems(2) by auto
  from Cons.IH [OF one(2) this] one r show ?case by (auto simp: row_del_def intro!: filter_cong)
qed simp

section \<open>Retention\<close>

text \<open>The successful backups of a schedule and type that exceed a limit: all but the newest.\<close>

definition expired :: "string \<Rightarrow> string \<Rightarrow> int \<Rightarrow> db \<Rightarrow> backup_row list" where
  "expired sid btype keep d =
     (if keep > 0 then take (length (finished_of sid btype d) - nat keep) (finished_of sid btype d) else [])"

lemma filter_drop:
  assumes "distinct (map f xs)"
  shows "filter (\<lambda>x. f x \<notin> f ` set (take m xs)) xs = drop m xs"
proof -
  have "f x \<notin> f ` set (take m xs)" if "x \<in> set (drop m xs)" for x
  proof
    assume "f x \<in> f ` set (take m xs)"
    moreover have "distinct (map f (take m xs) @ map f (drop m xs))" using assms by (simp flip: map_append)
    ultimately show False using that by auto
  qed
  then have "filter (\<lambda>x. f x \<notin> f ` set (take m xs)) (take m xs @ drop m xs) = drop m xs"
    unfolding filter_append by (simp add: filter_empty_conv)
  then show ?thesis by simp
qed

lemma expired_finished: "r \<in> set (expired sid btype keep d) \<Longrightarrow> r \<in> set (finished_of sid btype d)"
  by (auto simp: expired_def split: if_splits dest: in_set_takeD)

lemma finished_of_type: "r \<in> set (finished_of sid btype d) \<Longrightarrow> r \<in> set (t_backups d) \<and> br_backup_type r = btype"
  by (simp add: finished_of_def)

text \<open>A row of the one type is not among the expired ones of the other.\<close>

lemma other_type:
  assumes "db_wf d" "r \<in> set (finished_of sid bt d)" "D \<subseteq> br_id ` set (expired sid' bt' keep d)" "bt \<noteq> bt'"
  shows "br_id r \<notin> D"
proof
  assume "br_id r \<in> D"
  then obtain r' where "r' \<in> set (expired sid' bt' keep d)" "br_id r' = br_id r" using assms(3) by auto
  then have r': "r' \<in> set (t_backups d)" "br_backup_type r' = bt'" "br_id r' = br_id r"
    using finished_of_type [OF expired_finished] by auto
  moreover have "r \<in> set (t_backups d)" "br_backup_type r = bt" using finished_of_type [OF assms(2)] by auto
  ultimately have "r' = r" using assms(1) by (auto simp: db_wf_def keys_ok_def distinct_map dest: inj_onD)
  with r' \<open>br_backup_type r = bt\<close> assms(4) show False by simp
qed

lemma finished_of_filter:
  assumes "t_backups d' = filter P (t_backups d)"
  shows "finished_of sid btype d' = filter P (finished_of sid btype d)"
  by (simp add: assms finished_of_def order_asc_def filter_sort conj_commute)

lemma finished_of_distinct: "db_wf d \<Longrightarrow> distinct (map br_id (finished_of sid btype d))"
  unfolding finished_of_def
  by (rule distinct_order_asc) (auto simp: db_wf_def keys_ok_def intro: distinct_map_filter)

lemma expire_step:
  assumes "expire X s sid btype keep w = w'"
  obtains D where "D \<subseteq> br_id ` set (expired sid btype keep (w_db w))"
    "t_backups (w_db w') = filter (\<lambda>r. br_id r \<notin> D) (t_backups (w_db w))" "t_restores (w_db w') = t_restores (w_db w)"
proof (cases "keep > 0")
  case False
  with assms show thesis by (intro that [of "{}"]) (simp_all add: expire_def expired_def)
next
  case True
  obtain x w1 where l: "on_db (BackupRepo_ListOldestByBackupType sid btype keep) w = (x, w1)" by fastforce
  then have ro: "same_tables (w_db w) (w_db w1)"
    using read_only_fields(1) [OF ListOldest_reads [of w sid btype keep]] by simp
  show thesis
  proof (cases x)
    case (Inl e)
    with assms True l ro show thesis by (intro that [of "{}"]) (auto simp: expire_def same_tables_fields)
  next
    case (Inr old)
    from on_db_result [of "BackupRepo_ListOldestByBackupType sid btype keep" w old w1] l Inr obtain d where
      d: "BackupRepo_ListOldestByBackupType sid btype keep (w_db w) = (Inr old, d)" "w_db w1 = d" by auto
    then have "set old \<subseteq> scanBackup ` set (expired sid btype keep d)"
      using True by (auto simp: BackupRepo_ListOldestByBackupType_def expired_def Let_def take_map nat_diff_distrib
          dest!: wrapped_query split: if_splits)
    moreover have "expired sid btype keep d = expired sid btype keep (w_db w)"
      using ro d(2) by (simp add: expired_def finished_of_def same_tables_fields)
    ultimately have "b_ID ` set old \<subseteq> br_id ` set (expired sid btype keep (w_db w))" by force
    moreover obtain D where "D \<subseteq> b_ID ` set old" "t_backups (w_db w') = filter (\<lambda>r. br_id r \<notin> D) (t_backups (w_db w1))"
      "t_restores (w_db w') = t_restores (w_db w1)"
      using delete_all_rows [of old X s w1] assms True l Inr by (auto simp: expire_def)
    ultimately show thesis using ro by (intro that [of D]) (auto simp: same_tables_fields)
  qed
qed

lemma expire_no_faults:
  assumes "faults (w_db w) = []" "\<forall>r \<in> set (t_restores (w_db w)). rr_backup_id r \<notin> br_id ` set (expired sid btype keep (w_db w))"
  shows "t_backups (w_db (expire X s sid btype keep w)) =
      filter (\<lambda>r. br_id r \<notin> br_id ` set (expired sid btype keep (w_db w))) (t_backups (w_db w)) \<and>
    faults (w_db (expire X s sid btype keep w)) = []"
proof (cases "keep > 0")
  case False
  with assms show ?thesis by (simp add: expire_def expired_def)
next
  case True
  have l: "on_db (BackupRepo_ListOldestByBackupType sid btype keep) w = (Inr (map scanBackup (expired sid btype keep (w_db w))), w)"
    using assms(1) True
    by (simp add: on_db_def BackupRepo_ListOldestByBackupType_def expired_def Let_def take_map nat_diff_distrib)
  have ids: "b_ID ` set (map scanBackup rs) = br_id ` set rs" for rs by (simp add: image_image)
  show ?thesis
    using delete_all_no_faults [of w "map scanBackup (expired sid btype keep (w_db w))" X s] assms True l ids
    by (simp add: expire_def)
qed

section \<open>Statistics\<close>

lemma incr_count: "incr m k x = (if x = k then Some (Suc (case m k of None \<Rightarrow> 0 | Some n \<Rightarrow> n)) else m x)"
  by (simp add: incr_def)

definition count_of :: "(string \<rightharpoonup> nat) \<Rightarrow> string \<Rightarrow> nat" where
  "count_of m k = (case m k of None \<Rightarrow> 0 | Some n \<Rightarrow> n)"

lemma count_of_incr: "count_of (incr m k) x = count_of m x + (if x = k then 1 else 0)"
  by (simp add: count_of_def incr_def)

lemma fold_count_backup:
  "st_TotalBackups (fold count_backup bs st) = st_TotalBackups st + length bs"
  "st_TotalSize (fold count_backup bs st) = st_TotalSize st + sum_list (map (\<lambda>b. int64PtrToInt64 (b_SizeBytes b)) bs)"
  "count_of (st_ByStatus (fold count_backup bs st)) x = count_of (st_ByStatus st) x + length (filter (\<lambda>b. b_Status b = x) bs)"
  "count_of (st_ByType (fold count_backup bs st)) x = count_of (st_ByType st) x + length (filter (\<lambda>b. b_BackupType b = x) bs)"
  "st_SuccessRate (fold count_backup bs st) = st_SuccessRate st"
  by (induction bs arbitrary: st) (auto simp: count_backup_def count_of_incr int64PtrToInt64_def)

lemma stats_of_fields:
  "st_TotalBackups (stats_of bs) = length bs"
  "st_TotalSize (stats_of bs) = sum_list (map (\<lambda>b. int64PtrToInt64 (b_SizeBytes b)) bs)"
  "count_of (st_ByStatus (stats_of bs)) x = length (filter (\<lambda>b. b_Status b = x) bs)"
  "count_of (st_ByType (stats_of bs)) x = length (filter (\<lambda>b. b_BackupType b = x) bs)"
  "st_SuccessRate (stats_of bs) = (if bs = [] then 0
     else of_nat (length (filter (\<lambda>b. b_Status b = ''success'') bs)) / of_nat (length bs) * 100)"
  by (simp_all add: stats_of_def Let_def fold_count_backup count_of_def [of Map.empty]
      flip: count_of_def [of "st_ByStatus _"])

section \<open>Properties\<close>

lemma retention_rows:
  assumes "db_wf (w_db w)"
  shows "\<exists>D \<subseteq> br_id ` (set (expired sid ''full'' nf (w_db w)) \<union> set (expired sid ''incremental'' ni (w_db w))).
    t_backups (w_db (EnforceRetention X s sid nf ni w)) = filter (\<lambda>r. br_id r \<notin> D) (t_backups (w_db w)) \<and>
    t_restores (w_db (EnforceRetention X s sid nf ni w)) = t_restores (w_db w)"
proof -
  obtain D1 where D1: "D1 \<subseteq> br_id ` set (expired sid ''full'' nf (w_db w))"
    "t_backups (w_db (expire X s sid ''full'' nf w)) = filter (\<lambda>r. br_id r \<notin> D1) (t_backups (w_db w))"
    "t_restores (w_db (expire X s sid ''full'' nf w)) = t_restores (w_db w)"
    by (rule expire_step [OF refl])
  define w1 where "w1 = expire X s sid ''full'' nf w"
  have other: "br_id r \<notin> D1" if "r \<in> set (finished_of sid ''incremental'' (w_db w))" for r
    by (rule other_type [OF assms that D1(1)]) simp
  have "expired sid ''incremental'' ni (w_db w1) = expired sid ''incremental'' ni (w_db w)"
    using finished_of_filter [OF D1(2), of sid "''incremental''"] other
    by (simp add: expired_def w1_def filter_id_conv)
  then obtain D2 where D2: "D2 \<subseteq> br_id ` set (expired sid ''incremental'' ni (w_db w))"
    "t_backups (w_db (expire X s sid ''incremental'' ni w1)) = filter (\<lambda>r. br_id r \<notin> D2) (t_backups (w_db w1))"
    "t_restores (w_db (expire X s sid ''incremental'' ni w1)) = t_restores (w_db w1)"
    by (metis expire_step [OF refl])
  show ?thesis
    using D1 D2 unfolding EnforceRetention_def w1_def [symmetric]
    by (intro exI [of _ "D1 \<union> D2"]) (auto simp: w1_def image_Un intro!: filter_cong)
qed

text \<open>Claim C14. Retention never deletes a backup it should keep: whatever statements fail, a row survives
  \<open>EnforceRetention\<close> unchanged unless it is a successful backup of this schedule that is not among the
  newest of its type within the limit; no row is added, and restores are untouched.\<close>

theorem retention_safe:
  assumes "db_wf (w_db w)"
  shows "\<exists>D \<subseteq> br_id ` (set (expired sid ''full'' nf (w_db w)) \<union> set (expired sid ''incremental'' ni (w_db w))).
    t_backups (w_db (EnforceRetention X s sid nf ni w)) = filter (\<lambda>r. br_id r \<notin> D) (t_backups (w_db w)) \<and>
    t_restores (w_db (EnforceRetention X s sid nf ni w)) = t_restores (w_db w)"
  by (rule retention_rows [OF assms])

text \<open>The world of the witnesses: three successful backups of one schedule.\<close>

definition demo_schedule_row :: schedule_row where
  "demo_schedule_row = \<lparr>sr_id = ''s'', sr_connection_id = ''c'', sr_database_id = ''d'', sr_backup_type = ''full'',
     sr_cron_expr = ''0 0 * * *'', sr_storage_provider_id = ''u'', sr_encryption_enabled = 0, sr_encryption_key_id = [],
     sr_verify_enabled = 0, sr_retention_full = 2, sr_retention_incr = 30, sr_notif_target_ids = [], sr_notify_on_success = 0,
     sr_notify_on_failure = 0, sr_enabled = 1, sr_created_at = 0\<rparr>"

definition demo_finished :: "string \<Rightarrow> int \<Rightarrow> backup_row" where
  "demo_finished i t = backup_columns (demo_backup\<lparr>b_ID := i, b_ScheduleID := Some ''s'', b_Status := ''success'',
     b_CreatedAt := t\<rparr>)"

definition demo_retention_world :: "(string \<times> string \<Rightarrow> bytes option) world" where
  "demo_retention_world = demo_world\<lparr>w_db := demo_db\<lparr>t_schedules := [demo_schedule_row],
     t_backups := [demo_finished ''new'' 3000, demo_finished ''old'' 1000, demo_finished ''mid'' 2000]\<rparr>\<rparr>"

lemma demo_finished_fields:
  "br_id (demo_finished i t) = i" "br_schedule_id (demo_finished i t) = Some ''s''" "br_backup_type (demo_finished i t) = ''full''"
  "br_status (demo_finished i t) = ''success''" "br_created_at (demo_finished i t) = pg_time t"
  by (simp_all add: demo_finished_def backup_columns_def demo_backup_def new_backup_def zero_backup_def)

lemma demo_retention_wf: "db_wf (w_db demo_retention_world)"
  by (simp add: demo_retention_world_def demo_db_def empty_db_def db_wf_def keys_ok_def checks_ok_def refs_ok_def fk_defs
      check_connection_def check_provider_def check_backup_def check_schedule_def has_row_def ref_ok_def demo_connection_def
      demo_database_row_def demo_provider_row_def demo_finished_def backup_columns_def demo_backup_def new_backup_def
      zero_backup_def demo_schedule_row_def)

lemma demo_retention_expired:
  "expired ''s'' ''full'' 2 (w_db demo_retention_world) = [demo_finished ''old'' 1000]"
  "expired ''s'' ''incremental'' 30 (w_db demo_retention_world) = []"
proof -
  have "finished_of ''s'' ''full'' (w_db demo_retention_world) =
      [demo_finished ''old'' 1000, demo_finished ''mid'' 2000, demo_finished ''new'' 3000]"
    by (simp add: finished_of_def demo_retention_world_def demo_finished_fields order_asc_def pg_time_def)
  moreover have "finished_of ''s'' ''incremental'' (w_db demo_retention_world) = []"
    by (simp add: finished_of_def demo_retention_world_def demo_finished_fields order_asc_def)
  ultimately show "expired ''s'' ''full'' 2 (w_db demo_retention_world) = [demo_finished ''old'' 1000]"
    "expired ''s'' ''incremental'' 30 (w_db demo_retention_world) = []" by (simp_all add: expired_def)
qed

theorem retention_safe_witness:
  "\<exists>D \<subseteq> {''old''}. t_backups (w_db (EnforceRetention demo_ext demo_svc ''s'' 2 30 demo_retention_world)) =
     filter (\<lambda>r. br_id r \<notin> D) [demo_finished ''new'' 3000, demo_finished ''old'' 1000, demo_finished ''mid'' 2000]"
proof -
  have rows: "t_backups (w_db demo_retention_world) =
      [demo_finished ''new'' 3000, demo_finished ''old'' 1000, demo_finished ''mid'' 2000]"
    by (simp add: demo_retention_world_def)
  have ids: "br_id ` (set [demo_finished ''old'' 1000] \<union> set []) = {''old''}" by (simp add: demo_finished_fields)
  show ?thesis
    using retention_safe [OF demo_retention_wf, of "''s''" 2 30 demo_ext demo_svc]
    unfolding demo_retention_expired rows ids by blast
qed

text \<open>Claim C15. Retention is complete: when no statement fails and no restore refers to an expired backup, what is
  left of the schedule's successful backups of each type is exactly the newest within the limit (all of them
  for a limit that is not positive), in order of creation.\<close>

theorem retention_complete:
  assumes "db_wf (w_db w)" "faults (w_db w) = []"
    and "\<forall>r \<in> set (t_restores (w_db w)). rr_backup_id r \<notin>
      br_id ` (set (expired sid ''full'' nf (w_db w)) \<union> set (expired sid ''incremental'' ni (w_db w)))"
  shows "finished_of sid ''full'' (w_db (EnforceRetention X s sid nf ni w)) =
      (let all = finished_of sid ''full'' (w_db w) in if nf > 0 then drop (length all - nat nf) all else all) \<and>
    finished_of sid ''incremental'' (w_db (EnforceRetention X s sid nf ni w)) =
      (let all = finished_of sid ''incremental'' (w_db w) in if ni > 0 then drop (length all - nat ni) all else all)"
proof -
  define d where "d = w_db w"
  define ef ei where e: "ef = expired sid ''full'' nf d" "ei = expired sid ''incremental'' ni d"
  define w1 where "w1 = expire X s sid ''full'' nf w"
  have one: "t_backups (w_db w1) = filter (\<lambda>r. br_id r \<notin> br_id ` set ef) (t_backups d)" "faults (w_db w1) = []"
    using expire_no_faults [of w sid "''full''" nf X s] assms(2,3) by (auto simp: w1_def e d_def)
  have wf: "db_wf d" using assms(1) by (simp add: d_def)
  have cut: "filter (\<lambda>r. br_id r \<notin> br_id ` set (expired sid bt k d)) (finished_of sid bt d) =
      (let all = finished_of sid bt d in if k > 0 then drop (length all - nat k) all else all)" for bt k
    using filter_drop [OF finished_of_distinct [OF wf]] by (simp add: expired_def Let_def)
  have keep: "filter (\<lambda>r. br_id r \<notin> br_id ` set (expired sid bt' k d)) (finished_of sid bt d) = finished_of sid bt d"
    if "bt \<noteq> bt'" for bt bt' k
    using other_type [OF wf _ order_refl that] by (simp add: filter_id_conv)
  have f1: "finished_of sid ''full'' (w_db w1) = (let all = finished_of sid ''full'' d in if nf > 0 then drop (length all - nat nf) all else all)"
    "finished_of sid ''incremental'' (w_db w1) = finished_of sid ''incremental'' d"
    using finished_of_filter [OF one(1)] cut keep unfolding e by simp_all
  then have ei1: "expired sid ''incremental'' ni (w_db w1) = ei" by (simp add: expired_def e)
  have "t_restores (w_db w1) = t_restores d" by (metis expire_step [OF refl] w1_def d_def)
  then have two: "t_backups (w_db (expire X s sid ''incremental'' ni w1)) =
      filter (\<lambda>r. br_id r \<notin> br_id ` set ei) (t_backups (w_db w1))"
    using expire_no_faults [OF one(2), of sid "''incremental''" ni X s] assms(3) ei1 by (auto simp: e d_def)
  have f2: "finished_of sid bt (w_db (EnforceRetention X s sid nf ni w)) =
      filter (\<lambda>r. br_id r \<notin> br_id ` set ei) (finished_of sid bt (w_db w1))" for bt
    using finished_of_filter [OF two] by (simp add: EnforceRetention_def w1_def)
  have "filter (\<lambda>r. br_id r \<notin> br_id ` set ei) (drop m (finished_of sid ''full'' d)) = drop m (finished_of sid ''full'' d)" for m
  proof -
    have "br_id x \<notin> br_id ` set ei" if "x \<in> set (finished_of sid ''full'' d)" for x
      unfolding e by (rule other_type [OF wf that order_refl]) simp
    then show ?thesis by (auto simp: filter_id_conv dest!: in_set_dropD)
  qed
  then have "filter (\<lambda>r. br_id r \<notin> br_id ` set ei) (finished_of sid ''full'' (w_db w1)) = finished_of sid ''full'' (w_db w1)"
    using keep [of "''full''" "''incremental''" ni] by (simp add: f1 Let_def e)
  then show ?thesis
    using f2 f1 cut [of "''incremental''" ni] by (simp add: d_def e)
qed

theorem retention_complete_witness:
  "finished_of ''s'' ''full'' (w_db (EnforceRetention demo_ext demo_svc ''s'' 2 30 demo_retention_world)) =
     [demo_finished ''mid'' 2000, demo_finished ''new'' 3000]"
proof -
  have f: "faults (w_db demo_retention_world) = []" "t_restores (w_db demo_retention_world) = []"
    by (simp_all add: demo_retention_world_def demo_db_def empty_db_def)
  have "finished_of ''s'' ''full'' (w_db demo_retention_world) =
      [demo_finished ''old'' 1000, demo_finished ''mid'' 2000, demo_finished ''new'' 3000]"
    by (simp add: finished_of_def demo_retention_world_def demo_finished_fields order_asc_def pg_time_def)
  then show ?thesis
    using retention_complete [OF demo_retention_wf f(1), of "''s''" 2 30 demo_ext demo_svc] f(2) by simp
qed

text \<open>The statistics count every listed backup once: the totals by status and by type are the numbers of
  backups with that status and type, the size is the sum of the recorded sizes, and the success rate is the
  percentage of successful ones, between 0 and 100 (0 for no backup).\<close>

theorem stats_correct:
  "st_TotalBackups (stats_of bs) = length bs \<and>
   count_of (st_ByStatus (stats_of bs)) k = length (filter (\<lambda>b. b_Status b = k) bs) \<and>
   count_of (st_ByType (stats_of bs)) k = length (filter (\<lambda>b. b_BackupType b = k) bs) \<and>
   st_TotalSize (stats_of bs) = sum_list (map (\<lambda>b. int64PtrToInt64 (b_SizeBytes b)) bs) \<and>
   st_SuccessRate (stats_of bs) * of_nat (length bs) = 100 * of_nat (length (filter (\<lambda>b. b_Status b = ''success'') bs)) \<and>
   0 \<le> st_SuccessRate (stats_of bs) \<and> st_SuccessRate (stats_of bs) \<le> 100"
proof -
  have "length (filter (\<lambda>b. b_Status b = ''success'') bs) \<le> length bs" by simp
  then have "(of_nat (length (filter (\<lambda>b. b_Status b = ''success'') bs)) :: rat) \<le> of_nat (length bs)" by (simp only: of_nat_le_iff)
  then show ?thesis by (simp add: stats_of_fields field_simps)
qed

end
