(* ===== verification/Backup_Verdicts.thy ===== *)
theory Backup_Verdicts
  imports Backup_Retention
begin

text \<open>
  Properties of the results the backup service reports: verdicts of verification, the outcome of deleting a
  backup that a restore refers to, and the engine call of an incremental backup.
\<close>

section \<open>Verification\<close>


text \<open>The world of the witness: the object is stored in the clear and no checksum is recorded yet.\<close>

definition demo_stored_world :: "(string \<times> string \<Rightarrow> bytes option) world" where
  "demo_stored_world = demo_world2\<lparr>w_store := (\<lambda>_. Some [31, 1])\<rparr>"

lemma demo_passes: "\<exists>b' w'. runVerification demo_ext demo_svc demo_backup demo_stored_world = (b', w') \<and>
    b_VerifyStatus b' = ''passed'' \<and> \<not> unverifiable demo_svc demo_backup"
proof -
  have b: "b_StorageProviderID demo_backup = Some ''u''" "b_BackupType demo_backup = ''full''"
    "b_EncryptedSizeBytes demo_backup = None" "b_Checksum demo_backup = []"
    by (simp_all add: demo_backup_def new_backup_def zero_backup_def)
  have s: "bs_provSvc demo_svc = []" "bs_encSvc demo_svc = Some [1]" "bs_incrRegistry demo_svc = None"
    by (simp_all add: demo_svc_def)
  have r: "resolveProvider (GetDecrypted demo_ext []) (GetDefault demo_ext []) (Some ''u'') demo_stored_world =
      (Inr (unsealed demo_ext [] (scanProvider demo_provider_row)), demo_stored_world)"
    by (rule demo_resolve) (simp add: demo_stored_world_def demo_world2_facts)
  have d: "S3_Download demo_ext c k demo_stored_world = ([31, 1], None)" for c k
    by (simp add: S3_Download_def demo_store_def demo_stored_world_def)
  obtain b' w' where v: "runVerification demo_ext demo_svc demo_backup demo_stored_world = (b', w')" by fastforce
  then have "\<exists>b l. passVerification b l demo_stored_world = (b', w')"
    by (auto simp: runVerification_def b s r d demo_client compare_checksum_def Let_def)
  with v passVerification_status show ?thesis by (fastforce simp: unverifiable_def b s)
qed


section \<open>Deleting a backup a restore refers to\<close>

text \<open>Claim C18. Deleting a backup that a restore refers to loses its data and keeps its row: the object is removed
  from the store first, then the database refuses the row, so the call returns an error and every table is as
  before.\<close>

theorem referenced_backup_loses_object:
  assumes "faults (w_db w) = []" "row_find br_id i (t_backups (w_db w)) = Some row"
    and "\<exists>r \<in> set (t_restores (w_db w)). rr_backup_id r = i"
    and "br_storage_provider_id row = Some pid" "pid \<noteq> []" "provider_view pid (w_db w) = Some p"
    and "CreateS3ClientFromProvider X (unsealed X (bs_provSvc s) p) = Inr client"
  shows "fst (Backup_Delete X s i w) = Inl (''delete backup '' @ i @ '': '' @ err_fk) \<and>
    same_tables (w_db w) (w_db (snd (Backup_Delete X s i w))) \<and>
    w_store (snd (Backup_Delete X s i w)) = snd (os_remove (x_store X) client (br_storage_path row) (w_store w))"
proof -
  have g: "on_db (BackupRepo_GetByID i) w = (Inr (Some (scanBackup row)), w)"
    using assms(1,2) by (simp add: on_db_def BackupRepo_GetByID_def)
  obtain c cs where pid: "pid = c # cs" using assms(5) by (cases pid) auto
  have "GetDecrypted X (bs_provSvc s) pid w = (Inr (Some (unsealed X (bs_provSvc s) p)), w)"
    using providers_svc.get_decrypted_no_faults [OF assms(1)] assms(6) by simp
  then have del: "delete_object X s (scanBackup row) w = snd (S3_Delete X client (br_storage_path row) w)"
    using assms(4,7) pid by (simp add: delete_object_def scanBackup_def)
  have w: "w_db (snd (S3_Delete X client (br_storage_path row) w)) = w_db w"
    "w_store (snd (S3_Delete X client (br_storage_path row) w)) = snd (os_remove (x_store X) client (br_storage_path row) (w_store w))"
    by (auto simp: S3_Delete_def split: prod.splits option.splits)
  have "BackupRepo_Delete i (w_db w) = (Inl (''delete backup '' @ i @ '': '' @ err_fk), w_db w)"
    using assms(1,3) by (simp add: BackupRepo_Delete_def sql_delete_backup_def list_ex_iff)
  then show ?thesis
    by (simp add: Backup_Delete_def g del w)
qed

definition demo_restored_world :: "(string \<times> string \<Rightarrow> bytes option) world" where
  "demo_restored_world = demo_world2\<lparr>w_db := demo_db\<lparr>t_restores :=
     [restore_columns (zero_restore\<lparr>rs_ID := ''r'', rs_BackupID := ''b'', rs_Status := ''success''\<rparr>)]\<rparr>,
     w_store := (\<lambda>_. Some [31, 1])\<rparr>"

theorem referenced_backup_loses_object_witness:
  "is_ok (fst (Backup_Delete demo_ext demo_svc ''b'' demo_restored_world)) = False \<and>
    w_store (snd (Backup_Delete demo_ext demo_svc ''b'' demo_restored_world)) (''b'', []) = None"
proof -
  have f: "faults (w_db demo_restored_world) = []" by (simp add: demo_restored_world_def demo_db_def empty_db_def)
  have row: "row_find br_id ''b'' (t_backups (w_db demo_restored_world)) = Some (backup_columns demo_backup)"
    by (simp add: demo_restored_world_def demo_db_def row_find_def backup_columns_def demo_backup_def)
  have ref: "\<exists>r \<in> set (t_restores (w_db demo_restored_world)). rr_backup_id r = ''b''"
    by (simp add: demo_restored_world_def restore_columns_def)
  have sp: "br_storage_provider_id (backup_columns demo_backup) = Some ''u''"
    by (simp add: backup_columns_def demo_backup_def new_backup_def)
  have pv: "provider_view ''u'' (w_db demo_restored_world) = Some (scanProvider demo_provider_row)"
    using demo_provider_view by (simp add: provider_view_def demo_restored_world_def)
  have bucket: "cfg_Bucket (provider_config (unsealed demo_ext [] (scanProvider demo_provider_row))) = ''b''"
    by (simp add: provider_config_def unsealed_def scanProvider_def demo_provider_row_def)
  have path: "br_storage_path (backup_columns demo_backup) = []"
    by (simp add: backup_columns_def demo_backup_def new_backup_def zero_backup_def)
  have ne: "''u'' \<noteq> []" by simp
  have s: "bs_provSvc demo_svc = []" by (simp add: demo_svc_def)
  show ?thesis
    using referenced_backup_loses_object [OF f row ref sp ne pv, where X = demo_ext and s = demo_svc, unfolded s, OF demo_client]
      bucket path by (simp add: demo_store_def)
qed

section \<open>Incremental backups\<close>

text \<open>The registry plays no part in how a run ends.\<close>

lemma ends_registry:
  "failBackup (s\<lparr>bs_incrRegistry := r\<rparr>) = failBackup s" "completeBackup (s\<lparr>bs_incrRegistry := r\<rparr>) = completeBackup s"
  by (intro ext; simp add: failBackup_def completeBackup_def)+

lemma request_registry: "incremental_request (s\<lparr>bs_incrRegistry := r\<rparr>) = incremental_request s"
  by (intro ext; simp add: incremental_request_def)

text \<open>Claim C19. An incremental backup is always a full one: the previous backup it looks for belongs to the
  schedule with the empty identifier, so with no such schedule the engine's incremental operation is never
  called; replacing it by any other leaves the run as it is.\<close>

theorem incremental_never_called:
  assumes "db_wf (w_db w)" "\<not> has_row sr_id [] (t_schedules (w_db w))"
  shows "runIncrementalBackup X (s\<lparr>bs_incrRegistry := Some [(c_DBType conn, e\<lparr>eng_BackupIncremental := f\<rparr>)]\<rparr>) b conn db p t w =
    runIncrementalBackup X (s\<lparr>bs_incrRegistry := Some [(c_DBType conn, e\<lparr>eng_BackupIncremental := g\<rparr>)]\<rparr>) b conn db p t w"
proof -
  obtain prev w1 where l: "on_db (BackupRepo_ListOldestByBackupType [] ''incremental'' 1) w = (prev, w1)" by fastforce
  have none: "prev = Inr bs \<Longrightarrow> bs = []" for bs
  proof -
    assume "prev = Inr bs"
    with on_db_result [of "BackupRepo_ListOldestByBackupType [] ''incremental'' 1" w bs w1] l obtain d where
      d: "BackupRepo_ListOldestByBackupType [] ''incremental'' 1 (w_db w) = (Inr bs, d)" by auto
    have same: "same_tables (w_db w) d"
      using ListOldest_kept(1) [of "w_db w" "[]" "''incremental''" 1] d by simp
    have "br_schedule_id r \<noteq> Some []" if "r \<in> set (t_backups (w_db w))" for r
      using that assms by (auto simp: db_wf_def refs_ok_def fk_backup_def ref_ok_def)
    then have "finished_of [] ''incremental'' (w_db w) = []" by (auto simp: finished_of_def order_asc_def filter_empty_conv)
    then have "finished_of [] ''incremental'' d = []" using same by (simp add: finished_of_def same_tables_fields)
    with d show "bs = []"
      by (auto simp: BackupRepo_ListOldestByBackupType_def Let_def dest!: wrapped_query)
  qed
  have "call_engine (e\<lparr>eng_BackupIncremental := f\<rparr>) prev r conn b w1 = call_engine (e\<lparr>eng_BackupIncremental := g\<rparr>) prev r conn b w1" for r
    using none by (auto simp: call_engine_def Let_def split: sum.splits)
  then show ?thesis
    by (simp add: runIncrementalBackup_def Registry_Get_def l request_registry ends_registry Let_def cong: prod.case_cong sum.case_cong)
qed

definition demo_engine :: "(string \<times> string \<Rightarrow> bytes option) incremental_engine" where
  "demo_engine = \<lparr>eng_DBType = ''postgresql'', eng_BackupFull = (\<lambda>_ _ _ w. (Inr [], w)),
     eng_BackupIncremental = (\<lambda>_ _ _ w. (Inr [], w))\<rparr>"

theorem incremental_never_called_witness:
  "runIncrementalBackup demo_ext (demo_svc\<lparr>bs_incrRegistry := Some [(''postgresql'',
       demo_engine\<lparr>eng_BackupIncremental := \<lambda>_ _ _ w. (Inl ''called'', w)\<rparr>)]\<rparr>) demo_backup demo_connection (scan_database demo_database_row)
       (scanProvider demo_provider_row) 0 demo_world2 =
   runIncrementalBackup demo_ext (demo_svc\<lparr>bs_incrRegistry := Some [(''postgresql'',
       demo_engine\<lparr>eng_BackupIncremental := \<lambda>_ _ _ w. (Inr [], w)\<rparr>)]\<rparr>) demo_backup demo_connection (scan_database demo_database_row)
       (scanProvider demo_provider_row) 0 demo_world2"
proof -
  have "\<not> has_row sr_id [] (t_schedules (w_db demo_world2))"
    by (simp add: demo_world2_facts) (simp add: demo_db_def empty_db_def has_row_def)
  moreover have "c_DBType demo_connection = ''postgresql''" by (simp add: demo_connection_def)
  moreover have "db_wf (w_db demo_world2)" by (simp add: demo_world2_facts demo_db_wf)
  ultimately show ?thesis using incremental_never_called [of demo_world2 demo_ext, where conn = demo_connection and e = demo_engine] by simp
qed

end
