(* ===== verification/Schedules.thy ===== *)
theory Schedules
  imports Backup_Verdicts Http
begin

text \<open>
  \<open>internal/schedule\<close>: the schedule service, the scheduler that wraps the cron library, and the HTTP
  handler. The cron library is a parameter: its operations and, to say what they do, the jobs it will fire
  (\<open>cron_jobs\<close>); \<open>cron_ok\<close> are the laws the scheduler relies on. A job the library fires is a
  call of \<open>executeBackup\<close> on the schedule registered with it. Each operation of the scheduler holds
  its mutex from beginning to end, so it is one step.
\<close>

section \<open>The service\<close>

definition Schedule_List :: "'s world \<Rightarrow> schedule list res \<times> 's world" where
  "Schedule_List w = on_db ScheduleRepo_List w"

definition Schedule_ListByConnection :: "string \<Rightarrow> 's world \<Rightarrow> schedule list res \<times> 's world" where
  "Schedule_ListByConnection cid w = on_db (ScheduleRepo_ListByConnection cid) w"

definition Schedule_Get :: "string \<Rightarrow> 's world \<Rightarrow> schedule option res \<times> 's world" where
  "Schedule_Get i w = on_db (ScheduleRepo_GetByID i) w"

text \<open>The defaults \<open>Create\<close> fills in once the required fields are there.\<close>

definition schedule_defaults :: "schedule \<Rightarrow> schedule" where
  "schedule_defaults sch = sch\<lparr>
     s_BackupType := (if s_BackupType sch = [] then ''full'' else s_BackupType sch),
     s_RetentionFull := (if s_RetentionFull sch \<le> 0 then 7 else s_RetentionFull sch),
     s_RetentionIncr := (if s_RetentionIncr sch \<le> 0 then 30 else s_RetentionIncr sch),
     s_Enabled := True\<rparr>"

definition Schedule_Create :: "schedule \<Rightarrow> 's world \<Rightarrow> schedule res \<times> 's world" where
  "Schedule_Create sch w =
     (if s_ConnectionID sch = [] then (Inl ''connection_id is required'', w)
      else if s_DatabaseID sch = [] then (Inl ''database_id is required'', w)
      else if s_CronExpr sch = [] then (Inl ''cron_expr is required'', w)
      else if s_StorageProviderID sch = [] then (Inl ''storage_provider_id is required'', w)
      else let (i, w1) = uuid_new w; (now, w2) = time_now w1
           in on_db (ScheduleRepo_Create i now (schedule_defaults sch)) w2)"

definition Schedule_Update :: "schedule \<Rightarrow> 's world \<Rightarrow> unit res \<times> 's world" where
  "Schedule_Update sch w =
     (if s_CronExpr sch = [] then (Inl ''cron_expr is required'', w) else on_db (ScheduleRepo_Update sch) w)"

definition Schedule_Delete :: "string \<Rightarrow> 's world \<Rightarrow> unit res \<times> 's world" where
  "Schedule_Delete i w = on_db (ScheduleRepo_Delete i) w"

section \<open>The cron library\<close>

record 'c cron =
  cron_AddFunc :: "string \<Rightarrow> schedule \<Rightarrow> 'c \<Rightarrow> nat res \<times> 'c"
  cron_Remove :: "nat \<Rightarrow> 'c \<Rightarrow> 'c"
  cron_Start :: "'c \<Rightarrow> 'c"
  cron_Stop :: "'c \<Rightarrow> 'c"
  cron_Next :: "nat \<Rightarrow> 'c \<Rightarrow> int option" \<comment> \<open>\<open>Entry(id).Next\<close>, \<open>None\<close> for the zero time\<close>
  cron_jobs :: "'c \<Rightarrow> nat \<rightharpoonup> schedule"
  cron_New :: 'c

text \<open>A job that is accepted gets an identifier of its own; a refused one and the removal of an identifier change
  no other job; a new engine has none.\<close>

definition cron_ok :: "'c cron \<Rightarrow> bool" where
  "cron_ok C \<longleftrightarrow>
     (\<forall>e j c i c'. cron_AddFunc C e j c = (Inr i, c') \<longrightarrow>
        cron_jobs C c i = None \<and> cron_jobs C c' = (cron_jobs C c)(i \<mapsto> j)) \<and>
     (\<forall>e j c m c'. cron_AddFunc C e j c = (Inl m, c') \<longrightarrow> cron_jobs C c' = cron_jobs C c) \<and>
     (\<forall>i c. cron_jobs C (cron_Remove C i c) = (cron_jobs C c)(i := None)) \<and>
     (\<forall>c. cron_jobs C (cron_Start C c) = cron_jobs C c) \<and> (\<forall>c. cron_jobs C (cron_Stop C c) = cron_jobs C c) \<and>
     cron_jobs C (cron_New C) = Map.empty"

lemma cron_okD:
  assumes "cron_ok C"
  shows "cron_AddFunc C e j c = (Inr i, c') \<Longrightarrow> cron_jobs C c i = None \<and> cron_jobs C c' = (cron_jobs C c)(i \<mapsto> j)"
    "cron_AddFunc C e j c = (Inl m, c') \<Longrightarrow> cron_jobs C c' = cron_jobs C c"
    "cron_jobs C (cron_Remove C k c) = (cron_jobs C c)(k := None)" "cron_jobs C (cron_Start C c) = cron_jobs C c"
    "cron_jobs C (cron_New C) = Map.empty"
  using assms by (simp_all add: cron_ok_def)

section \<open>The scheduler\<close>

record 'c scheduler =
  sc_cron :: 'c
  sc_entries :: "string \<rightharpoonup> nat"

definition NewScheduler :: "'c cron \<Rightarrow> 'c scheduler" where
  "NewScheduler C = \<lparr>sc_cron = cron_New C, sc_entries = Map.empty\<rparr>"

definition addJob :: "'c cron \<Rightarrow> schedule \<Rightarrow> 'c scheduler \<Rightarrow> unit res \<times> 'c scheduler" where
  "addJob C sch sc =
     (case cron_AddFunc C (s_CronExpr sch) sch (sc_cron sc) of
        (Inl e, c) \<Rightarrow> (Inl (''add cron job: '' @ e), sc\<lparr>sc_cron := c\<rparr>)
      | (Inr entryID, c) \<Rightarrow> (Inr (), sc\<lparr>sc_cron := c, sc_entries := (sc_entries sc)(s_ID sch \<mapsto> entryID)\<rparr>))"

definition RemoveJob :: "'c cron \<Rightarrow> string \<Rightarrow> 'c scheduler \<Rightarrow> 'c scheduler" where
  "RemoveJob C scheduleID sc =
     (case sc_entries sc scheduleID of
        None \<Rightarrow> sc
      | Some entryID \<Rightarrow> sc\<lparr>sc_cron := cron_Remove C entryID (sc_cron sc), sc_entries := (sc_entries sc)(scheduleID := None)\<rparr>)"

definition AddJob :: "'c cron \<Rightarrow> schedule \<Rightarrow> 'c scheduler \<Rightarrow> unit res \<times> 'c scheduler" where
  "AddJob C sch sc =
     (let sc1 = RemoveJob C (s_ID sch) sc
      in if \<not> s_Enabled sch then (Inr (), sc1) else addJob C sch sc1)"

text \<open>The loop of \<open>Start\<close>: a schedule the library refuses is skipped with a warning.\<close>

fun load_jobs :: "'c cron \<Rightarrow> schedule list \<Rightarrow> 'c scheduler \<Rightarrow> 'c scheduler" where
  "load_jobs C [] sc = sc"
| "load_jobs C (sch # rest) sc = load_jobs C rest (if s_Enabled sch then snd (addJob C sch sc) else sc)"

definition Scheduler_Start :: "'c cron \<Rightarrow> 'c scheduler \<Rightarrow> 's world \<Rightarrow> unit res \<times> ('s world \<times> 'c scheduler)" where
  "Scheduler_Start C sc w =
     (case wrap_err ''list schedules: '' (on_db ScheduleRepo_List w) of
        (Inl e, w1) \<Rightarrow> (Inl e, (w1, sc))
      | (Inr schedules, w1) \<Rightarrow>
          let sc1 = load_jobs C schedules sc in (Inr (), (w1, sc1\<lparr>sc_cron := cron_Start C (sc_cron sc1)\<rparr>)))"

definition Scheduler_Stop :: "'c cron \<Rightarrow> 'c scheduler \<Rightarrow> 'c scheduler" where
  "Scheduler_Stop C sc = sc\<lparr>sc_cron := cron_Stop C (sc_cron sc)\<rparr>"

definition ActiveEntries :: "'c scheduler \<Rightarrow> nat" where
  "ActiveEntries sc = card (dom (sc_entries sc))"

definition GetNextRun :: "'c cron \<Rightarrow> string \<Rightarrow> 'c scheduler \<Rightarrow> int option" where
  "GetNextRun C scheduleID sc = (case sc_entries sc scheduleID of None \<Rightarrow> None | Some entryID \<Rightarrow> cron_Next C entryID (sc_cron sc))"

text \<open>The interface \<open>BackupRunner\<close>, and the job the scheduler runs; the result is the goroutine that
  \<open>StartBackup\<close> launched, if it did.\<close>

record 's runner =
  run_StartBackup :: "string \<Rightarrow> string \<Rightarrow> string \<Rightarrow> string option \<Rightarrow> string option \<Rightarrow> string list \<Rightarrow> bool \<Rightarrow> bool \<Rightarrow>
    's world \<Rightarrow> (backup \<times> job) res \<times> 's world"
  run_EnforceRetention :: "string \<Rightarrow> int \<Rightarrow> int \<Rightarrow> 's world \<Rightarrow> 's world"

definition start_scheduled :: "'s runner \<Rightarrow> schedule \<Rightarrow> 's world \<Rightarrow> (backup \<times> job) res \<times> 's world" where
  "start_scheduled R sch w =
     run_StartBackup R (s_ConnectionID sch) (s_DatabaseID sch) (s_BackupType sch) (Some (s_ID sch))
       (if s_StorageProviderID sch \<noteq> [] then Some (s_StorageProviderID sch) else None) (s_NotifTargetIDs sch)
       (s_NotifyOnSuccess sch) (s_NotifyOnFailure sch) w"

definition executeBackup :: "'s runner \<Rightarrow> schedule \<Rightarrow> 's world \<Rightarrow> job option \<times> 's world" where
  "executeBackup R sch w =
     (let (r, w1) = start_scheduled R sch w
      in (case r of Inl e \<Rightarrow> None | Inr (b, j) \<Rightarrow> Some j,
          run_EnforceRetention R (s_ID sch) (s_RetentionFull sch) (s_RetentionIncr sch) w1))"

text \<open>The result of \<open>RunNow\<close> is the schedule the goroutine \<open>executeBackup\<close> gets.\<close>

definition RunNow :: "string \<Rightarrow> 's world \<Rightarrow> schedule res \<times> 's world" where
  "RunNow scheduleID w =
     and_then (on_db (ScheduleRepo_GetByID scheduleID) w)
       (\<lambda>sch w1. case sch of None \<Rightarrow> (Inl ''schedule not found'', w1) | Some sch \<Rightarrow> (Inr sch, w1))"

section \<open>The handler\<close>

text \<open>Its state: the world and the scheduler.\<close>

definition in_world :: "('s world \<Rightarrow> 'a \<times> 's world) \<Rightarrow> 's world \<times> 'c scheduler \<Rightarrow> 'a \<times> ('s world \<times> 'c scheduler)" where
  "in_world f st = (case f (fst st) of (x, w) \<Rightarrow> (x, (w, snd st)))"

definition Schedule_handleList :: "string \<Rightarrow> 's world \<Rightarrow> schedule list response \<times> 's world" where
  "Schedule_handleList connectionID w =
     respond 200 500 (if connectionID \<noteq> [] then Schedule_ListByConnection connectionID w else Schedule_List w)"

definition register_job :: "nat \<Rightarrow> string \<Rightarrow> 'c cron \<Rightarrow> schedule \<Rightarrow> 's world \<times> 'c scheduler \<Rightarrow>
    schedule response \<times> ('s world \<times> 'c scheduler)" where
  "register_job status what C sch st =
     (case AddJob C sch (snd st) of
        (Inl e, sc) \<Rightarrow> (WriteError 500 (what @ e), (fst st, sc))
      | (Inr _, sc) \<Rightarrow> (WriteJSON status sch, (fst st, sc)))"

definition Schedule_handleCreate :: "'c cron \<Rightarrow> schedule option \<Rightarrow> 's world \<times> 'c scheduler \<Rightarrow>
    schedule response \<times> ('s world \<times> 'c scheduler)" where
  "Schedule_handleCreate C = with_body ''invalid request body'' (\<lambda>sch st.
     case in_world (Schedule_Create sch) st of
       (Inl e, st1) \<Rightarrow> (WriteError 400 e, st1)
     | (Inr sch', st1) \<Rightarrow> register_job 201 ''schedule created but cron registration failed: '' C sch' st1)"

definition Schedule_handleGet :: "string \<Rightarrow> 's world \<Rightarrow> schedule response \<times> 's world" where
  "Schedule_handleGet i w = respond_found ''schedule not found'' ok_json (Schedule_Get i w)"

definition Schedule_handleUpdate :: "'c cron \<Rightarrow> string \<Rightarrow> schedule option \<Rightarrow> 's world \<times> 'c scheduler \<Rightarrow>
    schedule response \<times> ('s world \<times> 'c scheduler)" where
  "Schedule_handleUpdate C i = with_body ''invalid request body'' (\<lambda>sch st.
     let sch' = sch\<lparr>s_ID := i\<rparr>
     in case in_world (Schedule_Update sch') st of
          (Inl e, st1) \<Rightarrow> (WriteError 400 e, st1)
        | (Inr _, st1) \<Rightarrow> register_job 200 ''schedule updated but cron registration failed: '' C sch' st1)"

definition Schedule_handleDelete :: "'c cron \<Rightarrow> string \<Rightarrow> 's world \<times> 'c scheduler \<Rightarrow> unit response \<times> ('s world \<times> 'c scheduler)" where
  "Schedule_handleDelete C i st =
     respond_done (in_world (Schedule_Delete i) (fst st, RemoveJob C i (snd st)))"

definition Schedule_handleRun :: "string \<Rightarrow> 's world \<Rightarrow> (string \<times> schedule) response \<times> 's world" where
  "Schedule_handleRun i w =
     (case RunNow i w of (Inl e, w1) \<Rightarrow> (WriteError 400 e, w1) | (Inr sch, w1) \<Rightarrow> (WriteJSON 200 (i, sch), w1))"

section \<open>What a backup runner promises\<close>

locale backup_runner =
  fixes R :: "'s runner"
  assumes start_wf: "db_wf (w_db w) \<Longrightarrow> db_wf (w_db (snd (run_StartBackup R cid did bt sid pid ts a b w)))"
    and start_row: "run_StartBackup R cid did bt sid pid ts a b w = (Inr (bk, j), w') \<Longrightarrow>
      \<exists>row. t_backups (w_db w') = t_backups (w_db w) @ [row] \<and> br_id row = b_ID bk \<and> br_status row = ''running'' \<and>
        br_schedule_id row = sid"
    and start_error: "run_StartBackup R cid did bt sid pid ts a b w = (Inl e, w') \<Longrightarrow> same_tables (w_db w) (w_db w')"
    and enforce_wf: "db_wf (w_db w) \<Longrightarrow> db_wf (w_db (run_EnforceRetention R k nf ni w))"
    and enforce_rows: "db_wf (w_db w) \<Longrightarrow> r \<in> set (t_backups (w_db w)) \<Longrightarrow> br_status r \<noteq> ''success'' \<or> br_schedule_id r \<noteq> Some k \<Longrightarrow>
      r \<in> set (t_backups (w_db (run_EnforceRetention R k nf ni w)))"
begin

lemma scheduled_wf: "db_wf (w_db w) \<Longrightarrow> start_scheduled R sch w = (x, w1) \<Longrightarrow> db_wf (w_db w1)"
  unfolding start_scheduled_def using start_wf by (metis snd_conv)

lemma execute_wf:
  assumes "db_wf (w_db w)"
  shows "db_wf (w_db (snd (executeBackup R sch w)))"
proof -
  obtain x w1 where s: "start_scheduled R sch w = (x, w1)" by fastforce
  with scheduled_wf [OF assms] enforce_wf show ?thesis by (auto simp: executeBackup_def)
qed

text \<open>The rows of other schedules survive, and so does the row of the backup just started.\<close>

lemma execute_keeps:
  assumes "executeBackup R sch w = (oj, w')" "db_wf (w_db w)" "r \<in> set (t_backups (w_db w))"
    "br_status r \<noteq> ''success'' \<or> br_schedule_id r \<noteq> Some (s_ID sch)"
  shows "r \<in> set (t_backups (w_db w'))"
proof -
  obtain x w1 where s: "start_scheduled R sch w = (x, w1)" by fastforce
  have "db_wf (w_db w1)" by (rule scheduled_wf [OF assms(2) s])
  moreover have "r \<in> set (t_backups (w_db w1))"
  proof (cases x)
    case (Inl e)
    with s have "same_tables (w_db w) (w_db w1)" unfolding start_scheduled_def by (simp add: start_error)
    with assms(3) show ?thesis by (simp add: same_tables_fields)
  next
    case (Inr bj)
    obtain b j where "bj = (b, j)" by fastforce
    with s Inr start_row assms(3) show ?thesis unfolding start_scheduled_def by fastforce
  qed
  ultimately show ?thesis
    using enforce_rows assms(1,4) s by (auto simp: executeBackup_def)
qed

lemma execute_new:
  assumes "executeBackup R sch w = (Some j, w')" "db_wf (w_db w)"
  shows "\<exists>row. row \<in> set (t_backups (w_db w')) \<and> row \<notin> set (t_backups (w_db w)) \<and> br_status row = ''running'' \<and>
    br_schedule_id row = Some (s_ID sch)"
proof -
  obtain x w1 where s: "start_scheduled R sch w = (x, w1)" by fastforce
  obtain b where x: "x = Inr (b, j)" using assms(1) s by (auto simp: executeBackup_def split: sum.splits)
  have wf: "db_wf (w_db w1)" by (rule scheduled_wf [OF assms(2) s])
  obtain row where row: "t_backups (w_db w1) = t_backups (w_db w) @ [row]" "br_status row = ''running''"
    "br_schedule_id row = Some (s_ID sch)"
    using start_row [OF s [unfolded x start_scheduled_def]] by blast
  have "row \<in> set (t_backups (w_db (run_EnforceRetention R (s_ID sch) (s_RetentionFull sch) (s_RetentionIncr sch) w1)))"
    using row by (intro enforce_rows wf) auto
  moreover have "row \<notin> set (t_backups (w_db w))"
    using wf row(1) by (auto simp: db_wf_def keys_ok_def)
  ultimately show ?thesis using row(2,3) assms(1) s x by (auto simp: executeBackup_def)
qed

end

end
