(* ===== verification/Schedule_Properties.thy ===== *)
theory Schedule_Properties
  imports Schedules
begin

text \<open>
  Properties of schedules: the backup service as the scheduler's runner, the jobs of the scheduler as an
  invariant of every state the program reaches, and what the handlers do when the cron library or the
  database refuses.
\<close>

section \<open>The backup service is a backup runner\<close>

definition service_runner :: "'s ext \<Rightarrow> 's backup_svc \<Rightarrow> 's runner" where
  "service_runner X s = \<lparr>run_StartBackup = StartBackup, run_EnforceRetention = EnforceRetention X s\<rparr>"

lemma launch_error:
  assumes "launch b conn db w = (Inl e, w')"
  shows "same_tables (w_db w) (w_db w')"
proof -
  obtain i w1 where i: "uuid_new w = (i, w1)" by fastforce
  obtain now w2 where now: "time_now w1 = (now, w2)" by fastforce
  have db: "w_db w2 = w_db w" using i now by (auto simp: uuid_new_def time_now_def)
  obtain x d where x: "BackupRepo_Create i now b (w_db w) = (x, d)" by fastforce
  have "x = Inl y \<Longrightarrow> same_tables (w_db w) d" for y
    using x by (auto simp: BackupRepo_Create_def Let_def dest: returning_exec_error)
  then show ?thesis using assms i now x db by (cases x) (auto simp: launch_def on_db_def)
qed

lemma StartBackup_error:
  assumes "StartBackup cid did bt sid pid targets nos nof w = (Inl e, w')"
  shows "same_tables (w_db w) (w_db w')"
proof -
  obtain x wa where c: "on_db (ConnectionRepo_GetByID cid) w = (x, wa)" by fastforce
  have s1: "same_tables (w_db w) (w_db wa)" using on_db_step [OF c ConnectionRepo_reads(1)] .
  show ?thesis
  proof (cases "\<exists>conn. x = Inr (Some conn)")
    case False
    with assms c s1 show ?thesis by (cases x) (auto simp: StartBackup_def split: option.splits)
  next
    case True
    then obtain conn where x: "x = Inr (Some conn)" by blast
    obtain y wb where g: "on_db (ConnectionRepo_GetDatabase did) wa = (y, wb)" by fastforce
    have s2: "same_tables (w_db w) (w_db wb)"
      using s1 on_db_step [OF g ConnectionRepo_reads(2)] same_tables_trans by blast
    show ?thesis
    proof (cases "\<exists>db. y = Inr (Some db)")
      case False
      with assms c x g s2 show ?thesis by (cases y) (auto simp: StartBackup_def split: option.splits)
    next
      case True
      then obtain db where "y = Inr (Some db)" by blast
      with assms c x g have "launch (new_backup cid did bt sid pid targets nos nof) conn db wb = (Inl e, w')"
        by (simp add: StartBackup_def)
      then show ?thesis using s2 launch_error same_tables_trans by blast
    qed
  qed
qed

interpretation service: backup_runner "service_runner X s"
proof (unfold_locales, goal_cases)
  case (1 w cid did bt sid pid ts a b)
  then show ?case by (simp add: service_runner_def StartBackup_wf)
next
  case (2 cid did bt sid pid ts a b w bk j w')
  then have "StartBackup cid did bt sid pid ts a b w = (Inr (bk, j), w')" by (simp add: service_runner_def)
  then obtain i now d0 where "bk = fill_backup i now (new_backup cid did bt sid pid ts a b)"
    "same_tables (w_db w) d0" "sql_insert_backup (backup_columns bk) d0 = Inr (w_db w')"
    by (rule StartBackup_result)
  with insert_backup_result(1) [OF this(3)] show ?case
    by (auto simp: same_tables_fields backup_columns_def fill_backup_def new_backup_def intro!: exI [of _ "backup_columns bk"])
next
  case (3 cid did bt sid pid ts a b w e w')
  then show ?case by (simp add: service_runner_def StartBackup_error)
next
  case (4 w k nf ni)
  then show ?case by (simp add: service_runner_def EnforceRetention_def expire_wf)
next
  case (5 w r k nf ni)
  obtain D where D: "D \<subseteq> br_id ` (set (expired k ''full'' nf (w_db w)) \<union> set (expired k ''incremental'' ni (w_db w)))"
    "t_backups (w_db (EnforceRetention X s k nf ni w)) = filter (\<lambda>r. br_id r \<notin> D) (t_backups (w_db w))"
    using retention_rows [OF 5(1), of k nf ni X s] by blast
  have "br_id r \<notin> D"
  proof
    assume "br_id r \<in> D"
    then obtain r' bt keep where "r' \<in> set (expired k bt keep (w_db w))" "br_id r' = br_id r" using D(1) by auto
    then have r': "r' \<in> set (t_backups (w_db w))" "br_schedule_id r' = Some k" "br_status r' = ''success''"
      using expired_finished [of r' k bt keep "w_db w"] by (auto simp: finished_of_def)
    have "r' = r" using r'(1) 5(1,2) \<open>br_id r' = br_id r\<close> by (auto simp: db_wf_def keys_ok_def distinct_map dest: inj_onD)
    with r' 5(3) show False by simp
  qed
  with D(2) 5(2) show ?case by (simp add: service_runner_def)
qed

section \<open>The jobs of the scheduler\<close>

text \<open>Entries and jobs correspond: every job is that of an enabled schedule and is the entry of its schedule.\<close>

definition jobs_ok :: "'c cron \<Rightarrow> 'c scheduler \<Rightarrow> bool" where
  "jobs_ok C sc \<longleftrightarrow>
     (\<forall>i sch. cron_jobs C (sc_cron sc) i = Some sch \<longrightarrow> s_Enabled sch \<and> sc_entries sc (s_ID sch) = Some i) \<and>
     (\<forall>k i. sc_entries sc k = Some i \<longrightarrow> (\<exists>sch. cron_jobs C (sc_cron sc) i = Some sch \<and> s_ID sch = k))"

lemma jobs_okD:
  assumes "jobs_ok C sc"
  shows "cron_jobs C (sc_cron sc) i = Some sch \<Longrightarrow> s_Enabled sch \<and> sc_entries sc (s_ID sch) = Some i"
    "sc_entries sc k = Some i \<Longrightarrow> \<exists>sch. cron_jobs C (sc_cron sc) i = Some sch \<and> s_ID sch = k"
  using assms by (simp_all add: jobs_ok_def)

lemma addJob_ok:
  assumes "cron_ok C" "jobs_ok C sc" "s_Enabled sch" "sc_entries sc (s_ID sch) = None"
  shows "jobs_ok C (snd (addJob C sch sc)) \<and> dom (sc_entries (snd (addJob C sch sc))) \<subseteq> insert (s_ID sch) (dom (sc_entries sc))"
proof -
  obtain x c where a: "cron_AddFunc C (s_CronExpr sch) sch (sc_cron sc) = (x, c)" by fastforce
  show ?thesis
  proof (cases x)
    case (Inl e)
    with a assms(2) cron_okD(2) [OF assms(1) a [unfolded Inl]] show ?thesis
      by (simp add: addJob_def jobs_ok_def subset_insertI)
  next
    case (Inr i)
    note new = cron_okD(1) [OF assms(1) a [unfolded Inr]]
    have "sc_entries sc k \<noteq> Some i" for k using jobs_okD(2) [OF assms(2)] new by force
    moreover have "s_ID j \<noteq> s_ID sch" if "cron_jobs C (sc_cron sc) m = Some j" for m j
      using jobs_okD(1) [OF assms(2) that] assms(4) by auto
    ultimately show ?thesis
      using a Inr new assms(2,3) by (auto simp: addJob_def jobs_ok_def)
  qed
qed

lemma RemoveJob_ok:
  assumes "cron_ok C" "jobs_ok C sc"
  shows "jobs_ok C (RemoveJob C k sc)" "sc_entries (RemoveJob C k sc) k = None"
    "cron_jobs C (sc_cron (RemoveJob C k sc)) i = Some sch \<Longrightarrow> s_ID sch \<noteq> k"
proof -
  have inj: "m = k" if "sc_entries sc k = Some i" "sc_entries sc m = Some i" for m i
    using jobs_okD(2) [OF assms(2) that(1)] jobs_okD(2) [OF assms(2) that(2)] by auto
  show ok: "jobs_ok C (RemoveJob C k sc)"
    using assms(2) inj cron_okD(3) [OF assms(1)]
    by (auto simp: RemoveJob_def jobs_ok_def split: option.splits)
  show none: "sc_entries (RemoveJob C k sc) k = None" by (simp add: RemoveJob_def split: option.splits)
  show "s_ID sch \<noteq> k" if "cron_jobs C (sc_cron (RemoveJob C k sc)) i = Some sch"
    using jobs_okD(1) [OF ok that] none by auto
qed

lemma AddJob_ok:
  assumes "cron_ok C" "jobs_ok C sc"
  shows "jobs_ok C (snd (AddJob C sch sc))"
  using addJob_ok [OF assms(1) RemoveJob_ok(1) [OF assms] _ RemoveJob_ok(2) [OF assms]] RemoveJob_ok(1) [OF assms]
  by (simp add: AddJob_def Let_def)

lemma load_jobs_ok:
  assumes "cron_ok C" "jobs_ok C sc" "distinct (map s_ID schs)" "\<forall>s \<in> set schs. sc_entries sc (s_ID s) = None"
  shows "jobs_ok C (load_jobs C schs sc)"
  using assms(2-)
proof (induction schs arbitrary: sc)
  case (Cons sch schs)
  define sc1 where "sc1 = (if s_Enabled sch then snd (addJob C sch sc) else sc)"
  have one: "jobs_ok C sc1 \<and> dom (sc_entries sc1) \<subseteq> insert (s_ID sch) (dom (sc_entries sc))"
    using addJob_ok [OF assms(1) Cons.prems(1)] Cons.prems(1,3) by (auto simp: sc1_def)
  moreover have "\<forall>s \<in> set schs. sc_entries sc1 (s_ID s) = None"
  proof
    fix s assume s: "s \<in> set schs"
    then have "s_ID s \<noteq> s_ID sch" "s_ID s \<notin> dom (sc_entries sc)" using Cons.prems(2,3) by (auto simp: image_iff)
    with one show "sc_entries sc1 (s_ID s) = None" by auto
  qed
  ultimately show ?case using Cons.IH [of sc1] Cons.prems(2) by (simp add: sc1_def)
qed simp

lemma new_scheduler_ok: "cron_ok C \<Longrightarrow> jobs_ok C (NewScheduler C)"
  by (simp add: jobs_ok_def NewScheduler_def cron_okD(5))

text \<open>The states of the program as far as schedules go: a successful \<open>Start\<close> on a well-formed database,
  then requests in any order; between requests the world may change in any way.\<close>

inductive sched_reach :: "'c cron \<Rightarrow> 's world \<times> 'c scheduler \<Rightarrow> bool" for C where
  start: "db_wf (w_db w) \<Longrightarrow> Scheduler_Start C (NewScheduler C) w = (Inr (), st) \<Longrightarrow> sched_reach C st"
| create: "sched_reach C st \<Longrightarrow> Schedule_handleCreate C req st = (resp, st') \<Longrightarrow> sched_reach C st'"
| update: "sched_reach C st \<Longrightarrow> Schedule_handleUpdate C i req st = (resp, st') \<Longrightarrow> sched_reach C st'"
| delete: "sched_reach C st \<Longrightarrow> Schedule_handleDelete C i st = (resp', st') \<Longrightarrow> sched_reach C st'"
| other: "sched_reach C (w, sc) \<Longrightarrow> sched_reach C (w', sc)"

inductive_cases sched_reachE: "sched_reach C st"

lemma register_job_ok:
  "register_job s m C sch st = (resp, st') \<Longrightarrow> cron_ok C \<Longrightarrow> jobs_ok C (snd st) \<Longrightarrow> jobs_ok C (snd st')"
  using AddJob_ok [of C "snd st" sch] by (auto simp: register_job_def split: prod.splits sum.splits)

lemma start_ok:
  assumes "cron_ok C" "db_wf (w_db w)" "Scheduler_Start C (NewScheduler C) w = (Inr (), st)"
  shows "jobs_ok C (snd st)"
proof -
  obtain x w1 where l: "on_db ScheduleRepo_List w = (x, w1)" by fastforce
  obtain schs where x: "x = Inr schs" using assms(3) l by (cases x) (auto simp: Scheduler_Start_def)
  from on_db_result [of ScheduleRepo_List w schs w1] l x obtain d where "ScheduleRepo_List (w_db w) = (Inr schs, d)" by auto
  then have schs: "schs = map scanSchedule (order_desc sr_created_at (t_schedules d))" "same_tables (w_db w) d"
    by (auto simp: ScheduleRepo_List_def dest!: wrapped_query)
  have "distinct (map sr_id (order_desc sr_created_at (t_schedules d)))"
    using assms(2) schs(2) unfolding order_desc_def
    by (simp add: db_wf_def keys_ok_def same_tables_fields distinct_map)
  then have "distinct (map s_ID schs)" by (simp add: schs(1) comp_def scanSchedule_def)
  then have "jobs_ok C (load_jobs C schs (NewScheduler C))"
    by (rule load_jobs_ok [OF assms(1) new_scheduler_ok [OF assms(1)]]) (simp add: NewScheduler_def)
  then show ?thesis
    using assms(3) l x by (auto simp: Scheduler_Start_def Let_def jobs_ok_def cron_okD(4) [OF assms(1)])
qed

lemma sched_reach_ok: "sched_reach C st \<Longrightarrow> cron_ok C \<Longrightarrow> jobs_ok C (snd st)"
proof (induction rule: sched_reach.induct)
  case (start w st)
  then show ?case using start_ok by blast
next
  case (create st req resp st')
  then show ?case
    by (cases req) (auto simp: Schedule_handleCreate_def in_world_def split: prod.splits sum.splits dest!: register_job_ok)
next
  case (update st i req resp st')
  then show ?case
    by (cases req) (auto simp: Schedule_handleUpdate_def in_world_def Let_def split: prod.splits sum.splits dest!: register_job_ok)
next
  case (delete st i resp' st')
  then show ?case
    using RemoveJob_ok(1) [of C "snd st" i]
    by (auto simp: Schedule_handleDelete_def in_world_def respond_done_def split: prod.splits sum.splits)
qed auto

lemma ActiveEntries_jobs:
  assumes "jobs_ok C sc"
  shows "ActiveEntries sc = card (dom (cron_jobs C (sc_cron sc)))"
proof -
  have "bij_betw (\<lambda>k. the (sc_entries sc k)) (dom (sc_entries sc)) (dom (cron_jobs C (sc_cron sc)))"
    unfolding bij_betw_def
  proof
    show "inj_on (\<lambda>k. the (sc_entries sc k)) (dom (sc_entries sc))"
      using jobs_okD(2) [OF assms] by (intro inj_onI) (metis domIff option.collapse option.inject)
    show "(\<lambda>k. the (sc_entries sc k)) ` dom (sc_entries sc) = dom (cron_jobs C (sc_cron sc))"
      using jobs_okD [OF assms] by (force simp: image_iff dom_def)
  qed
  then show ?thesis unfolding ActiveEntries_def by (rule bij_betw_same_card)
qed

section \<open>A concrete cron library\<close>

text \<open>The next identifier and the jobs; an expression is refused if it is not five characters or longer.\<close>

definition demo_cron :: "(nat \<times> (nat \<rightharpoonup> schedule)) cron" where
  "demo_cron = \<lparr>
     cron_AddFunc = (\<lambda>e j c. if length e < 5 \<or> snd c (fst c) \<noteq> None then (Inl ''expected exactly 5 fields'', c)
        else (Inr (fst c), (Suc (fst c), (snd c)(fst c \<mapsto> j)))),
     cron_Remove = (\<lambda>i c. (fst c, (snd c)(i := None))),
     cron_Start = (\<lambda>c. c), cron_Stop = (\<lambda>c. c), cron_Next = (\<lambda>i c. Some 0),
     cron_jobs = snd, cron_New = (0, Map.empty)\<rparr>"

lemma demo_cron_ok: "cron_ok demo_cron"
  by (auto simp: cron_ok_def demo_cron_def split: if_splits)

definition demo_schedule :: schedule where
  "demo_schedule = scanSchedule demo_schedule_row"

lemma demo_schedule_fields:
  "s_ID demo_schedule = ''s''" "s_CronExpr demo_schedule = ''0 0 * * *''" "s_Enabled demo_schedule"
  "s_ConnectionID demo_schedule = ''c''" "s_DatabaseID demo_schedule = ''d''" "s_BackupType demo_schedule = ''full''"
  "s_StorageProviderID demo_schedule = ''u''" "s_RetentionFull demo_schedule = 2" "s_RetentionIncr demo_schedule = 30"
  by (simp_all add: demo_schedule_def scanSchedule_def demo_schedule_row_def)

lemma demo_retention_fields:
  "faults (w_db demo_retention_world) = []" "t_schedules (w_db demo_retention_world) = [demo_schedule_row]"
  "t_restores (w_db demo_retention_world) = []"
  by (simp_all add: demo_retention_world_def demo_db_def empty_db_def)

definition demo_started :: "(string \<times> string \<Rightarrow> bytes option) world \<times> (nat \<times> (nat \<rightharpoonup> schedule)) scheduler" where
  "demo_started = (demo_retention_world, \<lparr>sc_cron = (1, [0 \<mapsto> demo_schedule]), sc_entries = [''s'' \<mapsto> 0]\<rparr>)"

lemma demo_start_scheduler: "Scheduler_Start demo_cron (NewScheduler demo_cron) demo_retention_world = (Inr (), demo_started)"
proof -
  have "on_db ScheduleRepo_List demo_retention_world = (Inr [demo_schedule], demo_retention_world)"
    by (simp add: on_db_def ScheduleRepo_List_def demo_retention_fields order_desc_def demo_schedule_def)
  then show ?thesis
    by (simp add: Scheduler_Start_def Let_def addJob_def demo_schedule_fields)
      (simp add: NewScheduler_def demo_cron_def demo_started_def demo_schedule_fields)
qed

lemma demo_started_reach: "sched_reach demo_cron demo_started"
  by (rule sched_reach.start [OF demo_retention_wf demo_start_scheduler])

section \<open>Properties\<close>

text \<open>Claim C24. No schedule fires twice: in every state the program reaches, each job the cron library will fire is
  that of an enabled schedule and is the one entry the scheduler keeps for it, and the number of active entries is
  the number of jobs.\<close>

theorem one_job_per_schedule:
  assumes "cron_ok C" "sched_reach C st"
  shows "(\<forall>i sch. cron_jobs C (sc_cron (snd st)) i = Some sch \<longrightarrow> s_Enabled sch \<and> sc_entries (snd st) (s_ID sch) = Some i) \<and>
    (\<forall>i j a b. cron_jobs C (sc_cron (snd st)) i = Some a \<longrightarrow> cron_jobs C (sc_cron (snd st)) j = Some b \<longrightarrow>
       s_ID a = s_ID b \<longrightarrow> i = j) \<and>
    ActiveEntries (snd st) = card (dom (cron_jobs C (sc_cron (snd st))))"
proof -
  have ok: "jobs_ok C (snd st)" by (rule sched_reach_ok [OF assms(2,1)])
  have "i = j" if "cron_jobs C (sc_cron (snd st)) i = Some a" "cron_jobs C (sc_cron (snd st)) j = Some b" "s_ID a = s_ID b"
    for i j a b using jobs_okD(1) [OF ok that(1)] jobs_okD(1) [OF ok that(2)] that(3) by simp
  with jobs_okD(1) [OF ok] ActiveEntries_jobs [OF ok] show ?thesis by blast
qed

theorem one_job_per_schedule_witness:
  "s_Enabled demo_schedule \<and> sc_entries (snd demo_started) (s_ID demo_schedule) = Some 0 \<and> ActiveEntries (snd demo_started) = 1"
proof -
  have j: "cron_jobs demo_cron (sc_cron (snd demo_started)) = [0 \<mapsto> demo_schedule]" by (simp add: demo_started_def demo_cron_def)
  note * = one_job_per_schedule [OF demo_cron_ok demo_started_reach]
  have "cron_jobs demo_cron (sc_cron (snd demo_started)) 0 = Some demo_schedule" by (simp add: j)
  with * have "s_Enabled demo_schedule \<and> sc_entries (snd demo_started) (s_ID demo_schedule) = Some 0" by blast
  moreover have "ActiveEntries (snd demo_started) = card (dom [0::nat \<mapsto> demo_schedule])" using * j by metis
  ultimately show ?thesis by simp
qed

text \<open>A schedule is created with what its runs need: on success the required fields are given, both retention
  limits are positive, the backup type is never empty and the schedule is enabled; the stored row is that schedule.
  Otherwise no row changes.\<close>

theorem schedule_created:
  "case Schedule_Create sch w of
     (Inl e, w') \<Rightarrow> same_tables (w_db w) (w_db w')
   | (Inr sch', w') \<Rightarrow> s_ConnectionID sch' \<noteq> [] \<and> s_DatabaseID sch' \<noteq> [] \<and> s_CronExpr sch' \<noteq> [] \<and>
       s_StorageProviderID sch' \<noteq> [] \<and> s_BackupType sch' \<in> {''full'', ''incremental''} \<and> s_RetentionFull sch' > 0 \<and>
       s_RetentionIncr sch' > 0 \<and> s_Enabled sch' \<and>
       t_schedules (w_db w') = t_schedules (w_db w) @ [schedule_columns sch']"
proof (cases "s_ConnectionID sch = [] \<or> s_DatabaseID sch = [] \<or> s_CronExpr sch = [] \<or> s_StorageProviderID sch = []")
  case True
  then show ?thesis by (auto simp: Schedule_Create_def)
next
  case False
  obtain i w1 where i: "uuid_new w = (i, w1)" by fastforce
  obtain now w2 where now: "time_now w1 = (now, w2)" by fastforce
  have db: "w_db w2 = w_db w" using i now by (auto simp: uuid_new_def time_now_def)
  obtain x d where x: "ScheduleRepo_Create i now (schedule_defaults sch) (w_db w) = (x, d)" by fastforce
  have run: "Schedule_Create sch w = (x, w2\<lparr>w_db := d\<rparr>)"
    using False i now x db by (simp add: Schedule_Create_def on_db_def)
  show ?thesis
  proof (cases x)
    case (Inl e)
    then have "same_tables (w_db w) d"
      using x by (auto simp: ScheduleRepo_Create_def Let_def dest: returning_exec_error)
    with run Inl show ?thesis by simp
  next
    case (Inr sch')
    then obtain d0 where d0: "same_tables (w_db w) d0" "sql_insert_schedule (schedule_columns sch') d0 = Inr d"
      "sch' = fill_schedule i now (schedule_defaults sch)"
      using x unfolding ScheduleRepo_Create_def Let_def by (auto elim: returning_exec_ok)
    then have "t_schedules d = t_schedules (w_db w) @ [schedule_columns sch']" "check_schedule (schedule_columns sch')"
      by (auto simp: sql_insert_schedule_def same_tables_fields split: if_splits)
    with run Inr False d0(3) show ?thesis
      by (auto simp: check_schedule_def schedule_columns_def fill_schedule_def schedule_defaults_def)
  qed
qed



text \<open>Claim C25. A scheduled run never undoes itself: the backup it starts survives the retention that follows at once, as
  do all backups of other schedules and all that are not successful; the schema invariant is kept.\<close>

theorem scheduled_run_keeps:
  assumes "db_wf (w_db w)" "executeBackup (service_runner X s) sch w = (Some j, w')"
  shows "(\<exists>row \<in> set (t_backups (w_db w')). row \<notin> set (t_backups (w_db w)) \<and> br_status row = ''running'' \<and>
      br_schedule_id row = Some (s_ID sch)) \<and>
    (\<forall>r \<in> set (t_backups (w_db w)). br_status r \<noteq> ''success'' \<or> br_schedule_id r \<noteq> Some (s_ID sch) \<longrightarrow>
      r \<in> set (t_backups (w_db w'))) \<and> db_wf (w_db w')"
  using service.execute_new [OF assms(2,1)] service.execute_keeps [OF assms(2,1)]
    service.execute_wf [OF assms(1), of X s sch] assms(2) by auto

theorem scheduled_run_keeps_witness:
  "\<exists>j w'. executeBackup (service_runner demo_ext demo_svc) demo_schedule demo_retention_world = (Some j, w') \<and>
     (\<exists>row \<in> set (t_backups (w_db w')). br_status row = ''running'' \<and> br_schedule_id row = Some ''s'') \<and> db_wf (w_db w')"
proof -
  have "\<exists>b j w1. StartBackup ''c'' ''d'' ''full'' (Some ''s'') (Some ''u'') ts a b' demo_retention_world = (Inr (b, j), w1)" for ts a b'
    by (simp add: StartBackup_def launch_def ConnectionRepo_GetByID_def ConnectionRepo_GetDatabase_def
        BackupRepo_Create_def on_db_def demo_retention_fields uuid_new_def time_now_def Let_def demo_retention_world_def
        demo_db_def empty_db_def demo_world_def row_find_def demo_connection_def demo_database_row_def demo_provider_row_def
        demo_schedule_row_def sql_insert_backup_def check_backup_def fk_backup_def has_row_def ref_ok_def
        backup_columns_def fill_backup_def new_backup_def zero_backup_def demo_finished_fields)
  then obtain b j w1 where "start_scheduled (service_runner demo_ext demo_svc) demo_schedule demo_retention_world = (Inr (b, j), w1)"
    by (simp add: start_scheduled_def service_runner_def demo_schedule_fields) blast
  then obtain w' where e: "executeBackup (service_runner demo_ext demo_svc) demo_schedule demo_retention_world = (Some j, w')"
    by (simp add: executeBackup_def)
  from scheduled_run_keeps [OF demo_retention_wf e] e show ?thesis by (auto simp: demo_schedule_fields)
qed

text \<open>A schedule that has backups cannot be deleted, yet the attempt stops it: the handler answers 500, every row is
  kept, and the job is gone.\<close>

theorem refused_delete_unscheduled:
  assumes "cron_ok C" "sched_reach C (w, sc)" "\<exists>b \<in> set (t_backups (w_db w)). br_schedule_id b = Some i"
    and "Schedule_handleDelete C i (w, sc) = (resp, (w2, sc2))"
  shows "fst resp = 500 \<and> same_tables (w_db w) (w_db w2) \<and> (\<forall>k j. cron_jobs C (sc_cron sc2) k = Some j \<longrightarrow> s_ID j \<noteq> i)"
proof -
  have ok: "jobs_ok C sc" using sched_reach_ok [OF assms(2,1)] by simp
  obtain x d where x: "ScheduleRepo_Delete i (w_db w) = (x, d)" by fastforce
  have "\<exists>e. x = Inl e"
    using x assms(3)
    by (auto simp: ScheduleRepo_Delete_def sql_delete_schedule_def list_ex_iff db_exec_def db_try_def wrap_err_def
        split: prod.splits option.splits list.splits)
  then obtain e where e: "x = Inl e" by blast
  then have "same_tables (w_db w) d" using x by (auto simp: ScheduleRepo_Delete_def dest: wrapped_exec_error)
  with assms(4) x e RemoveJob_ok(3) [OF assms(1) ok, of i] show ?thesis
    by (auto simp: Schedule_handleDelete_def in_world_def Schedule_Delete_def on_db_def)
qed

theorem refused_delete_unscheduled_witness:
  "\<exists>resp st. Schedule_handleDelete demo_cron ''s'' demo_started = (resp, st) \<and> fst resp = 500 \<and>
     same_tables (w_db demo_retention_world) (w_db (fst st))"
proof -
  have b: "\<exists>b \<in> set (t_backups (w_db demo_retention_world)). br_schedule_id b = Some ''s''"
    by (simp add: demo_retention_world_def demo_finished_fields)
  obtain resp w2 sc2 where h: "Schedule_handleDelete demo_cron ''s'' demo_started = (resp, (w2, sc2))"
    by (metis surj_pair)
  from refused_delete_unscheduled [OF demo_cron_ok demo_started_reach [unfolded demo_started_def] b h [unfolded demo_started_def]] h
  show ?thesis by auto
qed

end
