(* ===== verification/Auth.thy ===== *)
theory Auth
  imports World Http
begin

text \<open>
  \<open>internal/auth/service.go\<close>: the administrator's password and the sessions, the middleware and the
  HTTP handlers. The service is an explicit state and operations run one after the other; in the code \<open>Validate\<close> drops an
  expired session in a second critical section and \<open>ChangePassword\<close> compares the password before it takes the lock.
  SHA-256 and the random source are those of the crypto library; times are the clock's nanoseconds.
\<close>

section \<open>The service\<close>

record session =
  si_User :: string
  si_ExpiresAt :: int

record auth =
  au_adminUser :: string
  au_adminPass :: string \<comment> \<open>SHA-256 hash\<close>
  au_secretKey :: string
  au_sessions :: "string \<rightharpoonup> session"

text \<open>\<open>sha256.Sum256\<close> of the password's bytes, in hexadecimal.\<close>

definition password_hash :: "crypto \<Rightarrow> string \<Rightarrow> string" where
  "password_hash C pass = hex_encode (x_sha256 C (bytes_of_string pass))"

definition Auth_NewService :: "crypto \<Rightarrow> string \<Rightarrow> string \<Rightarrow> string \<Rightarrow> rng \<Rightarrow> auth \<times> rng" where
  "Auth_NewService C adminUser adminPass secretKey r =
     (let (secret, r') = (if secretKey = [] then (case rand_read 32 r of (buf, r') \<Rightarrow> (hex_encode buf, r')) else (secretKey, r))
      in (\<lparr>au_adminUser = adminUser, au_adminPass = password_hash C adminPass, au_secretKey = secret,
           au_sessions = Map.empty\<rparr>, r'))"

text \<open>\<open>24 * time.Hour\<close> in nanoseconds.\<close>

definition session_lifetime :: int where
  "session_lifetime = 24 * 3600 * 1000000000"

text \<open>The credentials decide; the token is 32 random bytes in hexadecimal, and the clock is read when the session is stored.\<close>

definition credentials_ok :: "crypto \<Rightarrow> string \<Rightarrow> string \<Rightarrow> auth \<Rightarrow> bool" where
  "credentials_ok C user password a \<longleftrightarrow> user = au_adminUser a \<and> password_hash C password = au_adminPass a"

definition open_session :: "string \<Rightarrow> bytes \<Rightarrow> int \<Rightarrow> auth \<Rightarrow> auth" where
  "open_session user buf now a =
     a\<lparr>au_sessions := (au_sessions a)(hex_encode buf \<mapsto> \<lparr>si_User = user, si_ExpiresAt = now + session_lifetime\<rparr>)\<rparr>"

definition Login :: "crypto \<Rightarrow> string \<Rightarrow> string \<Rightarrow> 's world \<times> auth \<Rightarrow> (string \<times> bool) \<times> ('s world \<times> auth)" where
  "Login C user password st =
     (case st of (w, a) \<Rightarrow>
        if \<not> credentials_ok C user password a then (([], False), (w, a))
        else let (buf, w1) = on_rng (rand_read 32) w; (now, w2) = time_now w1
             in ((hex_encode buf, True), (w2, open_session user buf now a)))"

definition drop_session :: "string \<Rightarrow> auth \<Rightarrow> auth" where
  "drop_session token a = a\<lparr>au_sessions := (au_sessions a)(token := None)\<rparr>"

definition Validate :: "string \<Rightarrow> 's world \<times> auth \<Rightarrow> bool \<times> ('s world \<times> auth)" where
  "Validate token st =
     (case st of (w, a) \<Rightarrow>
        (case au_sessions a token of
           None \<Rightarrow> (False, (w, a))
         | Some sess \<Rightarrow>
             let (now, w1) = time_now w
             in if now > si_ExpiresAt sess then (False, (w1, drop_session token a)) else (True, (w1, a))))"

definition Logout :: "string \<Rightarrow> auth \<Rightarrow> auth" where
  "Logout token a = drop_session token a"

definition ChangePassword :: "crypto \<Rightarrow> string \<Rightarrow> string \<Rightarrow> auth \<Rightarrow> unit res \<times> auth" where
  "ChangePassword C currentPass newPass a =
     (if password_hash C currentPass \<noteq> au_adminPass a then (Inl ''current password is incorrect'', a)
      else if length newPass < 6 then (Inl ''new password must be at least 6 characters'', a)
      else (Inr (), a\<lparr>au_adminPass := password_hash C newPass, au_sessions := Map.empty\<rparr>))"

section \<open>Requests\<close>

text \<open>What the handlers read of a request: the path, the session cookie and the authorization header.\<close>

record request =
  rq_Method :: string
  rq_Path :: string
  rq_Cookie :: "string option"
  rq_Authorization :: string

definition cookie_token :: "request \<Rightarrow> string" where
  "cookie_token r = (case rq_Cookie r of None \<Rightarrow> [] | Some v \<Rightarrow> v)"

definition request_token :: "request \<Rightarrow> string" where
  "request_token r = (if cookie_token r = [] then rq_Authorization r else cookie_token r)"

definition public_path :: "string \<Rightarrow> bool" where
  "public_path p \<longleftrightarrow> p = ''/api/auth/login'' \<or> p = ''/api/health'' \<or> p = ''/''"

text \<open>The third component of the state is whatever else the handler behind it works on.\<close>

definition Auth_Middleware ::
  "(request \<Rightarrow> ('s world \<times> auth) \<times> 'r \<Rightarrow> 'a response \<times> (('s world \<times> auth) \<times> 'r)) \<Rightarrow> request \<Rightarrow> ('s world \<times> auth) \<times> 'r \<Rightarrow>
   'a response \<times> (('s world \<times> auth) \<times> 'r)" where
  "Auth_Middleware nextHandler r st =
     (if public_path (rq_Path r) then nextHandler r st
      else case Validate (request_token r) (fst st) of
             (False, wa) \<Rightarrow> (WriteError 401 ''unauthorized'', (wa, snd st))
           | (True, wa) \<Rightarrow> nextHandler r (wa, snd st))"

text \<open>The cookie a handler sets: value and maximal age in seconds, \<open>-1\<close> to clear it.\<close>

type_synonym cookie = "string \<times> int"

definition HandleLogin :: "crypto \<Rightarrow> (string \<times> string) option \<Rightarrow> 's world \<times> auth \<Rightarrow>
    ((string \<times> string) response \<times> cookie option) \<times> ('s world \<times> auth)" where
  "HandleLogin C req st =
     (case req of
        None \<Rightarrow> ((WriteError 400 ''invalid request'', None), st)
      | Some (username, password) \<Rightarrow>
          (case Login C username password st of
             ((_, False), st') \<Rightarrow> ((WriteError 401 ''invalid credentials'', None), st')
           | ((token, True), st') \<Rightarrow> ((WriteJSON 200 (token, username), Some (token, 86400)), st')))"

definition HandleLogout :: "request \<Rightarrow> 's world \<times> auth \<Rightarrow> (bool response \<times> cookie option) \<times> ('s world \<times> auth)" where
  "HandleLogout r st =
     (case st of (w, a) \<Rightarrow> ((WriteJSON 200 True, Some ([], - 1)), (w, Logout (cookie_token r) a)))"

text \<open>The expired session of a check is reported, not removed. The body is the user and the expiry time.\<close>

definition HandleCheck :: "request \<Rightarrow> 's world \<times> auth \<Rightarrow> (string \<times> int) response \<times> ('s world \<times> auth)" where
  "HandleCheck r st =
     (case st of (w, a) \<Rightarrow>
        if cookie_token r = [] then (WriteError 401 ''not authenticated'', (w, a))
        else case au_sessions a (cookie_token r) of
               None \<Rightarrow> (WriteError 401 ''session expired'', (w, a))
             | Some sess \<Rightarrow>
                 let (now, w1) = time_now w
                 in if now > si_ExpiresAt sess then (WriteError 401 ''session expired'', (w1, a))
                    else (WriteJSON 200 (si_User sess, si_ExpiresAt sess), (w1, a)))"

definition HandleChangePassword :: "crypto \<Rightarrow> (string \<times> string) option \<Rightarrow> 's world \<times> auth \<Rightarrow>
    (bool response \<times> cookie option) \<times> ('s world \<times> auth)" where
  "HandleChangePassword C req st =
     (case st of (w, a) \<Rightarrow>
        (case req of
           None \<Rightarrow> ((WriteError 400 ''invalid request'', None), (w, a))
         | Some (currentPass, newPass) \<Rightarrow>
             (case ChangePassword C currentPass newPass a of
                (Inl e, a') \<Rightarrow> ((WriteError 400 e, None), (w, a'))
              | (Inr _, a') \<Rightarrow> ((WriteJSON 200 True, Some ([], - 1)), (w, a')))))"

section \<open>Histories\<close>

text \<open>What happens to the service, with the random bytes and the time each operation sees.\<close>

datatype event =
  E_Login string string bytes int \<comment> \<open>user, password, the random bytes, the time\<close>
| E_Validate string int
| E_Logout string
| E_ChangePassword string string

fun apply_event :: "crypto \<Rightarrow> event \<Rightarrow> auth \<Rightarrow> auth" where
  "apply_event C (E_Login user pass buf now) a = (if credentials_ok C user pass a then open_session user buf now a else a)"
| "apply_event C (E_Validate token now) a =
     (case au_sessions a token of None \<Rightarrow> a | Some s \<Rightarrow> if now > si_ExpiresAt s then drop_session token a else a)"
| "apply_event C (E_Logout token) a = Logout token a"
| "apply_event C (E_ChangePassword cur new) a = snd (ChangePassword C cur new a)"

text \<open>The operations are these events.\<close>

lemma Login_event:
  "Login C user pass (w, a) = (r, (w', a')) \<Longrightarrow>
    a' = apply_event C (E_Login user pass (fst (rand_read 32 (w_rng w))) (w_clock w 0)) a"
  by (auto simp: Login_def on_rng_def time_now_def split: prod.splits if_splits)

lemma Validate_event:
  "Validate token (w, a) = (r, (w', a')) \<Longrightarrow> a' = apply_event C (E_Validate token (w_clock w 0)) a"
  by (auto simp: Validate_def time_now_def Let_def split: option.splits if_splits)

definition history :: "crypto \<Rightarrow> event list \<Rightarrow> auth \<Rightarrow> auth" where
  "history C es a = fold (apply_event C) es a"

text \<open>An event after which the session of a token is gone.\<close>

fun ends_session :: "crypto \<Rightarrow> string \<Rightarrow> auth \<Rightarrow> event \<Rightarrow> bool" where
  "ends_session C token a (E_Logout t) \<longleftrightarrow> t = token"
| "ends_session C token a (E_ChangePassword cur new) \<longleftrightarrow> is_ok (fst (ChangePassword C cur new a))"
| "ends_session C token a (E_Validate t now) \<longleftrightarrow>
     t = token \<and> (case au_sessions a t of None \<Rightarrow> False | Some s \<Rightarrow> now > si_ExpiresAt s)"
| "ends_session C token a (E_Login u p b now) \<longleftrightarrow> False"

lemma event_user: "au_adminUser (apply_event C e a) = au_adminUser a"
  by (cases e) (auto simp: open_session_def drop_session_def Logout_def ChangePassword_def split: option.splits)

lemma history_user: "au_adminUser (history C es a) = au_adminUser a"
  by (induction es arbitrary: a) (simp_all add: history_def event_user)

text \<open>One event: a session that is there afterwards was there before, not ended by the event, or is opened by it.\<close>

lemma event_session:
  assumes "au_sessions (apply_event C e a) token = Some s"
  shows "au_sessions a token = Some s \<and> \<not> ends_session C token a e \<or>
    (\<exists>user pass buf now. e = E_Login user pass buf now \<and> hex_encode buf = token \<and> credentials_ok C user pass a \<and>
       s = \<lparr>si_User = user, si_ExpiresAt = now + session_lifetime\<rparr>)"
  using assms
  by (cases e) (auto simp: open_session_def drop_session_def Logout_def ChangePassword_def split: option.splits if_splits)

text \<open>Where a session comes from: a login with the credentials of that moment, and nothing since has ended it.\<close>

lemma session_origin:
  assumes "au_sessions (history C es a) token = Some s" "au_sessions a token = None"
  shows "\<exists>pre user pass buf now post. es = pre @ E_Login user pass buf now # post \<and> hex_encode buf = token \<and>
    credentials_ok C user pass (history C pre a) \<and> s = \<lparr>si_User = user, si_ExpiresAt = now + session_lifetime\<rparr> \<and>
    (\<forall>i < length post. \<not> ends_session C token (history C (pre @ E_Login user pass buf now # take i post) a) (post ! i))"
  using assms(1)
proof (induction es rule: rev_induct)
  case Nil
  with assms(2) show ?case by (simp add: history_def)
next
  case (snoc e es)
  have step: "history C (es @ [e]) a = apply_event C e (history C es a)" by (simp add: history_def)
  from event_session [OF snoc.prems [unfolded step]] show ?case
  proof
    assume *: "au_sessions (history C es a) token = Some s \<and> \<not> ends_session C token (history C es a) e"
    then obtain pre user pass buf now post where h: "es = pre @ E_Login user pass buf now # post" "hex_encode buf = token"
      "credentials_ok C user pass (history C pre a)" "s = \<lparr>si_User = user, si_ExpiresAt = now + session_lifetime\<rparr>"
      and p: "\<forall>i < length post. \<not> ends_session C token (history C (pre @ E_Login user pass buf now # take i post) a) (post ! i)"
      using snoc.IH by blast
    have "\<forall>i < length (post @ [e]).
        \<not> ends_session C token (history C (pre @ E_Login user pass buf now # take i (post @ [e])) a) ((post @ [e]) ! i)"
      using p * h(1) by (auto simp: nth_append less_Suc_eq)
    with h show ?thesis
      by (intro exI [of _ pre] exI [of _ user] exI [of _ pass] exI [of _ buf] exI [of _ now] exI [of _ "post @ [e]"]) simp
  next
    assume "\<exists>user pass buf now. e = E_Login user pass buf now \<and> hex_encode buf = token \<and>
       credentials_ok C user pass (history C es a) \<and> s = \<lparr>si_User = user, si_ExpiresAt = now + session_lifetime\<rparr>"
    then obtain user pass buf now where l: "e = E_Login user pass buf now" "hex_encode buf = token"
      "credentials_ok C user pass (history C es a)" "s = \<lparr>si_User = user, si_ExpiresAt = now + session_lifetime\<rparr>" by blast
    then show ?thesis
      by (intro exI [of _ es] exI [of _ user] exI [of _ pass] exI [of _ buf] exI [of _ now] exI [of _ "[]"]) simp
  qed
qed

end
