(* ===== verification/Auth_Properties.thy ===== *)
theory Auth_Properties
  imports Auth
begin

text \<open>
  Properties of authentication: where a valid session comes from, what a change of password and a logout do,
  and what the middleware lets through.
\<close>

section \<open>A concrete service\<close>

definition demo_auth :: auth where
  "demo_auth = \<lparr>au_adminUser = ''admin'', au_adminPass = password_hash demo_crypto ''secret'', au_secretKey = ''k'',
     au_sessions = Map.empty\<rparr>"

definition demo_token :: string where "demo_token = hex_encode (replicate 32 0)"

definition demo_logged_in :: auth where
  "demo_logged_in = open_session ''admin'' (replicate 32 0) 0 demo_auth"

definition demo_auth_world :: "unit world" where
  "demo_auth_world = \<lparr>w_db = empty_db, w_rng = (\<lambda>_. 0), w_clock = (\<lambda>n. 1000), w_uuids = (\<lambda>n. []), w_store = (),
     w_notes = [], w_runs = [], w_files = Map.empty\<rparr>"

lemma demo_token_valid: "Validate demo_token (demo_auth_world, demo_logged_in) =
    (True, (snd (time_now demo_auth_world), demo_logged_in))"
  by (simp add: Validate_def demo_logged_in_def open_session_def demo_token_def time_now_def Let_def session_lifetime_def
      demo_auth_world_def)

lemma demo_token_not_empty: "demo_token \<noteq> []"
  unfolding demo_token_def by (metis hex_encode_Nil_iff length_replicate list.size(3) zero_neq_numeral)

lemma demo_logged_in_fields:
  "au_adminPass demo_logged_in = password_hash demo_crypto ''secret''" "au_sessions demo_auth = Map.empty"
  "au_sessions demo_logged_in = [demo_token \<mapsto> \<lparr>si_User = ''admin'', si_ExpiresAt = 0 + session_lifetime\<rparr>]"
  by (simp_all add: demo_logged_in_def open_session_def demo_auth_def demo_token_def)

section \<open>Properties\<close>

text \<open>Claim C22. A token is accepted only if a login issued it: whatever happened since the service was created, an accepted
  token was made from the random bytes of a login that gave the administrator's name and the password of that moment,
  not more than 24 hours before, and since then there was no logout of it, no expiry noticed and no change of password.\<close>

theorem session_provenance:
  assumes "a0 = fst (Auth_NewService C adminUser adminPass secretKey r)"
    and "Validate token (w, history C es a0) = (True, st)"
  shows "\<exists>pre pass buf t post. es = pre @ E_Login adminUser pass buf t # post \<and> token = hex_encode buf \<and>
    password_hash C pass = au_adminPass (history C pre a0) \<and> w_clock w 0 \<le> t + session_lifetime \<and>
    (\<forall>i < length post. \<not> ends_session C token (history C (pre @ E_Login adminUser pass buf t # take i post) a0) (post ! i))"
proof -
  have new: "au_sessions a0 = Map.empty" "au_adminUser a0 = adminUser"
    using assms(1) by (auto simp: Auth_NewService_def Let_def split: prod.splits)
  obtain s where s: "au_sessions (history C es a0) token = Some s" "w_clock w 0 \<le> si_ExpiresAt s"
    using assms(2) by (auto simp: Validate_def time_now_def Let_def split: option.splits if_splits)
  have none: "au_sessions a0 token = None" by (simp add: new(1))
  obtain pre user pass buf t post where o: "es = pre @ E_Login user pass buf t # post" "hex_encode buf = token"
    "credentials_ok C user pass (history C pre a0)" "s = \<lparr>si_User = user, si_ExpiresAt = t + session_lifetime\<rparr>"
    "\<forall>i < length post. \<not> ends_session C token (history C (pre @ E_Login user pass buf t # take i post) a0) (post ! i)"
    using session_origin [OF s(1) none] by blast
  have "user = adminUser" "password_hash C pass = au_adminPass (history C pre a0)"
    using o(3) by (simp_all add: credentials_ok_def history_user new(2))
  with o s(2) show ?thesis
    by (intro exI [of _ pre] exI [of _ pass] exI [of _ buf] exI [of _ t] exI [of _ post]) simp
qed

theorem session_provenance_witness:
  "\<exists>pre pass buf t post. [E_Login ''admin'' ''secret'' (replicate 32 0) 0] = pre @ E_Login ''admin'' pass buf t # post \<and>
    demo_token = hex_encode buf"
proof -
  have a: "demo_auth = fst (Auth_NewService demo_crypto ''admin'' ''secret'' ''k'' (\<lambda>_. 0))"
    by (simp add: Auth_NewService_def demo_auth_def)
  have "history demo_crypto [E_Login ''admin'' ''secret'' (replicate 32 0) 0] demo_auth = demo_logged_in"
    by (simp add: history_def demo_logged_in_def credentials_ok_def demo_auth_def)
  then have "Validate demo_token (demo_auth_world, history demo_crypto [E_Login ''admin'' ''secret'' (replicate 32 0) 0] demo_auth) =
      (True, (snd (time_now demo_auth_world), demo_logged_in))"
    using demo_token_valid by simp
  from session_provenance [OF a this] show ?thesis by blast
qed

lemma Login_accepts: "snd (fst (Login C user pass (w, a))) \<longleftrightarrow> credentials_ok C user pass a"
  by (simp add: Login_def split: prod.splits)

text \<open>Claim C23. Changing the password logs everybody out: after a successful change no token is valid, the new password logs
  in, and any password with another hash, such as the old one, does not.\<close>

theorem password_change_revokes:
  assumes "ChangePassword C cur new a = (Inr (), a')"
  shows "\<not> fst (Validate token (w, a')) \<and> snd (fst (Login C (au_adminUser a) new (w, a'))) \<and>
    (password_hash C old \<noteq> password_hash C new \<longrightarrow> \<not> snd (fst (Login C user old (w, a'))))"
proof -
  have a': "au_sessions a' = Map.empty" "au_adminPass a' = password_hash C new" "au_adminUser a' = au_adminUser a"
    using assms by (auto simp: ChangePassword_def split: if_splits)
  then show ?thesis by (simp add: Validate_def Login_accepts credentials_ok_def)
qed

theorem password_change_revokes_witness:
  "\<exists>a'. ChangePassword demo_crypto ''secret'' ''changed'' demo_logged_in = (Inr (), a') \<and>
    \<not> fst (Validate demo_token (demo_auth_world, a'))"
proof -
  have "\<exists>a'. ChangePassword demo_crypto ''secret'' ''changed'' demo_logged_in = (Inr (), a')"
    unfolding ChangePassword_def demo_logged_in_fields by simp
  then obtain a' where a: "ChangePassword demo_crypto ''secret'' ''changed'' demo_logged_in = (Inr (), a')" by blast
  show ?thesis using password_change_revokes [OF a] a by blast
qed

text \<open>The middleware answers for the handler unless the path is public or the token of the request is valid: with two
  different handlers the outcome is the same, status 401, and only an expired session is dropped.\<close>

lemma unauthenticated_never_handled:
  assumes "\<not> public_path (rq_Path r)" "Validate (request_token r) wa = (False, wa')"
  shows "Auth_Middleware h r (wa, x) = (WriteError 401 ''unauthorized'', (wa', x)) \<and>
    au_sessions (snd wa') (request_token r) = None \<and>
    (\<forall>t. t \<noteq> request_token r \<longrightarrow> au_sessions (snd wa') t = au_sessions (snd wa) t)"
  using assms
  by (auto simp: Auth_Middleware_def Validate_def drop_session_def time_now_def Let_def split: prod.splits option.splits if_splits)

definition demo_request :: request where
  "demo_request = \<lparr>rq_Method = ''GET'', rq_Path = ''/api/backups'', rq_Cookie = None, rq_Authorization = demo_token\<rparr>"

text \<open>A logout looks at the cookie only: a client that sends its token in the authorization header is told its logout
  succeeded and stays logged in.\<close>

theorem header_logout_ineffective:
  assumes "rq_Cookie r = None" "rq_Authorization r \<noteq> []" "au_sessions a [] = None"
  shows "HandleLogout r (w, a) = ((WriteJSON 200 True, Some ([], - 1)), (w, a)) \<and>
    request_token r = rq_Authorization r"
proof -
  have "drop_session [] a = a" using assms(3) by (simp add: drop_session_def fun_upd_idem)
  then show ?thesis using assms by (simp add: HandleLogout_def Logout_def cookie_token_def request_token_def)
qed

theorem header_logout_ineffective_witness:
  "HandleLogout demo_request (demo_auth_world, demo_logged_in) =
     ((WriteJSON 200 True, Some ([], - 1)), (demo_auth_world, demo_logged_in)) \<and> request_token demo_request = demo_token"
proof -
  have "rq_Cookie demo_request = None" "rq_Authorization demo_request = demo_token" by (simp_all add: demo_request_def)
  moreover have "demo_token \<noteq> []" by (rule demo_token_not_empty)
  moreover have "au_sessions demo_logged_in [] = None"
    unfolding demo_logged_in_fields using demo_token_not_empty by auto
  ultimately show ?thesis using header_logout_ineffective [of demo_request demo_logged_in demo_auth_world] by metis
qed

end
