(* ===== verification/Engines.thy ===== *)
theory Engines
  imports Backup_Verdicts
begin

text \<open>
  The incremental engines, \<open>internal/backup/pgbackrest.go\<close>, \<open>xtrabackup.go\<close> and
  \<open>mariabackup.go\<close>: the configuration they render, the commands they run, the streaming pipeline and the
  parser of the tools' output. The tools and the file system are parameters (\<open>engine_ext\<close>). Messages to
  stdout are not modelled; white space is trimmed as ASCII white space.
\<close>

section \<open>External functions\<close>

record 's engine_ext =
  xe_ext :: "'s ext"
  xe_stream :: "cmd \<Rightarrow> int \<Rightarrow> dump_outcome \<times> string" \<comment> \<open>a streaming tool run at a time: its outcome and its stderr\<close>
  xe_tmp :: string \<comment> \<open>\<open>os.TempDir()\<close>\<close>
  xe_mkdir :: "string \<Rightarrow> gerror option"
  xe_write :: "string \<Rightarrow> string \<Rightarrow> gerror option"

section \<open>pgBackRest\<close>

definition char_range :: "char \<times> char \<Rightarrow> char \<Rightarrow> bool" where
  "char_range r c \<longleftrightarrow> fst r \<le> c \<and> c \<le> snd r"

definition stanza_char :: "char \<Rightarrow> bool" where
  "stanza_char c \<longleftrightarrow>
     char_range (CHR ''a'', CHR ''z'') c \<or> char_range (CHR ''A'', CHR ''Z'') c \<or> char_range (CHR ''0'', CHR ''9'') c \<or>
     c \<in> {CHR ''-'', CHR ''_''}"

fun sanitize_chars :: "string \<Rightarrow> string" where
  "sanitize_chars [] = []"
| "sanitize_chars (c # cs) =
     (if stanza_char c then c # sanitize_chars cs
      else if c = CHR '' '' \<or> c = CHR ''.'' then CHR ''-'' # sanitize_chars cs
      else sanitize_chars cs)"

definition sanitizeStanzaName :: "string \<Rightarrow> string" where
  "sanitizeStanzaName name = (let result = sanitize_chars name in if result = [] then ''default'' else result)"

record pgbr_config =
  pc_Stanza :: string
  pc_Host :: string
  pc_Port :: string
  pc_Database :: string
  pc_User :: string
  pc_Password :: string
  pc_Bucket :: string
  pc_Region :: string
  pc_Endpoint :: string
  pc_AccessKey :: string
  pc_SecretKey :: string
  pc_PathStyle :: string
  pc_BasePath :: string
  pc_RetentionFull :: int
  pc_RetentionDiff :: int
  pc_RetentionArchive :: int

definition unlines :: "string list \<Rightarrow> string" where
  "unlines ls = concat (map (\<lambda>l. l @ nl) ls)"

text \<open>Executing \<open>pgbackrestConfigTemplate\<close>.\<close>

definition render_config :: "pgbr_config \<Rightarrow> string" where
  "render_config p = unlines
     [''['' @ pc_Stanza p @ '']'', ''pg1-host='' @ pc_Host p, ''pg1-port='' @ pc_Port p, ''pg1-database='' @ pc_Database p,
      ''pg1-user='' @ pc_User p, ''pg1-password='' @ pc_Password p, [], ''[global]'', ''repo1-type=s3'',
      ''repo1-s3-bucket='' @ pc_Bucket p, ''repo1-s3-region='' @ pc_Region p, ''repo1-s3-endpoint='' @ pc_Endpoint p,
      ''repo1-s3-key='' @ pc_AccessKey p, ''repo1-s3-key-secret='' @ pc_SecretKey p, ''repo1-s3-uri-style='' @ pc_PathStyle p,
      ''repo1-path=/'' @ pc_BasePath p @ ''/'' @ pc_Stanza p @ ''/'', ''repo1-retention-full='' @ fmt_d (pc_RetentionFull p),
      ''repo1-retention-diff='' @ fmt_d (pc_RetentionDiff p), ''repo1-retention-archive='' @ fmt_d (pc_RetentionArchive p),
      ''process-max=2'', ''compress-type=zst'', ''compress-level=6'']"

definition pgbr_config_of :: "connection \<Rightarrow> provider \<Rightarrow> pgbr_config" where
  "pgbr_config_of conn prov =
     \<lparr>pc_Stanza = sanitizeStanzaName (c_Name conn), pc_Host = c_Host conn, pc_Port = fmt_d (c_Port conn), pc_Database = [],
      pc_User = c_Username conn, pc_Password = c_Password conn, pc_Bucket = p_Bucket prov, pc_Region = p_Region prov,
      pc_Endpoint = p_Endpoint prov, pc_AccessKey = p_AccessKey prov, pc_SecretKey = p_SecretKey prov,
      pc_PathStyle = (if p_PathStyle prov then ''path'' else ''virtual-hosted''),
      pc_BasePath = ''pgbackrest/'' @ c_Name conn, pc_RetentionFull = 2, pc_RetentionDiff = 2, pc_RetentionArchive = 0\<rparr>"

text \<open>\<open>filepath.Join\<close> of components without dots: the empty ones are dropped.\<close>

definition path_join :: "string list \<Rightarrow> string" where
  "path_join ps = (case filter (\<lambda>p. p \<noteq> []) ps of [] \<Rightarrow> [] | q # qs \<Rightarrow> concat (q # map (\<lambda>p. CHR ''/'' # p) qs))"

definition config_dir :: "'s engine_ext \<Rightarrow> incremental_schedule \<Rightarrow> string" where
  "config_dir E sch = path_join [xe_tmp E, ''jagad'', ''pgbackrest'', is_ID sch]"

definition write_file :: "'s engine_ext \<Rightarrow> string \<Rightarrow> string \<Rightarrow> 's world \<Rightarrow> gerror option \<times> 's world" where
  "write_file E path content w =
     (case xe_write E path content of
        Some e \<Rightarrow> (Some e, w) | None \<Rightarrow> (None, w\<lparr>w_files := (w_files w)(path \<mapsto> content)\<rparr>))"

text \<open>A command without input, as \<open>cmd.Run()\<close>.\<close>

definition run_tool :: "'s engine_ext \<Rightarrow> cmd \<Rightarrow> 's world \<Rightarrow> (gerror option \<times> string) \<times> 's world" where
  "run_tool E c w = (x_run (xe_ext E) c [] (w_clock w 0), w\<lparr>w_runs := w_runs w @ [(c, [])]\<rparr>)"

definition pgbr_cmd :: "string \<Rightarrow> string \<Rightarrow> string list \<Rightarrow> cmd" where
  "pgbr_cmd configPath stanza args =
     \<lparr>cmd_name = ''pgbackrest'', cmd_args = [''--config='' @ configPath, ''--stanza='' @ stanza] @ args, cmd_env = []\<rparr>"

definition get_provider :: "'s engine_ext \<Rightarrow> provider_svc \<Rightarrow> string \<Rightarrow> 's world \<Rightarrow> provider res \<times> 's world" where
  "get_provider E svc i w =
     and_then (wrap_err ''get storage provider: '' (GetDecrypted (xe_ext E) svc i w))
       (\<lambda>p w1. case p of None \<Rightarrow> (Inl (''storage provider '' @ i @ '' not found''), w1) | Some p \<Rightarrow> (Inr p, w1))"

text \<open>Both steps of the tool: the result of \<open>stanza-create\<close> is ignored.\<close>

definition pgbr_steps :: "'s engine_ext \<Rightarrow> string \<Rightarrow> string \<Rightarrow> string \<Rightarrow> 's world \<Rightarrow> unit res \<times> 's world" where
  "pgbr_steps E configPath stanza pgbrType w =
     (let (_, w1) = run_tool E (pgbr_cmd configPath stanza [''stanza-create'']) w
      in case run_tool E (pgbr_cmd configPath stanza [''--type='' @ pgbrType, ''backup'']) w1 of
           ((Some e, stderr), w2) \<Rightarrow> (Inl (''pgbackrest backup failed: '' @ e @ nl @ ''stderr: '' @ stderr), w2)
         | ((None, _), w2) \<Rightarrow> (Inr (), w2))"

definition pgbr_runBackup ::
  "'s engine_ext \<Rightarrow> provider_svc \<Rightarrow> incremental_schedule \<Rightarrow> connection \<Rightarrow> string \<Rightarrow> string \<Rightarrow> 's world \<Rightarrow>
   metadata res \<times> 's world" where
  "pgbr_runBackup E svc sch conn backupID pgbrType w =
     and_then (get_provider E svc (is_StorageProviderID sch) w) (\<lambda>prov w1.
       let configDir = config_dir E sch; stanza = sanitizeStanzaName (c_Name conn);
           configPath = path_join [configDir, ''pgbackrest.conf'']
       in case xe_mkdir E configDir of
            Some e \<Rightarrow> (Inl (''create config dir: '' @ e), w1)
          | None \<Rightarrow>
              (case write_file E configPath (render_config (pgbr_config_of conn prov)) w1 of
                 (Some e, w2) \<Rightarrow> (Inl (''write config: '' @ e), w2)
               | (None, w2) \<Rightarrow>
                   and_then (pgbr_steps E configPath stanza pgbrType w2) (\<lambda>_ w3.
                     (Inr [(''engine'', ''pgbackrest''), (''stanza'', stanza), (''type'', pgbrType),
                           (''base_path'', ''pgbackrest/'' @ c_Name conn), (''bucket'', p_Bucket prov), (''config_dir'', configDir),
                           (''backup_id'', backupID), (''provider_id'', is_StorageProviderID sch)], w3))))"

definition PGBackRestEngine :: "'s engine_ext \<Rightarrow> provider_svc \<Rightarrow> 's incremental_engine" where
  "PGBackRestEngine E svc = \<lparr>eng_DBType = ''postgresql'',
     eng_BackupFull = (\<lambda>sch conn i. pgbr_runBackup E svc sch conn i ''full''),
     eng_BackupIncremental = (\<lambda>sch conn i. pgbr_runBackup E svc sch conn i ''incr'')\<rparr>"

section \<open>XtraBackup and Mariabackup\<close>

definition NewS3ClientFromProvider :: "'s ext \<Rightarrow> provider \<Rightarrow> storage_config res" where
  "NewS3ClientFromProvider X prov = NewS3Client X (provider_config prov)"

subsection \<open>The output of the tools\<close>

definition checkpoint_text :: string where "checkpoint_text = ''The latest check point''"

text \<open>The expression \<open>The latest check point[^']*'(\d+)'\<close> at the front of a string.\<close>

definition checkpoint_here :: "string \<Rightarrow> string option" where
  "checkpoint_here s =
     (if has_prefix s checkpoint_text
      then case dropWhile (\<lambda>c. c \<noteq> CHR 0x27) (drop (length checkpoint_text) s) of
             [] \<Rightarrow> None
           | q # r \<Rightarrow> (let ds = takeWhile is_digit r
                       in if ds \<noteq> [] \<and> has_prefix (drop (length ds) r) [CHR 0x27] then Some ds else None)
      else None)"

text \<open>\<open>FindStringSubmatch\<close>: the leftmost match.\<close>

fun find_checkpoint :: "string \<Rightarrow> string option" where
  "find_checkpoint [] = None"
| "find_checkpoint (c # cs) = (case checkpoint_here (c # cs) of Some ds \<Rightarrow> Some ds | None \<Rightarrow> find_checkpoint cs)"

definition is_blank :: "char \<Rightarrow> bool" where
  "is_blank c \<longleftrightarrow> c \<in> {CHR '' '', CHR 0x09, CHR 0x0A, CHR 0x0B, CHR 0x0C, CHR 0x0D}"

definition trim :: "string \<Rightarrow> string" where
  "trim s = rev (dropWhile is_blank (rev (dropWhile is_blank s)))"

fun split_lines :: "string \<Rightarrow> string list" where
  "split_lines [] = [[]]"
| "split_lines (c # cs) =
     (if c = CHR 0x0A then [] # split_lines cs
      else case split_lines cs of [] \<Rightarrow> [[c]] | l # ls \<Rightarrow> (c # l) # ls)"

text \<open>\<open>SplitN(line, "=", 2)\<close> when it has two parts.\<close>

definition split_equals :: "string \<Rightarrow> (string \<times> string) option" where
  "split_equals s = (case dropWhile (\<lambda>c. c \<noteq> CHR ''='') s of
     [] \<Rightarrow> None | e # r \<Rightarrow> Some (takeWhile (\<lambda>c. c \<noteq> CHR ''='') s, r))"

definition parse_line :: "string \<Rightarrow> (string \<rightharpoonup> string) \<Rightarrow> (string \<rightharpoonup> string)" where
  "parse_line line m =
     (case split_equals (trim line) of
        None \<Rightarrow> m
      | Some (k, v) \<Rightarrow> if trim k \<in> {''backup_type'', ''from_lsn'', ''to_lsn''} then m(trim k \<mapsto> trim v) else m)"

text \<open>\<open>m[k]\<close>, the empty string for a missing key.\<close>

definition map_get :: "(string \<rightharpoonup> string) \<Rightarrow> string \<Rightarrow> string" where
  "map_get m k = (case m k of None \<Rightarrow> [] | Some v \<Rightarrow> v)"

definition with_default :: "string \<Rightarrow> string \<Rightarrow> (string \<rightharpoonup> string) \<Rightarrow> (string \<rightharpoonup> string)" where
  "with_default k v m = (if map_get m k = [] then m(k \<mapsto> v) else m)"

definition parseXtraStderr :: "string \<Rightarrow> (string \<rightharpoonup> string)" where
  "parseXtraStderr stderr =
     (let m0 = (case find_checkpoint stderr of None \<Rightarrow> Map.empty | Some lsn \<Rightarrow> [''to_lsn'' \<mapsto> lsn])
      in with_default ''from_lsn'' ''0'' (with_default ''backup_type'' ''full-prepared'' (fold parse_line (split_lines stderr) m0)))"

subsection \<open>The streaming backup\<close>

definition xtra_args :: "connection \<Rightarrow> string \<Rightarrow> string list" where
  "xtra_args conn lastLSN =
     [''--backup'', ''--stream=xbstream'', ''--host='' @ c_Host conn, ''--port='' @ fmt_d (c_Port conn),
      ''--user='' @ c_Username conn, ''--password='' @ c_Password conn, ''--parallel=4''] @
     (if lastLSN \<noteq> [] then [''--incremental-lsn='' @ lastLSN] else [])"

definition stream_key :: "string \<Rightarrow> connection \<Rightarrow> string \<Rightarrow> string \<Rightarrow> string" where
  "stream_key tool conn lastLSN backupID =
     tool @ ''/'' @ c_Name conn @ ''/'' @ (if lastLSN \<noteq> [] then ''incr'' else ''full'') @ ''/'' @ backupID @ ''/'' @ backupID @ ''.tar.gz''"

text \<open>Tool, compressor and upload; the result is the tool's stderr.\<close>

definition stream_backup :: "'s engine_ext \<Rightarrow> string \<Rightarrow> storage_config \<Rightarrow> cmd \<Rightarrow> string \<Rightarrow> 's world \<Rightarrow> string res \<times> 's world" where
  "stream_backup E binary client c key w =
     (case xe_stream E c (w_clock w 0) of
        (out, stderr) \<Rightarrow>
          case do_pipe_err out of
            Some e \<Rightarrow> (Inl (''stdout pipe: '' @ e), w)
          | None \<Rightarrow>
              (case do_start_err out of
                 Some e \<Rightarrow> (Inl (binary @ '' start: '' @ e), w)
               | None \<Rightarrow>
                   (case S3_UploadStream (xe_ext E) client key (concat (x_gzip (xe_ext E) (do_stdout out))) w of
                      (Some e, w1) \<Rightarrow> (Inl (''upload to s3: '' @ e), w1)
                    | (None, w1) \<Rightarrow>
                        (case do_read_err out of
                           Some e \<Rightarrow> (Inl (compress_error e), w1)
                         | None \<Rightarrow>
                             (case do_wait_err out of
                                Some e \<Rightarrow> (Inl (binary @ '' failed: '' @ e @ nl @ ''stderr: '' @ stderr), w1)
                              | None \<Rightarrow> (Inr stderr, w1))))))"

definition stream_metadata :: "string \<Rightarrow> string \<Rightarrow> string \<Rightarrow> connection \<Rightarrow> provider \<Rightarrow> incremental_schedule \<Rightarrow> metadata" where
  "stream_metadata engine stderr key conn prov sch =
     (let lsnMap = parseXtraStderr stderr
      in [(''engine'', engine), (''from_lsn'', map_get lsnMap ''from_lsn''), (''to_lsn'', map_get lsnMap ''to_lsn''),
          (''backup_type'', map_get lsnMap ''backup_type''), (''s3_key'', key), (''bucket'', p_Bucket prov),
          (''conn_name'', c_Name conn), (''provider_id'', is_StorageProviderID sch)])"

definition runXtraBackup ::
  "'s engine_ext \<Rightarrow> provider_svc \<Rightarrow> incremental_schedule \<Rightarrow> connection \<Rightarrow> string \<Rightarrow> string \<Rightarrow> 's world \<Rightarrow> metadata res \<times> 's world" where
  "runXtraBackup E svc sch conn backupID lastLSN w =
     and_then (get_provider E svc (is_StorageProviderID sch) w) (\<lambda>prov w1.
       case NewS3ClientFromProvider (xe_ext E) prov of
         Inl e \<Rightarrow> (Inl (''create s3 client: '' @ e), w1)
       | Inr client \<Rightarrow>
           let key = stream_key ''xtrabackup'' conn lastLSN backupID
           in and_then (stream_backup E ''xtrabackup'' client
                  \<lparr>cmd_name = ''xtrabackup'', cmd_args = xtra_args conn lastLSN, cmd_env = []\<rparr> key w1)
                (\<lambda>stderr w2. (Inr (stream_metadata ''xtrabackup'' stderr key conn prov sch), w2)))"

definition XtraBackupEngine :: "'s engine_ext \<Rightarrow> provider_svc \<Rightarrow> 's incremental_engine" where
  "XtraBackupEngine E svc = \<lparr>eng_DBType = ''mysql'',
     eng_BackupFull = (\<lambda>sch conn i. runXtraBackup E svc sch conn i []),
     eng_BackupIncremental = (\<lambda>sch conn i w.
       (Inl ''xtrabackup incremental requires --incremental-lsn; use runXtraBackup directly with lastLSN'', w))\<rparr>"

definition maria_binary :: "'s ext \<Rightarrow> string res" where
  "maria_binary X =
     (if x_lookpath X ''mariabackup'' then Inr ''mariabackup''
      else if x_lookpath X ''xtrabackup'' then Inr ''xtrabackup''
      else Inl ''neither mariabackup nor xtrabackup found in PATH'')"

definition runMariabackup ::
  "'s engine_ext \<Rightarrow> provider_svc \<Rightarrow> incremental_schedule \<Rightarrow> connection \<Rightarrow> string \<Rightarrow> string \<Rightarrow> 's world \<Rightarrow> metadata res \<times> 's world" where
  "runMariabackup E svc sch conn backupID lastLSN w =
     and_then (get_provider E svc (is_StorageProviderID sch) w) (\<lambda>prov w1.
       case NewS3ClientFromProvider (xe_ext E) prov of
         Inl e \<Rightarrow> (Inl (''create s3 client: '' @ e), w1)
       | Inr client \<Rightarrow>
           (case maria_binary (xe_ext E) of
              Inl e \<Rightarrow> (Inl e, w1)
            | Inr binary \<Rightarrow>
                let key = stream_key ''mariabackup'' conn lastLSN backupID
                in and_then (stream_backup E binary client
                       \<lparr>cmd_name = binary, cmd_args = xtra_args conn lastLSN, cmd_env = []\<rparr> key w1)
                     (\<lambda>stderr w2. (Inr (stream_metadata ''mariabackup'' stderr key conn prov sch @ [(''binary_used'', binary)]), w2))))"

definition MariabackupEngine :: "'s engine_ext \<Rightarrow> provider_svc \<Rightarrow> 's incremental_engine" where
  "MariabackupEngine E svc = \<lparr>eng_DBType = ''mariadb'',
     eng_BackupFull = (\<lambda>sch conn i. runMariabackup E svc sch conn i []),
     eng_BackupIncremental = (\<lambda>sch conn i w.
       (Inl ''mariabackup incremental requires --incremental-lsn; use runMariabackup directly with lastLSN'', w))\<rparr>"

end
