(* ===== verification/Engine_Properties.thy ===== *)
theory Engine_Properties
  imports Engines
begin

text \<open>
  Properties of the incremental engines: the contract the backup service relies on, valid stanza names, the
  shared configuration file of pgBackRest, the objects of the streaming engines and the parser of their output.
\<close>

section \<open>The contract of an incremental engine\<close>

text \<open>What the service relies on: an engine serves one type of database and leaves the tables alone.\<close>

locale incremental_engine_contract =
  fixes e :: "'s incremental_engine" and db_type :: string
  assumes serves: "eng_DBType e = db_type"
    and full_kept: "db_kept w (snd (eng_BackupFull e sch conn i w))"
    and incremental_kept: "db_kept w (snd (eng_BackupIncremental e sch conn i w))"
begin

lemma contract_ok: "engine_ok e"
  by (simp add: engine_ok_def full_kept incremental_kept)

end

lemma db_kept_refl [simp]: "db_kept w w"
  by (simp add: db_kept_def)

lemma db_kept_same: "w_db w' = w_db w \<Longrightarrow> db_kept w w'"
  by (simp add: db_kept_def)

lemma and_then_kept:
  assumes "db_kept w (snd p)" "\<And>x w1. p = (Inr x, w1) \<Longrightarrow> db_kept w w1 \<Longrightarrow> db_kept w (snd (f x w1))"
  shows "db_kept w (snd (and_then p f))"
  using assms by (cases p; cases "fst p") auto

lemma get_provider_kept: "db_kept w (snd (get_provider E svc i w))"
proof -
  have "db_kept w (snd (GetDecrypted (xe_ext E) svc i w))"
    using read_only_fields(1) [OF providers_svc.get_decrypted_reads] providers_svc.get_decrypted_no_faults [of w "xe_ext E" svc i]
    by (auto simp: db_kept_def)
  then show ?thesis
    unfolding get_provider_def by (intro and_then_kept) (auto split: option.splits)
qed

lemma run_tool_db [simp]: "w_db (snd (run_tool E c w)) = w_db w"
  by (simp add: run_tool_def)

lemma write_file_db [simp]: "w_db (snd (write_file E p c w)) = w_db w"
  by (simp add: write_file_def split: option.splits)

lemma run_tool_then_db: "run_tool E c w = (x, w1) \<Longrightarrow> w_db w1 = w_db w"
  by (metis run_tool_db snd_conv)

lemma pgbr_steps_db: "w_db (snd (pgbr_steps E p s t w)) = w_db w"
  by (auto simp: pgbr_steps_def Let_def dest!: run_tool_then_db split: prod.splits option.splits)

lemma pgbr_runBackup_kept: "db_kept w (snd (pgbr_runBackup E svc sch conn i t w))"
  unfolding pgbr_runBackup_def Let_def
proof (rule and_then_kept [OF get_provider_kept])
  fix prov w1 assume k: "db_kept w w1"
  have "db_kept w (snd (and_then (pgbr_steps E p s t w2) (\<lambda>_ w3. (Inr m, w3))))" if "db_kept w w2" for p s w2 and m :: metadata
    using db_kept_trans [OF that db_kept_same [OF pgbr_steps_db]] by (rule and_then_kept) simp
  moreover have "db_kept w w2" if "write_file E p c w1 = (x, w2)" for p c x w2
    using db_kept_trans [OF k db_kept_same] write_file_db [of E p c w1] that by simp
  ultimately show "db_kept w (snd (case xe_mkdir E (config_dir E sch) of
      Some e \<Rightarrow> (Inl (''create config dir: '' @ e), w1)
    | None \<Rightarrow> (case write_file E (path_join [config_dir E sch, ''pgbackrest.conf'']) (render_config (pgbr_config_of conn prov)) w1 of
        (Some e, w2) \<Rightarrow> (Inl (''write config: '' @ e), w2)
      | (None, w2) \<Rightarrow> and_then (pgbr_steps E (path_join [config_dir E sch, ''pgbackrest.conf'']) (sanitizeStanzaName (c_Name conn)) t w2)
          (\<lambda>_ w3. (Inr [(''engine'', ''pgbackrest''), (''stanza'', sanitizeStanzaName (c_Name conn)), (''type'', t),
             (''base_path'', ''pgbackrest/'' @ c_Name conn), (''bucket'', p_Bucket prov), (''config_dir'', config_dir E sch),
             (''backup_id'', i), (''provider_id'', is_StorageProviderID sch)], w3)))))"
    using k by (auto split: option.splits prod.splits)
qed

lemma stream_backup_db: "w_db (snd (stream_backup E b client c key w)) = w_db w"
proof -
  have "w_db w1 = w_db w" if "S3_UploadStream (xe_ext E) client key z w = (x, w1)" for z x w1
    using S3_Upload_fields(1) that by (metis snd_conv)
  then show ?thesis by (auto simp: stream_backup_def split: prod.splits option.splits)
qed

lemma stream_then_kept:
  assumes "db_kept w w1"
  shows "db_kept w (snd (and_then (stream_backup E b client c key w1) (\<lambda>stderr w2. (Inr (m stderr), w2))))"
  using db_kept_trans [OF assms db_kept_same [OF stream_backup_db]] by (rule and_then_kept) simp

lemma runXtraBackup_kept: "db_kept w (snd (runXtraBackup E svc sch conn i lsn w))"
  unfolding runXtraBackup_def Let_def
  by (rule and_then_kept [OF get_provider_kept]) (auto intro: stream_then_kept split: sum.splits)

lemma runMariabackup_kept: "db_kept w (snd (runMariabackup E svc sch conn i lsn w))"
  unfolding runMariabackup_def Let_def
  by (rule and_then_kept [OF get_provider_kept]) (auto intro: stream_then_kept split: sum.splits)

interpretation pgbackrest: incremental_engine_contract "PGBackRestEngine E svc" "''postgresql''"
  by unfold_locales (simp_all add: PGBackRestEngine_def pgbr_runBackup_kept)

interpretation xtrabackup: incremental_engine_contract "XtraBackupEngine E svc" "''mysql''"
  by unfold_locales (simp_all add: XtraBackupEngine_def runXtraBackup_kept)

interpretation mariabackup: incremental_engine_contract "MariabackupEngine E svc" "''mariadb''"
  by unfold_locales (simp_all add: MariabackupEngine_def runMariabackup_kept)

text \<open>The registry \<open>main\<close> builds.\<close>

definition main_registry :: "'s engine_ext \<Rightarrow> provider_svc \<Rightarrow> 's registry" where
  "main_registry E svc =
     Registry_Register (Registry_Register (Registry_Register NewIncrementalEngineRegistry (PGBackRestEngine E svc))
       (XtraBackupEngine E svc)) (MariabackupEngine E svc)"

lemma main_registry_eq:
  "main_registry E svc = [(''postgresql'', PGBackRestEngine E svc), (''mysql'', XtraBackupEngine E svc),
     (''mariadb'', MariabackupEngine E svc)]"
  by (simp add: main_registry_def NewIncrementalEngineRegistry_def pgbackrest.serves xtrabackup.serves mariabackup.serves)

lemma main_registry_ok: "svc_ok (s\<lparr>bs_incrRegistry := Some (main_registry E svc)\<rparr>)"
  by (simp add: svc_ok_def main_registry_eq pgbackrest.contract_ok xtrabackup.contract_ok mariabackup.contract_ok)

section \<open>Strings\<close>

lemma sanitize_chars_valid: "list_all stanza_char (sanitize_chars s)"
  by (induction s) (auto simp: stanza_char_def)

lemma sanitize_chars_id: "list_all stanza_char s \<Longrightarrow> sanitize_chars s = s"
  by (induction s) auto

text \<open>Claim C28. The stanza name of a connection is a valid pgBackRest stanza: it is never empty and has only
  letters, digits, hyphens and underscores, whatever the connection's name; exactly the names that are valid already
  are kept as they are, so sanitizing twice changes nothing.\<close>

theorem stanza_valid:
  "sanitizeStanzaName s \<noteq> [] \<and> list_all stanza_char (sanitizeStanzaName s) \<and>
   (sanitizeStanzaName s = s \<longleftrightarrow> s \<noteq> [] \<and> list_all stanza_char s) \<and>
   sanitizeStanzaName (sanitizeStanzaName s) = sanitizeStanzaName s"
proof -
  have v: "sanitizeStanzaName t \<noteq> [] \<and> list_all stanza_char (sanitizeStanzaName t)" for t
    using sanitize_chars_valid [of t] by (auto simp: sanitizeStanzaName_def Let_def stanza_char_def char_range_def)
  moreover have k: "sanitizeStanzaName t = t" if "t \<noteq> []" "list_all stanza_char t" for t
    using that by (simp add: sanitizeStanzaName_def sanitize_chars_id)
  ultimately show ?thesis by metis
qed

section \<open>The streaming engines\<close>

lemma stream_backup_object:
  assumes "gzip_ok (xe_ext E)" "store_ok (x_store (xe_ext E))"
    and "stream_backup E b client c key w = (Inr stderr, w')"
  shows "\<exists>obj. S3_Download (xe_ext E) client key w' = (obj, None) \<and> x_gunzip_new (xe_ext E) obj = None \<and>
     x_gunzip (xe_ext E) obj = Inr (do_stdout (fst (xe_stream E c (w_clock w 0)))) \<and>
     stderr = snd (xe_stream E c (w_clock w 0))"
proof -
  obtain out err where o: "xe_stream E c (w_clock w 0) = (out, err)" by fastforce
  from assms(3) have u: "S3_UploadStream (xe_ext E) client key (concat (x_gzip (xe_ext E) (do_stdout out))) w = (None, w')"
    and e: "stderr = err"
    by (auto simp: stream_backup_def o split: option.splits prod.splits)
  have "S3_Download (xe_ext E) client key w' = (concat (x_gzip (xe_ext E) (do_stdout out)), None)"
    using S3_Upload_Download(1) [OF assms(2) u] .
  with gzip_okD [OF assms(1)] e show ?thesis by (auto simp: o)
qed

text \<open>What a successful streaming run stands for.\<close>

definition stream_result ::
  "'s engine_ext \<Rightarrow> provider_svc \<Rightarrow> incremental_schedule \<Rightarrow> connection \<Rightarrow> string \<Rightarrow> metadata \<Rightarrow> 's world \<Rightarrow> 's world \<Rightarrow> bool" where
  "stream_result E svc sch conn lsn m w w' \<longleftrightarrow>
     (\<exists>prov client c obj w1 key.
        get_provider E svc (is_StorageProviderID sch) w = (Inr prov, w1) \<and>
        NewS3ClientFromProvider (xe_ext E) prov = Inr client \<and> cmd_args c = xtra_args conn lsn \<and>
        map_of m ''s3_key'' = Some key \<and> S3_Download (xe_ext E) client key w' = (obj, None) \<and>
        x_gunzip_new (xe_ext E) obj = None \<and>
        x_gunzip (xe_ext E) obj = Inr (do_stdout (fst (xe_stream E c (w_clock w1 0)))))"

lemma metadata_key: "map_of (stream_metadata engine stderr key conn prov sch @ rest) ''s3_key'' = Some key"
  by (simp add: stream_metadata_def Let_def)

lemma stream_resultI:
  assumes "gzip_ok (xe_ext E)" "store_ok (x_store (xe_ext E))"
    and "get_provider E svc (is_StorageProviderID sch) w = (Inr prov, w1)" "NewS3ClientFromProvider (xe_ext E) prov = Inr client"
    and "stream_backup E b client \<lparr>cmd_name = b, cmd_args = xtra_args conn lsn, cmd_env = []\<rparr> key w1 = (Inr stderr, w')"
    and "m = stream_metadata engine stderr key conn prov sch @ rest"
  shows "stream_result E svc sch conn lsn m w w'"
proof -
  let ?c = "\<lparr>cmd_name = b, cmd_args = xtra_args conn lsn, cmd_env = []\<rparr>"
  obtain obj where "S3_Download (xe_ext E) client key w' = (obj, None)" "x_gunzip_new (xe_ext E) obj = None"
    "x_gunzip (xe_ext E) obj = Inr (do_stdout (fst (xe_stream E ?c (w_clock w1 0))))"
    using stream_backup_object [OF assms(1,2,5)] by blast
  moreover have "cmd_args ?c = xtra_args conn lsn" by simp
  moreover have "map_of m ''s3_key'' = Some key" unfolding assms(6) by (rule metadata_key)
  ultimately show ?thesis unfolding stream_result_def using assms(3,4) by blast
qed

text \<open>Claim C27. A backup the XtraBackup or the Mariabackup engine reports as successful, full or from a log
  sequence number, is stored under the key of its metadata in the bucket of the schedule's provider: reading the object
  back and decompressing it gives exactly what the tool wrote. It needs no key: the engines never encrypt, whatever
  the schedule's encryption setting is.\<close>

theorem streaming_backup_plain:
  assumes "gzip_ok (xe_ext E)" "store_ok (x_store (xe_ext E))"
    and "runXtraBackup E svc sch conn i lsn w = (Inr m, w') \<or> runMariabackup E svc sch conn i lsn w = (Inr m, w')"
  shows "stream_result E svc sch conn lsn m w w'"
  using assms(3)
proof
  assume r: "runXtraBackup E svc sch conn i lsn w = (Inr m, w')"
  then obtain prov w1 where p: "get_provider E svc (is_StorageProviderID sch) w = (Inr prov, w1)"
    unfolding runXtraBackup_def by (blast dest!: and_then_result)
  with r obtain client where c: "NewS3ClientFromProvider (xe_ext E) prov = Inr client"
    by (auto simp: runXtraBackup_def split: sum.splits)
  with r p show ?thesis
    by (auto simp: runXtraBackup_def Let_def dest!: and_then_result intro!: stream_resultI [OF assms(1,2) p c, where rest = "[]"])
next
  assume r: "runMariabackup E svc sch conn i lsn w = (Inr m, w')"
  then obtain prov w1 where p: "get_provider E svc (is_StorageProviderID sch) w = (Inr prov, w1)"
    unfolding runMariabackup_def by (blast dest!: and_then_result)
  with r obtain client b where c: "NewS3ClientFromProvider (xe_ext E) prov = Inr client" "maria_binary (xe_ext E) = Inr b"
    by (auto simp: runMariabackup_def split: sum.splits)
  with r p show ?thesis
    by (auto simp: runMariabackup_def Let_def dest!: and_then_result intro!: stream_resultI [OF assms(1,2) p c(1)])
qed

definition demo_xe :: "(string \<times> string \<Rightarrow> bytes option) engine_ext" where
  "demo_xe = \<lparr>xe_ext = demo_ext, xe_stream = (\<lambda>c t. (x_dump demo_ext c t, [])), xe_tmp = ''/tmp'',
     xe_mkdir = (\<lambda>_. None), xe_write = (\<lambda>_ _. None)\<rparr>"

definition demo_inc_schedule :: incremental_schedule where
  "demo_inc_schedule = \<lparr>is_ID = [], is_ConnectionID = ''c'', is_DatabaseID = ''d'', is_BackupType = ''incremental'',
     is_StorageProviderID = ''u'', is_EncryptionEnabled = True, is_EncryptionKeyID = []\<rparr>"

lemma demo_get_provider: "get_provider demo_xe [] ''u'' demo_world2 = (Inr (unsealed demo_ext [] (scanProvider demo_provider_row)), demo_world2)"
  using providers_svc.get_decrypted_no_faults [of demo_world2 demo_ext "[]" "''u''"]
  by (simp add: get_provider_def demo_xe_def demo_world2_facts demo_provider_view)

lemma demo_stream: "\<exists>w'. stream_backup demo_xe b client c key demo_world2 = (Inr [], w')"
  by (simp add: stream_backup_def demo_xe_def demo_ext_dump S3_UploadStream_def demo_store_def)

lemma runXtraBackup_ok:
  assumes "get_provider E svc (is_StorageProviderID sch) w = (Inr prov, w1)" "NewS3ClientFromProvider (xe_ext E) prov = Inr client"
    and "\<And>c key. \<exists>w'. stream_backup E ''xtrabackup'' client c key w1 = (Inr stderr, w')"
  shows "\<exists>m w'. runXtraBackup E svc sch conn i lsn w = (Inr m, w')"
proof -
  obtain w' where "stream_backup E ''xtrabackup'' client \<lparr>cmd_name = ''xtrabackup'', cmd_args = xtra_args conn lsn, cmd_env = []\<rparr>
      (stream_key ''xtrabackup'' conn lsn i) w1 = (Inr stderr, w')" using assms(3) by blast
  then show ?thesis by (simp add: runXtraBackup_def Let_def assms(1,2))
qed

theorem streaming_backup_plain_witness:
  "\<exists>m w'. runXtraBackup demo_xe [] demo_inc_schedule demo_connection ''i'' [] demo_world2 = (Inr m, w') \<and>
     stream_result demo_xe [] demo_inc_schedule demo_connection [] m demo_world2 w'"
proof -
  have "xe_ext demo_xe = demo_ext" "is_StorageProviderID demo_inc_schedule = ''u''"
    by (simp_all add: demo_xe_def demo_inc_schedule_def)
  moreover have "NewS3ClientFromProvider demo_ext (unsealed demo_ext [] (scanProvider demo_provider_row)) =
      Inr (provider_config (unsealed demo_ext [] (scanProvider demo_provider_row)))"
    using demo_client by (simp add: NewS3ClientFromProvider_def CreateS3ClientFromProvider_def)
  ultimately have "\<exists>m w'. runXtraBackup demo_xe [] demo_inc_schedule demo_connection ''i'' [] demo_world2 = (Inr m, w')"
    using demo_get_provider runXtraBackup_ok [OF _ _ demo_stream, of "[]" demo_inc_schedule] by simp
  then obtain m w' where r: "runXtraBackup demo_xe [] demo_inc_schedule demo_connection ''i'' [] demo_world2 = (Inr m, w')"
    by blast
  moreover have "stream_result demo_xe [] demo_inc_schedule demo_connection [] m demo_world2 w'"
    by (rule streaming_backup_plain [OF _ _ disjI1 [OF r]]) (simp_all add: demo_xe_def)
  ultimately show ?thesis by blast
qed

section \<open>The output of the tools\<close>

lemma dropWhile_hd: "s \<noteq> [] \<Longrightarrow> \<not> P (hd s) \<Longrightarrow> dropWhile P s = s"
  by (cases s) auto

lemma trim_id: "s \<noteq> [] \<Longrightarrow> \<not> is_blank (hd s) \<Longrightarrow> \<not> is_blank (last s) \<Longrightarrow> trim s = s"
  by (simp add: trim_def dropWhile_hd hd_rev)

lemma split_lines_append: "list_all (\<lambda>c. c \<noteq> CHR 0x0A) l \<Longrightarrow> split_lines (l @ nl @ rest) = l # split_lines rest"
  by (induction l) (auto simp: nl_def)

end
