(* ===== verification/Settings.thy ===== *)
theory Settings
  imports World Http "HOL-Library.Char_ord" "HOL-Library.List_Lexorder"
begin

text \<open>
  \<open>internal/settings/service.go\<close>: the key-value settings, read as a whole and updated as a batch in one
  transaction, and their HTTP handler. The batch is a Go map; its random iteration order is the order of the list.
\<close>

section \<open>The service\<close>

definition GetAll :: "db \<Rightarrow> (string \<rightharpoonup> string) res \<times> db" where
  "GetAll d = wrap_err ''get settings: ''
     (db_query (\<lambda>d. fold (\<lambda>(k, v) m. m(k \<mapsto> v)) (order_asc fst (t_settings d)) Map.empty) d)"

definition allowed_setting :: "string \<Rightarrow> bool" where
  "allowed_setting k \<longleftrightarrow> k \<in> set [''retention_full_default'', ''retention_incr_default'', ''concurrent_backups'',
     ''compression'', ''timezone'', ''notify_on_success'', ''notify_on_failure'']"

text \<open>The loop over the batch, inside the transaction.\<close>

fun set_each :: "(string \<times> string) list \<Rightarrow> db \<Rightarrow> unit res \<times> db" where
  "set_each [] d = (Inr (), d)"
| "set_each ((k, v) # rest) d =
     (if \<not> allowed_setting k then (Inl (''unknown setting: '' @ k), d)
      else case wrap_err (''set '' @ k @ '': '') (db_exec (sql_upsert_setting k v) d) of
             (Inl e, d') \<Rightarrow> (Inl e, d')
           | (Inr _, d') \<Rightarrow> set_each rest d')"

text \<open>\<open>Begin\<close>, \<open>Prepare\<close> and \<open>Commit\<close> are statements of their own; the deferred \<open>Rollback\<close> gives the
  tables of \<open>Begin\<close> back unless the commit succeeded.\<close>

definition UpdateBatch :: "(string \<times> string) list \<Rightarrow> db \<Rightarrow> unit res \<times> db" where
  "UpdateBatch settings d =
     (case db_try d of
        (Some e, d1) \<Rightarrow> (Inl (''begin tx: '' @ e), d1)
      | (None, d1) \<Rightarrow>
          (case db_try d1 of
             (Some e, d2) \<Rightarrow> (Inl (''prepare: '' @ e), d2)
           | (None, d2) \<Rightarrow>
               (case set_each settings d2 of
                  (Inl e, d3) \<Rightarrow> (Inl e, d2\<lparr>faults := faults d3\<rparr>)
                | (Inr _, d3) \<Rightarrow>
                    (case db_try d3 of
                       (Some e, d4) \<Rightarrow> (Inl e, d2\<lparr>faults := faults d4\<rparr>)
                     | (None, d4) \<Rightarrow> (Inr (), d4)))))"

section \<open>The handler\<close>

definition Settings_handleGet :: "string \<Rightarrow> 's world \<Rightarrow> (string \<rightharpoonup> string) response \<times> 's world" where
  "Settings_handleGet version w =
     (case on_db GetAll w of
        (Inl e, w1) \<Rightarrow> (WriteError 500 e, w1)
      | (Inr settings, w1) \<Rightarrow> (WriteJSON 200 (settings(''version'' \<mapsto> version)), w1))"

definition Settings_handleUpdate :: "(string \<times> string) list option \<Rightarrow> 's world \<Rightarrow> (string \<rightharpoonup> string) response \<times> 's world" where
  "Settings_handleUpdate = with_body ''invalid request'' (\<lambda>req w.
     case on_db (UpdateBatch req) w of
       (Inl e, w1) \<Rightarrow> (WriteError (if contains e ''unknown setting'' then 400 else 500) e, w1)
     | (Inr _, w1) \<Rightarrow> respond 200 500 (on_db GetAll w1))"

section \<open>Lemmas\<close>

abbreviation settings_of :: "db \<Rightarrow> string \<rightharpoonup> string" where
  "settings_of d \<equiv> map_of (t_settings d)"

lemma upsert_settings_of:
  assumes "sql_upsert_setting k v d = Inr d'"
  shows "settings_of d' = (settings_of d)(k \<mapsto> v)" and "t_settings_update f d' = t_settings_update (\<lambda>_. f (t_settings d')) d"
  using assms by (auto simp: sql_upsert_setting_def update_conv')

text \<open>Two states that differ in the settings only, and in the fault script.\<close>

definition same_but_settings :: "db \<Rightarrow> db \<Rightarrow> bool" where
  "same_but_settings d d' \<longleftrightarrow> d\<lparr>faults := [], t_settings := []\<rparr> = d'\<lparr>faults := [], t_settings := []\<rparr>"

lemma same_but_settings_trans: "same_but_settings a b \<Longrightarrow> same_but_settings b c \<Longrightarrow> same_but_settings a c"
  by (simp add: same_but_settings_def)

lemma same_but_settings_meet: "same_but_settings d a \<Longrightarrow> same_but_settings d b \<Longrightarrow> same_but_settings a b"
  by (simp add: same_but_settings_def)

lemma same_tables_but: "same_tables d d' \<Longrightarrow> same_but_settings d d'"
proof -
  assume "same_tables d d'"
  then have "(d'\<lparr>faults := []\<rparr>)\<lparr>t_settings := []\<rparr> = (d\<lparr>faults := []\<rparr>)\<lparr>t_settings := []\<rparr>"
    unfolding same_tables_def by (rule arg_cong)
  then show ?thesis by (simp add: same_but_settings_def)
qed

lemma exec_setting:
  assumes "db_exec (sql_upsert_setting k v) d = (Inr u, d')"
  shows "settings_of d' = (settings_of d)(k \<mapsto> v)" "same_but_settings d d'" "db_wf d \<Longrightarrow> db_wf d'"
proof -
  obtain d1 where d1: "same_tables d d1" "sql_upsert_setting k v d1 = Inr d'" using db_exec_ok [OF assms] .
  show "settings_of d' = (settings_of d)(k \<mapsto> v)"
    using upsert_settings_of(1) [OF d1(2)] same_tables_fields(8) [OF d1(1)] by simp
  have "same_but_settings d1 d'" using d1(2) by (auto simp: same_but_settings_def sql_upsert_setting_def)
  then show "same_but_settings d d'" using same_tables_but [OF d1(1)] same_but_settings_trans by blast
  show "db_wf d \<Longrightarrow> db_wf d'" using d1 db_wf_same wf_upsert_setting by blast
qed

text \<open>The whole batch: every key was allowed and every pair has been set.\<close>

lemma set_each_ok:
  assumes "set_each kvs d = (Inr u, d')" "distinct (map fst kvs)"
  shows "list_all (\<lambda>kv. allowed_setting (fst kv)) kvs \<and> settings_of d' = settings_of d ++ map_of kvs \<and>
    same_but_settings d d' \<and> (db_wf d \<longrightarrow> db_wf d')"
  using assms
proof (induction kvs arbitrary: d)
  case Nil
  then show ?case by (simp add: same_tables_but)
next
  case (Cons kv rest)
  obtain k v where kv: "kv = (k, v)" by fastforce
  obtain u1 d1 where x: "allowed_setting k" "db_exec (sql_upsert_setting k v) d = (Inr u1, d1)" "set_each rest d1 = (Inr u, d')"
    using Cons(2) by (auto simp: kv dest: wrap_err_result split: if_splits prod.splits sum.splits)
  have "map_of rest k = None" using Cons(3) by (simp add: map_of_eq_None_iff kv)
  then have "(settings_of d)(k \<mapsto> v) ++ map_of rest = settings_of d ++ map_of (kv # rest)"
    by (auto simp: kv fun_eq_iff map_add_def split: option.splits)
  moreover have d: "distinct (map fst rest)" using Cons(3) by (simp add: kv)
  ultimately have "settings_of d' = settings_of d ++ map_of (kv # rest)"
    using Cons(1) [OF x(3) d] exec_setting(1) [OF x(2)] by (simp only:)
  with Cons(1) [OF x(3) d] exec_setting(2,3) [OF x(2)] x(1) same_but_settings_trans show ?case
    by (auto simp: kv simp del: map_of.simps)
qed

lemma set_each_no_faults: "faults d = [] \<Longrightarrow> list_all (\<lambda>kv. allowed_setting (fst kv)) kvs \<Longrightarrow>
   is_ok (fst (set_each kvs d)) \<and> faults (snd (set_each kvs d)) = []"
  by (induction kvs d rule: set_each.induct) (auto simp: sql_upsert_setting_def)

lemma fold_upd: "fold (\<lambda>(k, v) m. m(k \<mapsto> v)) kvs m = m ++ map_of (rev kvs)"
  by (induction kvs arbitrary: m) auto

lemma fold_settings:
  assumes "distinct (map fst kvs)"
  shows "fold (\<lambda>(k, v) m. m(k \<mapsto> v)) (order_asc fst kvs) Map.empty = map_of kvs"
proof -
  have "distinct (map fst (rev (order_asc fst kvs)))"
    using distinct_order_asc [OF assms] by (simp add: rev_map [symmetric] del: set_map)
  then have "map_of (rev (order_asc fst kvs)) = map_of kvs" using map_of_inject_set [OF _ assms] by simp
  then show ?thesis by (simp add: fold_upd)
qed

lemma GetAll_no_faults: "faults d = [] \<Longrightarrow> distinct (map fst (t_settings d)) \<Longrightarrow> GetAll d = (Inr (settings_of d), d)"
  by (simp add: GetAll_def fold_settings)

lemma UpdateBatch_result:
  assumes "distinct (map fst kvs)" "UpdateBatch kvs d = (r, d')"
  shows "(case r of
       Inl e \<Rightarrow> same_tables d d'
     | Inr _ \<Rightarrow> dom (map_of kvs) \<subseteq> Collect allowed_setting \<and> settings_of d' = settings_of d ++ map_of kvs \<and>
         same_but_settings d d' \<and> (db_wf d \<longrightarrow> db_wf d')) \<and>
   (faults d = [] \<longrightarrow> is_ok r = (dom (map_of kvs) \<subseteq> Collect allowed_setting))"
proof -
  obtain f1 d1 where d1: "db_try d = (f1, d1)" "same_tables d d1" using db_try_tables by (metis surj_pair)
  obtain f2 d2 where d2: "db_try d1 = (f2, d2)" "same_tables d1 d2" using db_try_tables by (metis surj_pair)
  obtain q d3 where d3: "set_each kvs d2 = (q, d3)" by fastforce
  obtain f4 d4 where d4: "db_try d3 = (f4, d4)" "same_tables d3 d4" using db_try_tables by (metis surj_pair)
  have same2: "same_tables d d2" using d1(2) d2(2) same_tables_trans by blast
  then have restored: "same_tables d (d2\<lparr>faults := fs\<rparr>)" for fs using same_tables_faults same_tables_trans by blast
  have dom: "dom (map_of kvs) \<subseteq> Collect allowed_setting \<longleftrightarrow> list_all (\<lambda>kv. allowed_setting (fst kv)) kvs"
    by (auto simp: dom_map_of_conv_image_fst list_all_iff)
  have first: "case r of Inl e \<Rightarrow> same_tables d d' | Inr _ \<Rightarrow> list_all (\<lambda>kv. allowed_setting (fst kv)) kvs \<and>
      settings_of d' = settings_of d ++ map_of kvs \<and> same_but_settings d d' \<and> (db_wf d \<longrightarrow> db_wf d')"
  proof (cases r)
    case (Inl e)
    with assms(2) show ?thesis
      using d1 d2 d3 d4 same2 restored by (auto simp: UpdateBatch_def split: option.splits sum.splits)
  next
    case (Inr u)
    then obtain v where "q = Inr v" "d' = d4"
      using assms(2) d1(1) d2(1) d3 d4(1) by (auto simp: UpdateBatch_def split: option.splits sum.splits)
    with d3 have ok: "list_all (\<lambda>kv. allowed_setting (fst kv)) kvs" "settings_of d3 = settings_of d2 ++ map_of kvs"
      "same_but_settings d2 d3" "db_wf d2 \<longrightarrow> db_wf d3" using set_each_ok [of kvs d2 v d3] assms(1) by simp_all
    have "same_but_settings d d3" using same_but_settings_trans [OF same_tables_but [OF same2] ok(3)] .
    then have "same_but_settings d d4" using same_tables_but [OF d4(2)] by (rule same_but_settings_trans)
    moreover have "settings_of d4 = settings_of d ++ map_of kvs"
      using ok(2) same_tables_fields(8) [OF same2] same_tables_fields(8) [OF d4(2)] by simp
    moreover have "db_wf d \<longrightarrow> db_wf d4" using ok(4) db_wf_same [OF same2] db_wf_same [OF d4(2)] by simp
    ultimately show ?thesis using ok(1) Inr \<open>d' = d4\<close> by simp
  qed
  moreover have "is_ok r = list_all (\<lambda>kv. allowed_setting (fst kv)) kvs" if "faults d = []"
  proof
    show "is_ok r \<Longrightarrow> list_all (\<lambda>kv. allowed_setting (fst kv)) kvs" using first by (cases r) simp_all
    assume "list_all (\<lambda>kv. allowed_setting (fst kv)) kvs"
    from set_each_no_faults [OF that this] assms(2) that show "is_ok r"
      by (auto simp: UpdateBatch_def split: prod.splits sum.splits)
  qed
  ultimately show ?thesis unfolding dom by blast
qed

section \<open>Properties\<close>

text \<open>Claim C30. A batch of settings is applied as a whole or not at all, and the random order in which Go iterates
  over it does not matter: whatever statement fails, the tables are either unchanged, with an error, or all keys of
  the batch are allowed and the settings are the old ones overridden by the batch, nothing else being touched; and when
  no statement fails, success depends only on whether every key is allowed. Two orders of the same batch succeed
  or fail together and leave the same settings.\<close>

theorem settings_batch:
  assumes "distinct (map fst kvs)" "UpdateBatch kvs d = (r, d')"
    and "distinct (map fst kvs')" "set kvs' = set kvs" "UpdateBatch kvs' d = (r', d'')"
  shows "(case r of
       Inl e \<Rightarrow> same_tables d d'
     | Inr _ \<Rightarrow> dom (map_of kvs) \<subseteq> Collect allowed_setting \<and> settings_of d' = settings_of d ++ map_of kvs \<and>
         same_but_settings d d' \<and> (db_wf d \<longrightarrow> db_wf d')) \<and>
    (faults d = [] \<longrightarrow> is_ok r = (dom (map_of kvs) \<subseteq> Collect allowed_setting) \<and> is_ok r' = is_ok r \<and>
       settings_of d'' = settings_of d' \<and> same_but_settings d' d'')"
proof -
  note one = UpdateBatch_result [OF assms(1,2)] and two = UpdateBatch_result [OF assms(3,5)]
  have m: "map_of kvs' = map_of kvs" using map_of_inject_set [OF assms(3,1)] assms(4) by simp
  have "is_ok r' = is_ok r \<and> settings_of d'' = settings_of d' \<and> same_but_settings d' d''" if "faults d = []"
  proof
    show ok: "is_ok r' = is_ok r" using one two that by (simp add: m)
    show "settings_of d'' = settings_of d' \<and> same_but_settings d' d''"
    proof (cases r)
      case (Inl e)
      with ok obtain e' where r': "r' = Inl e'" by (cases r') auto
      have same: "same_tables d d'" "same_tables d d''" using one two Inl r' by simp_all
      with same_but_settings_meet [OF same [THEN same_tables_but]] show ?thesis by (simp add: same_tables_fields(8))
    next
      case (Inr u)
      with ok obtain u' where r': "r' = Inr u'" by (cases r') auto
      have "settings_of d'' = settings_of d'" "same_but_settings d d'" "same_but_settings d d''" using one two Inr r' m by simp_all
      with same_but_settings_meet show ?thesis by blast
    qed
  qed
  with one show ?thesis by blast
qed

theorem settings_batch_witness:
  "let (r, d') = UpdateBatch [(''timezone'', ''Asia/Jakarta''), (''compression'', ''zstd'')] (seed_settings empty_db)
   in is_ok r \<and> settings_of d' ''timezone'' = Some ''Asia/Jakarta'' \<and> settings_of d' ''concurrent_backups'' = Some ''2''"
proof -
  let ?batch = "[(''timezone'', ''Asia/Jakarta''), (''compression'', ''zstd'')]"
  obtain r d' where u: "UpdateBatch ?batch (seed_settings empty_db) = (r, d')" by fastforce
  have "distinct (map fst ?batch)" by simp
  from settings_batch [OF this u this refl u] have "is_ok r \<and> settings_of d' = settings_of (seed_settings empty_db) ++ map_of ?batch"
    by (cases r) (auto simp: seed_settings_def empty_db_def allowed_setting_def)
  then show ?thesis by (simp add: u) (simp add: seed_settings_def empty_db_def default_settings_def)
qed

end
