(* ===== verification/Backup_Jobs.thy ===== *)
theory Backup_Jobs
  imports Backup_Upkeep
begin

text \<open>
  The goroutines of the backup service and the semaphore they share (\<open>StartBackup\<close>, \<open>runBackup\<close>).
  A started job waits for one of the slots, holds it while it runs and gives it back when it ends; any waiting job may
  get a free slot and any running job may be the next to end. The work of a job is one step of the world, taken when the
  job ends.
\<close>

section \<open>Work behind a semaphore\<close>

record ('j, 'w) pool =
  po_waiting :: "'j list"
  po_running :: "'j list"
  po_world :: 'w

inductive pool_step :: "nat \<Rightarrow> ('j \<Rightarrow> 'w \<Rightarrow> 'w) \<Rightarrow> ('j, 'w) pool \<Rightarrow> ('j, 'w) pool \<Rightarrow> bool" for limit body where
  acquire: "length running < limit \<Longrightarrow> pool_step limit body
     \<lparr>po_waiting = xs @ j # ys, po_running = running, po_world = w\<rparr>
     \<lparr>po_waiting = xs @ ys, po_running = running @ [j], po_world = w\<rparr>"
| release: "pool_step limit body
     \<lparr>po_waiting = waiting, po_running = xs @ j # ys, po_world = w\<rparr>
     \<lparr>po_waiting = waiting, po_running = xs @ ys, po_world = body j w\<rparr>"

definition pool_jobs :: "('j, 'w) pool \<Rightarrow> 'j list" where
  "pool_jobs st = po_waiting st @ po_running st"

text \<open>The steps a pool still has to take.\<close>

definition pool_work :: "('j, 'w) pool \<Rightarrow> nat" where
  "pool_work st = 2 * length (po_waiting st) + length (po_running st)"

lemma pool_step_work: "pool_step limit body st st' \<Longrightarrow> Suc (pool_work st') = pool_work st"
  by (induction rule: pool_step.induct) (simp_all add: pool_work_def)

lemma pool_progress:
  assumes "0 < limit" "pool_work st > 0"
  shows "\<exists>st'. pool_step limit body st st'"
proof (cases st)
  case (fields waiting running w)
  show ?thesis
  proof (cases running)
    case Nil
    with assms fields obtain j ys where "waiting = j # ys" by (cases waiting) (auto simp: pool_work_def)
    with fields Nil assms(1) acquire [of running limit body "[]" j ys w] show ?thesis by auto
  next
    case (Cons j ys)
    with fields release [of limit body waiting "[]" j ys w] show ?thesis by auto
  qed
qed

lemma pool_bounded:
  "pool_step limit body st st' \<Longrightarrow> length (po_running st) \<le> limit \<Longrightarrow> length (po_running st') \<le> limit"
  by (induction rule: pool_step.induct) simp_all

text \<open>What the pool needs of the work: it keeps an invariant of the world, ends its own job, and leaves the other jobs
  and those that have ended alone.\<close>

locale pooled_work =
  fixes body :: "'j \<Rightarrow> 'w \<Rightarrow> 'w" and key :: "'j \<Rightarrow> string" and inv :: "'w \<Rightarrow> bool"
    and recorded :: "'j \<Rightarrow> 'w \<Rightarrow> bool" and ended :: "'j \<Rightarrow> 'w \<Rightarrow> bool"
  assumes body_inv: "inv w \<Longrightarrow> recorded j w \<Longrightarrow> inv (body j w)"
    and body_ends: "inv w \<Longrightarrow> recorded j w \<Longrightarrow> ended j (body j w)"
    and body_frame: "inv w \<Longrightarrow> recorded j w \<Longrightarrow> key i \<noteq> key j \<Longrightarrow> recorded i w \<Longrightarrow> recorded i (body j w)"
    and ended_frame: "inv w \<Longrightarrow> recorded j w \<Longrightarrow> key i \<noteq> key j \<Longrightarrow> ended i w \<Longrightarrow> ended i (body j w)"
begin

definition pool_ok :: "('j, 'w) pool \<Rightarrow> bool" where
  "pool_ok st \<longleftrightarrow> inv (po_world st) \<and> distinct (map key (pool_jobs st)) \<and> (\<forall>j \<in> set (pool_jobs st). recorded j (po_world st))"

lemma step_ok:
  assumes "pool_step limit body st st'" "pool_ok st"
  shows "pool_ok st' \<and> set (pool_jobs st') \<subseteq> set (pool_jobs st) \<and>
    (\<forall>j \<in> set (pool_jobs st). j \<in> set (pool_jobs st') \<or> ended j (po_world st')) \<and>
    (\<forall>j. ended j (po_world st) \<longrightarrow> key j \<notin> key ` set (pool_jobs st) \<longrightarrow> ended j (po_world st'))"
  using assms
proof (induction rule: pool_step.induct)
  case (acquire running xs j ys w)
  then show ?case by (auto simp: pool_ok_def pool_jobs_def)
next
  case (release waiting xs j ys w)
  then have j: "inv w" "recorded j w" and rec: "\<forall>i \<in> set (waiting @ xs @ ys). recorded i w"
    and "key j \<notin> key ` set (waiting @ xs @ ys)"
    by (auto simp: pool_ok_def pool_jobs_def)
  then have others: "\<forall>i \<in> set (waiting @ xs @ ys). recorded i w \<and> key i \<noteq> key j" by (metis imageI)
  have "\<forall>i \<in> set (waiting @ xs @ ys). recorded i (body j w)"
    using others body_frame [OF j] by blast
  with release j others body_inv [OF j] body_ends [OF j] ended_frame [OF j] show ?case
    by (auto simp: pool_ok_def pool_jobs_def)
qed

lemma steps_end:
  assumes "(pool_step limit body ^^ n) st st'" "pool_ok st"
  shows "pool_ok st' \<and> n + pool_work st' = pool_work st \<and> set (pool_jobs st') \<subseteq> set (pool_jobs st) \<and>
    (\<forall>j \<in> set (pool_jobs st). j \<in> set (pool_jobs st') \<or> ended j (po_world st'))"
  using assms(1)
proof (induction n arbitrary: st')
  case 0
  then show ?case using assms(2) by simp
next
  case (Suc n)
  then obtain st1 where s: "(pool_step limit body ^^ n) st st1" "pool_step limit body st1 st'" by auto
  note one = Suc.IH [OF s(1)] and two = step_ok [OF s(2)]
  have "j \<in> set (pool_jobs st') \<or> ended j (po_world st')" if j: "j \<in> set (pool_jobs st)" for j
  proof (cases "j \<in> set (pool_jobs st1)")
    case True
    with one two show ?thesis by blast
  next
    case False
    have "inj_on key (set (pool_jobs st))" using assms(2) by (simp add: pool_ok_def distinct_map)
    with one j False have "key j \<notin> key ` set (pool_jobs st1)" by (auto dest: inj_onD)
    with one two j False show ?thesis by blast
  qed
  with one two pool_step_work [OF s(2)] show ?case by auto
qed

end

section \<open>The jobs of the backup service\<close>

definition run_job :: "'s ext \<Rightarrow> 's backup_svc \<Rightarrow> job \<Rightarrow> 's world \<Rightarrow> 's world" where
  "run_job X s j w = snd (runBackup X s j w)"

definition job_id :: "job \<Rightarrow> string" where "job_id j = b_ID (j_backup j)"

text \<open>A job has ended: its row is success or failed.\<close>

definition job_ended :: "job \<Rightarrow> 's world \<Rightarrow> bool" where
  "job_ended j w \<longleftrightarrow>
     (\<exists>r. row_find br_id (job_id j) (t_backups (w_db w)) = Some r \<and> br_status r \<in> {''success'', ''failed''})"

text \<open>Starting jobs, running them, and anything else that keeps the schema (requests to the other services).\<close>

inductive jobs_reach :: "'s ext \<Rightarrow> 's backup_svc \<Rightarrow> (job, 's world) pool \<Rightarrow> bool" for X s where
  boot: "db_wf (w_db w) \<Longrightarrow> jobs_reach X s \<lparr>po_waiting = [], po_running = [], po_world = w\<rparr>"
| started: "jobs_reach X s st \<Longrightarrow> StartBackup cid did bt sid pid targets nos nof (po_world st) = (Inr (b, j), w') \<Longrightarrow>
     jobs_reach X s (st\<lparr>po_waiting := po_waiting st @ [j], po_world := w'\<rparr>)"
| refused: "jobs_reach X s st \<Longrightarrow> StartBackup cid did bt sid pid targets nos nof (po_world st) = (Inl e, w') \<Longrightarrow>
     jobs_reach X s (st\<lparr>po_world := w'\<rparr>)"
| worked: "jobs_reach X s st \<Longrightarrow> pool_step semaphore_size (run_job X s) st st' \<Longrightarrow> jobs_reach X s st'"
| elsewhere: "jobs_reach X s st \<Longrightarrow> db_wf (w_db w') \<Longrightarrow> jobs_reach X s (st\<lparr>po_world := w'\<rparr>)"

lemma StartBackup_wf': "StartBackup cid did bt sid pid targets nos nof w = (x, w') \<Longrightarrow> db_wf (w_db w) \<Longrightarrow> db_wf (w_db w')"
  using StartBackup_wf by (metis snd_conv)

lemma run_job_wf: "svc_ok s \<Longrightarrow> db_wf (w_db w) \<Longrightarrow> db_wf (w_db (run_job X s j w))"
  unfolding run_job_def by (rule runBackup_wf)

lemma pool_step_wf:
  "pool_step limit (run_job X s) st st' \<Longrightarrow> svc_ok s \<Longrightarrow> db_wf (w_db (po_world st)) \<Longrightarrow> db_wf (w_db (po_world st'))"
  by (induction rule: pool_step.induct) (simp_all add: run_job_wf)

text \<open>At most three backups run at any time, however requests, runs and other operations interleave, the schema
  invariant holds throughout, and no job is ever stuck: whenever a job is waiting or running, some job can take a step.\<close>

theorem at_most_three_run:
  assumes "jobs_reach X s st" "svc_ok s"
  shows "length (po_running st) \<le> 3 \<and> db_wf (w_db (po_world st)) \<and>
    (pool_jobs st \<noteq> [] \<longrightarrow> (\<exists>st'. pool_step semaphore_size (run_job X s) st st'))"
proof -
  have "length (po_running st) \<le> semaphore_size \<and> db_wf (w_db (po_world st))"
    using assms
  proof (induction rule: jobs_reach.induct)
    case (worked st st')
    then show ?case using pool_bounded [OF worked(2)] pool_step_wf [OF worked(2)] by blast
  qed (auto dest: StartBackup_wf')
  moreover have "pool_jobs st \<noteq> [] \<Longrightarrow> pool_work st > 0" by (auto simp: pool_jobs_def pool_work_def)
  ultimately show ?thesis
    using pool_progress [of semaphore_size st "run_job X s"] by (auto simp: semaphore_size_def)
qed

lemma BackupRepo_Update_providers: "t_providers (snd (BackupRepo_Update b d)) = t_providers d"
  using db_try_tables [of d]
  by (auto simp: BackupRepo_Update_def db_exec_def sql_update_backup_def sql_update_def same_tables_fields
      split: prod.splits option.splits sum.splits)

interpretation backup_work: pooled_work "run_job X s" job_id "\<lambda>w. svc_ok s \<and> db_wf (w_db w) \<and> faults (w_db w) = []"
    "\<lambda>j w. job_recorded j (w_db w)" job_ended for X s
proof (unfold_locales, goal_cases)
  case (1 w j)
  obtain b' w' where r: "runBackup X s j w = (b', w')" by fastforce
  with 1 runBackup_ends [OF r] ends_run_faults ends_run_wf show ?case by (simp add: run_job_def)
next
  case (2 w j)
  obtain b' w' where r: "runBackup X s j w = (b', w')" by fastforce
  have e: "ends_run (j_backup j) (w_db w) b' (w_db w')" using runBackup_ends [OF r] 2 by blast
  have "b_Status b' \<in> {''success'', ''failed''}" using e unfolding ends_run_def by blast
  with ends_run_row(1) [OF e] 2 r show ?case by (auto simp: run_job_def job_ended_def job_id_def set_backup_def)
next
  case (3 w j i)
  obtain b' w' where r: "runBackup X s j w = (b', w')" by fastforce
  have e: "ends_run (j_backup j) (w_db w) b' (w_db w')" using runBackup_ends [OF r] 3 by blast
  have "t_providers (w_db w') = t_providers (w_db w)"
    using e BackupRepo_Update_providers unfolding ends_run_def by (metis same_tables_fields(3))
  with ends_run_row(2) [OF e] 3 r show ?case by (simp add: run_job_def job_recorded_def job_id_def has_row_find)
next
  case (4 w j i)
  obtain b' w' where r: "runBackup X s j w = (b', w')" by fastforce
  have e: "ends_run (j_backup j) (w_db w) b' (w_db w')" using runBackup_ends [OF r] 4 by blast
  with ends_run_row(2) [OF e] 4 r show ?case by (simp add: run_job_def job_ended_def job_id_def)
qed


text \<open>The concrete job, waiting.\<close>

definition demo_pool :: "(job, (string \<times> string \<Rightarrow> bytes option) world) pool" where
  "demo_pool = \<lparr>po_waiting = [demo_job], po_running = [], po_world = demo_world2\<rparr>"

lemma demo_job_recorded: "job_recorded demo_job (w_db demo_world2)"
  by (simp add: job_recorded_def demo_world2_facts demo_db_def demo_job_def has_row_def backup_columns_def demo_backup_def
      new_backup_def zero_backup_def ref_ok_def demo_provider_row_def)

theorem at_most_three_run_witness:
  "length (po_running \<lparr>po_waiting = [] :: job list, po_running = [], po_world = demo_world2\<rparr>) \<le> 3"
proof -
  have "jobs_reach demo_ext demo_svc \<lparr>po_waiting = [], po_running = [], po_world = demo_world2\<rparr>"
    by (rule jobs_reach.boot) (simp add: demo_world2_facts demo_db_wf)
  from at_most_three_run [OF this demo_world2_facts(3)] show ?thesis by blast
qed


end
