(* ===== verification/Connections.thy ===== *)
theory Connections
  imports Repo_Catalog World Http
begin

text \<open>
  \<open>internal/connection\<close>: the connection service, the data source names and the discovery of databases on the
  source servers, and the HTTP handler with its live health check. The drivers \<open>pgx\<close> and \<open>mysql\<close> are parameters
  (\<open>source_ext\<close>): opening, pinging and querying a data source at a time.
\<close>

section \<open>Source databases\<close>

text \<open>A query gives an error, or its rows one by one, each scanned or not.\<close>

record source_ext =
  sx_open :: "string \<Rightarrow> string \<Rightarrow> gerror option"
  sx_ping :: "string \<Rightarrow> string \<Rightarrow> int \<Rightarrow> gerror option"
  sx_names :: "string \<Rightarrow> string \<Rightarrow> string \<Rightarrow> int \<Rightarrow> string res list res"
  sx_count :: "string \<Rightarrow> string \<Rightarrow> string \<Rightarrow> int \<Rightarrow> int res"

definition mapMySQLTLS :: "string \<Rightarrow> string" where
  "mapMySQLTLS mode =
     (if mode \<in> {''disable'', ''allow''} then ''false''
      else if mode \<in> {''prefer'', ''require'', ''verify-ca'', ''verify-full''} then ''skip-verify''
      else ''skip-verify'')"

definition pg_dsn :: "connection \<Rightarrow> string" where
  "pg_dsn conn = ''host='' @ c_Host conn @ '' port='' @ fmt_d (c_Port conn) @ '' user='' @ c_Username conn @
     '' password='' @ c_Password conn @ '' dbname=postgres sslmode='' @ c_SSLMode conn @ '' connect_timeout=5''"

text \<open>The MySQL name with a given TLS mode and further parameters.\<close>

definition mysql_dsn :: "string \<Rightarrow> string \<Rightarrow> connection \<Rightarrow> string" where
  "mysql_dsn tls params conn = c_Username conn @ '':'' @ c_Password conn @ ''@tcp('' @ c_Host conn @ '':'' @ fmt_d (c_Port conn) @
     '')/?tls='' @ tls @ ''&timeout=5s'' @ params"

definition open_and_ping :: "source_ext \<Rightarrow> string \<Rightarrow> string \<Rightarrow> int \<Rightarrow> gerror option" where
  "open_and_ping S driver dsn now = (case sx_open S driver dsn of Some e \<Rightarrow> Some e | None \<Rightarrow> sx_ping S driver dsn now)"

definition testPostgreSQL :: "source_ext \<Rightarrow> connection \<Rightarrow> int \<Rightarrow> gerror option" where
  "testPostgreSQL S conn now = open_and_ping S ''pgx'' (pg_dsn conn) now"

definition testMySQL :: "source_ext \<Rightarrow> connection \<Rightarrow> int \<Rightarrow> gerror option" where
  "testMySQL S conn now = open_and_ping S ''mysql'' (mysql_dsn (mapMySQLTLS (c_SSLMode conn)) [] conn) now"

definition testConnection :: "source_ext \<Rightarrow> connection \<Rightarrow> int \<Rightarrow> gerror option" where
  "testConnection S conn now =
     (if c_DBType conn = ''postgresql'' then testPostgreSQL S conn now
      else if c_DBType conn = ''mysql'' \<or> c_DBType conn = ''mariadb'' then testMySQL S conn now
      else Some (''unsupported database type: '' @ c_DBType conn))"

text \<open>The loop over the rows: the first row that does not scan is the result; \<open>keep\<close> is the filter.\<close>

fun collect_names :: "(string \<Rightarrow> bool) \<Rightarrow> string res list \<Rightarrow> string list res" where
  "collect_names keep [] = Inr []"
| "collect_names keep (Inl e # rows) = Inl e"
| "collect_names keep (Inr name # rows) =
     (case collect_names keep rows of Inl e \<Rightarrow> Inl e | Inr names \<Rightarrow> Inr (if keep name then name # names else names))"

definition query_names :: "source_ext \<Rightarrow> string \<Rightarrow> string \<Rightarrow> string \<Rightarrow> (string \<Rightarrow> bool) \<Rightarrow> int \<Rightarrow> string list res" where
  "query_names S driver dsn sql keep now =
     (case sx_open S driver dsn of
        Some e \<Rightarrow> Inl e
      | None \<Rightarrow> (case sx_names S driver dsn sql now of Inl e \<Rightarrow> Inl e | Inr rows \<Rightarrow> collect_names keep rows))"

definition discoverPostgreSQL :: "source_ext \<Rightarrow> connection \<Rightarrow> int \<Rightarrow> string list res" where
  "discoverPostgreSQL S conn now =
     query_names S ''pgx'' (pg_dsn conn) ''SELECT datname FROM pg_database WHERE datistemplate = false ORDER BY datname''
       (\<lambda>_. True) now"

definition user_database :: "string \<Rightarrow> bool" where
  "user_database name \<longleftrightarrow>
     \<not> (name = ''information_schema'' \<or> name = ''performance_schema'' \<or> name = ''mysql'' \<or> name = ''sys'') \<and>
     \<not> has_prefix name ''_''"

definition discoverMySQL :: "source_ext \<Rightarrow> connection \<Rightarrow> int \<Rightarrow> string list res" where
  "discoverMySQL S conn now =
     query_names S ''mysql'' (mysql_dsn (mapMySQLTLS (c_SSLMode conn)) [] conn) ''SHOW DATABASES'' user_database now"

definition discoverDatabases :: "source_ext \<Rightarrow> connection \<Rightarrow> int \<Rightarrow> string list res" where
  "discoverDatabases S conn now =
     (if c_DBType conn = ''postgresql'' then discoverPostgreSQL S conn now
      else if c_DBType conn = ''mysql'' \<or> c_DBType conn = ''mariadb'' then discoverMySQL S conn now
      else Inl (''unsupported database type: '' @ c_DBType conn))"

section \<open>The service\<close>

definition ssl_default :: "connection \<Rightarrow> connection" where
  "ssl_default conn = (if c_SSLMode conn = [] then conn\<lparr>c_SSLMode := ''prefer''\<rparr> else conn)"

definition Connection_Create :: "source_ext \<Rightarrow> connection \<Rightarrow> 's world \<Rightarrow> connection res \<times> 's world" where
  "Connection_Create S conn0 w =
     (let conn = ssl_default conn0
      in if c_Name conn = [] \<or> c_Host conn = [] \<or> c_Port conn = 0 then (Inl ''name, host, and port are required'', w)
         else if c_DBType conn \<noteq> ''postgresql'' \<and> c_DBType conn \<noteq> ''mysql'' \<and> c_DBType conn \<noteq> ''mariadb''
         then (Inl (''unsupported database type: '' @ c_DBType conn), w)
         else case testConnection S conn (w_clock w 0) of
                Some e \<Rightarrow> (Inl (''connection test failed: '' @ e), w)
              | None \<Rightarrow> let (i, w1) = uuid_new w; (now, w2) = time_now w1 in on_db (ConnectionRepo_Create i now conn) w2)"

text \<open>The struct the repository stamps is the caller's: the result carries it.\<close>

definition Connection_Update :: "connection \<Rightarrow> 's world \<Rightarrow> connection res \<times> 's world" where
  "Connection_Update conn w =
     (if c_ID conn = [] then (Inl ''id is required'', w)
      else let (now, w1) = time_now w
           in and_then (on_db (ConnectionRepo_Update now conn) w1) (\<lambda>_ w2. (Inr (conn\<lparr>c_UpdatedAt := now\<rparr>), w2)))"

definition Connection_Delete :: "string \<Rightarrow> 's world \<Rightarrow> unit res \<times> 's world" where
  "Connection_Delete i w = on_db (ConnectionRepo_Delete i) w"

definition Connection_Get :: "string \<Rightarrow> 's world \<Rightarrow> connection option res \<times> 's world" where
  "Connection_Get i w = on_db (ConnectionRepo_GetByID i) w"

definition Connection_List :: "'s world \<Rightarrow> connection list res \<times> 's world" where
  "Connection_List w = on_db ConnectionRepo_List w"

definition Connection_ListDatabases :: "string \<Rightarrow> 's world \<Rightarrow> connection_database list res \<times> 's world" where
  "Connection_ListDatabases cid w = on_db (ConnectionRepo_ListDatabases cid) w"

definition Connection_UpdateDatabaseSelection :: "string \<Rightarrow> bool \<Rightarrow> 's world \<Rightarrow> unit res \<times> 's world" where
  "Connection_UpdateDatabaseSelection i selected w = on_db (ConnectionRepo_UpdateDatabaseSelection i selected) w"

definition discovered :: "string \<Rightarrow> string \<Rightarrow> connection_database" where
  "discovered connectionID name =
     \<lparr>d_ID = [], d_ConnectionID = connectionID, d_DBName = name, d_IsSelected = True, d_SizeBytes = 0, d_CreatedAt = 0\<rparr>"

text \<open>\<open>UpsertDatabases\<close> draws an identifier for each of the structs.\<close>

definition upsert_databases :: "connection_database list \<Rightarrow> 's world \<Rightarrow> unit res \<times> 's world" where
  "upsert_databases dbs w =
     (let ids = w_uuids w; (now, w1) = time_now (w\<lparr>w_uuids := (\<lambda>n. ids (n + length dbs))\<rparr>)
      in on_db (ConnectionRepo_UpsertDatabases ids now dbs) w1)"

definition Discover :: "source_ext \<Rightarrow> string \<Rightarrow> 's world \<Rightarrow> connection_database list res \<times> 's world" where
  "Discover S connectionID w =
     and_then (wrap_err ''get connection: '' (on_db (ConnectionRepo_GetByID connectionID) w)) (\<lambda>conn w1.
       case conn of
         None \<Rightarrow> (Inl (''connection not found: '' @ connectionID), w1)
       | Some conn \<Rightarrow>
           (case discoverDatabases S conn (w_clock w1 0) of
              Inl e \<Rightarrow> (Inl (''discover databases: '' @ e), w1)
            | Inr names \<Rightarrow>
                and_then (wrap_err ''save discovered databases: '' (upsert_databases (map (discovered connectionID) names) w1))
                  (\<lambda>_ w2. Connection_ListDatabases connectionID w2)))"

section \<open>The handler\<close>

definition Connection_handleList :: "'s world \<Rightarrow> connection list response \<times> 's world" where
  "Connection_handleList w = respond 200 500 (Connection_List w)"

definition Connection_handleCreate :: "source_ext \<Rightarrow> connection option \<Rightarrow> 's world \<Rightarrow> connection response \<times> 's world" where
  "Connection_handleCreate S = with_body ''invalid request body'' (\<lambda>conn w. respond 201 400 (Connection_Create S conn w))"

definition Connection_handleGet :: "string \<Rightarrow> 's world \<Rightarrow> connection response \<times> 's world" where
  "Connection_handleGet i w =
     respond_found ''connection not found'' (\<lambda>conn. ok_json (conn\<lparr>c_Password := []\<rparr>)) (Connection_Get i w)"

definition Connection_handleUpdate :: "string \<Rightarrow> connection option \<Rightarrow> 's world \<Rightarrow> connection response \<times> 's world" where
  "Connection_handleUpdate i = with_body ''invalid request body'' (\<lambda>conn w. respond 200 400 (Connection_Update (conn\<lparr>c_ID := i\<rparr>) w))"

definition Connection_handleDelete :: "string \<Rightarrow> 's world \<Rightarrow> unit response \<times> 's world" where
  "Connection_handleDelete i w = respond_done (Connection_Delete i w)"

text \<open>The outcome of a test: \<open>None\<close> for success.\<close>

definition Connection_handleTest :: "source_ext \<Rightarrow> string \<Rightarrow> connection option \<Rightarrow> 's world \<Rightarrow> gerror option response \<times> 's world" where
  "Connection_handleTest S i req w =
     (if i = ''_new'' \<or> i = []
      then with_body ''invalid request body'' (\<lambda>conn w. (WriteJSON 200 (testConnection S conn (w_clock w 0)), w)) req w
      else case Connection_Get i w of
             (Inr (Some conn), w1) \<Rightarrow> (WriteJSON 200 (testConnection S conn (w_clock w1 0)), w1)
           | (_, w1) \<Rightarrow> (WriteError 404 ''connection not found'', w1))"

definition openSourceDB :: "source_ext \<Rightarrow> connection \<Rightarrow> (string \<times> string) res" where
  "openSourceDB S conn =
     (let opened = (\<lambda>driver dsn. case sx_open S driver dsn of Some e \<Rightarrow> Inl e | None \<Rightarrow> Inr (driver, dsn))
      in if c_DBType conn = ''postgresql'' then opened ''pgx'' (pg_dsn conn)
         else if c_DBType conn = ''mysql'' then opened ''mysql'' (mysql_dsn (c_SSLMode conn) ''&charset=utf8mb4'' conn)
         else if c_DBType conn = ''mariadb''
         then opened ''mysql'' (mysql_dsn (c_SSLMode conn) ''&charset=utf8mb4&multiStatements=true'' conn)
         else Inl (''unsupported database type: '' @ c_DBType conn))"

definition quoted :: "string \<Rightarrow> string" where "quoted s = CHR 0x27 # s @ [CHR 0x27]"

definition queryActiveConns :: "source_ext \<Rightarrow> string \<times> string \<Rightarrow> string \<Rightarrow> int \<Rightarrow> int" where
  "queryActiveConns S source dbType now =
     (let count = (\<lambda>sql. sx_count S (fst source) (snd source) sql now)
      in if dbType = ''postgresql''
         then (case count (''SELECT count(*) FROM pg_stat_activity WHERE state = '' @ quoted ''active'') of Inl e \<Rightarrow> 0 | Inr n \<Rightarrow> n)
         else if dbType = ''mysql'' \<or> dbType = ''mariadb''
         then (case count (''SELECT VARIABLE_VALUE FROM performance_schema.global_status WHERE VARIABLE_NAME = '' @ quoted ''Threads_connected'') of
                 Inr n \<Rightarrow> n
               | Inl _ \<Rightarrow> (case count ''SELECT COUNT(*) FROM information_schema.processlist'' of Inl _ \<Rightarrow> 0 | Inr n \<Rightarrow> n))
         else 0)"

record health =
  he_connection :: connection \<comment> \<open>its identifier, name, type, host and port are in the answer\<close>
  he_time :: int
  he_status :: string
  he_error :: "string option"
  he_response_time_ms :: "int option"
  he_active_connections :: "int option"

definition health_status :: "int \<Rightarrow> string \<times> string option" where
  "health_status responseTimeMs =
     (if responseTimeMs < 1000 then (''healthy'', None)
      else if responseTimeMs < 5000 then (''degraded'', None)
      else (''down'', Some (''high response time: '' @ fmt_d responseTimeMs @ ''ms'')))"

definition live_health :: "source_ext \<Rightarrow> connection \<Rightarrow> 's world \<Rightarrow> health \<times> 's world" where
  "live_health S conn w =
     (let (now, w1) = time_now w;
          result = \<lparr>he_connection = conn, he_time = now, he_status = [], he_error = None, he_response_time_ms = None,
            he_active_connections = None\<rparr>
      in case openSourceDB S conn of
           Inl e \<Rightarrow> (result\<lparr>he_status := ''down'', he_error := Some e\<rparr>, w1)
         | Inr source \<Rightarrow>
             (let (pingStart, w2) = time_now w1; err = sx_ping S (fst source) (snd source) pingStart;
                  (pingEnd, w3) = time_now w2; responseTimeMs = duration_ms pingStart pingEnd;
                  result1 = result\<lparr>he_response_time_ms := Some responseTimeMs\<rparr>
              in case err of
                   Some e \<Rightarrow> (result1\<lparr>he_status := ''down'', he_error := Some e\<rparr>, w3)
                 | None \<Rightarrow>
                     (let (status, error) = health_status responseTimeMs
                      in (result1\<lparr>he_active_connections := Some (queryActiveConns S source (c_DBType conn) (w_clock w3 0)),
                             he_status := status, he_error := error\<rparr>, w3))))"

definition Connection_handleHealth :: "source_ext \<Rightarrow> string \<Rightarrow> 's world \<Rightarrow> health response \<times> 's world" where
  "Connection_handleHealth S i w =
     (case Connection_Get i w of
        (Inr (Some conn), w1) \<Rightarrow> (case live_health S conn w1 of (result, w2) \<Rightarrow> (WriteJSON 200 result, w2))
      | (_, w1) \<Rightarrow> (WriteError 404 ''connection not found'', w1))"

definition Connection_handleListDatabases :: "string \<Rightarrow> 's world \<Rightarrow> connection_database list response \<times> 's world" where
  "Connection_handleListDatabases i w = respond 200 500 (Connection_ListDatabases i w)"

definition Connection_handleDiscover :: "source_ext \<Rightarrow> string \<Rightarrow> 's world \<Rightarrow> connection_database list response \<times> 's world" where
  "Connection_handleDiscover S i w = respond 200 500 (Discover S i w)"

definition Connection_handleUpdateDatabase :: "string \<Rightarrow> bool option \<Rightarrow> 's world \<Rightarrow> unit response \<times> 's world" where
  "Connection_handleUpdateDatabase i = with_body ''invalid request body'' (\<lambda>isSelected w.
     respond_done (Connection_UpdateDatabaseSelection i isSelected w))"

section \<open>Discovery\<close>

text \<open>A row of the discovered kind, and what one upsert, then the whole loop, does to the rows of a connection.\<close>

definition fresh_row :: "database_row \<Rightarrow> bool" where
  "fresh_row r \<longleftrightarrow> dr_is_selected r = 1 \<and> dr_size_bytes r = Some 0"

definition row_name :: "database_row \<Rightarrow> string \<times> string" where
  "row_name r = (dr_connection_id r, dr_db_name r)"

lemma upsert_discovered:
  assumes "sql_upsert_database x d = Inr d'" "fresh_row x"
  shows "row_name x \<in> row_name ` set (t_databases d')" "row_name ` set (t_databases d) \<subseteq> row_name ` set (t_databases d')"
    and "\<forall>r \<in> set (t_databases d'). row_name r = row_name x \<and> fresh_row r \<or> row_name r \<noteq> row_name x \<and> r \<in> set (t_databases d)"
proof -
  let ?same = "\<lambda>y. dr_connection_id y = dr_connection_id x \<and> dr_db_name y = dr_db_name x"
  let ?f = "\<lambda>y. if ?same y then y\<lparr>dr_is_selected := dr_is_selected x, dr_size_bytes := dr_size_bytes x\<rparr> else y"
  consider (old) "list_ex ?same (t_databases d)" "t_databases d' = map ?f (t_databases d)"
    | (new) "\<not> list_ex ?same (t_databases d)" "t_databases d' = t_databases d @ [x]"
    using assms(1) by (auto simp: sql_upsert_database_def Let_def split: if_splits)
  then have "row_name x \<in> row_name ` set (t_databases d') \<and> row_name ` set (t_databases d) \<subseteq> row_name ` set (t_databases d') \<and>
    (\<forall>r \<in> set (t_databases d'). row_name r = row_name x \<and> fresh_row r \<or> row_name r \<noteq> row_name x \<and> r \<in> set (t_databases d))"
  proof cases
    case old
    have "map row_name (t_databases d') = map row_name (t_databases d)" unfolding old(2) by (auto simp: row_name_def)
    then have "row_name ` set (t_databases d') = row_name ` set (t_databases d)" by (metis set_map)
    moreover have "row_name x \<in> row_name ` set (t_databases d)" proof -
      from old(1) obtain y where "y \<in> set (t_databases d)" "row_name x = row_name y" by (auto simp: list_ex_iff row_name_def)
      then show ?thesis by (rule rev_image_eqI)
    qed
    moreover have "\<forall>r \<in> set (t_databases d'). row_name r = row_name x \<and> fresh_row r \<or> row_name r \<noteq> row_name x \<and> r \<in> set (t_databases d)"
      unfolding old(2) using assms(2) by (auto simp: row_name_def fresh_row_def)
    ultimately show ?thesis by blast
  next
    case new
    with assms(2) show ?thesis by (auto simp: list_ex_iff row_name_def)
  qed
  then show "row_name x \<in> row_name ` set (t_databases d')" "row_name ` set (t_databases d) \<subseteq> row_name ` set (t_databases d')"
    "\<forall>r \<in> set (t_databases d'). row_name r = row_name x \<and> fresh_row r \<or> row_name r \<noteq> row_name x \<and> r \<in> set (t_databases d)"
    by blast+
qed

lemma upsert_all_discovered:
  assumes "upsert_all ids now n (map (discovered cid) names) d = (Inr u, d')"
  shows "Pair cid ` set names \<subseteq> row_name ` set (t_databases d') \<and>
    row_name ` set (t_databases d) \<subseteq> row_name ` set (t_databases d') \<and>
    (\<forall>r \<in> set (t_databases d'). row_name r \<in> Pair cid ` set names \<and> fresh_row r \<or>
       row_name r \<notin> Pair cid ` set names \<and> r \<in> set (t_databases d))"
  using assms
proof (induction names arbitrary: n d)
  case Nil
  then show ?case by simp
next
  case (Cons a names)
  let ?x = "database_columns (ids n) now (discovered cid a)"
  obtain v d1 where x: "db_exec (sql_upsert_database ?x) d = (Inr v, d1)"
    "upsert_all ids now (Suc n) (map (discovered cid) names) d1 = (Inr u, d')"
    using Cons(2) by (auto dest: wrap_err_result split: prod.splits sum.splits)
  obtain d0 where d0: "same_tables d d0" "sql_upsert_database ?x d0 = Inr d1" using db_exec_ok [OF x(1)] .
  have row: "fresh_row ?x" "row_name ?x = (cid, a)"
    by (simp_all add: fresh_row_def row_name_def database_columns_def discovered_def boolToInt_def)
  note up = upsert_discovered [OF d0(2) row(1), unfolded row(2)]
  note ih = Cons(1) [OF x(2)]
  have "\<forall>r \<in> set (t_databases d'). row_name r \<in> Pair cid ` set (a # names) \<and> fresh_row r \<or>
      row_name r \<notin> Pair cid ` set (a # names) \<and> r \<in> set (t_databases d)"
  proof
    fix r assume r: "r \<in> set (t_databases d')"
    show "row_name r \<in> Pair cid ` set (a # names) \<and> fresh_row r \<or>
      row_name r \<notin> Pair cid ` set (a # names) \<and> r \<in> set (t_databases d)"
    proof (cases "row_name r \<in> Pair cid ` set names")
      case True
      with ih r have "fresh_row r" by blast
      with True show ?thesis by auto
    next
      case False
      with ih r have "r \<in> set (t_databases d1)" by blast
      with up(3) False d0(1) show ?thesis by (auto simp: same_tables_fields(2))
    qed
  qed
  moreover have "Pair cid ` set (a # names) \<subseteq> row_name ` set (t_databases d')" using ih up(1) by auto
  moreover have "row_name ` set (t_databases d) \<subseteq> row_name ` set (t_databases d')"
    using order_trans [OF up(2)] ih by (simp add: same_tables_fields(2) [OF d0(1)])
  ultimately show ?case by blast
qed

lemma UpsertDatabases_result:
  assumes "ConnectionRepo_UpsertDatabases ids now xs d = (Inr u, d')"
  obtains d2 v d3 where "same_tables d d2" "upsert_all ids now 0 xs d2 = (Inr v, d3)" "same_tables d3 d'"
proof -
  obtain d1 d2 v d3 where s: "db_try d = (None, d1)" "db_try d1 = (None, d2)" "upsert_all ids now 0 xs d2 = (Inr v, d3)"
    "db_try d3 = (None, d')"
    using assms by (auto simp: ConnectionRepo_UpsertDatabases_def split: prod.splits option.splits sum.splits)
  show thesis
    using that [OF same_tables_trans [OF db_try_tables [OF s(1)] db_try_tables [OF s(2)]] s(3) db_try_tables [OF s(4)]] .
qed

lemma upsert_databases_result:
  assumes "upsert_databases (map (discovered cid) names) w = (Inr u, w')"
  shows "Pair cid ` set names \<subseteq> row_name ` set (t_databases (w_db w')) \<and>
    (\<forall>r \<in> set (t_databases (w_db w')). row_name r \<in> Pair cid ` set names \<and> fresh_row r \<or>
       row_name r \<notin> Pair cid ` set names \<and> r \<in> set (t_databases (w_db w)))"
proof -
  obtain now w1 where t: "time_now (w\<lparr>w_uuids := (\<lambda>n. w_uuids w (n + length (map (discovered cid) names)))\<rparr>) = (now, w1)" by fastforce
  then have db1: "w_db w1 = w_db w" by (auto simp: time_now_def)
  have "on_db (ConnectionRepo_UpsertDatabases (w_uuids w) now (map (discovered cid) names)) w1 = (Inr u, w')"
    using assms t by (simp add: upsert_databases_def Let_def)
  then obtain d' where d': "ConnectionRepo_UpsertDatabases (w_uuids w) now (map (discovered cid) names) (w_db w) = (Inr u, d')"
    "w_db w' = d'" using on_db_result db1 by fastforce
  obtain d2 v d3 where d: "same_tables (w_db w) d2" "upsert_all (w_uuids w) now 0 (map (discovered cid) names) d2 = (Inr v, d3)"
    "same_tables d3 d'" by (rule UpsertDatabases_result [OF d'(1)])
  from upsert_all_discovered [OF d(2)] show ?thesis
    by (simp add: d'(2) same_tables_fields(2) [OF d(1)] same_tables_fields(2) [OF d(3)])
qed

lemma collect_names_keep: "collect_names keep rows = Inr names \<Longrightarrow> list_all keep names"
  by (induction keep rows arbitrary: names rule: collect_names.induct) (auto split: sum.splits if_splits)

lemma discoverMySQL_user: "discoverMySQL S conn now = Inr names \<Longrightarrow> list_all user_database names"
  by (auto simp: discoverMySQL_def query_names_def dest: collect_names_keep split: option.splits sum.splits)

lemma discover_user:
  "discoverDatabases S conn now = Inr names \<Longrightarrow> c_DBType conn \<noteq> ''postgresql'' \<Longrightarrow> list_all user_database names"
  by (auto simp: discoverDatabases_def dest: discoverMySQL_user split: if_splits)

section \<open>Properties\<close>


text \<open>Claim C31. Reading a connection through the API and writing it back unchanged loses its password: the handlers
  both answer 200, and the stored row is the old one with an empty password (and a new update time); no other
  connection changes.\<close>

theorem edit_erases_password:
  assumes "db_wf (w_db w)" "faults (w_db w) = []" "row_find c_ID i (t_connections (w_db w)) = Some c" "i \<noteq> []"
  shows "\<exists>v w1 u w2. Connection_handleGet i w = (WriteJSON 200 v, w1) \<and>
    Connection_handleUpdate i (Some v) w1 = (WriteJSON 200 u, w2) \<and>
    row_find c_ID i (t_connections (w_db w2)) = Some (c\<lparr>c_Password := [], c_UpdatedAt := pg_time (w_clock w 0)\<rparr>) \<and>
    (\<forall>k. k \<noteq> i \<longrightarrow> row_find c_ID k (t_connections (w_db w2)) = row_find c_ID k (t_connections (w_db w)))"
proof -
  let ?v = "c\<lparr>c_Password := []\<rparr>" and ?now = "w_clock w 0"
  have id: "c_ID c = i" "check_connection c" using row_find_Some [OF assms(3)] assms(1) by (auto simp: db_wf_def checks_ok_def)
  have get: "Connection_handleGet i w = (WriteJSON 200 ?v, w)"
    using assms(2,3) by (simp add: Connection_handleGet_def Connection_Get_def ConnectionRepo_GetByID_def on_db_def ok_json_def)
  obtain w1 where t: "time_now w = (?now, w1)" "w_db w1 = w_db w" by (simp add: time_now_def)
  let ?f = "set_connection ?now ?v"
  have f: "?f c = c\<lparr>c_Password := [], c_UpdatedAt := pg_time ?now\<rparr>" "\<And>r. c_ID (?f r) = c_ID r"
    by (simp_all add: set_connection_def)
  have "check_connection (?f c)" using id(2) by (simp add: f check_connection_def)
  then have ex: "sql_update_connection i ?f (w_db w) = Inr (t_connections_update (row_upd c_ID i ?f) (w_db w))"
    unfolding sql_update_connection_def by (intro connections.sql_update_checked [OF assms(3)]) simp_all
  let ?d = "t_connections_update (row_upd c_ID i ?f) (w_db w)"
  have same: "c\<lparr>c_Password := [], c_ID := i\<rparr> = ?v" using id(1) by (cases c) simp
  have "Connection_handleUpdate i (Some ?v) w = (WriteJSON 200 (?v\<lparr>c_UpdatedAt := ?now\<rparr>), w1\<lparr>w_db := ?d\<rparr>)"
    using assms(2,4) id(1) t ex
    by (simp add: Connection_handleUpdate_def Connection_Update_def ConnectionRepo_Update_def on_db_def same)
  moreover have "row_find c_ID k (t_connections ?d) = (if k = i then Some (?f c) else row_find c_ID k (t_connections (w_db w)))" for k
    using assms(3) by (simp add: f(2))
  ultimately show ?thesis using get f(1) 
    by (intro exI [of _ ?v] exI [of _ w] exI [of _ "?v\<lparr>c_UpdatedAt := ?now\<rparr>"] exI [of _ "w1\<lparr>w_db := ?d\<rparr>"]) simp
qed

definition demo_source :: source_ext where
  "demo_source = \<lparr>sx_open = (\<lambda>_ _. None), sx_ping = (\<lambda>_ _ _. None), sx_names = (\<lambda>_ _ _ _. Inr [Inr ''app'']),
     sx_count = (\<lambda>_ _ _ _. Inr 1)\<rparr>"

definition demo_source_row :: connection where
  "demo_source_row = \<lparr>c_ID = ''m'', c_Name = ''shop'', c_DBType = ''mysql'', c_Host = ''h'', c_Port = 3306,
     c_Username = ''u'', c_Password = ''p'', c_SSLMode = ''prefer'', c_CreatedAt = 0, c_UpdatedAt = 0\<rparr>"

definition demo_source_world :: "unit world" where
  "demo_source_world = \<lparr>w_db = empty_db\<lparr>t_connections := [demo_source_row],
       t_databases := [\<lparr>dr_id = ''d'', dr_connection_id = ''m'', dr_db_name = ''app'', dr_is_selected = 0,
         dr_size_bytes = None, dr_created_at = 0\<rparr>]\<rparr>,
     w_rng = (\<lambda>_. 0), w_clock = (\<lambda>n. int n), w_uuids = (\<lambda>n. replicate (Suc n) CHR ''u''), w_store = (),
     w_notes = [], w_runs = [], w_files = Map.empty\<rparr>"

theorem edit_erases_password_witness:
  "\<exists>v w1 u w2. Connection_handleGet ''m'' demo_source_world = (WriteJSON 200 v, w1) \<and>
    Connection_handleUpdate ''m'' (Some v) w1 = (WriteJSON 200 u, w2) \<and>
    row_find c_ID ''m'' (t_connections (w_db w2)) = Some (demo_source_row\<lparr>c_Password := [], c_UpdatedAt := pg_time 0\<rparr>)"
proof -
  have "db_wf (w_db demo_source_world)"
    by (simp add: demo_source_world_def demo_source_row_def empty_db_def db_wf_def keys_ok_def checks_ok_def refs_ok_def
        fk_defs check_connection_def has_row_def)
  moreover have "faults (w_db demo_source_world) = []" "w_clock demo_source_world 0 = 0"
    by (simp_all add: demo_source_world_def empty_db_def)
  moreover have "row_find c_ID ''m'' (t_connections (w_db demo_source_world)) = Some demo_source_row"
    by (simp add: demo_source_world_def row_find_def) (simp add: demo_source_row_def)
  ultimately show ?thesis using edit_erases_password [of demo_source_world "''m''"] by simp blast
qed

lemma demo_discover: "\<exists>dbs w'. Discover demo_source ''m'' demo_source_world = (Inr dbs, w')"
  by (simp add: Discover_def ConnectionRepo_GetByID_def on_db_def demo_source_world_def empty_db_def row_find_def
      demo_source_row_def discoverDatabases_def discoverMySQL_def query_names_def demo_source_def user_database_def
      has_prefix_def upsert_databases_def time_now_def Let_def ConnectionRepo_UpsertDatabases_def sql_upsert_database_def
      database_columns_def discovered_def Connection_ListDatabases_def ConnectionRepo_ListDatabases_def)


end
