(* ===== verification/Monitoring_Store.thy ===== *)
theory Monitoring_Store
  imports Domain_Model Http
begin

text \<open>
  \<open>internal/monitoring/store.go\<close> and \<open>p2_models.go\<close>, and the monitoring tables of
  \<open>internal/repository/postgres/db.go\<close>: the metric structs, which tables and columns a start of the program
  creates, the inserts and the queries. The tables are part of the configuration database; their schema is kept as a
  map from tables to columns, because the program creates and extends it at run time. \<open>float64\<close> values are exact
  rationals (rounding, and the single precision of the REAL columns, are not modelled).
\<close>

section \<open>The metric structs\<close>

record health_check =
  hc_Time :: int
  hc_ConnectionID :: string
  hc_Status :: string
  hc_ResponseTimeMs :: int
  hc_ActiveConnections :: int
  hc_ErrorMessage :: string

record db_metric =
  dm_Time :: int
  dm_ConnectionID :: string
  dm_DBName :: string
  dm_DBType :: string
  dm_DBSizeBytes :: int
  dm_GrowthBytes :: int
  dm_CacheHitRatio :: rat
  dm_QPS :: int
  dm_ConnectionsTotal :: int
  dm_MaxConnections :: int
  dm_ConnUsagePercent :: rat

record performance_metric =
  pm_Time :: int
  pm_ConnectionID :: string
  pm_DBType :: string
  pm_QueryID :: string
  pm_QueryText :: string
  pm_MeanTimeMs :: rat
  pm_TotalTimeMs :: rat
  pm_Calls :: int
  pm_RowsAvg :: rat

record autovacuum_info =
  av_Time :: int
  av_ConnectionID :: string
  av_DBType :: string
  av_TableName :: string
  av_SchemaName :: string
  av_TableSize :: int
  av_IndexSize :: int
  av_DeadTuples :: int
  av_LiveTuples :: int
  av_DeadTupleRatio :: rat
  av_LastAutovacuum :: "int option"
  av_LastAutoanalyze :: "int option"
  av_NAutoVacuum :: int
  av_NAutoAnalyze :: int
  av_VacuumThreshold :: int
  av_ModSinceLastVacuum :: int
  av_Engine :: string
  av_TableRows :: int
  av_DataFree :: int
  av_TableCollation :: string

record lock_info =
  lk_Time :: int
  lk_ConnectionID :: string
  lk_DBType :: string
  lk_DatabaseName :: string
  lk_RelationName :: string
  lk_LockType :: string
  lk_LockMode :: string
  lk_Granted :: bool
  lk_BlockedPID :: int
  lk_BlockedUser :: string
  lk_BlockedQuery :: string
  lk_BlockedDuration :: rat
  lk_BlockingPID :: int
  lk_BlockingUser :: string
  lk_BlockingQuery :: string
  lk_IsDeadlock :: bool

record replication_lag =
  rl_Time :: int
  rl_ConnectionID :: string
  rl_DBType :: string
  rl_ApplicationName :: string
  rl_ClientAddr :: string
  rl_State :: string
  rl_SyncState :: string
  rl_WriteLag :: rat
  rl_FlushLag :: rat
  rl_ReplayLag :: rat
  rl_SlaveIOState :: string
  rl_SlaveIOThread :: string
  rl_SlaveSQLThread :: string
  rl_ReadMasterLogPos :: int
  rl_ExecMasterLogPos :: int
  rl_RelayMasterLogFile :: string
  rl_SecondsBehindMaster :: int
  rl_LastErrno :: int
  rl_LastError :: string

record table_metric =
  tm_Time :: int
  tm_ConnectionID :: string
  tm_DBType :: string
  tm_DatabaseName :: string
  tm_SchemaName :: string
  tm_TableName :: string
  tm_TableSize :: int
  tm_IndexSize :: int
  tm_TotalSize :: int
  tm_RowEstimate :: int
  tm_FillFactor :: int
  tm_DeadTupleRatio :: rat
  tm_Engine :: string
  tm_Collation :: string

section \<open>The tables\<close>

record mon_db =
  m_schema :: "string \<rightharpoonup> string list"
  m_health :: "health_check list"
  m_metrics :: "db_metric list"
  m_performance :: "performance_metric list"
  m_autovacuum :: "autovacuum_info list"
  m_locks :: "lock_info list"
  m_replication :: "replication_lag list"
  m_tables :: "table_metric list"
  m_faults :: "gerror option list" \<comment> \<open>failures from outside, one entry per statement\<close>

definition err_undefined :: gerror where "err_undefined = ''ERROR: undefined table or column''"

definition mon_try :: "mon_db \<Rightarrow> gerror option \<times> mon_db" where
  "mon_try m = (case m_faults m of [] \<Rightarrow> (None, m) | f # fs \<Rightarrow> (f, m\<lparr>m_faults := fs\<rparr>))"

text \<open>A statement on a table needs the table and the columns it names.\<close>

definition has_columns :: "string \<Rightarrow> string list \<Rightarrow> mon_db \<Rightarrow> bool" where
  "has_columns table cols m \<longleftrightarrow>
     (case m_schema m table of None \<Rightarrow> False | Some present \<Rightarrow> set cols \<subseteq> set present)"

definition mon_exec :: "string \<Rightarrow> string list \<Rightarrow> (mon_db \<Rightarrow> mon_db) \<Rightarrow> mon_db \<Rightarrow> gerror option \<times> mon_db" where
  "mon_exec table cols f m =
     (case mon_try m of
        (Some e, m') \<Rightarrow> (Some e, m')
      | (None, m') \<Rightarrow> if has_columns table cols m' then (None, f m') else (Some err_undefined, m'))"

definition mon_query :: "string \<Rightarrow> string list \<Rightarrow> (mon_db \<Rightarrow> 'a) \<Rightarrow> mon_db \<Rightarrow> 'a res \<times> mon_db" where
  "mon_query table cols q m =
     (case mon_try m of
        (Some e, m') \<Rightarrow> (Inl e, m')
      | (None, m') \<Rightarrow> (if has_columns table cols m' then Inr (q m') else Inl err_undefined, m'))"

subsection \<open>Creating them\<close>

text \<open>\<open>ALTER TABLE ... ADD COLUMN IF NOT EXISTS\<close>, its error ignored, and \<open>CREATE TABLE IF NOT EXISTS\<close>.\<close>

definition add_column :: "string \<Rightarrow> string \<Rightarrow> (string \<rightharpoonup> string list) \<Rightarrow> (string \<rightharpoonup> string list)" where
  "add_column table col s =
     (case s table of None \<Rightarrow> s | Some cols \<Rightarrow> if col \<in> set cols then s else s(table \<mapsto> cols @ [col]))"

definition create_table :: "string \<Rightarrow> string list \<Rightarrow> (string \<rightharpoonup> string list) \<Rightarrow> (string \<rightharpoonup> string list)" where
  "create_table table cols s = (case s table of None \<Rightarrow> s(table \<mapsto> cols) | Some _ \<Rightarrow> s)"

definition autovacuum_columns :: "string list" where
  "autovacuum_columns =
     [''time'', ''connection_id'', ''db_type'', ''table_name'', ''schema_name'', ''table_size_bytes'', ''index_size_bytes'',
      ''dead_tuples'', ''live_tuples'', ''dead_tuple_ratio'', ''last_autovacuum'', ''last_autoanalyze'', ''n_auto_vacuum'',
      ''n_auto_analyze'', ''vacuum_threshold'', ''mod_since_last_vacuum'', ''engine'', ''table_rows'', ''data_free_bytes'',
      ''table_collation'']"

definition lock_columns :: "string list" where
  "lock_columns =
     [''time'', ''connection_id'', ''db_type'', ''database_name'', ''relation_name'', ''lock_type'', ''lock_mode'', ''granted'',
      ''blocked_pid'', ''blocked_user'', ''blocked_query'', ''blocked_duration_seconds'', ''blocking_pid'', ''blocking_user'',
      ''blocking_query'', ''is_deadlock'']"

definition replication_columns :: "string list" where
  "replication_columns =
     [''time'', ''connection_id'', ''db_type'', ''application_name'', ''client_addr'', ''state'', ''sync_state'',
      ''write_lag_seconds'', ''flush_lag_seconds'', ''replay_lag_seconds'', ''slave_io_state'', ''slave_io_thread'',
      ''slave_sql_thread'', ''read_master_log_pos'', ''exec_master_log_pos'', ''relay_master_log_file'',
      ''seconds_behind_master'', ''last_errno'', ''last_error'']"

definition table_metric_columns :: "string list" where
  "table_metric_columns =
     [''time'', ''connection_id'', ''db_type'', ''database_name'', ''schema_name'', ''table_name'', ''table_size_bytes'',
      ''index_size_bytes'', ''total_size_bytes'', ''row_estimate'', ''fill_factor'', ''dead_tuple_ratio'', ''engine'', ''collation'']"

definition migrate_monitoring :: "(string \<rightharpoonup> string list) \<Rightarrow> (string \<rightharpoonup> string list)" where
  "migrate_monitoring s =
     create_table ''table_metrics'' table_metric_columns
     (create_table ''replication_lag'' replication_columns
     (create_table ''lock_info'' lock_columns
     (create_table ''autovacuum_info'' autovacuum_columns
     (add_column ''db_metrics'' ''conn_usage_percent''
     (add_column ''db_metrics'' ''max_connections'' s)))))"

definition hypertables :: "string list" where
  "hypertables = [''health_checks'', ''db_metrics'', ''performance_metrics'', ''autovacuum_info'', ''lock_info'',
     ''replication_lag'', ''table_metrics'']"

definition hypertable_columns :: "string list" where
  "hypertable_columns =
     [''time'', ''connection_id'', ''status'', ''response_time_ms'', ''active_connections'', ''db_size_bytes'', ''growth_bytes'',
      ''cache_hit_ratio'', ''qps'', ''connections_total'', ''query_id'', ''query_text'', ''mean_time_ms'', ''total_time_ms'',
      ''calls'', ''rows_avg'', ''db_type'', ''error_message'', ''metadata'']"

text \<open>The tables are only created when the TimescaleDB extension is there; turning them into hypertables and the
  compression and retention policies do not change their columns.\<close>

definition createHypertables :: "bool \<Rightarrow> (string \<rightharpoonup> string list) \<Rightarrow> (string \<rightharpoonup> string list)" where
  "createHypertables extExists s =
     (if \<not> extExists then s else fold (\<lambda>t. create_table t hypertable_columns) hypertables s)"

text \<open>What one start of the program (\<open>Open\<close>) does to the schema when every statement reaches the server.\<close>

definition open_schema :: "bool \<Rightarrow> (string \<rightharpoonup> string list) \<Rightarrow> (string \<rightharpoonup> string list)" where
  "open_schema extExists s = createHypertables extExists (migrate_monitoring s)"

section \<open>Recording\<close>

definition RecordHealthCheck :: "health_check \<Rightarrow> mon_db \<Rightarrow> gerror option \<times> mon_db" where
  "RecordHealthCheck h = mon_exec ''health_checks''
     [''time'', ''connection_id'', ''status'', ''response_time_ms'', ''active_connections'', ''error_message'']
     (\<lambda>m. m\<lparr>m_health := m_health m @ [h]\<rparr>)"

text \<open>The table of the metrics has no column for the name of the database.\<close>

definition metric_row :: "db_metric \<Rightarrow> db_metric" where
  "metric_row m = m\<lparr>dm_DBName := []\<rparr>"

definition RecordDBMetric :: "db_metric \<Rightarrow> mon_db \<Rightarrow> gerror option \<times> mon_db" where
  "RecordDBMetric x = mon_exec ''db_metrics''
     [''time'', ''connection_id'', ''db_type'', ''db_size_bytes'', ''growth_bytes'', ''cache_hit_ratio'', ''qps'',
      ''connections_total'', ''max_connections'', ''conn_usage_percent'']
     (\<lambda>m. m\<lparr>m_metrics := m_metrics m @ [metric_row x]\<rparr>)"

definition RecordPerformanceMetric :: "performance_metric \<Rightarrow> mon_db \<Rightarrow> gerror option \<times> mon_db" where
  "RecordPerformanceMetric p = mon_exec ''performance_metrics''
     [''time'', ''connection_id'', ''db_type'', ''query_id'', ''query_text'', ''mean_time_ms'', ''total_time_ms'', ''calls'', ''rows_avg'']
     (\<lambda>m. m\<lparr>m_performance := m_performance m @ [p]\<rparr>)"

definition RecordAutovacuumInfo :: "autovacuum_info \<Rightarrow> mon_db \<Rightarrow> gerror option \<times> mon_db" where
  "RecordAutovacuumInfo a = mon_exec ''autovacuum_info'' autovacuum_columns (\<lambda>m. m\<lparr>m_autovacuum := m_autovacuum m @ [a]\<rparr>)"

definition RecordLockInfo :: "lock_info \<Rightarrow> mon_db \<Rightarrow> gerror option \<times> mon_db" where
  "RecordLockInfo l = mon_exec ''lock_info'' lock_columns (\<lambda>m. m\<lparr>m_locks := m_locks m @ [l]\<rparr>)"

definition RecordReplicationLag :: "replication_lag \<Rightarrow> mon_db \<Rightarrow> gerror option \<times> mon_db" where
  "RecordReplicationLag r = mon_exec ''replication_lag'' replication_columns (\<lambda>m. m\<lparr>m_replication := m_replication m @ [r]\<rparr>)"

definition RecordTableMetric :: "table_metric \<Rightarrow> mon_db \<Rightarrow> gerror option \<times> mon_db" where
  "RecordTableMetric t = mon_exec ''table_metrics'' table_metric_columns (\<lambda>m. m\<lparr>m_tables := m_tables m @ [t]\<rparr>)"

section \<open>Querying\<close>

text \<open>\<open>itoa\<close>: the decimal digits are written from the end of a buffer of twenty bytes.\<close>

function itoa_loop :: "int \<Rightarrow> string \<Rightarrow> string" where
  "itoa_loop i buf = (if i > 0 then itoa_loop (i div 10) (digit_char (nat (i mod 10)) # buf) else buf)"
  by auto
termination by (relation "measure (\<lambda>(i, _). nat i)") auto

declare itoa_loop.simps [simp del]

definition itoa :: "int \<Rightarrow> string" where
  "itoa i = (if i = 0 then ''0'' else itoa_loop i [])"

text \<open>The statement text and its arguments: conditions that are given are appended with the next placeholder.\<close>

datatype sql_arg = Text_Arg string | Time_Arg int | Int_Arg int

definition add_condition :: "string \<times> sql_arg \<Rightarrow> string \<times> sql_arg list \<Rightarrow> string \<times> sql_arg list" where
  "add_condition c q = (fst q @ fst c @ itoa (int (length (snd q)) + 1), snd q @ [snd c])"

definition query_conditions :: "string \<Rightarrow> int \<Rightarrow> int \<Rightarrow> (string \<times> sql_arg) list" where
  "query_conditions connectionID since until =
     (if connectionID \<noteq> [] then [('' AND connection_id = $'', Text_Arg connectionID)] else []) @
     (if since \<noteq> 0 then [('' AND time >= $'', Time_Arg since)] else []) @
     (if until \<noteq> 0 then [('' AND time <= $'', Time_Arg until)] else [])"

definition build_query :: "string \<Rightarrow> string \<Rightarrow> string \<Rightarrow> int \<Rightarrow> int \<Rightarrow> int \<Rightarrow> string \<times> sql_arg list" where
  "build_query base order connectionID since until limit =
     add_condition ('' ORDER BY '' @ order @ '' DESC LIMIT $'', Int_Arg limit)
       (fold add_condition (query_conditions connectionID since until) (base, []))"

text \<open>What the statement selects; a limit below zero is refused by the server.\<close>

definition select_recent ::
  "('r \<Rightarrow> string) \<Rightarrow> ('r \<Rightarrow> int) \<Rightarrow> ('r \<Rightarrow> rat) \<Rightarrow> string \<Rightarrow> int \<Rightarrow> int \<Rightarrow> int \<Rightarrow> 'r list \<Rightarrow> 'r list" where
  "select_recent conn time order connectionID since until limit rows =
     take (nat limit) (sort_key (\<lambda>r. - order r)
       (filter (\<lambda>r. (connectionID \<noteq> [] \<longrightarrow> conn r = connectionID) \<and> (since \<noteq> 0 \<longrightarrow> since \<le> time r) \<and>
          (until \<noteq> 0 \<longrightarrow> time r \<le> until)) rows))"

definition QueryHealthChecks :: "string \<Rightarrow> int \<Rightarrow> int \<Rightarrow> int \<Rightarrow> mon_db \<Rightarrow> health_check list res \<times> mon_db" where
  "QueryHealthChecks cid since until limit = mon_query ''health_checks''
     [''time'', ''connection_id'', ''status'', ''response_time_ms'', ''active_connections'', ''error_message'']
     (\<lambda>m. select_recent hc_ConnectionID hc_Time (\<lambda>r. of_int (hc_Time r)) cid since until limit (m_health m))"

definition QueryDBMetrics :: "string \<Rightarrow> int \<Rightarrow> int \<Rightarrow> int \<Rightarrow> mon_db \<Rightarrow> db_metric list res \<times> mon_db" where
  "QueryDBMetrics cid since until limit = mon_query ''db_metrics''
     [''time'', ''connection_id'', ''db_type'', ''db_size_bytes'', ''growth_bytes'', ''cache_hit_ratio'', ''qps'',
      ''connections_total'', ''max_connections'', ''conn_usage_percent'']
     (\<lambda>m. select_recent dm_ConnectionID dm_Time (\<lambda>r. of_int (dm_Time r)) cid since until limit (m_metrics m))"

definition QueryPerformanceMetrics :: "string \<Rightarrow> int \<Rightarrow> int \<Rightarrow> int \<Rightarrow> mon_db \<Rightarrow> performance_metric list res \<times> mon_db" where
  "QueryPerformanceMetrics cid since until limit = mon_query ''performance_metrics''
     [''time'', ''connection_id'', ''db_type'', ''query_id'', ''query_text'', ''mean_time_ms'', ''total_time_ms'', ''calls'', ''rows_avg'']
     (\<lambda>m. select_recent pm_ConnectionID pm_Time pm_MeanTimeMs cid since until limit (m_performance m))"

definition QueryAutovacuumInfo :: "string \<Rightarrow> int \<Rightarrow> int \<Rightarrow> int \<Rightarrow> mon_db \<Rightarrow> autovacuum_info list res \<times> mon_db" where
  "QueryAutovacuumInfo cid since until limit = mon_query ''autovacuum_info'' autovacuum_columns
     (\<lambda>m. select_recent av_ConnectionID av_Time (\<lambda>r. of_int (av_Time r)) cid since until limit (m_autovacuum m))"

definition QueryLockInfo :: "string \<Rightarrow> int \<Rightarrow> int \<Rightarrow> int \<Rightarrow> mon_db \<Rightarrow> lock_info list res \<times> mon_db" where
  "QueryLockInfo cid since until limit = mon_query ''lock_info'' lock_columns
     (\<lambda>m. select_recent lk_ConnectionID lk_Time (\<lambda>r. of_int (lk_Time r)) cid since until limit (m_locks m))"

definition QueryReplicationLag :: "string \<Rightarrow> int \<Rightarrow> int \<Rightarrow> int \<Rightarrow> mon_db \<Rightarrow> replication_lag list res \<times> mon_db" where
  "QueryReplicationLag cid since until limit = mon_query ''replication_lag'' replication_columns
     (\<lambda>m. select_recent rl_ConnectionID rl_Time (\<lambda>r. of_int (rl_Time r)) cid since until limit (m_replication m))"

definition QueryTableMetrics :: "string \<Rightarrow> int \<Rightarrow> int \<Rightarrow> int \<Rightarrow> mon_db \<Rightarrow> table_metric list res \<times> mon_db" where
  "QueryTableMetrics cid since until limit = mon_query ''table_metrics'' table_metric_columns
     (\<lambda>m. select_recent tm_ConnectionID tm_Time (\<lambda>r. of_int (tm_TotalSize r)) cid since until limit (m_tables m))"

section \<open>The HTTP handler\<close>

text \<open>\<open>internal/monitoring/handler.go\<close>: the query parameters; \<open>P\<close> is \<open>time.Parse\<close> of an RFC 3339 text, the zero time is
  \<open>0\<close>, from which all times of this theory count.\<close>

record mon_params =
  mp_connection_id :: string
  mp_since :: string
  mp_until :: string
  mp_limit :: string

definition parseTime :: "(string \<Rightarrow> int option) \<Rightarrow> string \<Rightarrow> int" where
  "parseTime P s = (if s = [] then 0 else case P s of None \<Rightarrow> 0 | Some t \<Rightarrow> t)"

definition parseLimit :: "string \<Rightarrow> int \<Rightarrow> int" where
  "parseLimit s defaultLimit =
     (if s = [] then defaultLimit
      else case atoi s of
             None \<Rightarrow> defaultLimit
           | Some v \<Rightarrow> if v \<le> 0 then defaultLimit else if v > 200 then 200 else v)"

definition list_metrics ::
  "string \<Rightarrow> (string \<Rightarrow> int \<Rightarrow> int \<Rightarrow> int \<Rightarrow> mon_db \<Rightarrow> 'r list res \<times> mon_db) \<Rightarrow> (string \<Rightarrow> int option) \<Rightarrow> mon_params \<Rightarrow> mon_db \<Rightarrow>
   'r list response \<times> mon_db" where
  "list_metrics context query P q m =
     respond 200 500 (wrap_err context
       (query (mp_connection_id q) (parseTime P (mp_since q)) (parseTime P (mp_until q)) (parseLimit (mp_limit q) 50) m))"

definition ListHealthChecks :: "(string \<Rightarrow> int option) \<Rightarrow> mon_params \<Rightarrow> mon_db \<Rightarrow> health_check list response \<times> mon_db" where
  "ListHealthChecks = list_metrics ''query health checks: '' QueryHealthChecks"

definition ListDBMetrics :: "(string \<Rightarrow> int option) \<Rightarrow> mon_params \<Rightarrow> mon_db \<Rightarrow> db_metric list response \<times> mon_db" where
  "ListDBMetrics = list_metrics ''query db metrics: '' QueryDBMetrics"

definition ListPerformanceMetrics :: "(string \<Rightarrow> int option) \<Rightarrow> mon_params \<Rightarrow> mon_db \<Rightarrow> performance_metric list response \<times> mon_db" where
  "ListPerformanceMetrics = list_metrics ''query performance: '' QueryPerformanceMetrics"

definition ListAutovacuumInfo :: "(string \<Rightarrow> int option) \<Rightarrow> mon_params \<Rightarrow> mon_db \<Rightarrow> autovacuum_info list response \<times> mon_db" where
  "ListAutovacuumInfo = list_metrics ''query autovacuum info: '' QueryAutovacuumInfo"

definition ListLockInfo :: "(string \<Rightarrow> int option) \<Rightarrow> mon_params \<Rightarrow> mon_db \<Rightarrow> lock_info list response \<times> mon_db" where
  "ListLockInfo = list_metrics ''query lock info: '' QueryLockInfo"

definition ListReplicationLag :: "(string \<Rightarrow> int option) \<Rightarrow> mon_params \<Rightarrow> mon_db \<Rightarrow> replication_lag list response \<times> mon_db" where
  "ListReplicationLag = list_metrics ''query replication lag: '' QueryReplicationLag"

definition ListTableMetrics :: "(string \<Rightarrow> int option) \<Rightarrow> mon_params \<Rightarrow> mon_db \<Rightarrow> table_metric list response \<times> mon_db" where
  "ListTableMetrics = list_metrics ''query table metrics: '' QueryTableMetrics"

section \<open>Lemmas\<close>

lemma itoa_loop_digits: "itoa_loop i buf = (if i > 0 then fmt_nat (nat i) else []) @ buf"
proof (induction i buf rule: itoa_loop.induct)
  case (1 i buf)
  show ?case
  proof (cases "i > 0")
    case True
    then have n: "nat i mod 10 = nat (i mod 10)" "nat i div 10 = nat (i div 10)" by (simp_all add: nat_mod_distrib nat_div_distrib)
    have step: "itoa_loop i buf = itoa_loop (i div 10) (digit_char (nat (i mod 10)) # buf)"
      using True by (subst itoa_loop.simps) simp
    show ?thesis
    proof (cases "i < 10")
      case True
      with \<open>i > 0\<close> have "itoa_loop i buf = digit_char (nat i) # buf" unfolding step by (simp add: itoa_loop.simps)
      then show ?thesis using True \<open>i > 0\<close> by (simp add: fmt_nat.simps [of "nat i"])
    next
      case False
      then have "fmt_nat (nat i) = fmt_nat (nat (i div 10)) @ [digit_char (nat (i mod 10))]"
        by (subst fmt_nat.simps) (simp add: n)
      moreover have "i div 10 > 0" using False by auto
      ultimately show ?thesis using 1 [OF \<open>i > 0\<close>] \<open>i > 0\<close> unfolding step by simp
    qed
  qed (simp add: itoa_loop.simps)
qed

lemma digit_char_0: "digit_char 0 = CHR ''0''"
proof -
  have "(of_char (CHR ''0'') :: nat) = 48" by simp
  then show ?thesis by (metis add_0_right char_of_char digit_char_def)
qed

lemma itoa_correct: "0 \<le> i \<Longrightarrow> itoa i = fmt_d i"
  by (auto simp: itoa_def itoa_loop_digits fmt_d_def fmt_nat.simps [of 0] digit_char_0)

lemma fold_add_condition:
  "snd (fold add_condition cs (q, args)) = args @ map snd cs"
  "fst (fold add_condition cs (q, args)) =
     q @ concat (map (\<lambda>(k, c). fst c @ fmt_d (int k)) (zip [Suc (length args)..<Suc (length args) + length cs] cs))"
proof (induction cs arbitrary: q args)
  case (Cons c cs)
  { case 1 show ?case using Cons(1) by (simp add: add_condition_def)
  next
    case 2
    have "[Suc (length args)..<Suc (length args) + length (c # cs)] =
        Suc (length args) # [Suc (Suc (length args))..<Suc (Suc (length args)) + length cs]"
      by (simp add: upt_rec)
    with Cons(2) [of "q @ fst c @ itoa (int (length args) + 1)" "args @ [snd c]"] show ?case
      by (simp add: add_condition_def itoa_correct add.commute) }
qed simp_all

text \<open>The placeholders of a statement are numbered from one, in the order of its arguments.\<close>

lemma build_query_numbered:
  fixes cid order :: string and since until limit :: int
  defines "cs \<equiv> query_conditions cid since until @ [('' ORDER BY '' @ order @ '' DESC LIMIT $'', Int_Arg limit)]"
  shows "build_query base order cid since until limit =
    (base @ concat (map (\<lambda>(k, c). fst c @ fmt_d (int k)) (zip [1..<Suc (length cs)] cs)), map snd cs)"
proof -
  have "build_query base order cid since until limit = fold add_condition cs (base, [])"
    by (simp add: build_query_def cs_def)
  then show ?thesis using fold_add_condition [of cs base "[]"] by (auto simp: prod_eq_iff)
qed

lemma select_recent_length: "length (select_recent conn time order cid since until limit rows) \<le> nat limit"
  by (simp add: select_recent_def)

lemma select_recent_set:
  "r \<in> set (select_recent conn time order cid since until limit rows) \<Longrightarrow>
     r \<in> set rows \<and> (cid = [] \<or> conn r = cid) \<and> (since = 0 \<or> since \<le> time r) \<and> (until = 0 \<or> time r \<le> until)"
  by (auto simp: select_recent_def dest!: in_set_takeD)

lemma select_recent_sorted: "sorted_wrt (\<lambda>a b. order b \<le> order a) (select_recent conn time order cid since until limit rows)"
proof -
  have "sorted_wrt (\<lambda>a b. order b \<le> order a) xs" if "sorted (map (\<lambda>r. - order r) xs)" for xs
    using that by (simp add: sorted_map)
  then show ?thesis unfolding select_recent_def by (simp add: take_map [symmetric] sorted_wrt_take)
qed

lemma parseLimit_range: "1 \<le> parseLimit s 50 \<and> parseLimit s 50 \<le> 200"
  by (auto simp: parseLimit_def split: option.splits)

lemma select_recent_complete:
  assumes "length (select_recent conn time order cid since until limit rows) < nat limit"
    and "r \<in> set rows" "cid = [] \<or> conn r = cid" "since = 0 \<or> since \<le> time r" "until = 0 \<or> time r \<le> until"
  shows "r \<in> set (select_recent conn time order cid since until limit rows)"
  using assms by (auto simp: select_recent_def)

lemma mon_query_result:
  assumes "mon_query table cols q m = (Inr x, m')"
  shows "\<exists>fs. m' = m\<lparr>m_faults := fs\<rparr> \<and> x = q m'"
proof -
  have "\<exists>fs. snd (mon_try m) = m\<lparr>m_faults := fs\<rparr>"
    by (cases m) (auto simp: mon_try_def split: list.splits)
  with assms show ?thesis by (auto simp: mon_query_def split: prod.splits option.splits if_splits)
qed

section \<open>Properties\<close>


definition demo_mon :: mon_db where
  "demo_mon = \<lparr>m_schema = open_schema True Map.empty,
     m_health = [\<lparr>hc_Time = 1, hc_ConnectionID = ''a'', hc_Status = ''healthy'', hc_ResponseTimeMs = 5, hc_ActiveConnections = 1,
       hc_ErrorMessage = []\<rparr>],
     m_metrics = [], m_performance = [], m_autovacuum = [], m_locks = [], m_replication = [], m_tables = [], m_faults = []\<rparr>"

lemma first_boot_schema:
  "open_schema True Map.empty ''db_metrics'' = Some hypertable_columns"
  "open_schema True Map.empty ''health_checks'' = Some hypertable_columns"
  by (simp_all add: open_schema_def createHypertables_def migrate_monitoring_def hypertables_def create_table_def add_column_def)

lemma demo_mon_columns:
  "has_columns ''health_checks'' [''time'', ''connection_id'', ''status'', ''response_time_ms'', ''active_connections'', ''error_message''] demo_mon"
  unfolding has_columns_def demo_mon_def by (simp add: first_boot_schema) (simp add: hypertable_columns_def)


lemma mon_exec_columns:
  "m_schema m t = Some present \<Longrightarrow> m_faults m = [] \<Longrightarrow>
     fst (mon_exec t cols f m) = (if set cols \<subseteq> set present then None else Some err_undefined)"
  by (simp add: mon_exec_def mon_try_def has_columns_def)

lemma metric_column_missing: "''max_connections'' \<notin> set hypertable_columns"
  by (simp only: hypertable_columns_def list.set insert_iff empty_iff list.inject char.inject list.distinct simp_thms)

lemma create_tables_keep: "s t = Some cols \<Longrightarrow> fold (\<lambda>t. create_table t new) ts s t = Some cols"
proof (induction ts arbitrary: s)
  case (Cons a ts)
  have "create_table a new s t = Some cols"
    using Cons(2) by (cases "a = t") (simp_all add: create_table_def split: option.splits)
  then show ?case using Cons(1) by simp
qed simp

lemma migrate_metrics:
  assumes "s ''db_metrics'' = Some hypertable_columns"
  shows "migrate_monitoring s ''db_metrics'' = Some ((hypertable_columns @ [''max_connections'']) @ [''conn_usage_percent''])"
proof -
  have new: "''conn_usage_percent'' \<notin> set (hypertable_columns @ [''max_connections''])"
    by (simp only: hypertable_columns_def set_append Un_iff list.set insert_iff empty_iff list.inject char.inject list.distinct simp_thms)
  have "add_column ''db_metrics'' ''conn_usage_percent'' (add_column ''db_metrics'' ''max_connections'' s) ''db_metrics'' =
      Some ((hypertable_columns @ [''max_connections'']) @ [''conn_usage_percent''])"
    unfolding add_column_def using assms new metric_column_missing by simp
  moreover have "create_table t c q ''db_metrics'' = q ''db_metrics''" if "t \<noteq> ''db_metrics''" for t c q
    using that by (simp add: create_table_def split: option.splits)
  ultimately show ?thesis by (simp add: migrate_monitoring_def)
qed

text \<open>Claim C35. The first start of the program on an empty database breaks the database metrics: with the TimescaleDB
  extension the table is created after the statements that add two of its columns, so every insert of a metric fails until
  the program is started again; and without the extension the health checks have no table however often it is started.\<close>

theorem first_boot_metrics_rejected:
  "fst (RecordDBMetric x (m\<lparr>m_schema := open_schema True Map.empty, m_faults := []\<rparr>)) = Some err_undefined \<and>
   fst (RecordDBMetric x (m\<lparr>m_schema := open_schema True (open_schema True Map.empty), m_faults := []\<rparr>)) = None \<and>
   fst (RecordHealthCheck h (m\<lparr>m_schema := (open_schema False ^^ n) Map.empty, m_faults := []\<rparr>)) = Some err_undefined"
proof (intro conjI)
  have "''max_connections'' \<in> set [''time'', ''connection_id'', ''db_type'', ''db_size_bytes'', ''growth_bytes'', ''cache_hit_ratio'', ''qps'',
      ''connections_total'', ''max_connections'', ''conn_usage_percent'']" by simp
  then have missing: "\<not> set [''time'', ''connection_id'', ''db_type'', ''db_size_bytes'', ''growth_bytes'', ''cache_hit_ratio'', ''qps'',
      ''connections_total'', ''max_connections'', ''conn_usage_percent''] \<subseteq> set hypertable_columns" using metric_column_missing by blast
  show "fst (RecordDBMetric x (m\<lparr>m_schema := open_schema True Map.empty, m_faults := []\<rparr>)) = Some err_undefined"
    unfolding RecordDBMetric_def
    by (subst mon_exec_columns [where present = hypertable_columns], simp add: first_boot_schema, simp)
      (simp only: missing if_False)
  have two: "open_schema True (open_schema True Map.empty) ''db_metrics'' =
      Some ((hypertable_columns @ [''max_connections'']) @ [''conn_usage_percent''])"
    unfolding open_schema_def [of True "open_schema True Map.empty"] createHypertables_def
    unfolding not_True_eq_False if_False
    by (rule create_tables_keep [where s = "migrate_monitoring (open_schema True Map.empty)" and t = "''db_metrics''"])
      (rule migrate_metrics [where s = "open_schema True Map.empty", OF first_boot_schema(1)])
  have present: "set [''time'', ''connection_id'', ''db_type'', ''db_size_bytes'', ''growth_bytes'', ''cache_hit_ratio'', ''qps'',
      ''connections_total'', ''max_connections'', ''conn_usage_percent''] \<subseteq> set ((hypertable_columns @ [''max_connections'']) @ [''conn_usage_percent''])"
    by (simp only: hypertable_columns_def set_append list.set insert_subset empty_subsetI Un_iff insert_iff simp_thms)
  show "fst (RecordDBMetric x (m\<lparr>m_schema := open_schema True (open_schema True Map.empty), m_faults := []\<rparr>)) = None"
    unfolding RecordDBMetric_def
    by (subst mon_exec_columns [where present = "(hypertable_columns @ [''max_connections'']) @ [''conn_usage_percent'']"],
        simp add: two, simp) (simp only: present if_True)
  have keep: "open_schema False q ''health_checks'' = q ''health_checks''" for q
    by (simp add: open_schema_def createHypertables_def migrate_monitoring_def create_table_def add_column_def split: option.splits)
  have "(open_schema False ^^ n) Map.empty ''health_checks'' = None"
    by (induction n) (simp_all add: keep)
  then show "fst (RecordHealthCheck h (m\<lparr>m_schema := (open_schema False ^^ n) Map.empty, m_faults := []\<rparr>)) = Some err_undefined"
    by (simp add: RecordHealthCheck_def mon_exec_def mon_try_def has_columns_def)
qed

end
