(* ===== verification/Collector_Source.thy ===== *)
theory Collector_Source
  imports Monitoring_Store Connections
begin

text \<open>
  \<open>internal/monitoring/collector.go\<close>, the part that asks the source servers: data source names, the statements, the
  conversion of their columns into the metric structs, and one definition per \<open>collect...\<close> function. A server is a
  parameter (\<open>mon_ext\<close>): it opens, answers a ping, and answers a statement with its columns and rows. What a
  statement means is the server's; what the collector makes of the rows is modelled.
\<close>

section \<open>Reading numbers out of texts\<close>

text \<open>The \<open>%d\<close> verb of \<open>Sscanf\<close> with the text that follows the digits.\<close>

definition scan_d :: "string \<Rightarrow> (int \<times> string) option" where
  "scan_d s =
     (let (neg, t) = split_sign (dropWhile (\<lambda>c. c = CHR '' '' \<or> c = CHR 0x09 \<or> c = CHR 0x0D) s);
          ds = takeWhile is_digit t; v = signed_value neg ds
      in if ds = [] \<or> \<not> int64_ok v then None else Some (v, dropWhile is_digit t))"

text \<open>A decimal number: sign, digits with an optional point, an optional exponent. (The other texts Go reads as a
  float, hexadecimal ones, underscores, NaN and the infinities, are refused here; no server writes them.)\<close>

definition scan_exponent :: "rat \<Rightarrow> string \<Rightarrow> (rat \<times> string) option" where
  "scan_exponent q s =
     (case s of
        [] \<Rightarrow> Some (q, [])
      | c # cs \<Rightarrow>
          if c = CHR ''e'' \<or> c = CHR ''E''
          then (let (neg, t) = split_sign cs; ds = takeWhile is_digit t; n = nat_of_digits ds
                in if ds = [] then None else Some (if neg then q / 10 ^ n else q * 10 ^ n, dropWhile is_digit t))
          else Some (q, s))"

definition scan_f :: "string \<Rightarrow> (rat \<times> string) option" where
  "scan_f s =
     (let (neg, t) = split_sign (dropWhile (\<lambda>c. c = CHR '' '' \<or> c = CHR 0x09 \<or> c = CHR 0x0D) s);
          whole = takeWhile is_digit t; r = dropWhile is_digit t;
          (frac, r2) = (case r of [] \<Rightarrow> ([], []) | c # cs \<Rightarrow>
             if c = CHR ''.'' then (takeWhile is_digit cs, dropWhile is_digit cs) else ([], r));
          q = of_nat (nat_of_digits (whole @ frac)) / 10 ^ length frac
      in if whole = [] \<and> frac = [] then None else scan_exponent (if neg then - q else q) r2)"

definition parse_float :: "string \<Rightarrow> rat option" where
  "parse_float s = (if s = [] \<or> hd s \<in> {CHR '' '', CHR 0x09, CHR 0x0D} then None
     else case scan_f s of Some (q, []) \<Rightarrow> Some q | _ \<Rightarrow> None)"

definition parseIntervalSeconds :: "string \<Rightarrow> rat" where
  "parseIntervalSeconds s =
     (if s = [] then 0
      else case scan_d s of
          Some (hours, c # s1) \<Rightarrow>
            if c \<noteq> CHR '':'' then 0
            else (case scan_d s1 of
                Some (minutes, d # s2) \<Rightarrow>
                  if d \<noteq> CHR '':'' then 0
                  else (case scan_f s2 of
                      Some (seconds, _) \<Rightarrow> of_int hours * 3600 + of_int minutes * 60 + seconds
                    | None \<Rightarrow> 0)
              | _ \<Rightarrow> 0)
        | _ \<Rightarrow> 0)"

definition parseInt :: "string \<Rightarrow> int" where
  "parseInt s = (case sscanf_d s of None \<Rightarrow> 0 | Some n \<Rightarrow> n)"

definition mon_parseInt64 :: "string \<Rightarrow> int" where
  "mon_parseInt64 s = (case sscanf_d s of None \<Rightarrow> 0 | Some n \<Rightarrow> n)"

definition tlsModeForMySQL :: "string \<Rightarrow> string" where
  "tlsModeForMySQL mode = (if mode = ''disable'' \<or> mode = ''allow'' then ''false'' else ''skip-verify'')"

text \<open>\<open>strings.ReplaceAll(s, "'", "''")\<close>\<close>

definition escapePGString :: "string \<Rightarrow> string" where
  "escapePGString s = concat (map (\<lambda>c. if c = CHR 0x27 then [CHR 0x27, CHR 0x27] else [c]) s)"

section \<open>Columns and \<open>Scan\<close>\<close>

text \<open>The values \<open>database/sql\<close> gets from a driver, and its conversions into the types of the structs. A conversion
  that fails is \<open>None\<close>; a float or a time read into a string is formatted by a function of the server model, because no
  statement here does so.\<close>

datatype sql_value = Sql_Null | Sql_Int int | Sql_Real rat | Sql_Text string | Sql_Bool bool | Sql_Time int

fun scan_int :: "sql_value \<Rightarrow> int option" where
  "scan_int (Sql_Int n) = Some n"
| "scan_int (Sql_Text s) = atoi s"
| "scan_int (Sql_Real q) = (if of_int \<lfloor>q\<rfloor> = q \<and> int64_ok \<lfloor>q\<rfloor> then Some \<lfloor>q\<rfloor> else None)"
| "scan_int _ = None"

fun scan_real :: "sql_value \<Rightarrow> rat option" where
  "scan_real (Sql_Int n) = Some (of_int n)"
| "scan_real (Sql_Real q) = Some q"
| "scan_real (Sql_Text s) = parse_float s"
| "scan_real _ = None"

fun scan_text :: "(sql_value \<Rightarrow> string) \<Rightarrow> sql_value \<Rightarrow> string option" where
  "scan_text fmt Sql_Null = None"
| "scan_text fmt (Sql_Text s) = Some s"
| "scan_text fmt (Sql_Int n) = Some (fmt_d n)"
| "scan_text fmt (Sql_Bool b) = Some (if b then ''true'' else ''false'')"
| "scan_text fmt v = Some (fmt v)"

fun scan_bool :: "sql_value \<Rightarrow> bool option" where
  "scan_bool (Sql_Bool b) = Some b"
| "scan_bool (Sql_Int n) = (if n = 1 then Some True else if n = 0 then Some False else None)"
| "scan_bool (Sql_Text s) =
     (if s \<in> {''1'', ''t'', ''T'', ''TRUE'', ''true'', ''True''} then Some True
      else if s \<in> {''0'', ''f'', ''F'', ''FALSE'', ''false'', ''False''} then Some False else None)"
| "scan_bool _ = None"

fun scan_time :: "sql_value \<Rightarrow> int option" where
  "scan_time (Sql_Time t) = Some t"
| "scan_time _ = None"

text \<open>A target of \<open>Scan\<close>: a conversion and the field it is stored in; \<open>into_null\<close> is a target of a \<open>sql.Null...\<close>
  type whose value is stored when it is valid.\<close>

definition into :: "(sql_value \<Rightarrow> 'b option) \<Rightarrow> ('b \<Rightarrow> 'a \<Rightarrow> 'a) \<Rightarrow> sql_value \<Rightarrow> 'a \<Rightarrow> 'a option" where
  "into conv store v x = map_option (\<lambda>b. store b x) (conv v)"

definition into_null :: "(sql_value \<Rightarrow> 'b option) \<Rightarrow> ('b \<Rightarrow> 'a \<Rightarrow> 'a) \<Rightarrow> sql_value \<Rightarrow> 'a \<Rightarrow> 'a option" where
  "into_null conv store v x = (if v = Sql_Null then Some x else into conv store v x)"

text \<open>The targets are filled from the left until a conversion fails; the flag tells success.\<close>

fun scan_into :: "(sql_value \<Rightarrow> 'a \<Rightarrow> 'a option) list \<Rightarrow> sql_value list \<Rightarrow> 'a \<Rightarrow> bool \<times> 'a" where
  "scan_into (t # ts) (v # vs) x = (case t v x of None \<Rightarrow> (False, x) | Some y \<Rightarrow> scan_into ts vs y)"
| "scan_into _ _ x = (True, x)"

definition scan_row :: "(sql_value \<Rightarrow> 'a \<Rightarrow> 'a option) list \<Rightarrow> sql_value list \<Rightarrow> 'a \<Rightarrow> bool \<times> 'a" where
  "scan_row ts row x = (if length ts \<noteq> length row then (False, x) else scan_into ts row x)"

section \<open>Statements and servers\<close>

text \<open>The statements of the collector, named, with the parts the code puts into them: the schema of the status tables, and
  the text between the parentheses of \<open>pg_database_size\<close>; other arguments are passed as parameters.\<close>

datatype mon_sql =
    Pg_Active_Count | Threads_Connected string | Processlist_Count
  | Pg_Database_Names | Pg_Database_Size string | Pg_Stat_Database string | Pg_Max_Connections
  | My_Schema_Names | My_Schema_Size string | My_Max_Connections | My_Hit_Ratio string
  | Pg_Stat_Statements | Pg_Stat_Statements_Old | My_Statement_Digests
  | Pg_Vacuum_Tables | Pg_Vacuum_Threshold int | My_Optimizer_Tables
  | Pg_Waiting_Locks | My_Waiting_Trx | My_Processlist
  | Pg_In_Recovery | Pg_Stat_Replication | My_Replica_Status | My_Slave_Status
  | Pg_Table_Sizes | My_Table_Sizes

type_synonym sql_rows = "(string list \<times> sql_value list list) res" \<comment> \<open>column names and rows\<close>

record mon_ext =
  me_open :: "string \<Rightarrow> string \<Rightarrow> gerror option"
  me_ping :: "string \<Rightarrow> string \<Rightarrow> int \<Rightarrow> gerror option"
  me_query :: "string \<Rightarrow> string \<Rightarrow> int \<Rightarrow> mon_sql \<Rightarrow> sql_rows"
  me_format :: "sql_value \<Rightarrow> string"

text \<open>An open source database is its driver and data source name.\<close>

definition mon_openSourceDB :: "mon_ext \<Rightarrow> connection \<Rightarrow> (string \<times> string) res" where
  "mon_openSourceDB S conn =
     (let opened = (\<lambda>driver dsn. case me_open S driver dsn of Some e \<Rightarrow> Inl e | None \<Rightarrow> Inr (driver, dsn));
          tls = tlsModeForMySQL (c_SSLMode conn)
      in if c_DBType conn = ''postgresql'' then opened ''pgx'' (pg_dsn conn)
         else if c_DBType conn = ''mysql'' then opened ''mysql'' (mysql_dsn tls ''&charset=utf8mb4'' conn)
         else if c_DBType conn = ''mariadb''
         then opened ''mysql'' (mysql_dsn tls ''&charset=utf8mb4&multiStatements=true'' conn)
         else Inl (''unsupported database type: '' @ c_DBType conn))"

definition ask :: "mon_ext \<Rightarrow> string \<times> string \<Rightarrow> int \<Rightarrow> mon_sql \<Rightarrow> sql_rows" where
  "ask S source t sql = me_query S (fst source) (snd source) t sql"

text \<open>\<open>QueryRow(...).Scan(...)\<close>: the first row; on an error the targets before it keep what they got.\<close>

definition query_row :: "sql_rows \<Rightarrow> (sql_value \<Rightarrow> 'a \<Rightarrow> 'a option) list \<Rightarrow> 'a \<Rightarrow> bool \<times> 'a" where
  "query_row rows ts x = (case rows of Inr (_, row # _) \<Rightarrow> scan_row ts row x | _ \<Rightarrow> (False, x))"

text \<open>The loop over the rows of an answer: a row that does not scan is skipped.\<close>

definition scan_answer :: "(sql_value \<Rightarrow> 'a \<Rightarrow> 'a option) list \<Rightarrow> 'a \<Rightarrow> sql_value list list \<Rightarrow> 'a list" where
  "scan_answer ts x rows = map snd (filter fst (map (\<lambda>row. scan_row ts row x) rows))"

text \<open>The performance schema of MySQL, the information schema of MariaDB.\<close>

definition status_schema :: "string \<Rightarrow> string" where
  "status_schema dbType = (if dbType = ''mariadb'' then ''information_schema'' else ''performance_schema'')"

section \<open>Active connections\<close>

definition queryActiveConnections :: "(mon_sql \<Rightarrow> sql_rows) \<Rightarrow> string \<Rightarrow> int" where
  "queryActiveConnections db dbType =
     (let count = into scan_int (\<lambda>n _. n)
      in if dbType = ''postgresql'' then (case query_row (db Pg_Active_Count) [count] 0 of (ok, n) \<Rightarrow> if ok then n else 0)
         else if dbType = ''mysql'' \<or> dbType = ''mariadb''
         then (case query_row (db (Threads_Connected (status_schema dbType))) [count] 0 of
                 (ok, n) \<Rightarrow> if ok then n else snd (query_row (db Processlist_Count) [count] n))
         else 0)"

section \<open>Database metrics\<close>

definition zero_metric :: db_metric where
  "zero_metric = \<lparr>dm_Time = 0, dm_ConnectionID = [], dm_DBName = [], dm_DBType = [], dm_DBSizeBytes = 0, dm_GrowthBytes = 0,
     dm_CacheHitRatio = 0, dm_QPS = 0, dm_ConnectionsTotal = 0, dm_MaxConnections = 0, dm_ConnUsagePercent = 0\<rparr>"

definition set_usage :: "db_metric \<Rightarrow> db_metric" where
  "set_usage m = (if dm_MaxConnections m > 0
     then m\<lparr>dm_ConnUsagePercent := of_int (dm_ConnectionsTotal m) / of_int (dm_MaxConnections m) * 100\<rparr> else m)"

definition into_int :: "((int \<Rightarrow> int) \<Rightarrow> 'a \<Rightarrow> 'a) \<Rightarrow> sql_value \<Rightarrow> 'a \<Rightarrow> 'a option" where
  "into_int upd = into scan_int (\<lambda>n. upd (\<lambda>_. n))"

definition into_real :: "((rat \<Rightarrow> rat) \<Rightarrow> 'a \<Rightarrow> 'a) \<Rightarrow> sql_value \<Rightarrow> 'a \<Rightarrow> 'a option" where
  "into_real upd = into scan_real (\<lambda>q. upd (\<lambda>_. q))"

definition pg_metric :: "(mon_sql \<Rightarrow> sql_rows) \<Rightarrow> connection \<Rightarrow> int \<Rightarrow> string \<Rightarrow> db_metric" where
  "pg_metric db conn now dbName =
     (let m0 = zero_metric\<lparr>dm_Time := now, dm_ConnectionID := c_ID conn, dm_DBName := dbName, dm_DBType := c_DBType conn\<rparr>;
          m1 = snd (query_row (db (Pg_Database_Size (quoted (escapePGString dbName)))) [into_int dm_DBSizeBytes_update] m0);
          m2 = snd (query_row (db (Pg_Stat_Database dbName))
                 [into_real dm_CacheHitRatio_update, into_int dm_QPS_update, into_int dm_ConnectionsTotal_update] m1);
          m3 = snd (query_row (db Pg_Max_Connections) [into_int dm_MaxConnections_update] m2)
      in set_usage m3)"

definition collectPGMetrics :: "mon_ext \<Rightarrow> (mon_sql \<Rightarrow> sql_rows) \<Rightarrow> connection \<Rightarrow> int \<Rightarrow> db_metric list res" where
  "collectPGMetrics S db conn now =
     (case db Pg_Database_Names of
        Inl e \<Rightarrow> Inl (''list databases: '' @ e)
      | Inr (_, rows) \<Rightarrow> Inr (map (pg_metric db conn now) (scan_answer [into (scan_text (me_format S)) (\<lambda>s _. s)] [] rows)))"

definition mysql_metric :: "(mon_sql \<Rightarrow> sql_rows) \<Rightarrow> connection \<Rightarrow> int \<Rightarrow> string \<Rightarrow> db_metric" where
  "mysql_metric db conn now dbName =
     (let m0 = zero_metric\<lparr>dm_Time := now, dm_ConnectionID := c_ID conn, dm_DBName := dbName, dm_DBType := c_DBType conn\<rparr>;
          schema = status_schema (c_DBType conn);
          m1 = snd (query_row (db (My_Schema_Size dbName)) [into_int dm_DBSizeBytes_update] m0);
          m2 = snd (query_row (db (Threads_Connected schema)) [into_int dm_ConnectionsTotal_update] m1);
          m3 = set_usage (snd (query_row (db My_Max_Connections) [into_int dm_MaxConnections_update] m2))
      in snd (query_row (db (My_Hit_Ratio schema)) [into_null scan_real (\<lambda>q. dm_CacheHitRatio_update (\<lambda>_. q))] m3))"

definition collectMySQLMetrics :: "mon_ext \<Rightarrow> (mon_sql \<Rightarrow> sql_rows) \<Rightarrow> connection \<Rightarrow> int \<Rightarrow> db_metric list res" where
  "collectMySQLMetrics S db conn now =
     (case db My_Schema_Names of
        Inl e \<Rightarrow> Inl (''list databases: '' @ e)
      | Inr (_, rows) \<Rightarrow> Inr (map (mysql_metric db conn now) (scan_answer [into (scan_text (me_format S)) (\<lambda>s _. s)] [] rows)))"

definition collectDBMetrics :: "mon_ext \<Rightarrow> connection \<Rightarrow> int \<Rightarrow> int \<Rightarrow> db_metric list res" where
  "collectDBMetrics S conn now t =
     (case mon_openSourceDB S conn of
        Inl e \<Rightarrow> Inl e
      | Inr source \<Rightarrow>
          if c_DBType conn = ''postgresql'' then collectPGMetrics S (ask S source t) conn now
          else if c_DBType conn = ''mysql'' \<or> c_DBType conn = ''mariadb'' then collectMySQLMetrics S (ask S source t) conn now
          else Inl (''unsupported db type: '' @ c_DBType conn))"

section \<open>Slow queries\<close>

definition zero_performance :: performance_metric where
  "zero_performance = \<lparr>pm_Time = 0, pm_ConnectionID = [], pm_DBType = [], pm_QueryID = [], pm_QueryText = [], pm_MeanTimeMs = 0,
     pm_TotalTimeMs = 0, pm_Calls = 0, pm_RowsAvg = 0\<rparr>"

definition into_text :: "mon_ext \<Rightarrow> ((string \<Rightarrow> string) \<Rightarrow> 'a \<Rightarrow> 'a) \<Rightarrow> sql_value \<Rightarrow> 'a \<Rightarrow> 'a option" where
  "into_text S upd = into (scan_text (me_format S)) (\<lambda>s. upd (\<lambda>_. s))"

definition performance_rows :: "mon_ext \<Rightarrow> connection \<Rightarrow> int \<Rightarrow> sql_value list list \<Rightarrow> performance_metric list" where
  "performance_rows S conn now rows =
     map (\<lambda>p. p\<lparr>pm_Time := now, pm_ConnectionID := c_ID conn, pm_DBType := c_DBType conn\<rparr>)
       (scan_answer [into_text S pm_QueryID_update, into_text S pm_QueryText_update, into_real pm_MeanTimeMs_update,
          into_real pm_TotalTimeMs_update, into_int pm_Calls_update, into_real pm_RowsAvg_update] zero_performance rows)"

definition collectPGPerformance ::
  "mon_ext \<Rightarrow> (mon_sql \<Rightarrow> sql_rows) \<Rightarrow> connection \<Rightarrow> int \<Rightarrow> performance_metric list res" where
  "collectPGPerformance S db conn now =
     (case db Pg_Stat_Statements of
        Inr (_, rows) \<Rightarrow> Inr (performance_rows S conn now rows)
      | Inl _ \<Rightarrow> (case db Pg_Stat_Statements_Old of
            Inr (_, rows) \<Rightarrow> Inr (performance_rows S conn now rows)
          | Inl e \<Rightarrow> Inl (''pg_stat_statements not available: '' @ e)))"

definition collectMySQLPerformance ::
  "mon_ext \<Rightarrow> (mon_sql \<Rightarrow> sql_rows) \<Rightarrow> connection \<Rightarrow> int \<Rightarrow> performance_metric list res" where
  "collectMySQLPerformance S db conn now =
     (case db My_Statement_Digests of
        Inl e \<Rightarrow> Inl (''performance_schema not available: '' @ e)
      | Inr (_, rows) \<Rightarrow> Inr (performance_rows S conn now rows))"

definition collectPerformance :: "mon_ext \<Rightarrow> connection \<Rightarrow> int \<Rightarrow> int \<Rightarrow> performance_metric list res" where
  "collectPerformance S conn now t =
     (case mon_openSourceDB S conn of
        Inl e \<Rightarrow> Inl e
      | Inr source \<Rightarrow>
          if c_DBType conn = ''postgresql'' then collectPGPerformance S (ask S source t) conn now
          else if c_DBType conn = ''mysql'' then collectMySQLPerformance S (ask S source t) conn now
          else Inr [])"

end
