(* ===== verification/Collector_Tables.thy ===== *)
theory Collector_Tables
  imports Collector_Source
begin

text \<open>
  \<open>internal/monitoring/collector.go\<close>, the four collections that write to the store as they read: table maintenance,
  locks, replication lag and table sizes. Their errors are ignored; a metric that cannot be stored is lost and the next
  one is tried. \<open>m\<close> is the monitoring store.
\<close>

definition into_null_int :: "((int \<Rightarrow> int) \<Rightarrow> 'a \<Rightarrow> 'a) \<Rightarrow> sql_value \<Rightarrow> 'a \<Rightarrow> 'a option" where
  "into_null_int upd = into_null scan_int (\<lambda>n. upd (\<lambda>_. n))"

definition into_null_text :: "mon_ext \<Rightarrow> ((string \<Rightarrow> string) \<Rightarrow> 'a \<Rightarrow> 'a) \<Rightarrow> sql_value \<Rightarrow> 'a \<Rightarrow> 'a option" where
  "into_null_text S upd = into_null (scan_text (me_format S)) (\<lambda>s. upd (\<lambda>_. s))"

definition into_null_time :: "((int option \<Rightarrow> int option) \<Rightarrow> 'a \<Rightarrow> 'a) \<Rightarrow> sql_value \<Rightarrow> 'a \<Rightarrow> 'a option" where
  "into_null_time upd = into_null scan_time (\<lambda>t. upd (\<lambda>_. Some t))"

text \<open>Recording the metrics one by one, errors dropped.\<close>

definition record_all :: "('a \<Rightarrow> mon_db \<Rightarrow> gerror option \<times> mon_db) \<Rightarrow> 'a list \<Rightarrow> mon_db \<Rightarrow> mon_db" where
  "record_all rec xs m = fold (\<lambda>x m. snd (rec x m)) xs m"

section \<open>Autovacuum and optimizer\<close>

definition zero_autovacuum :: autovacuum_info where
  "zero_autovacuum = \<lparr>av_Time = 0, av_ConnectionID = [], av_DBType = [], av_TableName = [], av_SchemaName = [], av_TableSize = 0,
     av_IndexSize = 0, av_DeadTuples = 0, av_LiveTuples = 0, av_DeadTupleRatio = 0, av_LastAutovacuum = None,
     av_LastAutoanalyze = None, av_NAutoVacuum = 0, av_NAutoAnalyze = 0, av_VacuumThreshold = 0, av_ModSinceLastVacuum = 0,
     av_Engine = [], av_TableRows = 0, av_DataFree = 0, av_TableCollation = []\<rparr>"

definition pg_vacuum_targets :: "mon_ext \<Rightarrow> (sql_value \<Rightarrow> autovacuum_info \<Rightarrow> autovacuum_info option) list" where
  "pg_vacuum_targets S =
     [into_text S av_SchemaName_update, into_text S av_TableName_update, into_int av_LiveTuples_update, into_int av_DeadTuples_update,
      into_null scan_real (\<lambda>q. av_DeadTupleRatio_update (\<lambda>_. q)),
      into_null_time av_LastAutovacuum_update, into_null_time av_LastAutoanalyze_update, into_int av_ModSinceLastVacuum_update,
      into_int av_NAutoVacuum_update, into_int av_NAutoAnalyze_update, into_null_int av_TableSize_update,
      into_null_int av_IndexSize_update]"

definition collectPGAutovacuum :: "mon_ext \<Rightarrow> (mon_sql \<Rightarrow> sql_rows) \<Rightarrow> connection \<Rightarrow> int \<Rightarrow> mon_db \<Rightarrow> mon_db" where
  "collectPGAutovacuum S db conn now m =
     (case db Pg_Vacuum_Tables of
        Inl _ \<Rightarrow> m
      | Inr (_, rows) \<Rightarrow>
          record_all RecordAutovacuumInfo
            (map (\<lambda>a. (snd (query_row (db (Pg_Vacuum_Threshold (av_LiveTuples a))) [into_int av_VacuumThreshold_update]
                     (a\<lparr>av_Time := now, av_ConnectionID := c_ID conn, av_DBType := c_DBType conn\<rparr>)))\<lparr>av_Engine := ''PostgreSQL''\<rparr>)
               (scan_answer (pg_vacuum_targets S) zero_autovacuum rows)) m)"

definition optimizer_targets :: "mon_ext \<Rightarrow> (sql_value \<Rightarrow> autovacuum_info \<Rightarrow> autovacuum_info option) list" where
  "optimizer_targets S =
     [into_text S av_SchemaName_update, into_text S av_TableName_update, into_null_text S av_Engine_update,
      into_null_int av_TableRows_update, into_null_int av_TableSize_update, into_null_int av_IndexSize_update,
      into_null_int av_DataFree_update, into_null_text S av_TableCollation_update]"

definition collectMySQLOptimizer :: "mon_ext \<Rightarrow> (mon_sql \<Rightarrow> sql_rows) \<Rightarrow> connection \<Rightarrow> int \<Rightarrow> mon_db \<Rightarrow> mon_db" where
  "collectMySQLOptimizer S db conn now m =
     (case db My_Optimizer_Tables of
        Inl _ \<Rightarrow> m
      | Inr (_, rows) \<Rightarrow>
          record_all RecordAutovacuumInfo
            (map (\<lambda>a. a\<lparr>av_Time := now, av_ConnectionID := c_ID conn, av_DBType := c_DBType conn, av_LiveTuples := av_TableRows a\<rparr>)
               (scan_answer (optimizer_targets S) zero_autovacuum rows)) m)"

text \<open>The four entry points have one shape: open the source, then ask by its type; the first error ends them.\<close>

definition by_type ::
  "mon_ext \<Rightarrow> connection \<Rightarrow> int \<Rightarrow> ((mon_sql \<Rightarrow> sql_rows) \<Rightarrow> mon_db \<Rightarrow> mon_db) \<Rightarrow> ((mon_sql \<Rightarrow> sql_rows) \<Rightarrow> mon_db \<Rightarrow> mon_db) \<Rightarrow>
     mon_db \<Rightarrow> mon_db" where
  "by_type S conn t pg my m =
     (case mon_openSourceDB S conn of
        Inl _ \<Rightarrow> m
      | Inr source \<Rightarrow>
          if c_DBType conn = ''postgresql'' then pg (ask S source t) m
          else if c_DBType conn = ''mysql'' \<or> c_DBType conn = ''mariadb'' then my (ask S source t) m
          else m)"

definition collectAutovacuumAsync :: "mon_ext \<Rightarrow> connection \<Rightarrow> int \<Rightarrow> int \<Rightarrow> mon_db \<Rightarrow> mon_db" where
  "collectAutovacuumAsync S conn now t =
     by_type S conn t (\<lambda>db. collectPGAutovacuum S db conn now) (\<lambda>db. collectMySQLOptimizer S db conn now)"

section \<open>Locks\<close>

definition zero_lock :: lock_info where
  "zero_lock = \<lparr>lk_Time = 0, lk_ConnectionID = [], lk_DBType = [], lk_DatabaseName = [], lk_RelationName = [], lk_LockType = [],
     lk_LockMode = [], lk_Granted = False, lk_BlockedPID = 0, lk_BlockedUser = [], lk_BlockedQuery = [], lk_BlockedDuration = 0,
     lk_BlockingPID = 0, lk_BlockingUser = [], lk_BlockingQuery = [], lk_IsDeadlock = False\<rparr>"

definition lock_of :: "connection \<Rightarrow> int \<Rightarrow> lock_info \<Rightarrow> lock_info" where
  "lock_of conn now l = l\<lparr>lk_Time := now, lk_ConnectionID := c_ID conn, lk_DBType := c_DBType conn\<rparr>"

definition into_granted :: "sql_value \<Rightarrow> lock_info \<Rightarrow> lock_info option" where
  "into_granted = into scan_bool (\<lambda>b. lk_Granted_update (\<lambda>_. b))"

definition collectPGLocks :: "mon_ext \<Rightarrow> (mon_sql \<Rightarrow> sql_rows) \<Rightarrow> connection \<Rightarrow> int \<Rightarrow> mon_db \<Rightarrow> mon_db" where
  "collectPGLocks S db conn now m =
     (case db Pg_Waiting_Locks of
        Inl _ \<Rightarrow> m
      | Inr (_, rows) \<Rightarrow>
          record_all RecordLockInfo
            (map (lock_of conn now)
               (scan_answer [into_text S lk_DatabaseName_update, into_text S lk_RelationName_update, into_text S lk_LockType_update,
                  into_text S lk_LockMode_update, into_granted, into_int lk_BlockedPID_update, into_text S lk_BlockedUser_update,
                  into_text S lk_BlockedQuery_update, into_real lk_BlockedDuration_update, into_int lk_BlockingPID_update,
                  into_text S lk_BlockingUser_update, into_text S lk_BlockingQuery_update] zero_lock rows)) m)"

definition long_running :: "connection \<Rightarrow> int \<Rightarrow> lock_info \<Rightarrow> lock_info" where
  "long_running conn now l = (lock_of conn now l)\<lparr>lk_LockMode := ''long_running'', lk_LockType := ''query''\<rparr>"

definition blocked_targets :: "mon_ext \<Rightarrow> (sql_value \<Rightarrow> lock_info \<Rightarrow> lock_info option) list" where
  "blocked_targets S =
     [into_int lk_BlockedPID_update, into_text S lk_BlockedUser_update, into_text S lk_BlockedQuery_update,
      into_real lk_BlockedDuration_update]"

definition collectMySQLLocks :: "mon_ext \<Rightarrow> (mon_sql \<Rightarrow> sql_rows) \<Rightarrow> connection \<Rightarrow> int \<Rightarrow> mon_db \<Rightarrow> mon_db" where
  "collectMySQLLocks S db conn now m =
     (case db My_Waiting_Trx of
        Inl _ \<Rightarrow>
          (case db My_Processlist of
             Inl _ \<Rightarrow> m
           | Inr (_, rows) \<Rightarrow>
               record_all RecordLockInfo
                 (filter (\<lambda>l. lk_BlockedDuration l > 60)
                    (map (long_running conn now) (scan_answer (blocked_targets S) zero_lock rows))) m)
      | Inr (_, rows) \<Rightarrow>
          record_all RecordLockInfo
            (map (\<lambda>l. (lock_of conn now l)\<lparr>lk_DatabaseName := c_Name conn\<rparr>)
               (scan_answer (blocked_targets S @ [into_text S lk_LockType_update, into_text S lk_LockMode_update, into_granted])
                  zero_lock rows)) m)"

definition collectLocksAsync :: "mon_ext \<Rightarrow> connection \<Rightarrow> int \<Rightarrow> int \<Rightarrow> mon_db \<Rightarrow> mon_db" where
  "collectLocksAsync S conn now t =
     by_type S conn t (\<lambda>db. collectPGLocks S db conn now) (\<lambda>db. collectMySQLLocks S db conn now)"

section \<open>Replication lag\<close>

definition zero_replication :: replication_lag where
  "zero_replication = \<lparr>rl_Time = 0, rl_ConnectionID = [], rl_DBType = [], rl_ApplicationName = [], rl_ClientAddr = [], rl_State = [],
     rl_SyncState = [], rl_WriteLag = 0, rl_FlushLag = 0, rl_ReplayLag = 0, rl_SlaveIOState = [], rl_SlaveIOThread = [],
     rl_SlaveSQLThread = [], rl_ReadMasterLogPos = 0, rl_ExecMasterLogPos = 0, rl_RelayMasterLogFile = [],
     rl_SecondsBehindMaster = 0, rl_LastErrno = 0, rl_LastError = []\<rparr>"

definition into_lag :: "mon_ext \<Rightarrow> ((rat \<Rightarrow> rat) \<Rightarrow> replication_lag \<Rightarrow> replication_lag) \<Rightarrow> sql_value \<Rightarrow> replication_lag \<Rightarrow>
    replication_lag option" where
  "into_lag S upd = into_null (scan_text (me_format S)) (\<lambda>s. upd (\<lambda>_. parseIntervalSeconds s))"

definition collectPGReplicationLag :: "mon_ext \<Rightarrow> (mon_sql \<Rightarrow> sql_rows) \<Rightarrow> connection \<Rightarrow> int \<Rightarrow> mon_db \<Rightarrow> mon_db" where
  "collectPGReplicationLag S db conn now m =
     (let inRecovery = snd (query_row (db Pg_In_Recovery) [into scan_bool (\<lambda>b _. b)] False)
      in if inRecovery then m
         else case db Pg_Stat_Replication of
             Inl _ \<Rightarrow> m
           | Inr (_, rows) \<Rightarrow>
               record_all RecordReplicationLag
                 (map (\<lambda>r. r\<lparr>rl_Time := now, rl_ConnectionID := c_ID conn, rl_DBType := c_DBType conn\<rparr>)
                    (scan_answer [into_text S rl_ApplicationName_update, into_text S rl_ClientAddr_update, into_text S rl_State_update,
                       into_text S rl_SyncState_update, into_lag S rl_WriteLag_update, into_lag S rl_FlushLag_update,
                       into_lag S rl_ReplayLag_update] zero_replication rows)) m)"

text \<open>One column of the status row of a replica, by its name; an unknown column is ignored.\<close>

definition set_status :: "string \<Rightarrow> string \<Rightarrow> replication_lag \<Rightarrow> replication_lag" where
  "set_status col v r =
     (if col = ''Slave_IO_State'' then r\<lparr>rl_SlaveIOState := v\<rparr>
      else if col = ''Slave_IO_Running'' then r\<lparr>rl_SlaveIOThread := v\<rparr>
      else if col = ''Slave_SQL_Running'' then r\<lparr>rl_SlaveSQLThread := v\<rparr>
      else if col = ''Seconds_Behind_Master'' then r\<lparr>rl_SecondsBehindMaster := parseInt v\<rparr>
      else if col = ''Read_Master_Log_Pos'' then r\<lparr>rl_ReadMasterLogPos := mon_parseInt64 v\<rparr>
      else if col = ''Exec_Master_Log_Pos'' then r\<lparr>rl_ExecMasterLogPos := mon_parseInt64 v\<rparr>
      else if col = ''Relay_Master_Log_File'' then r\<lparr>rl_RelayMasterLogFile := v\<rparr>
      else if col = ''Last_Errno'' then r\<lparr>rl_LastErrno := parseInt v\<rparr>
      else if col = ''Last_Error'' then r\<lparr>rl_LastError := v\<rparr>
      else r)"

text \<open>\<open>sql.NullString\<close> targets take every value.\<close>

definition replica_status :: "mon_ext \<Rightarrow> connection \<Rightarrow> int \<Rightarrow> string list \<Rightarrow> sql_value list \<Rightarrow> replication_lag" where
  "replica_status S conn now cols vals =
     fold (\<lambda>(col, v) r. case scan_text (me_format S) v of None \<Rightarrow> r | Some s \<Rightarrow> set_status col s r) (zip cols vals)
       (zero_replication\<lparr>rl_Time := now, rl_ConnectionID := c_ID conn, rl_DBType := c_DBType conn\<rparr>)"

definition replica_rows :: "(mon_sql \<Rightarrow> sql_rows) \<Rightarrow> sql_rows" where
  "replica_rows db = (case db My_Replica_Status of Inl _ \<Rightarrow> db My_Slave_Status | Inr r \<Rightarrow> Inr r)"

definition collectMySQLReplicationLag :: "mon_ext \<Rightarrow> (mon_sql \<Rightarrow> sql_rows) \<Rightarrow> connection \<Rightarrow> int \<Rightarrow> mon_db \<Rightarrow> mon_db" where
  "collectMySQLReplicationLag S db conn now m =
     (case replica_rows db of
        Inl _ \<Rightarrow> m
      | Inr (cols, rows) \<Rightarrow>
          record_all RecordReplicationLag
            (map (replica_status S conn now cols) (filter (\<lambda>vals. length vals = length cols) rows)) m)"

definition collectReplicationLagAsync :: "mon_ext \<Rightarrow> connection \<Rightarrow> int \<Rightarrow> int \<Rightarrow> mon_db \<Rightarrow> mon_db" where
  "collectReplicationLagAsync S conn now t =
     by_type S conn t (\<lambda>db. collectPGReplicationLag S db conn now) (\<lambda>db. collectMySQLReplicationLag S db conn now)"

section \<open>Table sizes\<close>

definition zero_table :: table_metric where
  "zero_table = \<lparr>tm_Time = 0, tm_ConnectionID = [], tm_DBType = [], tm_DatabaseName = [], tm_SchemaName = [], tm_TableName = [],
     tm_TableSize = 0, tm_IndexSize = 0, tm_TotalSize = 0, tm_RowEstimate = 0, tm_FillFactor = 0, tm_DeadTupleRatio = 0,
     tm_Engine = [], tm_Collation = []\<rparr>"

definition table_targets :: "mon_ext \<Rightarrow> (sql_value \<Rightarrow> table_metric \<Rightarrow> table_metric option) list" where
  "table_targets S =
     [into_text S tm_DatabaseName_update, into_text S tm_SchemaName_update, into_text S tm_TableName_update,
      into_int tm_TableSize_update, into_int tm_IndexSize_update, into_int tm_TotalSize_update]"

definition collectPGTableMetrics :: "mon_ext \<Rightarrow> (mon_sql \<Rightarrow> sql_rows) \<Rightarrow> connection \<Rightarrow> int \<Rightarrow> mon_db \<Rightarrow> mon_db" where
  "collectPGTableMetrics S db conn now m =
     (case db Pg_Table_Sizes of
        Inl _ \<Rightarrow> m
      | Inr (_, rows) \<Rightarrow>
          record_all RecordTableMetric
            (map (\<lambda>x. x\<lparr>tm_Time := now, tm_ConnectionID := c_ID conn, tm_DBType := c_DBType conn, tm_Engine := ''PostgreSQL''\<rparr>)
               (scan_answer (table_targets S @ [into_int tm_RowEstimate_update, into_real tm_DeadTupleRatio_update]) zero_table rows)) m)"

definition collectMySQLTableMetrics :: "mon_ext \<Rightarrow> (mon_sql \<Rightarrow> sql_rows) \<Rightarrow> connection \<Rightarrow> int \<Rightarrow> mon_db \<Rightarrow> mon_db" where
  "collectMySQLTableMetrics S db conn now m =
     (case db My_Table_Sizes of
        Inl _ \<Rightarrow> m
      | Inr (_, rows) \<Rightarrow>
          record_all RecordTableMetric
            (map (\<lambda>x. x\<lparr>tm_Time := now, tm_ConnectionID := c_ID conn, tm_DBType := c_DBType conn\<rparr>)
               (scan_answer (table_targets S @ [into_null_int tm_RowEstimate_update, into_null_text S tm_Engine_update,
                  into_null_text S tm_Collation_update]) zero_table rows)) m)"

definition collectTableMetricsAsync :: "mon_ext \<Rightarrow> connection \<Rightarrow> int \<Rightarrow> int \<Rightarrow> mon_db \<Rightarrow> mon_db" where
  "collectTableMetricsAsync S conn now t =
     by_type S conn t (\<lambda>db. collectPGTableMetrics S db conn now) (\<lambda>db. collectMySQLTableMetrics S db conn now)"

end
