(* ===== verification/Collector.thy ===== *)
theory Collector
  imports Collector_Tables
begin

text \<open>
  \<open>internal/monitoring/collector.go\<close>, the collector itself: the health check, the collection from one connection, the
  cycle over all connections, the life of the background loop; and \<open>TriggerCollect\<close> of \<open>handler.go\<close>. The program
  gives the collector the connection repository, so a cycle reads the connections of the \<open>world\<close> and writes to the
  monitoring store.
\<close>

section \<open>Health check\<close>

definition response_status :: "health_check \<Rightarrow> health_check" where
  "response_status h =
     (if hc_ResponseTimeMs h < 1000 then h\<lparr>hc_Status := ''healthy''\<rparr>
      else if hc_ResponseTimeMs h < 5000 then h\<lparr>hc_Status := ''degraded''\<rparr>
      else h\<lparr>hc_Status := ''down'', hc_ErrorMessage := ''response time too high: '' @ fmt_d (hc_ResponseTimeMs h) @ ''ms''\<rparr>)"

definition collectHealth :: "mon_ext \<Rightarrow> connection \<Rightarrow> int \<Rightarrow> 's world \<Rightarrow> health_check \<times> 's world" where
  "collectHealth S conn now w =
     (let h = \<lparr>hc_Time = now, hc_ConnectionID = c_ID conn, hc_Status = [], hc_ResponseTimeMs = 0, hc_ActiveConnections = 0,
            hc_ErrorMessage = []\<rparr>
      in case mon_openSourceDB S conn of
           Inl e \<Rightarrow> (h\<lparr>hc_Status := ''down'', hc_ErrorMessage := e\<rparr>, w)
         | Inr source \<Rightarrow>
             (let (pingStart, w1) = time_now w; err = me_ping S (fst source) (snd source) pingStart;
                  (pingEnd, w2) = time_now w1;
                  h1 = h\<lparr>hc_ResponseTimeMs := duration_ms pingStart pingEnd\<rparr>
              in case err of
                   Some e \<Rightarrow> (h1\<lparr>hc_Status := ''down'', hc_ErrorMessage := e\<rparr>, w2)
                 | None \<Rightarrow>
                     (response_status (h1\<lparr>hc_ActiveConnections :=
                        queryActiveConnections (ask S source (w_clock w2 0)) (c_DBType conn)\<rparr>), w2)))"

section \<open>One connection\<close>

text \<open>The metrics after the health check; their errors are logged.\<close>

definition collect_metrics :: "mon_ext \<Rightarrow> connection \<Rightarrow> int \<Rightarrow> int \<Rightarrow> mon_db \<Rightarrow> mon_db" where
  "collect_metrics S conn now t m =
     (let m1 = (case collectDBMetrics S conn now t of Inl _ \<Rightarrow> m | Inr metrics \<Rightarrow> record_all RecordDBMetric metrics m);
          m2 = (case collectPerformance S conn now t of Inl _ \<Rightarrow> m1 | Inr perf \<Rightarrow> record_all RecordPerformanceMetric perf m1);
          m3 = collectAutovacuumAsync S conn now t m2;
          m4 = collectLocksAsync S conn now t m3;
          m5 = collectReplicationLagAsync S conn now t m4
      in collectTableMetricsAsync S conn now t m5)"

definition collectConnection :: "mon_ext \<Rightarrow> connection \<Rightarrow> 's world \<Rightarrow> mon_db \<Rightarrow> gerror option \<times> 's world \<times> mon_db" where
  "collectConnection S conn w m =
     (let (now, w1) = time_now w; (h, w2) = collectHealth S conn now w1
      in case RecordHealthCheck h m of
           (Some e, m1) \<Rightarrow> (Some (''save health check: '' @ e), w2, m1)
         | (None, m1) \<Rightarrow>
             if hc_Status h = ''down'' then (None, w2, m1)
             else (None, w2, collect_metrics S conn now (w_clock w2 0) m1))"

section \<open>The cycle\<close>

text \<open>The listed connections are read again one by one, with their passwords; the numbers of successes and failures are
  logged.\<close>

fun collect_each :: "mon_ext \<Rightarrow> connection list \<Rightarrow> nat \<times> nat \<Rightarrow> 's world \<Rightarrow> mon_db \<Rightarrow> (nat \<times> nat) \<times> 's world \<times> mon_db" where
  "collect_each S [] counts w m = (counts, w, m)"
| "collect_each S (conn # conns) (succeeded, failed) w m =
     (case on_db (ConnectionRepo_GetByID (c_ID conn)) w of
        (Inr (Some fullConn), w1) \<Rightarrow>
          (case collectConnection S fullConn w1 m of
             (Some _, w2, m2) \<Rightarrow> collect_each S conns (succeeded, Suc failed) w2 m2
           | (None, w2, m2) \<Rightarrow> collect_each S conns (Suc succeeded, failed) w2 m2)
      | (_, w1) \<Rightarrow> collect_each S conns (succeeded, Suc failed) w1 m)"

definition collect :: "mon_ext \<Rightarrow> 's world \<Rightarrow> mon_db \<Rightarrow> gerror option \<times> 's world \<times> mon_db" where
  "collect S w m =
     (let (start, w1) = time_now w
      in case on_db ConnectionRepo_List w1 of
           (Inl e, w2) \<Rightarrow> (Some (''list connections: '' @ e), w2, m)
         | (Inr conns, w2) \<Rightarrow>
             if conns = [] then (None, w2, m)
             else (case collect_each S conns (0, 0) w2 m of (_, w3, m3) \<Rightarrow> (None, snd (time_now w3), m3)))"

definition CollectNow :: "mon_ext \<Rightarrow> 's world \<Rightarrow> mon_db \<Rightarrow> gerror option \<times> 's world \<times> mon_db" where
  "CollectNow = collect"

text \<open>The handler answers at once; the cycle runs on in the background.\<close>

definition TriggerCollect :: "bool \<Rightarrow> unit response" where
  "TriggerCollect initialized =
     (if \<not> initialized then WriteError 503 ''collector not initialized'' else WriteJSON 202 ())"

section \<open>The background loop\<close>

text \<open>A goroutine of \<open>loop\<close> is before its first cycle or waits for the ticker, the stop channel and the context.\<close>

datatype loop_state = Initial_Cycle | Waiting

record collector =
  co_interval :: int
  co_stopCh_closed :: bool
  co_running :: bool
  co_loops :: "loop_state list" \<comment> \<open>the goroutines that have not returned\<close>

definition NewCollector :: "int \<Rightarrow> collector" where
  "NewCollector interval =
     \<lparr>co_interval = (if interval \<le> 0 then 60 * 10 ^ 9 else interval), co_stopCh_closed = False, co_running = False, co_loops = []\<rparr>"

definition Collector_Start :: "collector \<Rightarrow> collector" where
  "Collector_Start c = (if co_running c then c else c\<lparr>co_running := True, co_loops := co_loops c @ [Initial_Cycle]\<rparr>)"

text \<open>Closing the closed channel is a panic, \<open>None\<close>.\<close>

definition Collector_Stop :: "collector \<Rightarrow> collector option" where
  "Collector_Stop c =
     (if \<not> co_running c then Some c
      else if co_stopCh_closed c then None
      else Some (c\<lparr>co_stopCh_closed := True, co_running := False\<rparr>))"

definition Running :: "collector \<Rightarrow> bool" where
  "Running c = co_running c"

text \<open>What can happen next: a call of \<open>Start\<close> or \<open>Stop\<close>, or the next event of a loop. The flag of the step tells whether
  a cycle ran. The context of the program is never cancelled.\<close>

inductive collector_step :: "collector \<Rightarrow> bool \<Rightarrow> collector \<Rightarrow> bool" where
  start: "collector_step c False (Collector_Start c)"
| stop: "Collector_Stop c = Some c' \<Longrightarrow> collector_step c False c'"
| initial: "i < length (co_loops c) \<Longrightarrow> co_loops c ! i = Initial_Cycle \<Longrightarrow>
    collector_step c True (c\<lparr>co_loops := (co_loops c)[i := Waiting]\<rparr>)"
| tick: "i < length (co_loops c) \<Longrightarrow> co_loops c ! i = Waiting \<Longrightarrow> collector_step c True c"
| loop_return: "i < length (co_loops c) \<Longrightarrow> co_loops c ! i = Waiting \<Longrightarrow> co_stopCh_closed c \<Longrightarrow>
    collector_step c False (c\<lparr>co_loops := take i (co_loops c) @ drop (Suc i) (co_loops c)\<rparr>)"

inductive collector_reach :: "int \<Rightarrow> collector \<Rightarrow> bool" where
  new: "collector_reach interval (NewCollector interval)"
| step: "collector_reach interval c \<Longrightarrow> collector_step c b c' \<Longrightarrow> collector_reach interval c'"

inductive_cases collector_stepE: "collector_step c b c'"

end
