(* ===== verification/Collector_Properties.thy ===== *)
theory Collector_Properties
  imports Collector
begin

text \<open>
  What a collection cycle guarantees whatever the source servers answer, what the texts of lags become, and the life of
  the background loop.
\<close>

section \<open>What recording changes\<close>

text \<open>From \<open>m\<close> to \<open>m'\<close> only metrics of the connections \<open>I\<close> were added; the health checks are as they were.\<close>

definition adds :: "('a \<Rightarrow> string) \<Rightarrow> string set \<Rightarrow> 'a list \<Rightarrow> 'a list \<Rightarrow> bool" where
  "adds cid I xs ys \<longleftrightarrow> (\<exists>zs. ys = xs @ zs \<and> cid ` set zs \<subseteq> I)"

definition metrics_of :: "string set \<Rightarrow> mon_db \<Rightarrow> mon_db \<Rightarrow> bool" where
  "metrics_of I m m' \<longleftrightarrow>
     m_schema m' = m_schema m \<and> (m_faults m = [] \<longrightarrow> m_faults m' = []) \<and>
     adds dm_ConnectionID I (m_metrics m) (m_metrics m') \<and> adds pm_ConnectionID I (m_performance m) (m_performance m') \<and>
     adds av_ConnectionID I (m_autovacuum m) (m_autovacuum m') \<and> adds lk_ConnectionID I (m_locks m) (m_locks m') \<and>
     adds rl_ConnectionID I (m_replication m) (m_replication m') \<and> adds tm_ConnectionID I (m_tables m) (m_tables m')"

lemma adds_refl [simp]: "adds cid I xs xs"
  by (simp add: adds_def)

lemma adds_snoc [simp]: "adds cid I xs (xs @ [x]) \<longleftrightarrow> cid x \<in> I"
  by (simp add: adds_def)

lemma adds_trans: "adds cid I xs ys \<Longrightarrow> adds cid I ys zs \<Longrightarrow> adds cid I xs zs"
  by (auto simp: adds_def image_Un)

lemma adds_mono: "adds cid I xs ys \<Longrightarrow> I \<subseteq> J \<Longrightarrow> adds cid J xs ys"
  unfolding adds_def by blast

lemma metrics_of_refl [simp]: "metrics_of I m m"
  by (simp add: metrics_of_def)

lemma metrics_of_trans: "metrics_of I m m1 \<Longrightarrow> metrics_of I m1 m2 \<Longrightarrow> metrics_of I m m2"
  unfolding metrics_of_def by (auto intro: adds_trans)

lemma metrics_of_mono: "metrics_of I m m' \<Longrightarrow> I \<subseteq> J \<Longrightarrow> metrics_of J m m'"
  unfolding metrics_of_def by (auto intro: adds_mono)

lemma mon_try_cases: "mon_try m = (e, m') \<Longrightarrow> \<exists>fs. m' = m\<lparr>m_faults := fs\<rparr> \<and> (m_faults m = [] \<longrightarrow> e = None \<and> fs = [])"
  by (cases m) (auto simp: mon_try_def split: list.splits)

lemma mon_exec_cases:
  obtains fs where "m_faults m = [] \<longrightarrow> fs = []" "snd (mon_exec t cols f m) \<in> {m\<lparr>m_faults := fs\<rparr>, f (m\<lparr>m_faults := fs\<rparr>)}"
proof -
  obtain e m' where t: "mon_try m = (e, m')" by fastforce
  then obtain fs where m': "m' = m\<lparr>m_faults := fs\<rparr>" "m_faults m = [] \<longrightarrow> fs = []" using mon_try_cases [OF t] by auto
  have "snd (mon_exec t cols f m) \<in> {m', f m'}" using t by (cases e) (auto simp: mon_exec_def)
  with m' that show thesis by simp
qed

text \<open>One step of a recording changes one table; the store it leaves is one of two.\<close>

lemma mon_exec_metrics:
  assumes "\<And>fs. m_faults m = [] \<longrightarrow> fs = [] \<Longrightarrow> metrics_of I m (f (m\<lparr>m_faults := fs\<rparr>)) \<and> m_health (f (m\<lparr>m_faults := fs\<rparr>)) = m_health m"
  shows "metrics_of I m (snd (mon_exec t cols f m)) \<and> m_health (snd (mon_exec t cols f m)) = m_health m"
proof -
  obtain fs where fs: "m_faults m = [] \<longrightarrow> fs = []" "snd (mon_exec t cols f m) \<in> {m\<lparr>m_faults := fs\<rparr>, f (m\<lparr>m_faults := fs\<rparr>)}"
    by (rule mon_exec_cases)
  have "metrics_of I m (m\<lparr>m_faults := fs\<rparr>)" using fs(1) by (simp add: metrics_of_def)
  with fs assms [OF fs(1)] show ?thesis by auto
qed

text \<open>What one collection does to the store: it adds metrics of one connection.\<close>

definition collects :: "string \<Rightarrow> (mon_db \<Rightarrow> mon_db) \<Rightarrow> bool" where
  "collects i f \<longleftrightarrow> (\<forall>m. metrics_of {i} m (f m) \<and> m_health (f m) = m_health m)"

lemma collects_id: "collects i (\<lambda>m. m)"
  by (simp add: collects_def)

lemma collects_then: "collects i f \<Longrightarrow> collects i g \<Longrightarrow> collects i (\<lambda>m. g (f m))"
  unfolding collects_def by (metis metrics_of_trans)

text \<open>The contract of the \<open>Store\<close> interface the collector relies on: recording a metric, whether it succeeds or not,
  adds at most that metric.\<close>

locale recorder =
  fixes cid :: "'a \<Rightarrow> string" and rec :: "'a \<Rightarrow> mon_db \<Rightarrow> gerror option \<times> mon_db"
  assumes records: "metrics_of {cid x} m (snd (rec x m)) \<and> m_health (snd (rec x m)) = m_health m"
begin

lemma collects_all: "\<forall>x \<in> set xs. cid x = i \<Longrightarrow> collects i (\<lambda>m. record_all rec xs m)"
proof (induction xs)
  case (Cons x xs)
  then have "collects i (\<lambda>m. snd (rec x m))" using records [of x] by (simp add: collects_def)
  from collects_then [OF this Cons.IH] Cons.prems show ?case by (simp add: record_all_def)
qed (simp add: collects_def record_all_def)

lemma collects_rows:
  "\<forall>cols rows. \<forall>x \<in> set (xs cols rows). cid x = i \<Longrightarrow>
     collects i (\<lambda>m. case q of Inl _ \<Rightarrow> m | Inr (cols, rows) \<Rightarrow> record_all rec (xs cols rows) m)"
  by (cases q) (auto simp: collects_id collects_all split: prod.splits)

end

interpretation metric_store: recorder dm_ConnectionID RecordDBMetric
  unfolding RecordDBMetric_def
  by unfold_locales (rule mon_exec_metrics, simp add: metrics_of_def metric_row_def)

interpretation performance_store: recorder pm_ConnectionID RecordPerformanceMetric
  unfolding RecordPerformanceMetric_def
  by unfold_locales (rule mon_exec_metrics, simp add: metrics_of_def)

interpretation autovacuum_store: recorder av_ConnectionID RecordAutovacuumInfo
  unfolding RecordAutovacuumInfo_def
  by unfold_locales (rule mon_exec_metrics, simp add: metrics_of_def)

interpretation lock_store: recorder lk_ConnectionID RecordLockInfo
  unfolding RecordLockInfo_def
  by unfold_locales (rule mon_exec_metrics, simp add: metrics_of_def)

interpretation replication_store: recorder rl_ConnectionID RecordReplicationLag
  unfolding RecordReplicationLag_def
  by unfold_locales (rule mon_exec_metrics, simp add: metrics_of_def)

interpretation table_store: recorder tm_ConnectionID RecordTableMetric
  unfolding RecordTableMetric_def
  by unfold_locales (rule mon_exec_metrics, simp add: metrics_of_def)

section \<open>Whose metrics they are\<close>

text \<open>A scan into other fields keeps a field.\<close>

definition keeps :: "('a \<Rightarrow> 'b) \<Rightarrow> (sql_value \<Rightarrow> 'a \<Rightarrow> 'a option) \<Rightarrow> bool" where
  "keeps g t \<longleftrightarrow> (\<forall>v x y. t v x = Some y \<longrightarrow> g y = g x)"

lemma scan_into_keeps: "list_all (keeps g) ts \<Longrightarrow> g (snd (scan_into ts vs x)) = g x"
proof (induction ts vs x rule: scan_into.induct)
  case (1 t ts v vs x)
  then show ?case by (cases "t v x") (simp_all add: keeps_def)
qed simp_all

lemma query_row_keeps [simp]: "list_all (keeps g) ts \<Longrightarrow> g (snd (query_row rows ts x)) = g x"
  by (auto simp: query_row_def scan_row_def scan_into_keeps split: sum.splits list.splits)

lemmas targets = into_def into_null_def into_int_def into_real_def into_null_int_def

lemma targets_keep [simp]:
  "keeps dm_ConnectionID (into_int dm_DBSizeBytes_update)" "keeps dm_ConnectionID (into_int dm_QPS_update)"
  "keeps dm_ConnectionID (into_int dm_ConnectionsTotal_update)" "keeps dm_ConnectionID (into_int dm_MaxConnections_update)"
  "keeps dm_ConnectionID (into_real dm_CacheHitRatio_update)"
  "keeps dm_ConnectionID (into_null scan_real (\<lambda>q. dm_CacheHitRatio_update (\<lambda>_. q)))"
  "keeps av_ConnectionID (into_int av_VacuumThreshold_update)"
  by (auto simp: keeps_def targets split: if_splits)

lemma set_usage_id [simp]: "dm_ConnectionID (set_usage x) = dm_ConnectionID x"
  by (simp add: set_usage_def)

lemma metric_ids:
  "dm_ConnectionID (pg_metric db conn now dbName) = c_ID conn"
  "dm_ConnectionID (mysql_metric db conn now dbName) = c_ID conn"
  by (simp_all add: pg_metric_def mysql_metric_def Let_def)

lemma collected_metric_ids:
  "collectDBMetrics S conn now t = Inr ms \<Longrightarrow> \<forall>x \<in> set ms. dm_ConnectionID x = c_ID conn"
  by (auto simp: collectDBMetrics_def collectPGMetrics_def collectMySQLMetrics_def metric_ids split: sum.splits if_splits prod.splits)

lemma collected_performance_ids:
  "collectPerformance S conn now t = Inr ps \<Longrightarrow> \<forall>x \<in> set ps. pm_ConnectionID x = c_ID conn"
  by (auto simp: collectPerformance_def collectPGPerformance_def collectMySQLPerformance_def performance_rows_def
      split: sum.splits if_splits prod.splits)

lemma collects_by_type:
  "\<forall>db. collects i (pg db) \<Longrightarrow> \<forall>db. collects i (my db) \<Longrightarrow> collects i (by_type S conn t pg my)"
  by (cases "mon_openSourceDB S conn"; cases "c_DBType conn = ''postgresql''";
      cases "c_DBType conn = ''mysql'' \<or> c_DBType conn = ''mariadb''") (auto simp: by_type_def [abs_def] collects_id)

lemma replica_status_id: "rl_ConnectionID (replica_status S conn now cols vals) = c_ID conn"
proof -
  have "rl_ConnectionID (fold (\<lambda>(col, v) r. case scan_text (me_format S) v of None \<Rightarrow> r | Some s \<Rightarrow> set_status col s r) cvs r) =
      rl_ConnectionID r" for cvs r
  proof (induction cvs arbitrary: r)
    case (Cons cv cvs)
    have "rl_ConnectionID (set_status col s r) = rl_ConnectionID r" for col s r by (simp add: set_status_def)
    with Cons show ?case by (auto split: prod.splits option.splits)
  qed simp
  then show ?thesis by (simp add: replica_status_def)
qed

text \<open>Every collection adds metrics of its connection only.\<close>

lemma lock_of_id [simp]: "lk_ConnectionID (lock_of conn now l) = c_ID conn"
  by (simp add: lock_of_def)

lemma long_running_id [simp]: "lk_ConnectionID (long_running conn now l) = c_ID conn"
  by (simp add: long_running_def)

lemma collects_autovacuum: "collects (c_ID conn) (collectAutovacuumAsync S conn now t)"
proof -
  have "collects (c_ID conn) (collectPGAutovacuum S db conn now)" "collects (c_ID conn) (collectMySQLOptimizer S db conn now)" for db
    unfolding collectPGAutovacuum_def [abs_def] collectMySQLOptimizer_def [abs_def]
    by (rule autovacuum_store.collects_rows; simp)+
  then show ?thesis by (simp add: collectAutovacuumAsync_def collects_by_type)
qed

lemma collects_locks: "collects (c_ID conn) (collectLocksAsync S conn now t)"
proof -
  have "collects (c_ID conn) (collectPGLocks S db conn now)" for db
    unfolding collectPGLocks_def [abs_def] by (rule lock_store.collects_rows) simp
  moreover have "collects (c_ID conn) (collectMySQLLocks S db conn now)" for db
    by (cases "db My_Waiting_Trx"; cases "db My_Processlist")
      (auto simp: collectMySQLLocks_def [abs_def] collects_id split: prod.splits intro!: lock_store.collects_all)
  ultimately show ?thesis by (simp add: collectLocksAsync_def collects_by_type)
qed

lemma collects_replication: "collects (c_ID conn) (collectReplicationLagAsync S conn now t)"
proof -
  have "collects (c_ID conn) (collectPGReplicationLag S db conn now)" for db
  proof (cases "snd (query_row (db Pg_In_Recovery) [into scan_bool (\<lambda>b _. b)] False)")
    case False
    then show ?thesis unfolding collectPGReplicationLag_def [abs_def] Let_def if_not_P [OF False]
      by (intro replication_store.collects_rows) simp
  qed (simp add: collectPGReplicationLag_def [abs_def] collects_id)
  moreover have "collects (c_ID conn) (collectMySQLReplicationLag S db conn now)" for db
    unfolding collectMySQLReplicationLag_def [abs_def] by (rule replication_store.collects_rows) (simp add: replica_status_id)
  ultimately show ?thesis by (simp add: collectReplicationLagAsync_def collects_by_type)
qed

lemma collects_table_metrics: "collects (c_ID conn) (collectTableMetricsAsync S conn now t)"
proof -
  have "collects (c_ID conn) (collectPGTableMetrics S db conn now)" "collects (c_ID conn) (collectMySQLTableMetrics S db conn now)" for db
    unfolding collectPGTableMetrics_def [abs_def] collectMySQLTableMetrics_def [abs_def]
    by (rule table_store.collects_rows; simp)+
  then show ?thesis by (simp add: collectTableMetricsAsync_def collects_by_type)
qed

lemma collects_metrics: "collects (c_ID conn) (collect_metrics S conn now t)"
proof -
  have d: "collects (c_ID conn) (\<lambda>m. case collectDBMetrics S conn now t of Inl _ \<Rightarrow> m | Inr ms \<Rightarrow> record_all RecordDBMetric ms m)"
    using collected_metric_ids [of S conn now t]
    by (cases "collectDBMetrics S conn now t") (auto simp: collects_id intro!: metric_store.collects_all)
  have p: "collects (c_ID conn) (\<lambda>m. case collectPerformance S conn now t of Inl _ \<Rightarrow> m
      | Inr ps \<Rightarrow> record_all RecordPerformanceMetric ps m)"
    using collected_performance_ids [of S conn now t]
    by (cases "collectPerformance S conn now t") (auto simp: collects_id intro!: performance_store.collects_all)
  have two: "collects (c_ID conn) (\<lambda>m. collectLocksAsync S conn now t (collectAutovacuumAsync S conn now t m))"
    by (rule collects_then [OF collects_autovacuum collects_locks])
  have "collects (c_ID conn) (\<lambda>m. collectTableMetricsAsync S conn now t (collectReplicationLagAsync S conn now t m))"
    by (rule collects_then [OF collects_replication collects_table_metrics])
  from collects_then [OF collects_then [OF d p] collects_then [OF two this]]
  show ?thesis unfolding collect_metrics_def [abs_def] Let_def .
qed

section \<open>The cycle\<close>

text \<open>The health checks can be stored: nothing fails from outside and the table has its columns.\<close>

definition health_stored :: "mon_db \<Rightarrow> bool" where
  "health_stored m \<longleftrightarrow> m_faults m = [] \<and>
     has_columns ''health_checks''
       [''time'', ''connection_id'', ''status'', ''response_time_ms'', ''active_connections'', ''error_message''] m"

lemma health_stored_metrics: "health_stored m \<Longrightarrow> metrics_of I m m' \<Longrightarrow> health_stored m'"
  by (simp add: health_stored_def metrics_of_def has_columns_def)

lemma RecordHealthCheck_stored:
  "health_stored m \<Longrightarrow> RecordHealthCheck h m = (None, m\<lparr>m_health := m_health m @ [h]\<rparr>)"
  by (simp add: health_stored_def RecordHealthCheck_def mon_exec_def mon_try_def)

lemma collectHealth_facts:
  assumes "collectHealth S conn now w = (h, w')"
  shows "hc_ConnectionID h = c_ID conn" "w_db w' = w_db w"
  using assms by (auto simp: collectHealth_def response_status_def Let_def time_now_def split: sum.splits option.splits if_splits)

lemma collectConnection_stored:
  assumes "health_stored m" and c: "collectConnection S conn w m = (r, w', m')"
  shows "r = None \<and> w_db w' = w_db w \<and> health_stored m' \<and>
    (\<exists>h. hc_ConnectionID h = c_ID conn \<and> m_health m' = m_health m @ [h] \<and>
       metrics_of (if hc_Status h = ''down'' then {} else {c_ID conn}) m m')"
proof -
  obtain now w1 where t: "time_now w = (now, w1)" by fastforce
  obtain h w2 where h: "collectHealth S conn now w1 = (h, w2)" by fastforce
  let ?m1 = "m\<lparr>m_health := m_health m @ [h]\<rparr>"
  have m1: "metrics_of I m ?m1" for I by (simp add: metrics_of_def)
  have "w_db w2 = w_db w" using collectHealth_facts(2) [OF h] time_now_fields [of w] t by simp
  moreover have "r = None \<and> w' = w2 \<and> m_health m' = m_health m @ [h] \<and>
      metrics_of (if hc_Status h = ''down'' then {} else {c_ID conn}) m m'"
  proof (cases "hc_Status h = ''down''")
    case True
    then have "r = None" "w' = w2" "m' = ?m1"
      using c by (simp_all add: collectConnection_def t h RecordHealthCheck_stored [OF assms(1)])
    then show ?thesis using m1 by simp
  next
    case False
    then have "r = None" "w' = w2" "m' = collect_metrics S conn now (w_clock w2 0) ?m1"
      using c by (auto simp: collectConnection_def t h RecordHealthCheck_stored [OF assms(1)])
    with False m1 collects_metrics [of conn S now "w_clock w2 0"] show ?thesis
      unfolding collects_def by (auto intro: metrics_of_trans)
  qed
  ultimately show ?thesis using collectHealth_facts(1) [OF h] health_stored_metrics [OF assms(1)] by auto
qed

abbreviation up_ids :: "health_check list \<Rightarrow> string set" where
  "up_ids hs \<equiv> hc_ConnectionID ` {h \<in> set hs. hc_Status h \<noteq> ''down''}"

lemma collect_each_stored:
  assumes "health_stored m" "faults (w_db w) = []"
    and "\<forall>c \<in> set conns. row_find c_ID (c_ID c) (t_connections (w_db w)) \<noteq> None"
    and "collect_each S conns (s, f) w m = (counts, w', m')"
  shows "counts = (s + length conns, f) \<and> w_db w' = w_db w \<and>
    (\<exists>hs. map hc_ConnectionID hs = map c_ID conns \<and> m_health m' = m_health m @ hs \<and> metrics_of (up_ids hs) m m')"
  using assms
proof (induction conns arbitrary: s w m)
  case (Cons conn conns)
  then obtain full where full: "row_find c_ID (c_ID conn) (t_connections (w_db w)) = Some full" by auto
  then have fid: "c_ID full = c_ID conn" using row_find_Some by metis
  have get: "on_db (ConnectionRepo_GetByID (c_ID conn)) w = (Inr (Some full), w)"
    using full Cons.prems(2) by (simp add: on_db_def ConnectionRepo_GetByID_def)
  obtain r w2 m2 where one: "collectConnection S full w m = (r, w2, m2)" by (metis prod_cases3)
  from collectConnection_stored [OF Cons.prems(1) one] obtain h where h: "r = None" "w_db w2 = w_db w" "health_stored m2"
    "hc_ConnectionID h = c_ID conn" "m_health m2 = m_health m @ [h]" "metrics_of (if hc_Status h = ''down'' then {} else {c_ID conn}) m m2"
    unfolding fid by blast
  have rest: "collect_each S conns (Suc s, f) w2 m2 = (counts, w', m')"
    using Cons.prems(4) by (simp add: get one h(1))
  have "faults (w_db w2) = []" "\<forall>c \<in> set conns. row_find c_ID (c_ID c) (t_connections (w_db w2)) \<noteq> None"
    using Cons.prems(2,3) h(2) by simp_all
  from Cons.IH [OF h(3) this rest] obtain hs where hs: "counts = (Suc s + length conns, f)" "w_db w' = w_db w2"
    "map hc_ConnectionID hs = map c_ID conns" "m_health m' = m_health m2 @ hs" "metrics_of (up_ids hs) m2 m'" by blast
  have "(if hc_Status h = ''down'' then {} else {c_ID conn}) \<subseteq> up_ids (h # hs)" using h(4) by (auto intro!: image_eqI [of _ _ h])
  from metrics_of_mono [OF h(6) this] have "metrics_of (up_ids (h # hs)) m m2" .
  moreover have "up_ids hs \<subseteq> up_ids (h # hs)" by auto
  from metrics_of_mono [OF hs(5) this] have "metrics_of (up_ids (h # hs)) m2 m'" .
  ultimately have "metrics_of (up_ids (h # hs)) m m'" by (rule metrics_of_trans)
  moreover have "map hc_ConnectionID (h # hs) = map c_ID (conn # conns)" "m_health m' = m_health m @ (h # hs)"
    using h(4,5) hs(3,4) by simp_all
  ultimately show ?case using hs(1,2) h(2) by (intro conjI exI [of _ "h # hs"]) simp_all
qed simp


definition demo_mon_ext :: mon_ext where
  "demo_mon_ext = \<lparr>me_open = (\<lambda>_ _. None), me_ping = (\<lambda>_ _ _. None), me_query = (\<lambda>_ _ _ _. Inl ''refused''), me_format = (\<lambda>_. [])\<rparr>"

lemma demo_source_connections: "t_connections (w_db demo_source_world) = [demo_source_row]"
  by (simp add: demo_source_world_def)


section \<open>Lag texts\<close>

lemma digits_no_blank:
  assumes "list_all is_digit ds" "ds \<noteq> []"
  shows "split_sign (dropWhile (\<lambda>c. c = CHR '' '' \<or> c = CHR 0x09 \<or> c = CHR 0x0D) (ds @ r)) = (False, ds @ r)"
  using assms digit_not_blank by (cases ds) (auto simp: split_sign_def)

lemma takeWhile_digits: "list_all is_digit ds \<Longrightarrow> r = [] \<or> \<not> is_digit (hd r) \<Longrightarrow> takeWhile is_digit (ds @ r) = ds"
  by (cases r) (auto simp: list_all_iff takeWhile_append)

lemma dropWhile_digits: "list_all is_digit ds \<Longrightarrow> r = [] \<or> \<not> is_digit (hd r) \<Longrightarrow> dropWhile is_digit (ds @ r) = r"
  by (cases r) (auto simp: list_all_iff dropWhile_append)

lemma scan_d_digits:
  assumes "list_all is_digit ds" "ds \<noteq> []" "nat_of_digits ds < 2 ^ 63" "r = [] \<or> \<not> is_digit (hd r)"
  shows "scan_d (ds @ r) = Some (int (nat_of_digits ds), r)"
proof -
  have "int (nat_of_digits ds) < 2 ^ 63" using assms(3) by (metis of_nat_less_iff of_nat_numeral of_nat_power)
  then show ?thesis
    using assms by (simp add: scan_d_def digits_no_blank takeWhile_digits dropWhile_digits signed_value_def int64_ok_def)
qed

lemma scan_f_digits:
  assumes "list_all is_digit ss" "ss \<noteq> []" "list_all is_digit fs"
  shows "scan_f (ss @ CHR ''.'' # fs) = Some (of_nat (nat_of_digits (ss @ fs)) / 10 ^ length fs, [])"
proof -
  have "\<not> is_digit (CHR ''.'')" by (simp add: is_digit_def)
  moreover have frac: "takeWhile is_digit fs = fs" "dropWhile is_digit fs = []"
    using takeWhile_digits [of fs "[]"] dropWhile_digits [of fs "[]"] assms(3) by simp_all
  ultimately show ?thesis
    using assms(1,2) by (simp add: scan_f_def digits_no_blank takeWhile_digits dropWhile_digits scan_exponent_def frac)
qed

text \<open>A lag text \<open>HH:MM:SS.ffffff\<close> with any digits is read as its exact number of seconds; the other form the
  comment of the code announces, with a number of days in front, is read as no lag at all.\<close>

theorem lag_text:
  assumes "list_all is_digit hs" "hs \<noteq> []" "nat_of_digits hs < 2 ^ 63" "list_all is_digit ms" "ms \<noteq> []" "nat_of_digits ms < 2 ^ 63"
    "list_all is_digit ss" "ss \<noteq> []" "list_all is_digit fs"
  shows "parseIntervalSeconds (hs @ '':'' @ ms @ '':'' @ ss @ ''.'' @ fs) =
      of_nat (nat_of_digits hs) * 3600 + of_nat (nat_of_digits ms) * 60 + of_nat (nat_of_digits (ss @ fs)) / 10 ^ length fs \<and>
    parseIntervalSeconds (hs @ '' day'' @ rest) = 0"
proof -
  have colon: "\<not> is_digit (CHR '':'')" "\<not> is_digit (CHR '' '')" by (simp_all add: is_digit_def)
  have d: "scan_d (hs @ CHR '':'' # u) = Some (int (nat_of_digits hs), CHR '':'' # u)"
    "scan_d (ms @ CHR '':'' # u) = Some (int (nat_of_digits ms), CHR '':'' # u)"
    "scan_d (hs @ CHR '' '' # u) = Some (int (nat_of_digits hs), CHR '' '' # u)" for u
    using assms colon by (simp_all add: scan_d_digits)
  then show ?thesis
    using scan_f_digits [OF assms(7-9)] by (simp add: parseIntervalSeconds_def)
qed

theorem lag_text_witness:
  "parseIntervalSeconds ''01:02:03.5'' = 3723 + 1 / 2 \<and> parseIntervalSeconds ''01 day'' = 0"
  using lag_text [of "''01''" "''02''" "''03''" "''5''" "[]"]
  by (simp add: is_digit_def nat_of_digits_def digit_val_def)

section \<open>Replication status\<close>

definition legacy_columns :: "string list" where
  "legacy_columns = [''Slave_IO_State'', ''Slave_IO_Running'', ''Slave_SQL_Running'', ''Seconds_Behind_Master'',
     ''Read_Master_Log_Pos'', ''Exec_Master_Log_Pos'', ''Relay_Master_Log_File'']"

definition blank_status :: "replication_lag \<Rightarrow> bool" where
  "blank_status r \<longleftrightarrow> rl_SecondsBehindMaster r = 0 \<and> rl_SlaveIOState r = [] \<and> rl_SlaveIOThread r = [] \<and>
     rl_SlaveSQLThread r = [] \<and> rl_ReadMasterLogPos r = 0 \<and> rl_ExecMasterLogPos r = 0 \<and> rl_RelayMasterLogFile r = []"

lemma set_status_blank: "col \<notin> set legacy_columns \<Longrightarrow> blank_status r \<Longrightarrow> blank_status (set_status col s r)"
  by (simp only: legacy_columns_def list.set insert_iff empty_iff de_Morgan_disj set_status_def if_False) (simp add: blank_status_def)

lemma replica_status_blank:
  assumes "set cols \<inter> set legacy_columns = {}"
  shows "blank_status (replica_status S conn now cols vals)"
proof -
  have "blank_status (fold (\<lambda>(col, v) r. case scan_text (me_format S) v of None \<Rightarrow> r | Some s \<Rightarrow> set_status col s r) cvs r)"
    if "fst ` set cvs \<subseteq> set cols" "blank_status r" for cvs r
    using that
  proof (induction cvs arbitrary: r)
    case (Cons cv cvs)
    obtain col v where cv: "cv = (col, v)" by fastforce
    with Cons.prems assms have "col \<notin> set legacy_columns" by auto
    with Cons cv set_status_blank show ?case by (auto split: option.splits)
  qed simp
  moreover have "fst ` set (zip cols vals) \<subseteq> set cols" by (auto dest: set_zip_leftD)
  moreover have "blank_status (zero_replication\<lparr>rl_Time := now, rl_ConnectionID := c_ID conn, rl_DBType := c_DBType conn\<rparr>)"
    by (simp add: blank_status_def zero_replication_def)
  ultimately show ?thesis unfolding replica_status_def by blast
qed

text \<open>The status of a replica is read by its column names. When the server answers with names other than the seven
  that begin with \<open>Slave\<close> or contain \<open>Master\<close>, as a server does that speaks of replicas and sources, every row
  it sends is recorded as that of a replica with no lag, no position and no thread state.\<close>

theorem renamed_status_lost:
  assumes "db My_Replica_Status = Inr (cols, rows)" and "set cols \<inter> set legacy_columns = {}"
  shows "\<exists>rs. collectMySQLReplicationLag S db conn now m = record_all RecordReplicationLag rs m \<and>
    length rs = length (filter (\<lambda>vals. length vals = length cols) rows) \<and> list_all blank_status rs"
proof -
  let ?rs = "map (replica_status S conn now cols) (filter (\<lambda>vals. length vals = length cols) rows)"
  have "collectMySQLReplicationLag S db conn now m = record_all RecordReplicationLag ?rs m"
    by (simp add: collectMySQLReplicationLag_def replica_rows_def assms(1))
  moreover have "list_all blank_status ?rs" using replica_status_blank [OF assms(2)] by (simp add: list_all_iff)
  ultimately show ?thesis by (intro exI [of _ ?rs]) simp
qed

lemma new_name_not_legacy: "set [''Seconds_Behind_Source''] \<inter> set legacy_columns = {}"
  by (simp only: legacy_columns_def list.set Int_insert_left Int_empty_left insert_iff empty_iff list.inject char.inject
      list.distinct simp_thms if_False)

theorem renamed_status_lost_witness:
  "\<exists>rs. collectMySQLReplicationLag demo_mon_ext (\<lambda>sql. Inr ([''Seconds_Behind_Source''], [[Sql_Text ''90'']]))
       demo_source_row 0 demo_mon = record_all RecordReplicationLag rs demo_mon \<and>
     length rs = 1 \<and> list_all blank_status rs"
  using renamed_status_lost [of "\<lambda>_. Inr ([''Seconds_Behind_Source''], [[Sql_Text ''90'']])", OF refl new_name_not_legacy,
      of demo_mon_ext demo_source_row 0 demo_mon]
  by simp

section \<open>The background loop\<close>

text \<open>Before the first effective \<open>Stop\<close> there is one loop exactly when the collector runs. The stop channel is made once:
  a collector started again cannot be stopped again, its \<open>Stop\<close> panics, and its loop may return after one cycle.\<close>

lemma collector_loops:
  assumes "collector_reach interval c"
  shows "(if co_stopCh_closed c then length (co_loops c) \<le> 2 \<and> (Running c \<longrightarrow> Collector_Stop c = None)
     else length (co_loops c) = (if Running c then 1 else 0))"
proof -
  have "(co_stopCh_closed c \<longrightarrow> length (co_loops c) \<le> (if co_running c then 2 else 1)) \<and>
      (\<not> co_stopCh_closed c \<longrightarrow> length (co_loops c) = (if co_running c then 1 else 0))"
    using assms
  proof (induction rule: collector_reach.induct)
    case (step interval c b c')
    from step(2,3) show ?case
      by (cases rule: collector_step.cases) (auto simp: Collector_Start_def Collector_Stop_def split: if_splits)
  qed (simp add: NewCollector_def)
  then show ?thesis by (auto simp: Collector_Stop_def Running_def split: if_splits)
qed

end
