(* ===== verification/Notifications.thy ===== *)
theory Notifications
  imports Repo_Catalog World Http
begin

text \<open>
  \<open>internal/notification\<close>: the text of a message, the three channels and the HTTP handler. Sending is a list of
  requests (address and payload) handed to the HTTP client; the code prints what goes wrong and carries on, so the
  outcome of a request changes nothing. JSON is the standard library's: \<open>channel_config\<close> holds what a configuration text
  decodes to, \<open>None\<close> for an error.
\<close>

section \<open>Numbers as texts\<close>

text \<open>The \<open>float64\<close> next to a positive rational number (ties to even), for magnitudes far from overflow and underflow,
  and \<open>%.nf\<close>, which rounds the exact value of the float (ties to even).\<close>

definition round_even :: "rat \<Rightarrow> int" where
  "round_even q =
     (let f = \<lfloor>q\<rfloor>; d = q - of_int f in if d < 1 / 2 then f else if d > 1 / 2 then f + 1 else if even f then f else f + 1)"

fun bit_length :: "nat \<Rightarrow> nat" where
  "bit_length n = (if n = 0 then 0 else Suc (bit_length (n div 2)))"

declare bit_length.simps [simp del]

definition scale2 :: "int \<Rightarrow> rat \<Rightarrow> rat" where
  "scale2 s q = (if s \<ge> 0 then q * 2 ^ nat s else q / 2 ^ nat (- s))"

definition float64_ratio :: "nat \<Rightarrow> nat \<Rightarrow> rat" where
  "float64_ratio a b =
     (if a = 0 then 0
      else let s0 = 53 + int (bit_length b) - int (bit_length a); q = of_nat a / of_nat b;
               s = (if scale2 s0 q \<ge> 2 ^ 53 then s0 - 1 else s0)
           in scale2 (- s) (of_int (round_even (scale2 s q))))"

definition pad_zeros :: "nat \<Rightarrow> string \<Rightarrow> string" where
  "pad_zeros n s = replicate (n - length s) (CHR ''0'') @ s"

definition fmt_fixed :: "nat \<Rightarrow> rat \<Rightarrow> string" where
  "fmt_fixed n q =
     (let v = nat (round_even (q * 10 ^ n)) in fmt_nat (v div 10 ^ n) @ ''.'' @ pad_zeros n (fmt_nat (v mod 10 ^ n)))"

text \<open>\<open>float64(n) / d\<close>: the integer is rounded to a float first.\<close>

definition go_quotient :: "int \<Rightarrow> nat \<Rightarrow> rat" where
  "go_quotient n d =
     (let q = float64_ratio (nat n) 1; (a, b) = quotient_of (q / of_nat d) in float64_ratio (nat a) (nat b))"

section \<open>The message\<close>

definition check_mark :: string where "check_mark = [CHR 0xE2, CHR 0x9C, CHR 0x85]"
definition cross_mark :: string where "cross_mark = [CHR 0xE2, CHR 0x9D, CHR 0x8C]"

definition to_upper :: "string \<Rightarrow> string" where
  "to_upper s = map (\<lambda>c. if 97 \<le> (of_char c :: nat) \<and> (of_char c :: nat) \<le> 122 then char_of ((of_char c :: nat) - 32) else c) s"

definition size_text :: "int \<Rightarrow> string" where
  "size_text sizeBytes =
     (if sizeBytes > 0
      then if sizeBytes > 1073741824 then fmt_fixed 2 (go_quotient sizeBytes 1073741824) @ '' GB''
           else if sizeBytes > 1048576 then fmt_fixed 2 (go_quotient sizeBytes 1048576) @ '' MB''
           else if sizeBytes > 1024 then fmt_fixed 2 (go_quotient sizeBytes 1024) @ '' KB''
           else fmt_d sizeBytes @ '' B''
      else em_dash)"

definition duration_text :: "int \<Rightarrow> string" where
  "duration_text durationMs =
     (if durationMs > 0
      then if durationMs > 60000 then fmt_fixed 1 (go_quotient durationMs 60000) @ '' min''
           else if durationMs > 1000 then fmt_fixed 1 (go_quotient durationMs 1000) @ '' sec''
           else fmt_d durationMs @ '' ms''
      else em_dash)"

text \<open>The last 500 bytes of the log.\<close>

definition log_tail :: "string \<Rightarrow> string" where
  "log_tail logTail = (if length logTail > 500 then drop (length logTail - 500) logTail else logTail)"

definition formatMessage :: "notify_call \<Rightarrow> string" where
  "formatMessage c =
     (let emoji = (if nc_status c = ''failed'' then cross_mark else check_mark);
          title = emoji @ '' Backup '' @ to_upper (nc_status c)
      in ''*'' @ title @ ''*'' @ nl @
         ''Database: `'' @ nc_db c @ ''` ('' @ nc_dbtype c @ '')'' @ nl @
         ''Size: '' @ size_text (nc_size c) @ nl @
         ''Duration: '' @ duration_text (nc_duration c) @ nl @
         ''Backup ID: `'' @ nc_backup c @ ''`'' @ nl @
         (if nc_log c \<noteq> [] then ''```'' @ nl @ log_tail (nc_log c) @ nl @ ''```'' else []))"

section \<open>The channels\<close>

datatype payload =
    Telegram_Payload (chat_id: string) (telegram_text: string)
  | Discord_Payload (discord_content: string)
  | Slack_Payload (slack_text: string)

type_synonym post = "string \<times> payload" \<comment> \<open>address and JSON body\<close>

record channel_config =
  cf_telegram :: "string \<Rightarrow> (string \<times> string) option" \<comment> \<open>bot token and chat\<close>
  cf_webhook :: "string \<Rightarrow> string option" \<comment> \<open>the webhook address of Discord and Slack\<close>

definition replace_char :: "char \<Rightarrow> string \<Rightarrow> string \<Rightarrow> string" where
  "replace_char old new s = concat (map (\<lambda>c. if c = old then new else [c]) s)"

definition sendTelegram :: "channel_config \<Rightarrow> string \<Rightarrow> string \<Rightarrow> post list" where
  "sendTelegram J configJSON message =
     (case cf_telegram J configJSON of
        None \<Rightarrow> []
      | Some (token, chat) \<Rightarrow>
          if token = [] \<or> chat = [] then []
          else [(''https://api.telegram.org/bot'' @ token @ ''/sendMessage'', Telegram_Payload chat message)])"

definition sendDiscord :: "channel_config \<Rightarrow> string \<Rightarrow> string \<Rightarrow> post list" where
  "sendDiscord J configJSON message =
     (case cf_webhook J configJSON of
        None \<Rightarrow> []
      | Some webhook \<Rightarrow>
          if webhook = [] then []
          else [(webhook, Discord_Payload (replace_char (CHR ''`'') ''`'' (replace_char (CHR ''*'') ''**'' message)))])"

definition sendSlack :: "channel_config \<Rightarrow> string \<Rightarrow> string \<Rightarrow> post list" where
  "sendSlack J configJSON message =
     (case cf_webhook J configJSON of
        None \<Rightarrow> []
      | Some webhook \<Rightarrow>
          if webhook = [] then []
          else [(webhook, Slack_Payload (replace_char (CHR ''`'') [] (replace_char (CHR ''*'') ''*'' message)))])"

definition send_to :: "channel_config \<Rightarrow> notification \<Rightarrow> string \<Rightarrow> post list" where
  "send_to J n message =
     (if n_NotifType n = ''telegram'' then sendTelegram J (n_ConfigJSON n) message
      else if n_NotifType n = ''discord'' then sendDiscord J (n_ConfigJSON n) message
      else if n_NotifType n = ''slack'' then sendSlack J (n_ConfigJSON n) message
      else [])"

text \<open>The loop over the targets of a call.\<close>

fun notify_targets :: "channel_config \<Rightarrow> notify_call \<Rightarrow> string list \<Rightarrow> 's world \<Rightarrow> post list \<times> 's world" where
  "notify_targets J c [] w = ([], w)"
| "notify_targets J c (i # ids) w =
     (case on_db (NotificationRepo_GetByID i) w of
        (Inr (Some n), w1) \<Rightarrow>
          (case notify_targets J c ids w1 of (posts, w2) \<Rightarrow> (send_to J n (formatMessage c) @ posts, w2))
      | (_, w1) \<Rightarrow> notify_targets J c ids w1)"

definition NotifyBackupResult :: "channel_config \<Rightarrow> notify_call \<Rightarrow> 's world \<Rightarrow> post list \<times> 's world" where
  "NotifyBackupResult J c w = notify_targets J c (nc_targets c) w"

section \<open>The handler\<close>

definition Notification_handleList :: "'s world \<Rightarrow> notification list response \<times> 's world" where
  "Notification_handleList w = respond 200 500 (on_db NotificationRepo_List w)"

definition Notification_handleCreate :: "notification option \<Rightarrow> 's world \<Rightarrow> notification response \<times> 's world" where
  "Notification_handleCreate = with_body ''invalid request body'' (\<lambda>n w.
     if n_Name n = [] then (WriteError 400 ''name is required'', w)
     else if n_NotifType n = [] then (WriteError 400 ''notif_type is required'', w)
     else if n_ConfigJSON n = [] \<or> n_ConfigJSON n = ''{}'' then (WriteError 400 ''config_json is required'', w)
     else let (i, w1) = uuid_new w; (now, w2) = time_now w1
          in respond 201 400 (on_db (NotificationRepo_Create i now n) w2))"

definition Notification_handleGet :: "string \<Rightarrow> 's world \<Rightarrow> notification response \<times> 's world" where
  "Notification_handleGet i w = respond_found ''notification not found'' ok_json (on_db (NotificationRepo_GetByID i) w)"

definition Notification_handleUpdate :: "string \<Rightarrow> notification option \<Rightarrow> 's world \<Rightarrow> notification response \<times> 's world" where
  "Notification_handleUpdate i = with_body ''invalid request body'' (\<lambda>n w.
     let n' = n\<lparr>n_ID := i\<rparr>; (now, w1) = time_now w
     in respond 200 400 (and_then (on_db (NotificationRepo_Update now n') w1) (\<lambda>_ w2. (Inr (n'\<lparr>n_UpdatedAt := now\<rparr>), w2))))"

definition Notification_handleDelete :: "string \<Rightarrow> 's world \<Rightarrow> unit response \<times> 's world" where
  "Notification_handleDelete i w = respond_done (on_db (NotificationRepo_Delete i) w)"

definition handleTest_call :: "string \<Rightarrow> notification \<Rightarrow> notify_call" where
  "handleTest_call i n = \<lparr>nc_targets = [i], nc_backup = n_ID n, nc_db = ''test-db'', nc_dbtype = ''test'', nc_status = ''success'',
     nc_size = 1048576, nc_duration = 5000, nc_log = ''Test notification from Jagad''\<rparr>"

text \<open>The answer is \<open>sent\<close> whatever became of the request; the requests are the second component.\<close>

definition Notification_handleTest :: "channel_config \<Rightarrow> string \<Rightarrow> 's world \<Rightarrow> (string response \<times> post list) \<times> 's world" where
  "Notification_handleTest J i w =
     (case on_db (NotificationRepo_GetByID i) w of
        (Inl e, w1) \<Rightarrow> ((WriteError 500 e, []), w1)
      | (Inr None, w1) \<Rightarrow> ((WriteError 404 ''notification not found'', []), w1)
      | (Inr (Some n), w1) \<Rightarrow>
          (case NotifyBackupResult J (handleTest_call i n) w1 of (posts, w2) \<Rightarrow> ((WriteJSON 200 ''sent'', posts), w2)))"

section \<open>Lemmas\<close>

lemma log_tail_short: "length (log_tail s) \<le> 500 \<and> (length s \<le> 500 \<longrightarrow> log_tail s = s)"
  by (simp add: log_tail_def)

lemma replace_same [simp]: "replace_char c [c] s = s"
  by (induction s) (simp_all add: replace_char_def)

text \<open>Slack gets the message without the back quotes, Discord with every star doubled.\<close>

lemma replace_removes: "c \<notin> set new \<Longrightarrow> c \<notin> set (replace_char c new s)"
  by (auto simp: replace_char_def)

lemma round_even_half: "\<bar>of_int (round_even q) - q\<bar> \<le> 1 / 2"
proof -
  have "of_int \<lfloor>q\<rfloor> \<le> q" "q < of_int \<lfloor>q\<rfloor> + 1" by linarith+
  then show ?thesis by (auto simp: round_even_def Let_def abs_le_iff)
qed

lemma round_even_int [simp]: "round_even (of_int n) = n"
  by (simp add: round_even_def)

lemma send_at_most_one: "length (send_to J n message) \<le> 1"
  by (auto simp: send_to_def sendTelegram_def sendDiscord_def sendSlack_def split: option.splits)

text \<open>Notifying reads the channels and nothing else; with no failure each known target gets its request, in the order of
  the targets, and an unknown one is passed over.\<close>

lemma notify_targets_sent:
  "faults (w_db w) = [] \<Longrightarrow> notify_targets J c ids w =
     (concat (map (\<lambda>i. case row_find n_ID i (t_notifications (w_db w)) of None \<Rightarrow> [] | Some n \<Rightarrow> send_to J n (formatMessage c)) ids), w)"
  by (induction ids) (auto simp: on_db_def NotificationRepo_GetByID_def split: option.splits)

lemma message_sent:
  assumes "faults (w_db w) = []" "NotifyBackupResult J c w = (posts, w')"
  shows "w' = w \<and> length posts \<le> length (nc_targets c)"
proof -
  have "length (concat (map f ids)) \<le> length ids" if "\<And>i. length (f i) \<le> 1" for f :: "string \<Rightarrow> post list" and ids
  proof (induction ids)
    case (Cons i ids)
    with that [of i] show ?case by simp
  qed simp
  then show ?thesis
    using assms send_at_most_one by (auto simp: NotifyBackupResult_def notify_targets_sent split: option.splits)
qed

end
