(* ===== verification/Provider_Handlers.thy ===== *)
theory Provider_Handlers
  imports Backup_Upkeep Http
begin

text \<open>
  The HTTP handlers of storage providers (\<open>internal/storage/provider_handler.go\<close>) and backups
  (\<open>internal/backup/handler.go\<close>), and the daily aggregation behind one of them (\<open>Trends\<close>,
  \<open>BackupRepo.ListTrends\<close>).
\<close>

section \<open>Storage providers\<close>

definition Provider_handleList :: "'s ext \<Rightarrow> provider_svc \<Rightarrow> 's world \<Rightarrow> provider list response \<times> 's world" where
  "Provider_handleList X svc w = respond 200 500 (ProviderService_List X svc w)"

definition Provider_handleCreate :: "'s ext \<Rightarrow> provider_svc \<Rightarrow> provider option \<Rightarrow> 's world \<Rightarrow> provider response \<times> 's world" where
  "Provider_handleCreate X svc = with_body ''invalid request body'' (\<lambda>p w. respond 201 400 (ProviderService_Create X svc p w))"

definition Provider_handleGet :: "'s ext \<Rightarrow> provider_svc \<Rightarrow> string \<Rightarrow> 's world \<Rightarrow> provider response \<times> 's world" where
  "Provider_handleGet X svc i w = respond_found ''provider not found'' ok_json (ProviderService_GetByID X svc i w)"

definition Provider_handleUpdate ::
  "'s ext \<Rightarrow> provider_svc \<Rightarrow> string \<Rightarrow> provider option \<Rightarrow> 's world \<Rightarrow> provider response \<times> 's world" where
  "Provider_handleUpdate X svc i =
     with_body ''invalid request body'' (\<lambda>p w. respond 200 400 (ProviderService_Update X svc (p\<lparr>p_ID := i\<rparr>) w))"

definition Provider_handleDelete :: "string \<Rightarrow> 's world \<Rightarrow> unit response \<times> 's world" where
  "Provider_handleDelete i w = respond_done (ProviderService_Delete i w)"

text \<open>The outcome of a test is in the answer, \<open>None\<close> for success; the status is 200 either way.\<close>

definition Provider_handleTest :: "'s ext \<Rightarrow> provider_svc \<Rightarrow> string \<Rightarrow> 's world \<Rightarrow> gerror option response \<times> 's world" where
  "Provider_handleTest X svc i w =
     respond_found ''provider not found'' (\<lambda>p w1. (WriteJSON 200 (TestConnection X p w1), w1)) (GetDecrypted X svc i w)"

definition Provider_handleSetDefault :: "'s ext \<Rightarrow> provider_svc \<Rightarrow> string \<Rightarrow> 's world \<Rightarrow> provider response \<times> 's world" where
  "Provider_handleSetDefault X svc i w =
     respond_found ''provider not found''
       (\<lambda>p w1. respond 200 400 (ProviderService_Update X svc (p\<lparr>p_IsDefault := True\<rparr>) w1)) (ProviderService_GetByID X svc i w)"

section \<open>Trends\<close>

record backup_trend =
  bt_Date :: string
  bt_TotalBackups :: nat
  bt_SuccessCount :: nat
  bt_FailedCount :: nat
  bt_AvgDurationMs :: rat
  bt_TotalSizeBytes :: int

text \<open>\<open>day\<close> is the database's \<open>DATE\<close> in the time zone of the session, as the text it is scanned into. The aggregates
  of a group; \<open>SUM\<close> and \<open>AVG\<close> skip NULL, \<open>AVG\<close> is exact.\<close>

definition trend_of :: "string \<Rightarrow> backup_row list \<Rightarrow> backup_trend" where
  "trend_of day rows =
     (let durations = List.map_filter br_duration_ms rows
      in \<lparr>bt_Date = day, bt_TotalBackups = length rows,
          bt_SuccessCount = length (filter (\<lambda>r. br_status r = ''success'') rows),
          bt_FailedCount = length (filter (\<lambda>r. br_status r = ''failed'') rows),
          bt_AvgDurationMs = (if durations = [] then 0 else of_int (sum_list durations) / of_nat (length durations)),
          bt_TotalSizeBytes = sum_list (List.map_filter br_size_bytes rows)\<rparr>)"

definition trends_of :: "(int \<Rightarrow> string) \<Rightarrow> backup_row list \<Rightarrow> backup_trend list" where
  "trends_of day rows =
     map (\<lambda>d. trend_of d (filter (\<lambda>r. day (br_created_at r) = d) rows)) (sort (remdups (map (\<lambda>r. day (br_created_at r)) rows)))"

definition scan_trend :: "backup_trend \<Rightarrow> backup_trend res" where
  "scan_trend t = (if int64_ok (bt_TotalSizeBytes t) then Inr t else Inl ''scan trend: value out of range'')"

definition BackupRepo_ListTrends :: "(int \<Rightarrow> string) \<Rightarrow> int \<Rightarrow> int \<Rightarrow> db \<Rightarrow> backup_trend list res \<times> db" where
  "BackupRepo_ListTrends day days now d =
     (case db_query (\<lambda>d. trends_of day
          (filter (\<lambda>r. br_created_at r > now - days * 86400 * 10 ^ 9) (t_backups d))) d of
        (Inl e, d') \<Rightarrow> (Inl (''list trends: '' @ e), d')
      | (Inr trends, d') \<Rightarrow> (scan_rows scan_trend trends, d'))"

definition Backup_Trends :: "(int \<Rightarrow> string) \<Rightarrow> int \<Rightarrow> 's world \<Rightarrow> backup_trend list res \<times> 's world" where
  "Backup_Trends day days w = (let (now, w1) = time_now w in on_db (BackupRepo_ListTrends day days now) w1)"

section \<open>Backups\<close>

text \<open>A query parameter: the default unless it is a number in range. \<open>None\<close> stands for no upper bound.\<close>

definition int_param :: "int \<Rightarrow> int option \<Rightarrow> string \<Rightarrow> int" where
  "int_param fallback upper s =
     (if s = [] then fallback
      else case atoi s of
          None \<Rightarrow> fallback
        | Some v \<Rightarrow> if v > 0 \<and> (case upper of None \<Rightarrow> True | Some u \<Rightarrow> v \<le> u) then v else fallback)"

text \<open>\<open>n, _ := strconv.Atoi(s)\<close>: a text that is no number gives 0, one out of range the nearest bound.\<close>

definition atoi_or_0 :: "string \<Rightarrow> int" where
  "atoi_or_0 s =
     (let (neg, ds) = split_sign s; v = signed_value neg ds
      in if ds = [] \<or> \<not> list_all is_digit ds then 0 else max (- (2 ^ 63)) (min (2 ^ 63 - 1) v))"

definition Backup_handleStats :: "'s world \<Rightarrow> stats_response response \<times> 's world" where
  "Backup_handleStats w = respond 200 500 (Backup_Stats w)"

definition Backup_handleTrends :: "(int \<Rightarrow> string) \<Rightarrow> string \<Rightarrow> 's world \<Rightarrow> backup_trend list response \<times> 's world" where
  "Backup_handleTrends day daysStr w = respond 200 500 (Backup_Trends day (int_param 30 (Some 365) daysStr) w)"

definition Backup_handleSlowest :: "string \<Rightarrow> 's world \<Rightarrow> backup list response \<times> 's world" where
  "Backup_handleSlowest limitStr w = respond 200 500 (SlowestBackups (int_param 10 (Some 100) limitStr) w)"

definition Backup_handleFreshness :: "string \<Rightarrow> 's world \<Rightarrow> stale_backup_alert list response \<times> 's world" where
  "Backup_handleFreshness hoursStr w = respond 200 500 (Freshness (int_param 24 None hoursStr) w)"

text \<open>What the client of a download gets: a status, the file name of the header, the bytes streamed into the body, and the
  error object written after them.\<close>

record download =
  dl_status :: nat
  dl_filename :: "string option"
  dl_bytes :: bytes
  dl_error :: "string option"

definition download_name :: "backup \<Rightarrow> string" where
  "download_name b =
     (let ext = (case b_EncryptedSizeBytes b of Some n \<Rightarrow> if n > 0 then ''enc.sql.gz'' else ''sql.gz'' | None \<Rightarrow> ''sql.gz'')
      in ''backup-'' @ take 8 (b_ID b) @ ''-'' @ b_BackupType b @ ''.'' @ ext)"

text \<open>The status line goes out with the first byte of the body: an error that comes later is appended to the body of a
  response with status 200. (The slice of the first eight characters of an identifier shorter than that is a panic; the
  repository only hands out UUIDs.)\<close>

definition Backup_handleDownload :: "'s ext \<Rightarrow> 's backup_svc \<Rightarrow> string \<Rightarrow> 's world \<Rightarrow> download \<times> 's world" where
  "Backup_handleDownload X s i w =
     (case Backup_Get i w of
        (Inl e, w1) \<Rightarrow> (\<lparr>dl_status = 500, dl_filename = None, dl_bytes = [], dl_error = Some e\<rparr>, w1)
      | (Inr None, w1) \<Rightarrow> (\<lparr>dl_status = 404, dl_filename = None, dl_bytes = [], dl_error = Some ''backup not found''\<rparr>, w1)
      | (Inr (Some b), w1) \<Rightarrow>
          (case Backup_Download X s i w1 of
             ((bs, err), w2) \<Rightarrow>
               (\<lparr>dl_status = (if bs = [] \<and> err \<noteq> None then 500 else 200), dl_filename = Some (download_name b),
                 dl_bytes = bs, dl_error = err\<rparr>, w2)))"

definition Backup_handleVerify :: "string \<Rightarrow> 's world \<Rightarrow> backup response \<times> 's world" where
  "Backup_handleVerify i w = respond 200 400 (StartVerification i w)"

definition Backup_handleList :: "string \<Rightarrow> string \<Rightarrow> string \<Rightarrow> string \<Rightarrow> 's world \<Rightarrow> backup list response \<times> 's world" where
  "Backup_handleList connectionID databaseID limitStr offsetStr w =
     respond 200 500 (Backup_List connectionID databaseID (atoi_or_0 limitStr) (atoi_or_0 offsetStr) w)"

record backup_request =
  bq_ConnectionID :: string
  bq_DatabaseID :: string
  bq_BackupType :: string
  bq_ScheduleID :: "string option"
  bq_StorageProviderID :: "string option"
  bq_NotifTargetIDs :: "string list"
  bq_NotifyOnSuccess :: "bool option"
  bq_NotifyOnFailure :: "bool option"

text \<open>The second component of the body is the job of the goroutine \<open>StartBackup\<close> has started.\<close>

definition Backup_handleCreate :: "backup_request option \<Rightarrow> 's world \<Rightarrow> (backup \<times> job) response \<times> 's world" where
  "Backup_handleCreate = with_body ''invalid request body'' (\<lambda>req w.
     let notifOnSuccess = (case bq_NotifyOnSuccess req of None \<Rightarrow> True | Some b \<Rightarrow> b);
         notifOnFailure = (case bq_NotifyOnFailure req of None \<Rightarrow> True | Some b \<Rightarrow> b)
     in respond 201 400 (StartBackup (bq_ConnectionID req) (bq_DatabaseID req) (bq_BackupType req) (bq_ScheduleID req)
          (bq_StorageProviderID req) (bq_NotifTargetIDs req) notifOnSuccess notifOnFailure w))"

definition Backup_handleGet :: "string \<Rightarrow> 's world \<Rightarrow> backup response \<times> 's world" where
  "Backup_handleGet i w = respond_found ''backup not found'' ok_json (Backup_Get i w)"

definition Backup_handleDelete :: "'s ext \<Rightarrow> 's backup_svc \<Rightarrow> string \<Rightarrow> 's world \<Rightarrow> unit response \<times> 's world" where
  "Backup_handleDelete X s i w = respond_done (Backup_Delete X s i w)"

definition Backup_handleLogs :: "string \<Rightarrow> 's world \<Rightarrow> string response \<times> 's world" where
  "Backup_handleLogs i w = respond_found ''backup not found'' (\<lambda>b. ok_json (b_LogOutput b)) (Backup_Get i w)"

section \<open>Lemmas\<close>

lemma int_param_range: "0 < fallback \<Longrightarrow> fallback \<le> u \<Longrightarrow> 1 \<le> int_param fallback (Some u) s \<and> int_param fallback (Some u) s \<le> u"
  by (auto simp: int_param_def split: option.splits)

lemma handleSetDefault_service:
  "snd (Provider_handleSetDefault X svc i w) = snd (handleSetDefault X svc i w)"
  by (auto simp: Provider_handleSetDefault_def handleSetDefault_def and_then_def respond_found_def split: prod.splits sum.splits option.splits)

text \<open>No log is ever served: the repository stores it but does not select its column.\<close>

lemma logs_always_empty:
  assumes "Backup_handleLogs i w = ((200, Json l), w')"
  shows "l = []"
proof -
  obtain x w1 where g: "Backup_Get i w = (x, w1)" by fastforce
  with assms obtain b where b: "x = Inr (Some b)" "l = b_LogOutput b"
    by (cases x) (auto simp: Backup_handleLogs_def respond_found_def ok_json_def WriteJSON_def WriteError_def split: option.splits)
  then show ?thesis using g
    by (auto simp: Backup_Get_def on_db_def BackupRepo_GetByID_def db_query_def scanBackup_def wrap_err_def
        split: prod.splits option.splits sum.splits)
qed

text \<open>The total of the daily counts is the number of backups in the period.\<close>

lemma trends_total: "sum_list (map bt_TotalBackups (trends_of day rows)) = length rows"
proof -
  let ?days = "remdups (map (\<lambda>r. day (br_created_at r)) rows)"
  have "sum_list (map (\<lambda>d. length (filter (\<lambda>r. day (br_created_at r) = d) rows)) (sort ?days)) =
      (\<Sum>d \<in> set ?days. length (filter (\<lambda>r. day (br_created_at r) = d) rows))"
    by (subst sum_list_distinct_conv_sum_set) simp_all
  also have "\<dots> = (\<Sum>d \<in> set (map (\<lambda>r. day (br_created_at r)) rows). count_list (map (\<lambda>r. day (br_created_at r)) rows) d)"
    by (intro sum.cong) (simp_all add: count_list_eq_length_filter filter_map comp_def eq_commute)
  also have "\<dots> = length rows" using sum_count_set [OF subset_refl, of "map (\<lambda>r. day (br_created_at r)) rows"] by simp
  finally show ?thesis by (simp add: trends_of_def trend_of_def comp_def Let_def)
qed

end
