(* ===== verification/App.thy ===== *)
theory App
  imports Engine_Properties Auth_Properties Restore_Service Collector Notifications Provider_Handlers
begin

text \<open>
  \<open>internal/config/config.go\<close> and the start of \<open>cmd/jagad/main.go\<close>: the configuration from the environment, the
  services \<open>main\<close> builds from it and how they are wired, the check for tools and the health answer. The environment is
  a function that gives the empty text for an unset variable.
\<close>

section \<open>Configuration\<close>

definition getEnv :: "(string \<Rightarrow> string) \<Rightarrow> string \<Rightarrow> string \<Rightarrow> string" where
  "getEnv env key fallback = (let v = env key in if v \<noteq> [] then v else fallback)"

definition getEnvInt :: "(string \<Rightarrow> string) \<Rightarrow> string \<Rightarrow> int \<Rightarrow> int" where
  "getEnvInt env key fallback =
     (let v = env key in if v \<noteq> [] then (case atoi v of Some i \<Rightarrow> i | None \<Rightarrow> fallback) else fallback)"

record config =
  cfg_Port :: string
  cfg_DataDir :: string
  cfg_DatabaseURL :: string
  cfg_AdminUser :: string
  cfg_AdminPass :: string
  cfg_SecretKey :: string
  cfg_EncryptionKey :: string
  cfg_MasterKey :: string
  cfg_StorageEndpoint :: string
  cfg_StorageRegion :: string
  cfg_StorageBucket :: string
  cfg_StorageAccessKey :: string
  cfg_StorageSecretKey :: string
  cfg_StoragePathStyle :: bool
  cfg_MaxConcurrent :: int
  cfg_DBTimeout :: int

definition Load :: "(string \<Rightarrow> string) \<Rightarrow> config" where
  "Load env =
     \<lparr>cfg_Port = getEnv env ''JAGAD_PORT'' ''8080'', cfg_DataDir = getEnv env ''JAGAD_DATA_DIR'' ''/data'',
      cfg_DatabaseURL = getEnv env ''JAGAD_DATABASE_URL'' [], cfg_AdminUser = getEnv env ''JAGAD_ADMIN_USER'' ''admin'',
      cfg_AdminPass = getEnv env ''JAGAD_ADMIN_PASS'' ''admin123'',
      cfg_SecretKey = getEnv env ''JAGAD_SECRET_KEY'' ''change-me-in-production'',
      cfg_EncryptionKey = getEnv env ''JAGAD_ENCRYPTION_KEY'' [], cfg_MasterKey = getEnv env ''JAGAD_MASTER_KEY'' [],
      cfg_StorageEndpoint = getEnv env ''JAGAD_S3_ENDPOINT'' [], cfg_StorageRegion = getEnv env ''JAGAD_S3_REGION'' ''auto'',
      cfg_StorageBucket = getEnv env ''JAGAD_S3_BUCKET'' ''backups'', cfg_StorageAccessKey = getEnv env ''JAGAD_S3_ACCESS_KEY'' [],
      cfg_StorageSecretKey = getEnv env ''JAGAD_S3_SECRET_KEY'' [],
      cfg_StoragePathStyle = (getEnv env ''JAGAD_S3_PATH_STYLE'' ''true'' = ''true''),
      cfg_MaxConcurrent = getEnvInt env ''JAGAD_MAX_CONCURRENT'' 3, cfg_DBTimeout = 5 * 10 ^ 9\<rparr>"

section \<open>Tools\<close>

definition required_tools :: "(string \<times> string list) list" where
  "required_tools =
     [(''PostgreSQL'', [''pg_dump'', ''pg_restore'']), (''MySQL'', [''mysqldump'', ''mysql'']),
      (''MariaDB'', [''mariadb-dump'', ''mariadb'', ''mysqldump'', ''mysql'']),
      (''pgBackRest (incremental PG)'', [''pgbackrest'']), (''XtraBackup (incremental MySQL)'', [''xtrabackup'']),
      (''Mariabackup (incremental MariaDB)'', [''mariabackup'', ''xtrabackup''])]"

text \<open>The warnings: the tools none of whose commands is in the path; one command found is enough.\<close>

definition checkRequiredTools :: "(string \<Rightarrow> bool) \<Rightarrow> string list" where
  "checkRequiredTools found =
     map (\<lambda>(name, cmds). name @ '' tools not found in PATH'') (filter (\<lambda>(name, cmds). \<not> list_ex found cmds) required_tools)"

section \<open>The services of a start\<close>

record 's app =
  ap_port :: string
  ap_provSvc :: provider_svc
  ap_backup :: "'s backup_svc"
  ap_restore :: restore_svc
  ap_auth :: auth
  ap_collector :: collector

text \<open>\<open>main\<close> from the configuration to the services; without a database address the process exits, \<open>None\<close>. The notifier is
  set after the scheduler was started; the scheduler holds the same service, so its jobs see it from then on.\<close>

definition boot :: "'s ext \<Rightarrow> 's engine_ext \<Rightarrow> (string \<Rightarrow> string) \<Rightarrow> rng \<Rightarrow> ('s app \<times> rng) option" where
  "boot X E env r =
     (let cfg = Load env
      in if cfg_DatabaseURL cfg = [] then None
         else let provSvc = NewProviderService X (cfg_MasterKey cfg);
                  encSvc = (if cfg_EncryptionKey cfg \<noteq> [] then Some (bytes_of_string (cfg_EncryptionKey cfg)) else None);
                  b0 = NewService provSvc;
                  b1 = (case encSvc of None \<Rightarrow> b0 | Some key \<Rightarrow> SetEncryptionService key b0);
                  b2 = SetIncrementalEngineRegistry (main_registry E provSvc) b1;
                  r0 = Restore_NewService provSvc;
                  r1 = (case encSvc of None \<Rightarrow> r0 | Some key \<Rightarrow> Restore_SetEncryptionService key r0);
                  b3 = SetNotifier True b2;
                  (a, r') = Auth_NewService (x_crypto X) (cfg_AdminUser cfg) (cfg_AdminPass cfg) (cfg_SecretKey cfg) r;
                  c = Collector_Start (NewCollector (60 * 10 ^ 9))
              in Some (\<lparr>ap_port = cfg_Port cfg, ap_provSvc = provSvc, ap_backup = b3, ap_restore = r1, ap_auth = a,
                        ap_collector = c\<rparr>, r'))"

text \<open>The public health endpoint.\<close>

record health_answer =
  ha_status :: string
  ha_version :: string
  ha_database :: string
  ha_encryption :: bool
  ha_providers :: bool

definition health_endpoint :: "string \<Rightarrow> 's app \<Rightarrow> health_answer response" where
  "health_endpoint version app =
     WriteJSON 200 \<lparr>ha_status = ''ok'', ha_version = version, ha_database = ''postgresql'',
       ha_encryption = (bs_encSvc (ap_backup app) \<noteq> None), ha_providers = True\<rparr>"

section \<open>Lemmas\<close>

lemma getEnv_unset: "getEnv env key [] = env key" "env key = [] \<Longrightarrow> getEnv env key fallback = fallback"
  by (simp_all add: getEnv_def Let_def)

lemma Load_keys:
  "cfg_EncryptionKey (Load env) = env ''JAGAD_ENCRYPTION_KEY''" "cfg_MasterKey (Load env) = env ''JAGAD_MASTER_KEY''"
  "cfg_DatabaseURL (Load env) = env ''JAGAD_DATABASE_URL''"
  by (simp_all add: Load_def getEnv_unset)

lemma Load_credentials:
  "env ''JAGAD_ADMIN_USER'' = [] \<Longrightarrow> cfg_AdminUser (Load env) = ''admin''"
  "env ''JAGAD_ADMIN_PASS'' = [] \<Longrightarrow> cfg_AdminPass (Load env) = ''admin123''"
  by (simp_all add: Load_def getEnv_unset)

lemmas setters = NewService_def Restore_NewService_def SetEncryptionService_def Restore_SetEncryptionService_def
  SetIncrementalEngineRegistry_def SetNotifier_def

text \<open>Backups and restores use one key and one provider service; the health endpoint tells whether there is a key.\<close>

lemma boot_consistent:
  assumes "boot X E env r = Some (app, r')"
  shows "bs_encSvc (ap_backup app) = rv_encSvc (ap_restore app)" "bs_provSvc (ap_backup app) = rv_provSvc (ap_restore app)"
    "bs_incrRegistry (ap_backup app) = Some (main_registry E (ap_provSvc app))" "bs_notifier (ap_backup app)"
    "Running (ap_collector app)" "(bs_encSvc (ap_backup app) \<noteq> None) = (env ''JAGAD_ENCRYPTION_KEY'' \<noteq> [])"
  using assms unfolding boot_def Let_def Load_keys
  by (auto simp: setters Collector_Start_def NewCollector_def Running_def split: prod.splits if_splits)

text \<open>A start with nothing but the database address: the documented defaults are the credentials, stored provider
  credentials are encrypted under a key that is in the source, and backups are not encrypted.\<close>

lemma default_boot:
  assumes "env ''JAGAD_DATABASE_URL'' \<noteq> []" "env ''JAGAD_ADMIN_USER'' = []" "env ''JAGAD_ADMIN_PASS'' = []"
    "env ''JAGAD_MASTER_KEY'' = []" "env ''JAGAD_ENCRYPTION_KEY'' = []"
  shows "\<exists>app r'. boot X E env r = Some (app, r') \<and> credentials_ok (x_crypto X) ''admin'' ''admin123'' (ap_auth app) \<and>
    ap_provSvc app = x_sha256 (x_crypto X) (bytes_of_string ''jagad-default-credential-key'') \<and> bs_encSvc (ap_backup app) = None"
proof -
  obtain a r' where a: "Auth_NewService (x_crypto X) ''admin'' ''admin123'' (cfg_SecretKey (Load env)) r = (a, r')" by fastforce
  then have "credentials_ok (x_crypto X) ''admin'' ''admin123'' a"
    by (auto simp: Auth_NewService_def credentials_ok_def Let_def split: prod.splits)
  with a show ?thesis using assms
    unfolding boot_def Let_def Load_keys Load_credentials(1) [of env, OF assms(2)] Load_credentials(2) [of env, OF assms(3)]
    by (simp add: setters NewProviderService_def NewCredentialEncryptor_def)
qed

end
