(* ===== verification/Repository_Refinement.thy ===== *)
theory Repository_Refinement
  imports Backup_Retention
begin

text \<open>
  The backup repository as a finite map from identifiers to structs: what each operation of
  \<open>internal/repository/postgres/backup.go\<close> does to the map, and which fields of a struct the tables keep.
\<close>

definition stored_backups :: "db \<Rightarrow> string \<rightharpoonup> backup" where
  "stored_backups d k = map_option scanBackup (row_find br_id k (t_backups d))"

text \<open>A struct as it is read back after \<open>Create\<close>: the log and the time of verification are not stored, empty optional
  references become NULL, times have the precision of the database.\<close>

definition as_created :: "string \<Rightarrow> int \<Rightarrow> backup \<Rightarrow> backup" where
  "as_created k now b = b\<lparr>b_ID := k, b_ScheduleID := nullableStr (b_ScheduleID b),
     b_StorageProviderID := nullableStr (b_StorageProviderID b), b_EncryptionKeyID := nullableStr (b_EncryptionKeyID b),
     b_VerifiedAt := None, b_LogOutput := [], b_StartedAt := map_option pg_time (b_StartedAt b),
     b_CompletedAt := map_option pg_time (b_CompletedAt b), b_CreatedAt := pg_time now\<rparr>"

lemma stored_same: "same_tables d d' \<Longrightarrow> stored_backups d' = stored_backups d"
  by (auto simp: stored_backups_def fun_eq_iff backup_repo.view_same)

lemma read_back: "backup_ints_ok b \<Longrightarrow> scanBackup (backup_columns (fill_backup k now b)) = as_created k now b"
  by (cases b) (simp add: scanBackup_def backup_columns_def fill_backup_def as_created_def backup_ints_ok_def nullableTime_def boolToInt_def)

text \<open>Claim C36. The backup repository is a map from identifiers to structs: a lookup reads it, \<open>Create\<close> adds the struct, as
  far as the table keeps it, under an identifier that was free, \<open>Update\<close> changes the fields of its statement in one struct,
  \<open>Delete\<close> removes one; an operation that fails changes nothing.\<close>

theorem backup_repository_map:
  assumes "db_wf d" "backup_ints_ok b"
  shows "(\<forall>v d'. BackupRepo_GetByID k d = (v, d') \<longrightarrow>
       stored_backups d' = stored_backups d \<and> (is_ok v \<longrightarrow> v = Inr (stored_backups d k))) \<and>
    (\<forall>y d'. BackupRepo_Create k now b d = (y, d') \<longrightarrow>
       stored_backups d' = (if is_ok y then (stored_backups d)(k \<mapsto> as_created k now b) else stored_backups d) \<and>
       (is_ok y \<longrightarrow> stored_backups d k = None)) \<and>
    (\<forall>u d'. BackupRepo_Update b d = (u, d') \<longrightarrow>
       stored_backups d' = (if is_ok u then (stored_backups d)(b_ID b := map_option (merge_backup b) (stored_backups d (b_ID b)))
         else stored_backups d)) \<and>
    (\<forall>u d'. BackupRepo_Delete k d = (u, d') \<longrightarrow>
       stored_backups d' = (if is_ok u then (stored_backups d)(k := None) else stored_backups d))"
proof (intro conjI allI impI)
  fix v d' assume g: "BackupRepo_GetByID k d = (v, d')"
  show "stored_backups d' = stored_backups d"
    using backup_repo.get_same [of d k] g stored_same by (metis snd_conv)
  assume "is_ok v"
  then obtain x where "v = Inr x" by (rule is_okE)
  with g backup_repo.get_view [of k d x d'] \<open>stored_backups d' = stored_backups d\<close> show "v = Inr (stored_backups d k)"
    by (metis stored_backups_def)
next
  fix y d' assume c: "BackupRepo_Create k now b d = (y, d')"
  show "stored_backups d' = (if is_ok y then (stored_backups d)(k \<mapsto> as_created k now b) else stored_backups d)"
  proof (cases y)
    case (Inl e)
    with c have "same_tables d d'" by (auto dest: backup_repo.create_fail)
    then show ?thesis using Inl by (simp add: stored_same)
  next
    case (Inr z)
    with backup_repo.create_view [OF assms(2), of k now d z d'] c show ?thesis
      by (simp add: fun_eq_iff stored_backups_def read_back [OF assms(2)])
  qed
  assume "is_ok y"
  then obtain z where "y = Inr z" by (rule is_okE)
  with backup_repo.create_view [OF assms(2), of k now d z d'] c show "stored_backups d k = None"
    by (simp add: stored_backups_def)
next
  fix u d' assume c: "BackupRepo_Update b d = (u, d')"
  show "stored_backups d' = (if is_ok u then (stored_backups d)(b_ID b := map_option (merge_backup b) (stored_backups d (b_ID b)))
         else stored_backups d)"
  proof (cases u)
    case (Inl e)
    with c have "same_tables d d'" by (auto dest: backup_repo.update_fail)
    then show ?thesis using Inl by (simp add: stored_same)
  next
    case (Inr z)
    with backup_repo.update_view [OF assms(2,1), of z d'] c show ?thesis
      by (simp add: fun_eq_iff stored_backups_def)
  qed
next
  fix u d' assume c: "BackupRepo_Delete k d = (u, d')"
  show "stored_backups d' = (if is_ok u then (stored_backups d)(k := None) else stored_backups d)"
    using BackupRepo_Delete_cases(2) [OF c] by (auto simp: fun_eq_iff stored_backups_def row_find_del)
qed

theorem backup_repository_map_witness:
  "\<exists>y d'. BackupRepo_Create ''n'' 0 demo_backup demo_db = (y, d') \<and>
     stored_backups d' = (if is_ok y then (stored_backups demo_db)(''n'' \<mapsto> as_created ''n'' 0 demo_backup) else stored_backups demo_db)"
proof -
  have "backup_ints_ok demo_backup"
    by (simp add: demo_backup_def new_backup_def zero_backup_def backup_ints_ok_def opt_int64_ok_def)
  then show ?thesis using backup_repository_map [OF demo_db_wf] by (metis prod.collapse)
qed

end
