(* ===== verification/Serve_Mux.thy ===== *)
theory Serve_Mux
  imports Jagad_Prelude
begin

text \<open>
  \<open>http.ServeMux\<close> of the standard library, as \<open>internal/api/router.go\<close> and \<open>cmd/jagad/main.go\<close> use it: patterns of
  a method and a path with wildcards, registration, which panics when two patterns conflict, and the choice of the
  handler for a request, with its redirects and its answers when nothing fits. Specificity of patterns is an instance of
  the order class: \<open>p \<le> q\<close> when every request of \<open>p\<close> is one of \<open>q\<close>. Hosts are not used.
\<close>

section \<open>Patterns\<close>

text \<open>The path of a pattern: literal segments, wildcards for one segment, and the end: nothing more, or, after a trailing
  slash, anything. The path of a request is the list of its segments; a trailing slash is an empty last segment.\<close>

datatype path_pattern = End | Rest | Lit string path_pattern | Wild path_pattern

fun path_match :: "path_pattern \<Rightarrow> string list \<Rightarrow> bool" where
  "path_match End ss = (ss = [])"
| "path_match Rest ss = (ss \<noteq> [])"
| "path_match (Lit l p) [] = False"
| "path_match (Lit l p) (s # ss) = (s = l \<and> path_match p ss)"
| "path_match (Wild p) [] = False"
| "path_match (Wild p) (s # ss) = (s \<noteq> [] \<and> path_match p ss)"

text \<open>What \<open>PathValue\<close> returns for the wildcards.\<close>

fun path_values :: "path_pattern \<Rightarrow> string list \<Rightarrow> string list" where
  "path_values (Lit l p) (s # ss) = path_values p ss"
| "path_values (Wild p) (s # ss) = s # path_values p ss"
| "path_values p ss = []"

text \<open>A match is exact unless the part after a trailing slash of the pattern is not empty.\<close>

fun path_exact :: "path_pattern \<Rightarrow> string list \<Rightarrow> bool" where
  "path_exact Rest ss = (ss = [[]])"
| "path_exact (Lit l p) (s # ss) = path_exact p ss"
| "path_exact (Wild p) (s # ss) = path_exact p ss"
| "path_exact p ss = True"

text \<open>Two paths that no request matches both.\<close>

fun path_disjoint :: "path_pattern \<Rightarrow> path_pattern \<Rightarrow> bool" where
  "path_disjoint End End = False"
| "path_disjoint End p = True"
| "path_disjoint p End = True"
| "path_disjoint Rest p = False"
| "path_disjoint p Rest = False"
| "path_disjoint (Lit a p) (Lit b q) = (a \<noteq> b \<or> path_disjoint p q)"
| "path_disjoint (Lit a p) (Wild q) = (a = [] \<or> path_disjoint p q)"
| "path_disjoint (Wild p) (Lit b q) = (b = [] \<or> path_disjoint p q)"
| "path_disjoint (Wild p) (Wild q) = path_disjoint p q"

text \<open>Every request of the first is one of the second.\<close>

fun path_le :: "path_pattern \<Rightarrow> path_pattern \<Rightarrow> bool" where
  "path_le p End = (p = End)"
| "path_le p Rest = (p \<noteq> End)"
| "path_le (Lit a p) (Lit b q) = (a = b \<and> path_le p q)"
| "path_le (Lit a p) (Wild q) = (a \<noteq> [] \<and> path_le p q)"
| "path_le (Wild p) (Wild q) = path_le p q"
| "path_le p q = False"

lemma path_le_Lit: "path_le p (Lit b q) \<longleftrightarrow> (\<exists>p'. p = Lit b p' \<and> path_le p' q)"
  by (cases p) auto

lemma path_le_Wild: "path_le p (Wild q) \<longleftrightarrow> (\<exists>p'. (p = Wild p' \<or> (\<exists>a. a \<noteq> [] \<and> p = Lit a p')) \<and> path_le p' q)"
  by (cases p) auto

lemma path_le_End: "path_le End q \<longleftrightarrow> q = End"
  by (cases q) auto

lemma path_le_Rest: "path_le Rest q \<longleftrightarrow> q = Rest"
  by (cases q) auto

lemma path_le_refl: "path_le p p"
  by (induction p) simp_all

lemma path_le_trans: "path_le p q \<Longrightarrow> path_le q r \<Longrightarrow> path_le p r"
proof (induction r arbitrary: p q)
  case Rest then show ?case by (auto simp: path_le_End)
qed (auto simp: path_le_Lit path_le_Wild)

lemma path_le_antisym: "path_le p q \<Longrightarrow> path_le q p \<Longrightarrow> p = q"
proof (induction q arbitrary: p)
  case Rest then show ?case by (simp add: path_le_Rest)
qed (auto simp: path_le_Lit path_le_Wild)

instantiation path_pattern :: order
begin

definition less_eq_path_pattern :: "path_pattern \<Rightarrow> path_pattern \<Rightarrow> bool" where
  "less_eq_path_pattern p q \<longleftrightarrow> path_le p q"

definition less_path_pattern :: "path_pattern \<Rightarrow> path_pattern \<Rightarrow> bool" where
  "less_path_pattern p q \<longleftrightarrow> path_le p q \<and> \<not> path_le q p"

instance
  by standard (auto simp: less_eq_path_pattern_def less_path_pattern_def path_le_refl path_le_antisym intro: path_le_trans)

end

lemma path_le_match: "p \<le> q \<Longrightarrow> path_match p ss \<Longrightarrow> path_match q ss"
proof (unfold less_eq_path_pattern_def, induction q arbitrary: p ss)
  case Rest then show ?case by (cases p; cases ss) auto
next
  case (Lit b q) then show ?case by (cases ss) (auto simp: path_le_Lit)
next
  case (Wild q) then show ?case by (cases ss) (auto simp: path_le_Wild)
qed simp

lemma path_disjoint_match: "path_disjoint p q \<Longrightarrow> path_match p ss \<Longrightarrow> \<not> path_match q ss"
proof (induction p arbitrary: q ss)
  case End then show ?case by (cases q) auto
next
  case Rest then show ?case by (cases q) auto
next
  case (Lit a p) then show ?case by (cases q; cases ss) auto
next
  case (Wild p) then show ?case by (cases q; cases ss) auto
qed

text \<open>A pattern without a method takes every method; \<open>GET\<close> takes \<open>HEAD\<close> too.\<close>

datatype pattern = Pattern (pt_method: "string option") (pt_path: path_pattern)

definition method_match :: "string option \<Rightarrow> string \<Rightarrow> bool" where
  "method_match pm m \<longleftrightarrow> pm = None \<or> pm = Some m \<or> pm = Some ''GET'' \<and> m = ''HEAD''"

definition method_le :: "string option \<Rightarrow> string option \<Rightarrow> bool" where
  "method_le pm qm \<longleftrightarrow> qm = None \<or> pm = qm \<or> pm = Some ''HEAD'' \<and> qm = Some ''GET''"

definition method_disjoint :: "string option \<Rightarrow> string option \<Rightarrow> bool" where
  "method_disjoint pm qm \<longleftrightarrow> \<not> method_le pm qm \<and> \<not> method_le qm pm"

definition pattern_match :: "pattern \<Rightarrow> string \<Rightarrow> string list \<Rightarrow> bool" where
  "pattern_match p m ss \<longleftrightarrow> method_match (pt_method p) m \<and> path_match (pt_path p) ss"

definition pattern_disjoint :: "pattern \<Rightarrow> pattern \<Rightarrow> bool" where
  "pattern_disjoint p q \<longleftrightarrow> method_disjoint (pt_method p) (pt_method q) \<or> path_disjoint (pt_path p) (pt_path q)"

instantiation pattern :: order
begin

definition less_eq_pattern :: "pattern \<Rightarrow> pattern \<Rightarrow> bool" where
  "less_eq_pattern p q \<longleftrightarrow> method_le (pt_method p) (pt_method q) \<and> pt_path p \<le> pt_path q"

definition less_pattern :: "pattern \<Rightarrow> pattern \<Rightarrow> bool" where
  "less_pattern p q \<longleftrightarrow> p \<le> q \<and> \<not> q \<le> p"

instance
proof
  fix p q r :: pattern
  show "(p < q) = (p \<le> q \<and> \<not> q \<le> p)" by (rule less_pattern_def)
  show "p \<le> p" by (simp add: less_eq_pattern_def method_le_def)
  show "p \<le> q \<Longrightarrow> q \<le> r \<Longrightarrow> p \<le> r" by (auto simp: less_eq_pattern_def method_le_def intro: order_trans)
  show "p \<le> q \<Longrightarrow> q \<le> p \<Longrightarrow> p = q"
    by (cases p; cases q) (auto simp: less_eq_pattern_def method_le_def intro: antisym)
qed

end

lemma method_disjoint_match: "method_disjoint pm qm \<Longrightarrow> method_match pm m \<Longrightarrow> \<not> method_match qm m"
  by (auto simp: method_disjoint_def method_le_def method_match_def)

lemma pattern_le_match: "p \<le> q \<Longrightarrow> pattern_match p m ss \<Longrightarrow> pattern_match q m ss"
  by (auto simp: less_eq_pattern_def pattern_match_def method_le_def method_match_def intro: path_le_match)

lemma pattern_disjoint_match: "pattern_disjoint p q \<Longrightarrow> pattern_match p m ss \<Longrightarrow> \<not> pattern_match q m ss"
  by (auto simp: pattern_disjoint_def pattern_match_def dest: method_disjoint_match path_disjoint_match)

section \<open>Registration\<close>

text \<open>Two patterns conflict when some request fits both and neither is more specific.\<close>

definition conflicts :: "pattern \<Rightarrow> pattern \<Rightarrow> bool" where
  "conflicts p q \<longleftrightarrow> \<not> pattern_disjoint p q \<and> \<not> p < q \<and> \<not> q < p"

type_synonym 'h mux = "(pattern \<times> 'h) list"

text \<open>\<open>Handle\<close> and \<open>HandleFunc\<close>; \<open>None\<close> is a panic.\<close>

definition mux_handle :: "pattern \<times> 'h \<Rightarrow> 'h mux \<Rightarrow> 'h mux option" where
  "mux_handle r mux = (if list_ex (\<lambda>q. conflicts (fst q) (fst r)) mux then None else Some (mux @ [r]))"

fun mux_register :: "(pattern \<times> 'h) list \<Rightarrow> 'h mux \<Rightarrow> 'h mux option" where
  "mux_register [] mux = Some mux"
| "mux_register (r # rs) mux = Option.bind (mux_handle r mux) (mux_register rs)"

definition conflict_free :: "pattern list \<Rightarrow> bool" where
  "conflict_free ps = sorted_wrt (\<lambda>p q. \<not> conflicts p q) ps"

lemma mux_register_iff:
  "conflict_free (map fst mux) \<Longrightarrow>
     mux_register rs mux = (if conflict_free (map fst (mux @ rs)) then Some (mux @ rs) else None)"
proof (induction rs arbitrary: mux)
  case (Cons r rs)
  show ?case
  proof (cases "list_ex (\<lambda>q. conflicts (fst q) (fst r)) mux")
    case True
    then have "\<not> conflict_free (map fst (mux @ r # rs))"
      by (auto simp: conflict_free_def sorted_wrt_append list_ex_iff)
    with True show ?thesis by (simp add: mux_handle_def)
  next
    case False
    with Cons.prems have "conflict_free (map fst (mux @ [r]))"
      by (auto simp: conflict_free_def sorted_wrt_append list_ex_iff)
    from Cons.IH [OF this] False show ?thesis by (simp add: mux_handle_def)
  qed
qed (simp)

section \<open>The handler of a request\<close>

definition mux_matching :: "'h mux \<Rightarrow> string \<Rightarrow> string list \<Rightarrow> 'h mux" where
  "mux_matching mux m ss = filter (\<lambda>r. pattern_match (fst r) m ss) mux"

text \<open>The most specific of the matching patterns.\<close>

definition mux_find :: "'h mux \<Rightarrow> string \<Rightarrow> string list \<Rightarrow> (pattern \<times> 'h) option" where
  "mux_find mux m ss =
     (let ms = mux_matching mux m ss in find (\<lambda>r. list_all (\<lambda>q. fst r \<le> fst q) ms) ms)"

text \<open>Percent-decoding of a segment; what is not an escape stays as it is.\<close>

definition unhex :: "char \<Rightarrow> nat option" where
  "unhex c =
     (let n = of_char c
      in if 48 \<le> n \<and> n \<le> 57 then Some (n - 48) else if 65 \<le> n \<and> n \<le> 70 then Some (n - 55)
         else if 97 \<le> n \<and> n \<le> 102 then Some (n - 87) else None)"

definition escape_at :: "char \<Rightarrow> string \<Rightarrow> char option" where
  "escape_at c cs =
     (case cs of
        a # b # rest \<Rightarrow>
          if c = CHR ''%'' then (case (unhex a, unhex b) of (Some x, Some y) \<Rightarrow> Some (char_of (16 * x + y)) | _ \<Rightarrow> None) else None
      | _ \<Rightarrow> None)"

fun unescape :: "string \<Rightarrow> string" where
  "unescape [] = []"
| "unescape (c # cs) = (case escape_at c cs of Some d \<Rightarrow> d # unescape (drop 2 cs) | None \<Rightarrow> c # unescape cs)"

text \<open>The escaped path of a request after its first slash, cut at the slashes; a path without that slash has no segment.\<close>

fun cut_slashes :: "string \<Rightarrow> string list" where
  "cut_slashes [] = [[]]"
| "cut_slashes (c # cs) =
     (if c = CHR ''/'' then [] # cut_slashes cs
      else case cut_slashes cs of [] \<Rightarrow> [[c]] | s # ss \<Rightarrow> (c # s) # ss)"

definition path_segments :: "string \<Rightarrow> string list" where
  "path_segments p = (case p of [] \<Rightarrow> [] | c # cs \<Rightarrow> if c = CHR ''/'' then cut_slashes cs else [])"

text \<open>\<open>cleanPath\<close>: empty segments and dots go, two dots take the segment before with them, a trailing slash stays.\<close>

fun clean_segments :: "string list \<Rightarrow> string list \<Rightarrow> string list" where
  "clean_segments acc [] = rev acc"
| "clean_segments acc (s # ss) =
     (if s = [] \<or> s = ''.'' then clean_segments acc ss
      else if s = ''..'' then clean_segments (tl acc) ss
      else clean_segments (s # acc) ss)"

definition clean_path :: "string list \<Rightarrow> string list" where
  "clean_path ss =
     (let c = clean_segments [] ss in if c = [] then [[]] else if last ss = [] then c @ [[]] else c)"

text \<open>What the mux does with a request: a handler with the values of the wildcards, a redirect, whose target is left
  out, or its own answers 404 and 405. Only the path of a CONNECT request is not cleaned.\<close>

datatype 'h served = Served 'h "string list" | Redirected | Method_Not_Allowed | Not_Found

definition mux_exact :: "(pattern \<times> 'h) option \<Rightarrow> string list \<Rightarrow> bool" where
  "mux_exact n ss = (case n of None \<Rightarrow> False | Some (p, h) \<Rightarrow> path_exact (pt_path p) ss)"

definition mux_serve :: "'h mux \<Rightarrow> string \<Rightarrow> string \<Rightarrow> 'h served" where
  "mux_serve mux m escaped =
     (let raw = path_segments escaped;
          path = (if m = ''CONNECT'' then raw else clean_path raw);
          ss = map unescape path;
          n = mux_find mux m ss
      in if \<not> mux_exact n ss \<and> ss \<noteq> [] \<and> last ss \<noteq> [] \<and> mux_exact (mux_find mux m (ss @ [[]])) (ss @ [[]])
         then Redirected
         else if path \<noteq> raw then Redirected
         else case n of
                Some (p, h) \<Rightarrow> Served h (path_values (pt_path p) ss)
              | None \<Rightarrow> if list_ex (\<lambda>r. path_match (pt_path (fst r)) ss \<or>
                   (ss = [] \<or> last ss \<noteq> []) \<and> path_match (pt_path (fst r)) (ss @ [[]])) mux then Method_Not_Allowed else Not_Found)"

section \<open>Lemmas\<close>

lemma chain_least:
  fixes ps :: "'a::order list"
  assumes "sorted_wrt (\<lambda>p q. p \<le> q \<or> q \<le> p) ps" "ps \<noteq> []"
  shows "\<exists>p \<in> set ps. \<forall>q \<in> set ps. p \<le> q"
  using assms
proof (induction ps)
  case (Cons a ps)
  show ?case
  proof (cases "ps = []")
    case False
    with Cons obtain p where p: "p \<in> set ps" "\<forall>q \<in> set ps. p \<le> q" by auto
    with Cons.prems(1) have "a \<le> p \<or> p \<le> a" by simp
    then show ?thesis
    proof
      assume "a \<le> p"
      with p(2) have "\<forall>q \<in> set (a # ps). a \<le> q" by (auto intro: order_trans)
      then show ?thesis by (intro bexI [of _ a]) auto
    next
      assume "p \<le> a"
      with p show ?thesis by (intro bexI [of _ p]) auto
    qed
  qed simp
qed simp

text \<open>The handler that is found is the one registered under the most specific matching pattern; without a conflict there
  is one whenever a pattern matches.\<close>

lemma mux_find_SomeD:
  assumes "mux_find mux m ss = Some r"
  shows "r \<in> set mux" "pattern_match (fst r) m ss" "\<And>q. q \<in> set mux \<Longrightarrow> pattern_match (fst q) m ss \<Longrightarrow> fst r \<le> fst q"
  using assms by (auto simp: mux_find_def mux_matching_def Let_def list_all_iff find_Some_iff dest: nth_mem)

lemma mux_find_None:
  assumes "conflict_free (map fst mux)" "mux_find mux m ss = None" "q \<in> set mux"
  shows "\<not> pattern_match (fst q) m ss"
proof
  assume q: "pattern_match (fst q) m ss"
  let ?ms = "map fst (mux_matching mux m ss)"
  have ne: "?ms \<noteq> []" using q assms(3) by (auto simp: mux_matching_def filter_empty_conv)
  have "sorted_wrt (\<lambda>p q. \<not> conflicts p q) ?ms"
    using assms(1) by (simp add: conflict_free_def mux_matching_def sorted_wrt_map sorted_wrt_filter)
  moreover have "p \<le> q \<or> q \<le> p" if "p \<in> set ?ms" "q \<in> set ?ms" "\<not> conflicts p q" for p q
    using that pattern_disjoint_match [of p q m ss] by (auto simp: conflicts_def mux_matching_def less_imp_le)
  ultimately have "sorted_wrt (\<lambda>p q. p \<le> q \<or> q \<le> p) ?ms" by (rule sorted_wrt_mono_rel [rotated])
  from chain_least [OF this ne] obtain r where "r \<in> set (mux_matching mux m ss)"
    "\<forall>q \<in> set (mux_matching mux m ss). fst r \<le> fst q" by auto
  with assms(2) show False unfolding mux_find_def Let_def find_None_iff list_all_iff by blast
qed

lemma conflicts_self: "conflicts p p"
proof -
  have "\<not> path_disjoint q q" for q by (induction q) simp_all
  then show ?thesis by (simp add: conflicts_def pattern_disjoint_def method_disjoint_def method_le_def)
qed

lemma conflict_free_distinct: "conflict_free ps \<Longrightarrow> distinct ps"
  by (induction ps) (auto simp: conflict_free_def conflicts_self)

theorem mux_find_iff:
  assumes "conflict_free (map fst mux)"
  shows "mux_find mux m ss = Some (p, h) \<longleftrightarrow>
    (p, h) \<in> set mux \<and> pattern_match p m ss \<and> (\<forall>(q, k) \<in> set mux. pattern_match q m ss \<longrightarrow> p \<le> q)" (is "?l \<longleftrightarrow> ?r")
proof
  assume ?l
  note s = mux_find_SomeD [OF this]
  have "\<forall>(q, k) \<in> set mux. pattern_match q m ss \<longrightarrow> p \<le> q"
    using s(3) by (auto simp del: split_paired_All)
  with s(1,2) show ?r by simp
next
  assume r: ?r
  show ?l
  proof (cases "mux_find mux m ss")
    case None
    with mux_find_None [OF assms None, of "(p, h)"] r show ?thesis by simp
  next
    case (Some s)
    note s = mux_find_SomeD [OF Some]
    have "fst s \<le> p" using s(3) [of "(p, h)"] r by simp
    moreover have "p \<le> fst s" using s(1,2) r by (cases s) auto
    ultimately have "fst s = p" by simp
    moreover have "inj_on fst (set mux)" using conflict_free_distinct [OF assms] by (simp add: distinct_map)
    ultimately have "s = (p, h)" using inj_onD [of fst "set mux" s "(p, h)"] s(1) r by simp
    with Some show ?thesis by simp
  qed
qed

text \<open>Decoding a path is decoding its segments.\<close>

lemma unescape_not_slash: "unhex (CHR ''/'') = None"
  by (simp add: unhex_def)

lemma escape_at_slash: "escape_at (CHR ''/'') cs = None" "escape_at c (xs @ CHR ''/'' # ys) = escape_at c xs"
  "escape_at c xs = Some d \<Longrightarrow> drop 2 (xs @ ys) = drop 2 xs @ ys"
proof -
  show "escape_at (CHR ''/'') cs = None" by (auto simp: escape_at_def split: list.splits)
  show "escape_at c (xs @ CHR ''/'' # ys) = escape_at c xs"
  proof (cases xs)
    case (Cons a as)
    then show ?thesis by (cases as) (auto simp: escape_at_def unescape_not_slash split: option.splits)
  qed (auto simp: escape_at_def unescape_not_slash split: list.splits)
  show "escape_at c xs = Some d \<Longrightarrow> drop 2 (xs @ ys) = drop 2 xs @ ys"
    by (auto simp: escape_at_def split: list.splits)
qed

lemma unescape_slash: "unescape (xs @ CHR ''/'' # ys) = unescape xs @ CHR ''/'' # unescape ys"
proof (induction xs rule: unescape.induct)
  case (2 c cs)
  then show ?case by (cases "escape_at c cs") (simp_all add: escape_at_slash(2,3) del: drop_append)
qed (simp add: escape_at_slash)

lemma cut_slashes_join: "concat (map (\<lambda>s. CHR ''/'' # s) (cut_slashes cs)) = CHR ''/'' # cs"
  by (induction cs) (auto split: list.splits)

lemma cut_slashes_ne [simp]: "cut_slashes cs \<noteq> []"
  by (cases cs) (auto split: list.splits)

lemma unescape_segments:
  "unescape (CHR ''/'' # cs) = concat (map (\<lambda>s. CHR ''/'' # unescape s) (cut_slashes cs))"
proof -
  have *: "unescape (concat (map (\<lambda>s. CHR ''/'' # s) ss)) = concat (map (\<lambda>s. CHR ''/'' # unescape s) ss)" for ss
  proof (induction ss rule: rev_induct)
    case (snoc s ss)
    then show ?case using unescape_slash [of "concat (map (\<lambda>s. CHR ''/'' # s) ss)" s] by simp
  qed simp
  show ?thesis using * [of "cut_slashes cs"] by (simp add: cut_slashes_join)
qed

lemma unescape_path:
  assumes "path_segments p \<noteq> []"
  shows "unescape p = concat (map (\<lambda>s. CHR ''/'' # s) (map unescape (path_segments p)))"
  using assms by (auto simp: path_segments_def unescape_segments comp_def simp del: unescape.simps(2) split: list.splits if_splits)

text \<open>A handler that is served was found for the decoded segments of the path, which was canonical.\<close>

lemma mux_serve_Served:
  assumes "mux_serve mux m p = Served h vs"
  shows "\<exists>pat. mux_find mux m (map unescape (path_segments p)) = Some (pat, h) \<and>
    vs = path_values (pt_path pat) (map unescape (path_segments p))"
  using assms by (auto simp: mux_serve_def Let_def split: if_splits option.splits)

end
