(* ===== verification/Router.thy ===== *)
theory Router
  imports Serve_Mux Auth_Properties
begin

text \<open>
  The routing tables: \<open>RegisterRoutes\<close> of every handler, \<open>NewRouter\<close> of \<open>internal/api/router.go\<close>, and the top-level
  mux of \<open>main\<close>, with the proof that their registration succeeds and what they dispatch to. A route is a constructor named after the handler that serves it.
\<close>

section \<open>The tables\<close>

datatype connection_route =
  Connection_list | Connection_create | Connection_get | Connection_update | Connection_delete | Connection_test
| Connection_health | Connection_databases | Connection_discover | Connection_update_database

datatype backup_route =
  Backup_list | Backup_create | Backup_get | Backup_delete | Backup_logs | Backup_download | Backup_verify | Backup_stats
| Backup_trends | Backup_slowest | Backup_freshness

datatype schedule_route = Schedule_list | Schedule_create | Schedule_get | Schedule_update | Schedule_delete | Schedule_run

datatype restore_route = Restore_list | Restore_start | Restore_get

datatype provider_route =
  Provider_list | Provider_create | Provider_get | Provider_update | Provider_delete | Provider_test | Provider_set_default

datatype notification_route =
  Notification_list | Notification_create | Notification_get | Notification_update | Notification_delete | Notification_test

datatype settings_route = Settings_get | Settings_update

datatype monitoring_route =
  Monitoring_health | Monitoring_metrics | Monitoring_performance | Monitoring_collect | Monitoring_autovacuum
| Monitoring_locks | Monitoring_replication | Monitoring_tables

datatype route =
  To_Connection connection_route | To_Backup backup_route | To_Schedule schedule_route | To_Restore restore_route
| To_Provider provider_route | To_Notification notification_route | To_Settings settings_route | To_Monitoring monitoring_route

text \<open>A pattern of the API: a method, a first segment after \<open>/api/\<close>, and the rest of the path.\<close>

definition api :: "string \<Rightarrow> string \<Rightarrow> path_pattern \<Rightarrow> pattern" where
  "api m g p = Pattern (Some m) (Lit ''api'' (Lit g p))"

definition connection_routes :: "connection_route mux" where
  "connection_routes =
     [(api ''GET'' ''connections'' End, Connection_list),
      (api ''POST'' ''connections'' End, Connection_create),
      (api ''GET'' ''connections'' (Wild End), Connection_get),
      (api ''PUT'' ''connections'' (Wild End), Connection_update),
      (api ''DELETE'' ''connections'' (Wild End), Connection_delete),
      (api ''POST'' ''connections'' (Wild (Lit ''test'' End)), Connection_test),
      (api ''GET'' ''connections'' (Wild (Lit ''health'' End)), Connection_health),
      (api ''GET'' ''connections'' (Wild (Lit ''databases'' End)), Connection_databases),
      (api ''POST'' ''connections'' (Wild (Lit ''discover'' End)), Connection_discover),
      (api ''PUT'' ''connections'' (Lit ''databases'' (Wild End)), Connection_update_database)]"

definition backup_routes :: "backup_route mux" where
  "backup_routes =
     [(api ''GET'' ''backups'' End, Backup_list),
      (api ''POST'' ''backups'' End, Backup_create),
      (api ''GET'' ''backups'' (Wild End), Backup_get),
      (api ''DELETE'' ''backups'' (Wild End), Backup_delete),
      (api ''GET'' ''backups'' (Wild (Lit ''logs'' End)), Backup_logs),
      (api ''GET'' ''backups'' (Wild (Lit ''download'' End)), Backup_download),
      (api ''POST'' ''backups'' (Wild (Lit ''verify'' End)), Backup_verify),
      (api ''GET'' ''backups'' (Lit ''stats'' End), Backup_stats),
      (api ''GET'' ''backups'' (Lit ''analytics'' (Lit ''trends'' End)), Backup_trends),
      (api ''GET'' ''backups'' (Lit ''analytics'' (Lit ''slowest'' End)), Backup_slowest),
      (api ''GET'' ''backups'' (Lit ''analytics'' (Lit ''freshness'' End)), Backup_freshness)]"

definition schedule_routes :: "schedule_route mux" where
  "schedule_routes =
     [(api ''GET'' ''schedules'' End, Schedule_list),
      (api ''POST'' ''schedules'' End, Schedule_create),
      (api ''GET'' ''schedules'' (Wild End), Schedule_get),
      (api ''PUT'' ''schedules'' (Wild End), Schedule_update),
      (api ''DELETE'' ''schedules'' (Wild End), Schedule_delete),
      (api ''POST'' ''schedules'' (Wild (Lit ''run'' End)), Schedule_run)]"

definition restore_routes :: "restore_route mux" where
  "restore_routes =
     [(api ''GET'' ''restores'' End, Restore_list),
      (api ''POST'' ''backups'' (Wild (Lit ''restore'' End)), Restore_start),
      (api ''GET'' ''restores'' (Wild End), Restore_get)]"

definition provider_routes :: "provider_route mux" where
  "provider_routes =
     [(api ''GET'' ''storage-providers'' End, Provider_list),
      (api ''POST'' ''storage-providers'' End, Provider_create),
      (api ''GET'' ''storage-providers'' (Wild End), Provider_get),
      (api ''PUT'' ''storage-providers'' (Wild End), Provider_update),
      (api ''DELETE'' ''storage-providers'' (Wild End), Provider_delete),
      (api ''POST'' ''storage-providers'' (Wild (Lit ''test'' End)), Provider_test),
      (api ''POST'' ''storage-providers'' (Wild (Lit ''set-default'' End)), Provider_set_default)]"

definition notification_routes :: "notification_route mux" where
  "notification_routes =
     [(api ''GET'' ''notifications'' End, Notification_list),
      (api ''POST'' ''notifications'' End, Notification_create),
      (api ''GET'' ''notifications'' (Wild End), Notification_get),
      (api ''PUT'' ''notifications'' (Wild End), Notification_update),
      (api ''DELETE'' ''notifications'' (Wild End), Notification_delete),
      (api ''POST'' ''notifications'' (Wild (Lit ''test'' End)), Notification_test)]"

definition settings_routes :: "settings_route mux" where
  "settings_routes =
     [(api ''GET'' ''settings'' End, Settings_get),
      (api ''PUT'' ''settings'' End, Settings_update)]"

definition monitoring_routes :: "monitoring_route mux" where
  "monitoring_routes =
     [(api ''GET'' ''monitoring'' (Lit ''health'' End), Monitoring_health),
      (api ''GET'' ''monitoring'' (Lit ''metrics'' End), Monitoring_metrics),
      (api ''GET'' ''monitoring'' (Lit ''performance'' End), Monitoring_performance),
      (api ''POST'' ''monitoring'' (Lit ''collect'' End), Monitoring_collect),
      (api ''GET'' ''monitoring'' (Lit ''autovacuum'' End), Monitoring_autovacuum),
      (api ''GET'' ''monitoring'' (Lit ''locks'' End), Monitoring_locks),
      (api ''GET'' ''monitoring'' (Lit ''replication'' End), Monitoring_replication),
      (api ''GET'' ''monitoring'' (Lit ''tables'' End), Monitoring_tables)]"

text \<open>\<open>NewRouter\<close>: a health answer, the routes of the handlers, and the files of the web interface for everything else.
  The order is that of the registrations.\<close>

datatype api_handler = Api_Health | Route route | Static_Files

definition routes_to :: "('a \<Rightarrow> 'b) \<Rightarrow> 'a mux \<Rightarrow> 'b mux" where
  "routes_to f rs = map (apsnd f) rs"

definition domain_routes :: "route mux" where
  "domain_routes = routes_to To_Connection connection_routes @ routes_to To_Backup backup_routes @
     routes_to To_Schedule schedule_routes @ routes_to To_Restore restore_routes @ routes_to To_Provider provider_routes @
     routes_to To_Notification notification_routes @ routes_to To_Settings settings_routes @
     routes_to To_Monitoring monitoring_routes"

definition api_table :: "api_handler mux" where
  "api_table = (api ''GET'' ''health'' End, Api_Health) # routes_to Route domain_routes @ [(Pattern None Rest, Static_Files)]"

definition NewRouter :: "api_handler mux option" where
  "NewRouter = mux_register api_table []"

text \<open>The mux of \<open>main\<close>. \<open>Protected\<close> is the API behind the authentication.\<close>

datatype endpoint = LoginEndpoint | LogoutEndpoint | CheckEndpoint | PasswordEndpoint | HealthEndpoint | Protected

definition main_table :: "endpoint mux" where
  "main_table =
     [(api ''POST'' ''auth'' (Lit ''login'' End), LoginEndpoint),
      (api ''POST'' ''auth'' (Lit ''logout'' End), LogoutEndpoint),
      (api ''GET'' ''auth'' (Lit ''check'' End), CheckEndpoint),
      (api ''PUT'' ''auth'' (Lit ''password'' End), PasswordEndpoint),
      (api ''GET'' ''health'' End, HealthEndpoint),
      (Pattern None (Lit ''api'' Rest), Protected)]"

definition main_mux :: "endpoint mux option" where
  "main_mux = mux_register main_table []"

section \<open>No registration panics\<close>

lemma sorted_wrt_all: "(\<And>p q. p \<in> set ps \<Longrightarrow> q \<in> set ps \<Longrightarrow> P p q) \<Longrightarrow> sorted_wrt P ps"
  by (induction ps) auto

text \<open>Two patterns of the API conflict only if they have the same first segment, and then when their methods meet and their
  rests conflict.\<close>

lemma conflicts_api:
  "conflicts (api m g p) (api m' g' p') \<longleftrightarrow> g = g' \<and> conflicts (Pattern (Some m) p) (Pattern (Some m') p')"
  by (auto simp: conflicts_def api_def pattern_disjoint_def less_pattern_def less_eq_pattern_def less_eq_path_pattern_def)

lemma method_disjoint_methods [simp]:
  "method_disjoint (Some ''GET'') (Some ''POST'')" "method_disjoint (Some ''POST'') (Some ''GET'')"
  "method_disjoint (Some ''GET'') (Some ''PUT'')" "method_disjoint (Some ''PUT'') (Some ''GET'')"
  "method_disjoint (Some ''GET'') (Some ''DELETE'')" "method_disjoint (Some ''DELETE'') (Some ''GET'')"
  "method_disjoint (Some ''POST'') (Some ''PUT'')" "method_disjoint (Some ''PUT'') (Some ''POST'')"
  "method_disjoint (Some ''POST'') (Some ''DELETE'')" "method_disjoint (Some ''DELETE'') (Some ''POST'')"
  "method_disjoint (Some ''PUT'') (Some ''DELETE'')" "method_disjoint (Some ''DELETE'') (Some ''PUT'')"
  by (simp_all add: method_disjoint_def method_le_def)

lemma conflicts_rest:
  "method_disjoint (Some m) (Some m') \<Longrightarrow> \<not> conflicts (Pattern (Some m) p) (Pattern (Some m') p')"
  "conflicts (Pattern (Some m) p) (Pattern (Some m) p') \<longleftrightarrow> \<not> path_disjoint p p' \<and> path_le p p' = path_le p' p"
  by (auto simp: conflicts_def pattern_disjoint_def less_pattern_def less_eq_pattern_def less_eq_path_pattern_def
      method_disjoint_def method_le_def)

lemmas conflict_eval = conflict_free_def conflicts_api conflicts_rest


lemmas route_tables = connection_routes_def backup_routes_def schedule_routes_def restore_routes_def provider_routes_def
  notification_routes_def settings_routes_def monitoring_routes_def

text \<open>The first segments of a table; tables with different ones do not conflict with each other.\<close>

definition grouped :: "string list \<Rightarrow> pattern list \<Rightarrow> bool" where
  "grouped gs ps \<longleftrightarrow> (\<forall>q \<in> set ps. \<exists>m g p. q = api m g p \<and> g \<in> set gs)"

lemma grouped_simps [simp]: "grouped gs []" "grouped gs (api m g p # ps) \<longleftrightarrow> g \<in> set gs \<and> grouped gs ps"
  by (auto simp: grouped_def api_def)

lemma grouped_append: "grouped gs xs \<Longrightarrow> grouped hs ys \<Longrightarrow> grouped (gs @ hs) (xs @ ys)"
  by (fastforce simp: grouped_def)

lemma grouped_cross:
  assumes "grouped gs xs" "grouped hs ys" "set gs \<inter> set hs = {}" "x \<in> set xs" "y \<in> set ys"
  shows "\<not> conflicts x y"
proof -
  from assms(1,2,4,5) obtain m g p m' g' p' where "x = api m g p" "g \<in> set gs" "y = api m' g' p'" "g' \<in> set hs"
    unfolding grouped_def by meson
  with assms(3) show ?thesis by (auto simp: conflicts_api)
qed

lemma conflict_free_append:
  assumes "grouped gs xs" "grouped hs ys" "set gs \<inter> set hs = {}" "conflict_free xs" "conflict_free ys"
  shows "conflict_free (xs @ ys)"
  using assms(4,5) grouped_cross [OF assms(1-3)] by (auto simp: conflict_free_def sorted_wrt_append)

lemma routes_to_patterns [simp]: "map fst (routes_to f rs) = map fst rs"
  by (simp add: routes_to_def)

lemma table_groups:
  "grouped [''connections''] (map fst connection_routes)" "grouped [''backups''] (map fst backup_routes)"
  "grouped [''schedules''] (map fst schedule_routes)" "grouped [''restores'', ''backups''] (map fst restore_routes)"
  "grouped [''storage-providers''] (map fst provider_routes)" "grouped [''notifications''] (map fst notification_routes)"
  "grouped [''settings''] (map fst settings_routes)" "grouped [''monitoring''] (map fst monitoring_routes)"
  by (simp_all add: route_tables)

lemma tables_conflict_free:
  "conflict_free (map fst connection_routes)" "conflict_free (map fst backup_routes @ map fst restore_routes)"
  "conflict_free (map fst schedule_routes)" "conflict_free (map fst provider_routes)"
  "conflict_free (map fst notification_routes)" "conflict_free (map fst settings_routes)" "conflict_free (map fst monitoring_routes)"
  by (simp_all add: route_tables conflict_eval)

text \<open>The order of the registrations does not matter.\<close>

lemma conflicts_sym: "conflicts p q = conflicts q p"
proof -
  have "path_disjoint p q = path_disjoint q p" for p q by (induction p q rule: path_disjoint.induct) auto
  then show ?thesis by (auto simp: conflicts_def pattern_disjoint_def method_disjoint_def)
qed

lemma conflict_free_swap: "conflict_free (xs @ ys @ zs) \<longleftrightarrow> conflict_free (ys @ xs @ zs)"
  unfolding conflict_free_def sorted_wrt_append set_append using conflicts_sym by blast

abbreviation domain_segments :: "string list" where
  "domain_segments \<equiv> [''connections'', ''backups'', ''schedules'', ''restores'', ''backups'', ''storage-providers'',
     ''notifications'', ''settings'', ''monitoring'']"

lemma domain_groups: "grouped domain_segments (map fst domain_routes)"
  using grouped_append [OF table_groups(1) grouped_append [OF table_groups(2) grouped_append [OF table_groups(3) grouped_append [OF
    table_groups(4) grouped_append [OF table_groups(5) grouped_append [OF table_groups(6) grouped_append [OF table_groups(7,8)]]]]]]]
  by (simp add: domain_routes_def)

lemma domain_routes_conflict_free: "conflict_free (map fst domain_routes)"
proof -
  let ?s = "map fst settings_routes" and ?m = "map fst monitoring_routes" and ?n = "map fst notification_routes"
    and ?p = "map fst provider_routes" and ?b = "map fst backup_routes" and ?r = "map fst restore_routes"
    and ?h = "map fst schedule_routes"
  note g = table_groups and c = tables_conflict_free
  have 1: "conflict_free (?s @ ?m)"
    by (rule conflict_free_append [OF g(7) g(8)]) (simp_all add: c)
  have 2: "conflict_free (?n @ ?s @ ?m)"
    by (rule conflict_free_append [OF g(6) grouped_append [OF g(7) g(8)] _ c(5) 1]) simp
  have 3: "conflict_free (?p @ ?n @ ?s @ ?m)"
    by (rule conflict_free_append [OF g(5) grouped_append [OF g(6) grouped_append [OF g(7) g(8)]] _ c(4) 2]) simp
  have 4: "conflict_free ((?b @ ?r) @ ?p @ ?n @ ?s @ ?m)"
    by (rule conflict_free_append [OF grouped_append [OF g(2) g(4)] grouped_append [OF g(5) grouped_append [OF g(6)
        grouped_append [OF g(7) g(8)]]] _ c(2) 3]) simp
  have 5: "conflict_free (?h @ (?b @ ?r) @ ?p @ ?n @ ?s @ ?m)"
    by (rule conflict_free_append [OF g(3) grouped_append [OF grouped_append [OF g(2) g(4)] grouped_append [OF g(5)
        grouped_append [OF g(6) grouped_append [OF g(7) g(8)]]]] _ c(3) 4]) simp
  have 6: "conflict_free (?b @ ?h @ ?r @ ?p @ ?n @ ?s @ ?m)"
    using 5 conflict_free_swap [of ?h ?b] by simp
  have 7: "conflict_free (map fst connection_routes @ ?b @ ?h @ ?r @ ?p @ ?n @ ?s @ ?m)"
    by (rule conflict_free_append [OF g(1) grouped_append [OF g(2) grouped_append [OF g(3) grouped_append [OF g(4)
        grouped_append [OF g(5) grouped_append [OF g(6) grouped_append [OF g(7) g(8)]]]]]] _ c(1) 6]) simp
  then show ?thesis by (simp add: domain_routes_def)
qed

text \<open>The pattern of the static files is less specific than any other.\<close>

lemma less_rest: "pt_path p \<noteq> End \<Longrightarrow> pt_method p \<noteq> None \<Longrightarrow> p < Pattern None Rest"
  by (auto simp: less_pattern_def less_eq_pattern_def less_eq_path_pattern_def method_le_def path_le_Rest)

lemma api_table_conflict_free: "conflict_free (map fst api_table)"
proof -
  let ?ps = "[api ''GET'' ''health'' End] @ map fst domain_routes"
  have g: "grouped [''health''] [api ''GET'' ''health'' End]" by simp
  have h: "conflict_free ?ps"
    by (rule conflict_free_append [OF g domain_groups]) (simp_all add: domain_routes_conflict_free, simp add: conflict_free_def)
  have "p < Pattern None Rest" if "p \<in> set ?ps" for p
    using grouped_append [OF g domain_groups] that unfolding grouped_def by (metis api_def less_rest option.discI
        path_pattern.distinct(3) pattern.sel)
  then have "\<forall>p \<in> set ?ps. \<not> conflicts p (Pattern None Rest)" unfolding conflicts_def by blast
  moreover have "map fst api_table = ?ps @ [Pattern None Rest]" by (simp add: api_table_def)
  ultimately show ?thesis using h unfolding conflict_free_def by (simp only: sorted_wrt_append) simp
qed

lemma NewRouter_table: "NewRouter = Some api_table"
  using mux_register_iff [of "[]" api_table] api_table_conflict_free by (simp add: NewRouter_def conflict_free_def)

lemma main_table_conflict_free: "conflict_free (map fst main_table)"
proof -
  have "p < Pattern None (Lit ''api'' Rest)" if "p = api m g q" for p m g q
    using that by (auto simp: less_pattern_def less_eq_pattern_def less_eq_path_pattern_def method_le_def api_def)
  then have "\<not> conflicts (api m g q) (Pattern None (Lit ''api'' Rest))" for m g q
    by (simp add: conflicts_def)
  then show ?thesis by (simp add: main_table_def conflict_eval)
qed

lemma main_mux_table: "main_mux = Some main_table"
  using mux_register_iff [of "[]" main_table] main_table_conflict_free by (simp add: main_mux_def conflict_free_def)

section \<open>Dispatch\<close>

text \<open>Claim C38. The program starts: no registration of a route panics, in the router of the API and in the mux of \<open>main\<close>.
  The API serves every request, and by the route with the most specific of the patterns that match, whatever the order of the
  registrations.\<close>

theorem routes_dispatched:
  shows "NewRouter = Some api_table \<and> main_mux = Some main_table \<and>
    (\<forall>m ss p h. mux_find api_table m ss = Some (p, h) \<longleftrightarrow>
       (p, h) \<in> set api_table \<and> pattern_match p m ss \<and> (\<forall>(q, k) \<in> set api_table. pattern_match q m ss \<longrightarrow> p \<le> q)) \<and>
    (\<forall>m ss. ss \<noteq> [] \<longrightarrow> mux_find api_table m ss \<noteq> None)"
proof (intro conjI allI impI)
  have static: "(Pattern None Rest, Static_Files) \<in> set api_table" by (simp add: api_table_def)
  fix m and ss :: "string list" assume "ss \<noteq> []"
  then have "pattern_match (Pattern None Rest) m ss" by (simp add: pattern_match_def method_match_def)
  then show "mux_find api_table m ss \<noteq> None"
    using mux_find_None [OF api_table_conflict_free _ static] by (metis fst_conv)
qed (rule NewRouter_table main_mux_table mux_find_iff [OF api_table_conflict_free])+

theorem routes_dispatched_witness:
  "mux_find api_table ''GET'' [''api'', ''backups'', ''stats''] =
     Some (api ''GET'' ''backups'' (Lit ''stats'' End), Route (To_Backup Backup_stats)) \<and>
   mux_find api_table ''GET'' [''api'', ''backups'', ''b1''] =
     Some (api ''GET'' ''backups'' (Wild End), Route (To_Backup Backup_get))"
proof -
  note d = conjunct1 [OF conjunct2 [OF conjunct2 [OF routes_dispatched]]]
  note e = api_table_def domain_routes_def routes_to_def route_tables pattern_match_def method_match_def api_def less_eq_pattern_def
    less_eq_path_pattern_def method_le_def
  show ?thesis by (simp add: d) (simp add: e)
qed

end
