(* ===== verification/Server.thy ===== *)
theory Server
  imports Router App Schedule_Properties Backup_Jobs Connections Settings
begin

text \<open>
  The whole server: a request on its way through CORS, the top-level mux, the authentication and the mux of the API to the
  handler of its route, on one state made of the world, the sessions and what the goroutines leave behind; and the steps of
  the goroutines the handlers start. The body of a request comes decoded in every type a handler may ask for; an answer is
  the value handed to the encoder.
\<close>

section \<open>Requests and answers\<close>

record request_body =
  bd_connection :: "connection option"
  bd_selected :: "bool option"
  bd_backup :: "backup_request option"
  bd_schedule :: "schedule option"
  bd_target :: "string option"
  bd_provider :: "provider option"
  bd_notification :: "notification option"
  bd_settings :: "(string \<times> string) list option"
  bd_credentials :: "(string \<times> string) option" \<comment> \<open>user and password, or old and new password\<close>

record http_request =
  hq_Method :: string
  hq_EscapedPath :: string
  hq_Cookie :: "string option"
  hq_Authorization :: string
  hq_Query :: "string \<Rightarrow> string" \<comment> \<open>\<open>URL.Query().Get\<close>\<close>
  hq_Body :: request_body

text \<open>The part of the request the authentication reads; \<open>URL.Path\<close> is the decoded path.\<close>

definition auth_request :: "http_request \<Rightarrow> request" where
  "auth_request r = \<lparr>rq_Method = hq_Method r, rq_Path = unescape (hq_EscapedPath r), rq_Cookie = hq_Cookie r,
     rq_Authorization = hq_Authorization r\<rparr>"

definition mon_query :: "http_request \<Rightarrow> mon_params" where
  "mon_query r = \<lparr>mp_connection_id = hq_Query r ''connection_id'', mp_since = hq_Query r ''since'',
     mp_until = hq_Query r ''until'', mp_limit = hq_Query r ''limit''\<rparr>"

text \<open>The values the handlers encode.\<close>

datatype json =
  J_Connections "connection list" | J_Connection connection | J_Tested "gerror option" | J_Live health
| J_Databases "connection_database list"
| J_Backups "backup list" | J_Backup backup | J_Logs string | J_Download download | J_Stats stats_response
| J_Trends "backup_trend list" | J_Stale "stale_backup_alert list"
| J_Schedules "schedule list" | J_Schedule schedule | J_Run string
| J_Restores "restore list" | J_Restore restore
| J_Providers "provider list" | J_Provider provider
| J_Notifications "notification list" | J_Notification notification | J_Sent string
| J_Settings "string \<rightharpoonup> string"
| J_Health_Checks "health_check list" | J_Metrics "db_metric list" | J_Performance "performance_metric list"
| J_Autovacuum "autovacuum_info list" | J_Locks "lock_info list" | J_Replication "replication_lag list"
| J_Tables "table_metric list"
| J_Login "string \<times> string" "cookie option" | J_Session "string \<times> int" | J_Ended bool "cookie option"
| J_Health health_answer | J_Status string | J_No_Content | J_Text string

definition reply :: "('a \<Rightarrow> json) \<Rightarrow> 'a response \<Rightarrow> json response" where
  "reply f r = apsnd (map_body f) r"

section \<open>The state\<close>

text \<open>The scheduler, the monitoring tables, and the goroutines that were started and have not ended: backups waiting for the
  semaphore and holding it, restores, verifications, immediate runs of a schedule, triggered collections; and the requests
  sent to notification channels.\<close>

record 'c backend =
  be_sched :: "'c scheduler"
  be_mon :: mon_db
  be_waiting :: "job list"
  be_running :: "job list"
  be_restores :: "restore_job list"
  be_verifications :: "backup list"
  be_runs :: "schedule list"
  be_cycles :: nat
  be_posts :: "post list"

type_synonym ('s, 'c) server = "('s world \<times> auth) \<times> 'c backend"

text \<open>What \<open>main\<close> has built and the external code it runs on.\<close>

record ('s, 'c) program =
  pg_ext :: "'s ext"
  pg_app :: "'s app"
  pg_cron :: "'c cron"
  pg_source :: source_ext
  pg_mon :: mon_ext
  pg_channels :: channel_config
  pg_parse_time :: "string \<Rightarrow> int option"
  pg_day :: "int \<Rightarrow> string"
  pg_version :: string
  pg_file :: "http_request \<Rightarrow> nat \<times> string" \<comment> \<open>the file server on the directory \<open>web\<close>\<close>

definition on_world :: "('a \<Rightarrow> json) \<Rightarrow> ('s world \<Rightarrow> 'a response \<times> 's world) \<Rightarrow> ('s, 'c) server \<Rightarrow> json response \<times> ('s, 'c) server" where
  "on_world f h st = (case st of ((w, a), b) \<Rightarrow> case h w of (resp, w') \<Rightarrow> (reply f resp, ((w', a), b)))"

definition on_mon :: "('a \<Rightarrow> json) \<Rightarrow> (mon_db \<Rightarrow> 'a response \<times> mon_db) \<Rightarrow> ('s, 'c) server \<Rightarrow> json response \<times> ('s, 'c) server" where
  "on_mon f h st = (case st of (wa, b) \<Rightarrow> case h (be_mon b) of (resp, m) \<Rightarrow> (reply f resp, (wa, b\<lparr>be_mon := m\<rparr>)))"

definition on_sched :: "('a \<Rightarrow> json) \<Rightarrow> ('s world \<times> 'c scheduler \<Rightarrow> 'a response \<times> ('s world \<times> 'c scheduler)) \<Rightarrow>
    ('s, 'c) server \<Rightarrow> json response \<times> ('s, 'c) server" where
  "on_sched f h st =
     (case st of ((w, a), b) \<Rightarrow> case h (w, be_sched b) of (resp, (w', sc)) \<Rightarrow> (reply f resp, ((w', a), b\<lparr>be_sched := sc\<rparr>)))"

text \<open>A handler whose answer carries a goroutine: the goroutine joins the backend, the rest is encoded.\<close>

definition launching :: "('a \<Rightarrow> json) \<Rightarrow> ('a \<Rightarrow> 'c backend \<Rightarrow> 'c backend) \<Rightarrow> ('s world \<Rightarrow> 'a response \<times> 's world) \<Rightarrow>
    ('s, 'c) server \<Rightarrow> json response \<times> ('s, 'c) server" where
  "launching f start h st =
     (case st of ((w, a), b) \<Rightarrow> case h w of (resp, w') \<Rightarrow>
        (reply f resp, ((w', a), case snd resp of Json x \<Rightarrow> start x b | _ \<Rightarrow> b)))"

section \<open>The routes\<close>

definition first_value :: "string list \<Rightarrow> string" where
  "first_value vs = (case vs of [] \<Rightarrow> [] | v # _ \<Rightarrow> v)"

definition connection_handler :: "('s, 'c) program \<Rightarrow> connection_route \<Rightarrow> string \<Rightarrow> http_request \<Rightarrow> ('s, 'c) server \<Rightarrow>
    json response \<times> ('s, 'c) server" where
  "connection_handler P h i r =
     (let S = pg_source P; body = hq_Body r
      in case h of
           Connection_list \<Rightarrow> on_world J_Connections Connection_handleList
         | Connection_create \<Rightarrow> on_world J_Connection (Connection_handleCreate S (bd_connection body))
         | Connection_get \<Rightarrow> on_world J_Connection (Connection_handleGet i)
         | Connection_update \<Rightarrow> on_world J_Connection (Connection_handleUpdate i (bd_connection body))
         | Connection_delete \<Rightarrow> on_world (\<lambda>_. J_No_Content) (Connection_handleDelete i)
         | Connection_test \<Rightarrow> on_world J_Tested (Connection_handleTest S i (bd_connection body))
         | Connection_health \<Rightarrow> on_world J_Live (Connection_handleHealth S i)
         | Connection_databases \<Rightarrow> on_world J_Databases (Connection_handleListDatabases i)
         | Connection_discover \<Rightarrow> on_world J_Databases (Connection_handleDiscover S i)
         | Connection_update_database \<Rightarrow> on_world (\<lambda>_. J_No_Content) (Connection_handleUpdateDatabase i (bd_selected body)))"

definition backup_handler :: "('s, 'c) program \<Rightarrow> backup_route \<Rightarrow> string \<Rightarrow> http_request \<Rightarrow> ('s, 'c) server \<Rightarrow>
    json response \<times> ('s, 'c) server" where
  "backup_handler P h i r =
     (let X = pg_ext P; s = ap_backup (pg_app P); q = hq_Query r
      in case h of
           Backup_list \<Rightarrow> on_world J_Backups (Backup_handleList (q ''connection_id'') (q ''database_id'') (q ''limit'') (q ''offset''))
         | Backup_create \<Rightarrow> launching (\<lambda>(b, j). J_Backup b) (\<lambda>(b, j) x. x\<lparr>be_waiting := be_waiting x @ [j]\<rparr>)
             (Backup_handleCreate (bd_backup (hq_Body r)))
         | Backup_get \<Rightarrow> on_world J_Backup (Backup_handleGet i)
         | Backup_delete \<Rightarrow> on_world (\<lambda>_. J_No_Content) (Backup_handleDelete X s i)
         | Backup_logs \<Rightarrow> on_world J_Logs (Backup_handleLogs i)
         | Backup_download \<Rightarrow> on_world J_Download (\<lambda>w. case Backup_handleDownload X s i w of (d, w') \<Rightarrow> ((dl_status d, Json d), w'))
         | Backup_verify \<Rightarrow> launching (\<lambda>b. J_Status ''verifying'') (\<lambda>b x. x\<lparr>be_verifications := be_verifications x @ [b]\<rparr>)
             (Backup_handleVerify i)
         | Backup_stats \<Rightarrow> on_world J_Stats Backup_handleStats
         | Backup_trends \<Rightarrow> on_world J_Trends (Backup_handleTrends (pg_day P) (q ''days''))
         | Backup_slowest \<Rightarrow> on_world J_Backups (Backup_handleSlowest (q ''limit''))
         | Backup_freshness \<Rightarrow> on_world J_Stale (Backup_handleFreshness (q ''hours'')))"

definition schedule_handler :: "('s, 'c) program \<Rightarrow> schedule_route \<Rightarrow> string \<Rightarrow> http_request \<Rightarrow> ('s, 'c) server \<Rightarrow>
    json response \<times> ('s, 'c) server" where
  "schedule_handler P h i r =
     (let C = pg_cron P; body = bd_schedule (hq_Body r)
      in case h of
           Schedule_list \<Rightarrow> on_world J_Schedules (Schedule_handleList (hq_Query r ''connection_id''))
         | Schedule_create \<Rightarrow> on_sched J_Schedule (Schedule_handleCreate C body)
         | Schedule_get \<Rightarrow> on_world J_Schedule (Schedule_handleGet i)
         | Schedule_update \<Rightarrow> on_sched J_Schedule (Schedule_handleUpdate C i body)
         | Schedule_delete \<Rightarrow> on_sched (\<lambda>_. J_No_Content) (Schedule_handleDelete C i)
         | Schedule_run \<Rightarrow> launching (\<lambda>(i, sch). J_Run i) (\<lambda>(i, sch) x. x\<lparr>be_runs := be_runs x @ [sch]\<rparr>) (Schedule_handleRun i))"

definition restore_handler :: "restore_route \<Rightarrow> string \<Rightarrow> http_request \<Rightarrow> ('s, 'c) server \<Rightarrow> json response \<times> ('s, 'c) server" where
  "restore_handler h i r =
     (case h of
        Restore_list \<Rightarrow> on_world J_Restores Restore_handleList
      | Restore_start \<Rightarrow> launching (\<lambda>(x, j). J_Restore x) (\<lambda>(x, j) b. b\<lparr>be_restores := be_restores b @ [j]\<rparr>)
          (Restore_handleRestore i (bd_target (hq_Body r)))
      | Restore_get \<Rightarrow> on_world J_Restore (Restore_handleGet i))"

definition provider_handler :: "('s, 'c) program \<Rightarrow> provider_route \<Rightarrow> string \<Rightarrow> http_request \<Rightarrow> ('s, 'c) server \<Rightarrow>
    json response \<times> ('s, 'c) server" where
  "provider_handler P h i r =
     (let X = pg_ext P; svc = ap_provSvc (pg_app P); body = bd_provider (hq_Body r)
      in case h of
           Provider_list \<Rightarrow> on_world J_Providers (Provider_handleList X svc)
         | Provider_create \<Rightarrow> on_world J_Provider (Provider_handleCreate X svc body)
         | Provider_get \<Rightarrow> on_world J_Provider (Provider_handleGet X svc i)
         | Provider_update \<Rightarrow> on_world J_Provider (Provider_handleUpdate X svc i body)
         | Provider_delete \<Rightarrow> on_world (\<lambda>_. J_No_Content) (Provider_handleDelete i)
         | Provider_test \<Rightarrow> on_world J_Tested (Provider_handleTest X svc i)
         | Provider_set_default \<Rightarrow> on_world J_Provider (Provider_handleSetDefault X svc i))"

definition notification_handler :: "('s, 'c) program \<Rightarrow> notification_route \<Rightarrow> string \<Rightarrow> http_request \<Rightarrow> ('s, 'c) server \<Rightarrow>
    json response \<times> ('s, 'c) server" where
  "notification_handler P h i r =
     (let body = bd_notification (hq_Body r)
      in case h of
           Notification_list \<Rightarrow> on_world J_Notifications Notification_handleList
         | Notification_create \<Rightarrow> on_world J_Notification (Notification_handleCreate body)
         | Notification_get \<Rightarrow> on_world J_Notification (Notification_handleGet i)
         | Notification_update \<Rightarrow> on_world J_Notification (Notification_handleUpdate i body)
         | Notification_delete \<Rightarrow> on_world (\<lambda>_. J_No_Content) (Notification_handleDelete i)
         | Notification_test \<Rightarrow> (\<lambda>((w, a), b). case Notification_handleTest (pg_channels P) i w of
               ((resp, posts), w') \<Rightarrow> (reply J_Sent resp, ((w', a), b\<lparr>be_posts := be_posts b @ posts\<rparr>))))"

text \<open>The collector is set before the server listens; a triggered cycle runs in a goroutine of its own.\<close>

definition monitoring_handler :: "('s, 'c) program \<Rightarrow> monitoring_route \<Rightarrow> http_request \<Rightarrow> ('s, 'c) server \<Rightarrow> json response \<times> ('s, 'c) server" where
  "monitoring_handler P h r =
     (let T = pg_parse_time P; q = mon_query r
      in case h of
           Monitoring_health \<Rightarrow> on_mon J_Health_Checks (ListHealthChecks T q)
         | Monitoring_metrics \<Rightarrow> on_mon J_Metrics (ListDBMetrics T q)
         | Monitoring_performance \<Rightarrow> on_mon J_Performance (ListPerformanceMetrics T q)
         | Monitoring_collect \<Rightarrow> (\<lambda>(wa, b). (reply (\<lambda>_. J_Status ''collecting'') (TriggerCollect True), (wa, b\<lparr>be_cycles := Suc (be_cycles b)\<rparr>)))
         | Monitoring_autovacuum \<Rightarrow> on_mon J_Autovacuum (ListAutovacuumInfo T q)
         | Monitoring_locks \<Rightarrow> on_mon J_Locks (ListLockInfo T q)
         | Monitoring_replication \<Rightarrow> on_mon J_Replication (ListReplicationLag T q)
         | Monitoring_tables \<Rightarrow> on_mon J_Tables (ListTableMetrics T q))"

definition settings_handler :: "('s, 'c) program \<Rightarrow> settings_route \<Rightarrow> http_request \<Rightarrow> ('s, 'c) server \<Rightarrow> json response \<times> ('s, 'c) server" where
  "settings_handler P h r =
     (case h of
        Settings_get \<Rightarrow> on_world J_Settings (Settings_handleGet (pg_version P))
      | Settings_update \<Rightarrow> on_world J_Settings (Settings_handleUpdate (bd_settings (hq_Body r))))"

definition handle_route :: "('s, 'c) program \<Rightarrow> route \<Rightarrow> string \<Rightarrow> http_request \<Rightarrow> ('s, 'c) server \<Rightarrow>
    json response \<times> ('s, 'c) server" where
  "handle_route P h i r =
     (case h of
        To_Connection x \<Rightarrow> connection_handler P x i r
      | To_Backup x \<Rightarrow> backup_handler P x i r
      | To_Schedule x \<Rightarrow> schedule_handler P x i r
      | To_Restore x \<Rightarrow> restore_handler x i r
      | To_Provider x \<Rightarrow> provider_handler P x i r
      | To_Notification x \<Rightarrow> notification_handler P x i r
      | To_Settings x \<Rightarrow> settings_handler P x r
      | To_Monitoring x \<Rightarrow> monitoring_handler P x r)"

section \<open>A request\<close>

definition plain :: "nat \<Rightarrow> string \<Rightarrow> json response" where
  "plain status text = (status, Json (J_Text text))"

text \<open>A mux in front of its handlers; its own answers are those of \<open>net/http\<close>.\<close>

definition through_mux :: "'h mux \<Rightarrow> ('h \<Rightarrow> string \<Rightarrow> 'st \<Rightarrow> json response \<times> 'st) \<Rightarrow> http_request \<Rightarrow> 'st \<Rightarrow> json response \<times> 'st" where
  "through_mux mux handler r st =
     (case mux_serve mux (hq_Method r) (hq_EscapedPath r) of
        Served h vs \<Rightarrow> handler h (first_value vs) st
      | Redirected \<Rightarrow> (plain 301 ''Moved Permanently'', st)
      | Method_Not_Allowed \<Rightarrow> (plain 405 ''Method Not Allowed'', st)
      | Not_Found \<Rightarrow> (plain 404 ''404 page not found'', st))"

definition api_handle :: "('s, 'c) program \<Rightarrow> http_request \<Rightarrow> api_handler \<Rightarrow> string \<Rightarrow> ('s, 'c) server \<Rightarrow>
    json response \<times> ('s, 'c) server" where
  "api_handle P r h i st =
     (case h of
        Api_Health \<Rightarrow> ((200, Json (J_Status ''ok'')), st)
      | Route x \<Rightarrow> handle_route P x i r st
      | Static_Files \<Rightarrow> (case pg_file P r of (status, text) \<Rightarrow> (plain status text, st)))"

text \<open>The endpoints outside the protected API; their cookie is kept with the body.\<close>

definition with_cookie :: "('a \<Rightarrow> cookie option \<Rightarrow> json) \<Rightarrow> ('a response \<times> cookie option) \<times> ('s world \<times> auth) \<Rightarrow> 'c backend \<Rightarrow>
    json response \<times> ('s, 'c) server" where
  "with_cookie f p b = (case p of ((resp, c), wa) \<Rightarrow> (reply (\<lambda>x. f x c) resp, (wa, b)))"

definition main_handle :: "('s, 'c) program \<Rightarrow> http_request \<Rightarrow> endpoint \<Rightarrow> string \<Rightarrow> ('s, 'c) server \<Rightarrow>
    json response \<times> ('s, 'c) server" where
  "main_handle P r h i st =
     (let C = x_crypto (pg_ext P); cred = bd_credentials (hq_Body r); (wa, b) = st
      in case h of
           LoginEndpoint \<Rightarrow> with_cookie J_Login (HandleLogin C cred wa) b
         | LogoutEndpoint \<Rightarrow> with_cookie J_Ended (HandleLogout (auth_request r) wa) b
         | CheckEndpoint \<Rightarrow> (case HandleCheck (auth_request r) wa of (resp, wa') \<Rightarrow> (reply J_Session resp, (wa', b)))
         | PasswordEndpoint \<Rightarrow> with_cookie J_Ended (HandleChangePassword C cred wa) b
         | HealthEndpoint \<Rightarrow> (reply J_Health (health_endpoint (pg_version P) (pg_app P)), st)
         | Protected \<Rightarrow> Auth_Middleware (\<lambda>_. through_mux api_table (api_handle P r) r) (auth_request r) st)"

definition serve :: "('s, 'c) program \<Rightarrow> http_request \<Rightarrow> ('s, 'c) server \<Rightarrow>
    ((string \<times> string) list \<times> json response) \<times> ('s, 'c) server" where
  "serve P r = Middleware (hq_Method r) (through_mux main_table (main_handle P r) r)"

section \<open>The running program\<close>

text \<open>The state when the server starts to listen: \<open>main\<close> has built the services and started the scheduler, whose failure to
  read the schedules is only logged; nothing runs yet.\<close>

definition started_backend :: "'c scheduler \<Rightarrow> mon_db \<Rightarrow> 'c backend" where
  "started_backend sc m = \<lparr>be_sched = sc, be_mon = m, be_waiting = [], be_running = [], be_restores = [], be_verifications = [],
     be_runs = [], be_cycles = 0, be_posts = []\<rparr>"

text \<open>What happens next: a request, or a goroutine. A waiting backup gets a free slot of the semaphore; a running backup, a
  restore or a verification does its work; a job of the cron engine or an immediate run starts a backup and enforces the
  retention; a triggered cycle or one of the background loop collects metrics. Identifiers to come are not empty texts.\<close>

inductive server_step :: "('s, 'c) program \<Rightarrow> ('s, 'c) server \<Rightarrow> ('s, 'c) server \<Rightarrow> bool" for P where
  request: "\<forall>n. w_uuids w n \<noteq> [] \<Longrightarrow> serve P r ((w, a), b) = (resp, st) \<Longrightarrow> server_step P ((w, a), b) st"
| acquire: "be_waiting b = xs @ j # ys \<Longrightarrow> length (be_running b) < semaphore_size \<Longrightarrow>
    server_step P (wa, b) (wa, b\<lparr>be_waiting := xs @ ys, be_running := be_running b @ [j]\<rparr>)"
| backup: "be_running b = xs @ j # ys \<Longrightarrow>
    server_step P ((w, a), b) ((run_job (pg_ext P) (ap_backup (pg_app P)) j w, a), b\<lparr>be_running := xs @ ys\<rparr>)"
| restore: "be_restores b = xs @ j # ys \<Longrightarrow> runRestore (pg_ext P) (ap_restore (pg_app P)) j w = (x, w') \<Longrightarrow>
    server_step P ((w, a), b) ((w', a), b\<lparr>be_restores := xs @ ys\<rparr>)"
| verification: "be_verifications b = xs @ v # ys \<Longrightarrow> runVerification (pg_ext P) (ap_backup (pg_app P)) v w = (v', w') \<Longrightarrow>
    server_step P ((w, a), b) ((w', a), b\<lparr>be_verifications := xs @ ys\<rparr>)"
| fired: "cron_jobs (pg_cron P) (sc_cron (be_sched b)) i = Some sch \<Longrightarrow>
    executeBackup (service_runner (pg_ext P) (ap_backup (pg_app P))) sch w = (oj, w') \<Longrightarrow>
    server_step P ((w, a), b) ((w', a), b\<lparr>be_waiting := be_waiting b @ (case oj of None \<Rightarrow> [] | Some j \<Rightarrow> [j])\<rparr>)"
| run_now: "be_runs b = xs @ sch # ys \<Longrightarrow>
    executeBackup (service_runner (pg_ext P) (ap_backup (pg_app P))) sch w = (oj, w') \<Longrightarrow>
    server_step P ((w, a), b)
      ((w', a), b\<lparr>be_runs := xs @ ys, be_waiting := be_waiting b @ (case oj of None \<Rightarrow> [] | Some j \<Rightarrow> [j])\<rparr>)"
| triggered_cycle: "be_cycles b = Suc n \<Longrightarrow> CollectNow (pg_mon P) w (be_mon b) = (e, w', m) \<Longrightarrow>
    server_step P ((w, a), b) ((w', a), b\<lparr>be_cycles := n, be_mon := m\<rparr>)"
| background_cycle: "collect (pg_mon P) w (be_mon b) = (e, w', m) \<Longrightarrow> server_step P ((w, a), b) ((w', a), b\<lparr>be_mon := m\<rparr>)"

inductive server_reach :: "('s, 'c) program \<Rightarrow> ('s, 'c) server \<Rightarrow> bool" for P where
  listen: "boot (pg_ext P) E env rng = Some (pg_app P, rng') \<Longrightarrow> db_providers_ok (w_db w) \<Longrightarrow>
    Scheduler_Start (pg_cron P) (NewScheduler (pg_cron P)) w = (x, (w', sc)) \<Longrightarrow>
    server_reach P ((w', ap_auth (pg_app P)), started_backend sc m)"
| step: "server_reach P st \<Longrightarrow> server_step P st st' \<Longrightarrow> server_reach P st'"

inductive_cases server_stepE: "server_step P st st'"

end
