(* ===== verification/Server_Properties.thy ===== *)
theory Server_Properties
  imports Server Collector_Properties
begin

text \<open>
  What a request without a session can see and change of the whole server; and a concrete program for the witnesses.
\<close>

section \<open>Routes are not public\<close>

lemma api_table_Route:
  assumes "(p, Route h) \<in> set api_table"
  shows "\<exists>m g q. p = api m g q \<and> g \<in> set domain_segments"
proof -
  from assms have "p \<in> set (map fst domain_routes)" by (force simp: api_table_def routes_to_def)
  with domain_groups show ?thesis unfolding grouped_def by blast
qed

lemma api_match: "pattern_match (api m g q) m' ss \<Longrightarrow> \<exists>rest. ss = ''api'' # g # rest"
  by (cases ss; cases "tl ss") (auto simp: pattern_match_def api_def)

lemma domain_path_not_public: "g \<in> set domain_segments \<Longrightarrow> \<not> public_path (''/api/'' @ g @ rest)"
  by (auto simp: public_path_def)

text \<open>A request a route serves has no public path, however it is escaped.\<close>

lemma route_not_public:
  assumes "mux_serve api_table m p = Served (Route h) vs"
  shows "\<not> public_path (unescape p)"
proof -
  obtain pat where f: "mux_find api_table m (map unescape (path_segments p)) = Some (pat, Route h)"
    using mux_serve_Served [OF assms] by blast
  obtain m' g q where pat: "pat = api m' g q" "g \<in> set domain_segments"
    using api_table_Route mux_find_SomeD(1) [OF f] by blast
  obtain rest where ss: "map unescape (path_segments p) = ''api'' # g # rest"
    using api_match mux_find_SomeD(2) [OF f] pat(1) by (metis fst_conv)
  then have ne: "path_segments p \<noteq> []" by auto
  have "unescape p = ''/api/'' @ g @ concat (map (\<lambda>s. CHR ''/'' # s) rest)"
    unfolding unescape_path [OF ne] ss by simp
  then show ?thesis using domain_path_not_public [OF pat(2)] by simp
qed

section \<open>Without a session\<close>

text \<open>Two worlds that differ in the clock and the random source only.\<close>

definition untouched :: "'s world \<Rightarrow> 's world \<Rightarrow> bool" where
  "untouched w w' \<longleftrightarrow> w' = w\<lparr>w_clock := w_clock w', w_rng := w_rng w'\<rparr>"

lemma untouched_refl [simp]: "untouched w w"
  by (simp add: untouched_def)

lemma untouched_db:
  assumes "untouched w w'" shows "w_db w' = w_db w"
proof -
  have "w_db w' = w_db (w\<lparr>w_clock := w_clock w', w_rng := w_rng w'\<rparr>)" using assms unfolding untouched_def by (rule arg_cong)
  then show ?thesis by simp
qed

lemma untouched_time [simp]: "untouched w (snd (time_now w))"
  by (simp add: untouched_def time_now_def)

lemma Validate_untouched: "Validate t (w, a) = (v, (w', a')) \<Longrightarrow> untouched w w'"
  by (auto simp: Validate_def time_now_def untouched_def Let_def split: option.splits if_splits)

lemma Login_untouched: "Login C u p (w, a) = (v, (w', a')) \<Longrightarrow> untouched w w'"
  by (auto simp: Login_def on_rng_def time_now_def untouched_def Let_def split: prod.splits if_splits)

lemma open_endpoint:
  assumes "h \<noteq> Protected" "main_handle P r h i ((w, a), b) = (resp, ((w', a'), b'))"
  shows "b' = b \<and> untouched w w'"
proof (cases h)
  case LoginEndpoint
  obtain x c wa where l: "HandleLogin (x_crypto (pg_ext P)) (bd_credentials (hq_Body r)) (w, a) = ((x, c), wa)"
    by (metis surj_pair)
  then have "untouched w (fst wa)"
    by (cases wa) (auto simp: HandleLogin_def split: option.splits prod.splits bool.splits dest: Login_untouched)
  then show ?thesis using assms(2) LoginEndpoint l by (auto simp: main_handle_def with_cookie_def)
next
  case LogoutEndpoint
  then show ?thesis using assms(2) by (auto simp: main_handle_def HandleLogout_def with_cookie_def)
next
  case CheckEndpoint
  obtain x wa where l: "HandleCheck (auth_request r) (w, a) = (x, wa)" by (metis surj_pair)
  then have "untouched w (fst wa)"
    by (auto simp: HandleCheck_def time_now_def untouched_def Let_def split: option.splits if_splits)
  then show ?thesis using assms(2) CheckEndpoint l by (auto simp: main_handle_def)
next
  case PasswordEndpoint
  obtain x c wa where l: "HandleChangePassword (x_crypto (pg_ext P)) (bd_credentials (hq_Body r)) (w, a) = ((x, c), wa)"
    by (metis surj_pair)
  then have "fst wa = w" by (auto simp: HandleChangePassword_def split: option.splits prod.splits sum.splits)
  then show ?thesis using assms(2) PasswordEndpoint l by (auto simp: main_handle_def with_cookie_def)
next
  case HealthEndpoint
  then show ?thesis using assms(2) by (simp add: main_handle_def)
qed (use assms(1) in simp)

lemma open_endpoint_blind:
  assumes "h \<noteq> Protected" "w_clock w2 = w_clock w" "w_rng w2 = w_rng w"
  shows "fst (main_handle P r h i ((w2, a), b2)) = fst (main_handle P r h i ((w, a), b))"
proof (cases h)
  case LoginEndpoint
  have "fst (Login C u p (w2, a)) = fst (Login C u p (w, a))" for C u p
    using assms(2,3) by (simp add: Login_def on_rng_def time_now_def Let_def split: prod.splits)
  then have "fst (HandleLogin C c (w2, a)) = fst (HandleLogin C c (w, a))" for C c
    by (auto simp: HandleLogin_def split: option.splits prod.splits bool.splits) (metis fst_conv prod.inject)+
  then show ?thesis using LoginEndpoint
    by (simp add: main_handle_def with_cookie_def split: prod.splits) (metis fst_conv prod.inject)
next
  case CheckEndpoint
  then show ?thesis
    using assms(2) by (simp add: main_handle_def HandleCheck_def time_now_def Let_def split: option.splits)
qed (use assms(1) in \<open>simp_all add: main_handle_def HandleLogout_def HandleChangePassword_def with_cookie_def split: prod.splits option.splits sum.splits\<close>)

lemma api_open:
  assumes "\<And>h vs. mux_serve api_table (hq_Method r) (hq_EscapedPath r) = Served h vs \<Longrightarrow> \<exists>x. h = Route x \<Longrightarrow> False"
  shows "\<exists>resp. \<forall>st. through_mux api_table (api_handle P r) r st = (resp, st)"
proof (cases "mux_serve api_table (hq_Method r) (hq_EscapedPath r)")
  case (Served h vs)
  with assms show ?thesis by (cases h; cases "pg_file P r") (auto simp: through_mux_def api_handle_def)
qed (auto simp: through_mux_def)

lemma Validate_blind:
  assumes "w_clock w2 = w_clock w"
  shows "fst (Validate t (w2, a)) = fst (Validate t (w, a))"
  using assms by (simp add: Validate_def time_now_def Let_def split: option.splits)

text \<open>The protected API without a session: the answer of the middleware, or something that does not look at the state.\<close>

lemma protected_closed:
  assumes "\<not> fst (Validate (request_token (auth_request r)) (w, a))"
    and "main_handle P r Protected i ((w, a), b) = (resp, ((w', a'), b'))"
  shows "b' = b \<and> untouched w w' \<and>
    (\<forall>w2 b2. w_clock w2 = w_clock w \<longrightarrow> fst (main_handle P r Protected i ((w2, a), b2)) = resp)"
proof (cases "public_path (rq_Path (auth_request r))")
  case True
  then have pub: "public_path (unescape (hq_EscapedPath r))" by (simp add: auth_request_def)
  obtain x where "\<forall>st :: ('a, 'b) server. through_mux api_table (api_handle P r) r st = (x, st)"
    using api_open [of r P] route_not_public pub by blast
  with True assms(2) show ?thesis by (simp add: main_handle_def Auth_Middleware_def)
next
  case False
  obtain w1 a1 where v: "Validate (request_token (auth_request r)) (w, a) = (False, (w1, a1))"
    using assms(1) by (cases "Validate (request_token (auth_request r)) (w, a)") auto
  have "fst (main_handle P r Protected i ((w2, a), b2)) = WriteError 401 ''unauthorized''"
    if "w_clock w2 = w_clock w" for w2 :: "'a world" and b2 :: "'b backend"
    using Validate_blind [OF that, of "request_token (auth_request r)" a] assms(1) False
    by (cases "Validate (request_token (auth_request r)) (w2, a)") (simp add: main_handle_def Auth_Middleware_def)
  moreover have "resp = WriteError 401 ''unauthorized''" "w' = w1" "b' = b"
    using assms(2) False v by (simp_all add: main_handle_def Auth_Middleware_def)
  ultimately show ?thesis using Validate_untouched [OF v] by blast
qed


section \<open>A concrete program\<close>

definition demo_env :: "string \<Rightarrow> string" where
  "demo_env k = (if k = ''JAGAD_DATABASE_URL'' then ''postgres://db/jagad'' else [])"

definition demo_app :: "(string \<times> string \<Rightarrow> bytes option) app" where
  "demo_app = (case boot demo_ext demo_xe demo_env (\<lambda>_. 0) of Some (app, _) \<Rightarrow> app)"

definition demo_program :: "(string \<times> string \<Rightarrow> bytes option, nat \<times> (nat \<rightharpoonup> schedule)) program" where
  "demo_program = \<lparr>pg_ext = demo_ext, pg_app = demo_app, pg_cron = demo_cron, pg_source = demo_source, pg_mon = demo_mon_ext,
     pg_channels = \<lparr>cf_telegram = (\<lambda>_. None), cf_webhook = (\<lambda>_. None)\<rparr>, pg_parse_time = (\<lambda>_. None), pg_day = (\<lambda>_. ''2026-01-01''),
     pg_version = ''dev'', pg_file = (\<lambda>_. (404, ''404 page not found''))\<rparr>"

lemma demo_boot: "\<exists>r'. boot demo_ext demo_xe demo_env (\<lambda>_. 0) = Some (demo_app, r')"
proof -
  have "\<exists>app r'. boot demo_ext demo_xe demo_env (\<lambda>_. 0) = Some (app, r')"
    using default_boot [of demo_env demo_ext demo_xe "\<lambda>_. 0"] by (auto simp: demo_env_def)
  then show ?thesis by (auto simp: demo_app_def)
qed

lemma demo_program_fields:
  "pg_ext demo_program = demo_ext" "pg_app demo_program = demo_app" "pg_cron demo_program = demo_cron"
  by (simp_all add: demo_program_def)

definition demo_empty_body :: request_body where
  "demo_empty_body = \<lparr>bd_connection = None, bd_selected = None, bd_backup = None, bd_schedule = None, bd_target = None,
     bd_provider = None, bd_notification = None, bd_settings = None, bd_credentials = None\<rparr>"

text \<open>A request to delete a backup, by nobody.\<close>

definition demo_intruder :: http_request where
  "demo_intruder = \<lparr>hq_Method = ''DELETE'', hq_EscapedPath = ''/api/backups/b'', hq_Cookie = None, hq_Authorization = [],
     hq_Query = (\<lambda>_. []), hq_Body = demo_empty_body\<rparr>"


end
