(* ===== verification/Server_Invariant.thy ===== *)
theory Server_Invariant
  imports Server_Properties Restore_Properties
begin

text \<open>
  The invariant of the running program: the schema and the single default provider, the jobs of the cron engine, the bound of
  the semaphore. An operation is steady when it keeps the schema and does not touch the table of the providers, nor the
  records of backups except those whose identifiers are in a set \<open>K\<close>; every operation outside the provider service is.
\<close>

section \<open>Steady operations\<close>

definition backups_stay :: "db \<Rightarrow> db \<Rightarrow> string set \<Rightarrow> bool" where
  "backups_stay d d' K \<longleftrightarrow> (\<forall>r \<in> set (t_backups d). br_id r \<notin> K \<longrightarrow> r \<in> set (t_backups d'))"

definition db_steady :: "db \<Rightarrow> db \<Rightarrow> string set \<Rightarrow> bool" where
  "db_steady d d' K \<longleftrightarrow> (db_wf d \<longrightarrow> db_wf d') \<and> t_providers d' = t_providers d \<and> backups_stay d d' K"

definition steady :: "'s world \<Rightarrow> 's world \<Rightarrow> string set \<Rightarrow> bool" where
  "steady w w' K \<longleftrightarrow> db_steady (w_db w) (w_db w') K"

lemma backups_stay_same [simp]: "t_backups d' = t_backups d \<Longrightarrow> backups_stay d d' K"
  by (simp add: backups_stay_def)

lemma backups_stay_trans: "backups_stay a b K \<Longrightarrow> backups_stay b c K \<Longrightarrow> backups_stay a c K"
  unfolding backups_stay_def by blast

lemma backups_stay_less: "backups_stay d d' K \<Longrightarrow> K \<subseteq> L \<Longrightarrow> backups_stay d d' L"
  unfolding backups_stay_def by blast

lemma backups_stay_append [simp]: "t_backups d' = t_backups d @ rs \<Longrightarrow> backups_stay d d' K"
  by (simp add: backups_stay_def)

lemma backups_stay_del [simp]: "i \<in> K \<Longrightarrow> t_backups d' = row_del br_id i (t_backups d) \<Longrightarrow> backups_stay d d' K"
  by (auto simp: backups_stay_def row_del_def)

lemma backups_stay_upd [simp]: "i \<in> K \<Longrightarrow> t_backups d' = row_upd br_id i f (t_backups d) \<Longrightarrow> backups_stay d d' K"
  by (force simp: backups_stay_def row_upd_def)

lemma db_steady_ok: "db_steady d d' K \<Longrightarrow> db_providers_ok d \<Longrightarrow> db_providers_ok d'"
proof -
  assume a: "db_steady d d' K" "db_providers_ok d"
  then have t: "t_providers d' = t_providers d" "db_wf d'" by (simp_all add: db_steady_def db_providers_ok_def)
  show "db_providers_ok d'"
    using a(2) t(2) unfolding db_providers_ok_def one_default_def ids_given_def t(1) by blast
qed

lemma db_steady_same: "same_tables d d' \<Longrightarrow> db_steady d d' K"
  by (simp add: db_steady_def db_wf_same same_tables_fields)

lemma db_steady_refl [simp]: "db_steady d d K"
  by (simp add: db_steady_def)

lemma db_steady_trans: "db_steady a b K \<Longrightarrow> db_steady b c K \<Longrightarrow> db_steady a c K"
  by (auto simp: db_steady_def intro: backups_stay_trans)

lemma steady_refl [simp]: "steady w w K"
  by (simp add: steady_def db_steady_def)

lemma steady_trans: "steady a b K \<Longrightarrow> steady b c K \<Longrightarrow> steady a c K"
  unfolding steady_def by (rule db_steady_trans)

lemma steady_db: "w_db w' = w_db w \<Longrightarrow> steady w w' K"
  by (simp add: steady_def db_steady_def)

lemma steady_same: "same_tables (w_db w) (w_db w') \<Longrightarrow> steady w w' K"
  unfolding steady_def by (rule db_steady_same)

lemma steady_on_db: "(\<And>d. db_steady d (snd (f d)) K) \<Longrightarrow> steady w (snd (on_db f w)) K"
  by (simp add: steady_def)

lemma steady_reads: "(\<And>d. same_tables d (snd (f d))) \<Longrightarrow> steady w (snd (on_db f w)) K"
  by (simp add: steady_same)

lemma steady_and_then:
  assumes "steady w (snd p) K" "\<And>x w1. p = (Inr x, w1) \<Longrightarrow> steady w1 (snd (f x w1)) K"
  shows "steady w (snd (and_then p f)) K"
  using assms by (cases p; cases "fst p") (auto intro: steady_trans)

section \<open>The repositories\<close>

lemma db_steady_exec:
  assumes "\<And>d d'. x d = Inr d' \<Longrightarrow> db_steady d d' K"
  shows "db_steady d (snd (db_exec x d)) K"
proof -
  obtain r d' where e: "db_exec x d = (r, d')" by fastforce
  show ?thesis
  proof (cases r)
    case (Inl m)
    with e show ?thesis using db_exec_error [of x d m d'] by (simp add: db_steady_same)
  next
    case (Inr u)
    with e obtain d0 where "same_tables d d0" "x d0 = Inr d'" by (auto elim: db_exec_ok)
    with assms e show ?thesis by (auto intro: db_steady_trans db_steady_same)
  qed
qed

text \<open>What an update of one table leaves alone.\<close>

lemma update_frame:
  assumes "sql_update key tab tab_update check fk k f d = Inr d'" "\<And>g d. P (tab_update g d) = P d"
  shows "P d' = P d"
  using assms by (auto simp: sql_update_def split: option.splits if_splits)

lemma inserts_steady:
  "sql_insert_connection c d = Inr d' \<Longrightarrow> db_steady d d' K" "sql_insert_schedule s d = Inr d' \<Longrightarrow> db_steady d d' K"
  "sql_insert_backup b d = Inr d' \<Longrightarrow> db_steady d d' K" "sql_insert_restore r d = Inr d' \<Longrightarrow> db_steady d d' K"
  "sql_insert_notification n d = Inr d' \<Longrightarrow> db_steady d d' K"
  using wf_insert_connection [of d c d'] wf_insert_schedule [of d s d'] wf_insert_backup [of d b d'] wf_insert_restore [of d r d']
    wf_insert_notification [of d n d']
  by (auto simp: db_steady_def sql_insert_connection_def sql_insert_schedule_def sql_insert_backup_def sql_insert_restore_def
      sql_insert_notification_def split: if_splits)

lemma deletes_steady:
  "sql_delete_connection k d = Inr d' \<Longrightarrow> db_steady d d' K" "sql_delete_schedule k d = Inr d' \<Longrightarrow> db_steady d d' K"
  "sql_delete_backup k d = Inr d' \<Longrightarrow> k \<in> K \<Longrightarrow> db_steady d d' K" "sql_delete_notification k d = Inr d' \<Longrightarrow> db_steady d d' K"
  using wf_delete_connection [of d k d'] wf_delete_schedule [of d k d'] wf_delete_backup [of d k d'] wf_delete_notification [of d k d']
  by (auto simp: db_steady_def sql_delete_connection_def sql_delete_schedule_def sql_delete_backup_def sql_delete_notification_def
      Let_def split: if_splits)

lemma repo_creates_steady:
  "db_steady d (snd (ConnectionRepo_Create i now c d)) K" "db_steady d (snd (ScheduleRepo_Create i now s d)) K"
  "db_steady d (snd (BackupRepo_Create i now b d)) K" "db_steady d (snd (RestoreRepo_Create i now r d)) K"
  "db_steady d (snd (NotificationRepo_Create i now n d)) K"
  by (simp_all add: ConnectionRepo_Create_def ScheduleRepo_Create_def BackupRepo_Create_def RestoreRepo_Create_def
      NotificationRepo_Create_def Let_def db_steady_exec inserts_steady)

lemma repo_deletes_steady:
  "db_steady d (snd (ConnectionRepo_Delete i d)) K" "db_steady d (snd (ScheduleRepo_Delete i d)) K"
  "i \<in> K \<Longrightarrow> db_steady d (snd (BackupRepo_Delete i d)) K" "db_steady d (snd (NotificationRepo_Delete i d)) K"
  by (simp_all add: ConnectionRepo_Delete_def ScheduleRepo_Delete_def BackupRepo_Delete_def NotificationRepo_Delete_def
      db_steady_exec deletes_steady)

lemma exec_frame:
  assumes "\<And>d d'. x d = Inr d' \<Longrightarrow> P d' = P d" "\<And>d d'. same_tables d d' \<Longrightarrow> P d' = P d"
  shows "P (snd (db_exec x d)) = P d"
proof -
  obtain r d' where e: "db_exec x d = (r, d')" by fastforce
  show ?thesis
  proof (cases r)
    case (Inl m)
    with e show ?thesis using db_exec_error [of x d m d'] assms(2) by simp
  next
    case (Inr u)
    with e obtain d0 where d0: "same_tables d d0" "x d0 = Inr d'" by (auto elim: db_exec_ok)
    with e assms(1) [OF d0(2)] assms(2) [OF d0(1)] show ?thesis by simp
  qed
qed

lemma exec_update_frame:
  assumes "\<And>g d. P (tab_update g d) = P d" "\<And>d d'. same_tables d d' \<Longrightarrow> P d' = P d"
  shows "P (snd (db_exec (sql_update key tab tab_update check fk k f) d)) = P d"
  by (rule exec_frame) (erule update_frame, rule assms(1), erule assms(2))

lemmas update_defs = ConnectionRepo_Update_def ScheduleRepo_Update_def BackupRepo_Update_def RestoreRepo_Update_def
  NotificationRepo_Update_def sql_update_connection_def sql_update_schedule_def sql_update_backup_def sql_update_restore_def
  sql_update_notification_def

lemma repo_updates_steady:
  "db_steady d (snd (ConnectionRepo_Update now c d)) K" "db_steady d (snd (ScheduleRepo_Update s d)) K"
  "db_steady d (snd (RestoreRepo_Update r d)) K" "db_steady d (snd (NotificationRepo_Update now n d)) K"
  unfolding db_steady_def
  using connection_repo.update_wf [of d now c] schedule_repo.update_wf [of d s] restore_repo.update_wf [of d r]
    notification_repo.update_wf [of d now n]
  by (simp_all add: update_defs exec_update_frame [where P = t_providers] exec_update_frame [where P = t_backups] same_tables_fields)

lemma BackupRepo_Update_steady [simp]:
  assumes "b_ID b \<in> K"
  shows "db_steady d (snd (BackupRepo_Update b d)) K"
proof -
  have "backups_stay d0 d' K" if "sql_update_backup (b_ID b) (set_backup b) d0 = Inr d'" for d0 d'
    using that assms by (auto simp: sql_update_backup_def sql_update_def split: option.splits if_splits)
  moreover have "backups_stay d (snd (db_exec x d)) K" if "\<And>d0 d'. x d0 = Inr d' \<Longrightarrow> backups_stay d0 d' K" for x
  proof -
    obtain y d' where e: "db_exec x d = (y, d')" by fastforce
    show ?thesis
    proof (cases y)
      case (Inl m)
      with e db_exec_error [of x d m d'] show ?thesis by (simp add: same_tables_fields)
    next
      case (Inr u)
      with e obtain d0 where "same_tables d d0" "x d0 = Inr d'" by (auto elim: db_exec_ok)
      with that [of d0 d'] e show ?thesis by (simp add: same_tables_fields backups_stay_def)
    qed
  qed
  ultimately have "backups_stay d (snd (BackupRepo_Update b d)) K" by (simp add: BackupRepo_Update_def)
  then show ?thesis
    using backup_repo.update_wf [of d b]
    by (simp add: db_steady_def) (simp add: update_defs exec_update_frame [where P = t_providers] same_tables_fields)
qed

lemma upsert_database_steady: "sql_upsert_database x d = Inr d' \<Longrightarrow> db_steady d d' K"
  using wf_upsert_database [of d x d'] by (auto simp: db_steady_def sql_upsert_database_def Let_def split: if_splits)

lemma update_selection_steady: "db_steady d (snd (ConnectionRepo_UpdateDatabaseSelection i sel d)) K"
  unfolding ConnectionRepo_UpdateDatabaseSelection_def Let_def wrap_err_simps
proof (rule db_steady_exec)
  fix d d' assume u: "sql_update_database i (\<lambda>r. r\<lparr>dr_is_selected := if sel then 1 else 0\<rparr>) d = Inr d'"
  have "db_wf d \<Longrightarrow> db_wf d'" by (rule databases.wf_sql_update [OF _ _ u [unfolded sql_update_database_def]]) auto
  moreover have "t_providers d' = t_providers d" "t_backups d' = t_backups d"
    using update_frame [OF u [unfolded sql_update_database_def], where P = t_providers]
      update_frame [OF u [unfolded sql_update_database_def], where P = t_backups] by simp_all
  ultimately show "db_steady d d' K" by (simp add: db_steady_def)
qed

text \<open>A transaction: the tables are those of before or those after the loop.\<close>

lemma upsert_all_steady: "db_steady d (snd (upsert_all ids now n xs d)) K"
proof (induction xs arbitrary: n d)
  case Nil then show ?case by (simp add: db_steady_def)
next
  case (Cons x xs)
  obtain r d1 where e: "db_exec (sql_upsert_database (database_columns (ids n) now x)) d = (r, d1)" by fastforce
  have "db_steady d d1 K" using db_steady_exec [where x = "sql_upsert_database (database_columns (ids n) now x)" and d = d, OF upsert_database_steady] e by simp
  with e Cons.IH [of d1] show ?case by (cases r) (auto intro: db_steady_trans)
qed

lemma db_steady_faults: "db_steady d (d\<lparr>faults := fs\<rparr>) K"
  by (simp add: db_steady_def)

lemma UpsertDatabases_steady: "db_steady d (snd (ConnectionRepo_UpsertDatabases ids now xs d)) K"
proof -
  obtain r1 d1 where 1: "db_try d = (r1, d1)" by fastforce
  obtain r2 d2 where 2: "db_try d1 = (r2, d2)" by fastforce
  obtain r3 d3 where 3: "upsert_all ids now 0 xs d2 = (r3, d3)" by fastforce
  obtain r4 d4 where 4: "db_try d3 = (r4, d4)" by fastforce
  have s: "db_steady d d1 K" "db_steady d d2 K" "db_steady d d4 K"
    using upsert_all_steady [of d2 ids now 0 xs] 1 2 3 4 db_try_tables db_steady_same
    by (metis db_steady_trans snd_conv)+
  show ?thesis
    using 1 2 3 4 s by (auto simp: ConnectionRepo_UpsertDatabases_def db_steady_faults split: option.splits sum.splits)
qed

lemma set_each_steady: "db_steady d (snd (set_each kvs d)) K"
proof (induction kvs arbitrary: d)
  case Nil then show ?case by (simp add: db_steady_def)
next
  case (Cons kv kvs)
  obtain k v where kv: "kv = (k, v)" by fastforce
  obtain r d1 where e: "db_exec (sql_upsert_setting k v) d = (r, d1)" by fastforce
  have "db_steady x x' K" if "sql_upsert_setting k v x = Inr x'" for x x'
    using that wf_upsert_setting [of x k v x'] by (auto simp: db_steady_def sql_upsert_setting_def)
  then have "db_steady d d1 K" using db_steady_exec [where x = "sql_upsert_setting k v" and d = d] e by simp
  with e kv Cons.IH [of d1] show ?case by (cases r) (auto intro: db_steady_trans simp: db_steady_def [of d d])
qed

lemma UpdateBatch_steady: "db_steady d (snd (UpdateBatch kvs d)) K"
proof -
  obtain r1 d1 where 1: "db_try d = (r1, d1)" by fastforce
  obtain r2 d2 where 2: "db_try d1 = (r2, d2)" by fastforce
  obtain r3 d3 where 3: "set_each kvs d2 = (r3, d3)" by fastforce
  obtain r4 d4 where 4: "db_try d3 = (r4, d4)" by fastforce
  have s: "db_steady d d1 K" "db_steady d d2 K" "db_steady d d4 K"
    using set_each_steady [of d2 kvs] 1 2 3 4 db_try_tables db_steady_same
    by (metis db_steady_trans snd_conv)+
  then have f: "db_steady d (d2\<lparr>faults := fs\<rparr>) K" for fs
    using db_steady_trans db_steady_faults by blast
  show ?thesis
    using 1 2 3 4 s f by (auto simp: UpdateBatch_def split: option.splits sum.splits)
qed

section \<open>The services\<close>

lemma and_then_state: "snd (and_then p f) = (case fst p of Inl e \<Rightarrow> snd p | Inr x \<Rightarrow> snd (f x (snd p)))"
  by (cases p; cases "fst p") auto

lemma with_body_state: "snd (with_body m f req w) = (case req of None \<Rightarrow> w | Some x \<Rightarrow> snd (f x w))"
  by (simp add: with_body_def split: option.split)

lemma respond_found_state:
  "snd (respond_found m f p) = (case fst p of Inl e \<Rightarrow> snd p | Inr None \<Rightarrow> snd p | Inr (Some x) \<Rightarrow> snd (f x (snd p)))"
  by (simp add: respond_found_def split: prod.split sum.split option.split)

lemma ok_json_state [simp]: "snd (ok_json x w) = w"
  by (simp add: ok_json_def)

lemmas reads_defs = ConnectionRepo_List_def ConnectionRepo_GetByID_def ConnectionRepo_ListDatabases_def ConnectionRepo_GetDatabase_def
  NotificationRepo_List_def NotificationRepo_GetByID_def ScheduleRepo_List_def ScheduleRepo_GetByID_def ScheduleRepo_ListByConnection_def
  RestoreRepo_List_def RestoreRepo_GetByID_def BackupRepo_GetByID_def BackupRepo_List_def

lemma reads_steady [simp]:
  "db_steady d (snd (ConnectionRepo_List d)) K" "db_steady d (snd (ConnectionRepo_GetByID i d)) K"
  "db_steady d (snd (ConnectionRepo_ListDatabases i d)) K" "db_steady d (snd (ConnectionRepo_GetDatabase i d)) K"
  "db_steady d (snd (NotificationRepo_List d)) K" "db_steady d (snd (NotificationRepo_GetByID i d)) K"
  "db_steady d (snd (ScheduleRepo_List d)) K" "db_steady d (snd (ScheduleRepo_GetByID i d)) K"
  "db_steady d (snd (ScheduleRepo_ListByConnection i d)) K"
  "db_steady d (snd (RestoreRepo_List d)) K" "db_steady d (snd (RestoreRepo_GetByID i d)) K"
  "db_steady d (snd (BackupRepo_GetByID i d)) K" "db_steady d (snd (BackupRepo_List i j m n d)) K"
  by (simp_all add: reads_defs db_steady_same)

lemmas writes_steady [simp] = repo_creates_steady repo_deletes_steady repo_updates_steady update_selection_steady UpsertDatabases_steady
  UpdateBatch_steady

lemma Connection_steady:
  "steady w (snd (Connection_handleList w)) K" "steady w (snd (Connection_handleCreate S c w)) K"
  "steady w (snd (Connection_handleGet i w)) K" "steady w (snd (Connection_handleUpdate i c w)) K"
  "steady w (snd (Connection_handleDelete i w)) K" "steady w (snd (Connection_handleListDatabases i w)) K"
  "steady w (snd (Connection_handleUpdateDatabase i sel w)) K"
  by (auto simp: steady_def Connection_handleList_def Connection_handleCreate_def Connection_handleGet_def
      Connection_handleUpdate_def Connection_handleDelete_def Connection_handleListDatabases_def Connection_handleUpdateDatabase_def
      Connection_List_def Connection_Create_def Connection_Get_def Connection_Update_def Connection_Delete_def
      Connection_ListDatabases_def Connection_UpdateDatabaseSelection_def with_body_state respond_found_state and_then_state
      case_prod_beta Let_def split: option.split sum.split)

lemma steady_snd: "steady w (snd p) K \<Longrightarrow> p = (x, w') \<Longrightarrow> steady w w' K"
  by simp

lemma Connection_Get_step: "Connection_Get i w = (x, w') \<Longrightarrow> steady w w' K"
  by (erule steady_snd [rotated]) (simp add: Connection_Get_def steady_def)

lemma live_health_db: "w_db (snd (live_health S conn w)) = w_db w"
  by (simp add: live_health_def Let_def case_prod_beta split: sum.split option.split)

lemma Connection_test_steady: "steady w (snd (Connection_handleTest S i c w)) K"
proof -
  obtain x w1 where g: "Connection_Get i w = (x, w1)" by fastforce
  have "steady w w1 K" by (rule Connection_Get_step [OF g])
  with g show ?thesis
    by (auto simp: Connection_handleTest_def with_body_state split: sum.split option.split)
qed

lemma Connection_health_steady: "steady w (snd (Connection_handleHealth S i w)) K"
proof -
  obtain x w1 where g: "Connection_Get i w = (x, w1)" by fastforce
  have "steady w w1 K" by (rule Connection_Get_step [OF g])
  then have "steady w (snd (live_health S conn w1)) K" for conn
    using live_health_db [of S conn w1] by (simp add: steady_def)
  with g \<open>steady w w1 K\<close> show ?thesis
    by (auto simp: Connection_handleHealth_def case_prod_beta split: sum.split option.split)
qed

lemma upsert_databases_steady: "steady w (snd (upsert_databases dbs w)) K"
  by (simp add: upsert_databases_def Let_def case_prod_beta steady_def)

lemma save_discovered_steady:
  "steady w (snd (and_then (wrap_err m (upsert_databases dbs w)) (\<lambda>_ w2. Connection_ListDatabases i w2))) K"
proof (rule steady_and_then)
  show "steady w (snd (wrap_err m (upsert_databases dbs w))) K" by (simp add: upsert_databases_steady)
qed (simp add: Connection_ListDatabases_def steady_def)

lemma Discover_steady: "steady w (snd (Connection_handleDiscover S i w)) K"
proof -
  have "steady w (snd (Discover S i w)) K" unfolding Discover_def
  proof (rule steady_and_then)
    show "steady w (snd (wrap_err ''get connection: '' (on_db (ConnectionRepo_GetByID i) w))) K" by (simp add: steady_def)
  qed (auto split: option.split sum.split intro: save_discovered_steady)
  then show ?thesis by (simp add: Connection_handleDiscover_def)
qed

lemma Notification_steady:
  "steady w (snd (Notification_handleList w)) K" "steady w (snd (Notification_handleCreate n w)) K"
  "steady w (snd (Notification_handleGet i w)) K" "steady w (snd (Notification_handleUpdate i n w)) K"
  "steady w (snd (Notification_handleDelete i w)) K"
  by (auto simp: steady_def Notification_handleList_def Notification_handleCreate_def Notification_handleGet_def
      Notification_handleUpdate_def Notification_handleDelete_def with_body_state respond_found_state and_then_state
      case_prod_beta Let_def split: option.split sum.split)

lemma notify_targets_steady: "steady w (snd (notify_targets J c ids w)) K"
proof (induction ids arbitrary: w)
  case (Cons i ids)
  obtain x w1 where g: "on_db (NotificationRepo_GetByID i) w = (x, w1)" by fastforce
  have "steady w w1 K" by (rule steady_snd [OF _ g]) (simp add: steady_def)
  with g Cons.IH [of w1] show ?case
    by (auto simp: case_prod_beta split: sum.split option.split intro: steady_trans)
qed simp

lemma Notification_test_steady: "steady w (snd (Notification_handleTest J i w)) K"
proof -
  obtain x w1 where g: "on_db (NotificationRepo_GetByID i) w = (x, w1)" by fastforce
  have "steady w w1 K" by (rule steady_snd [OF _ g]) (simp add: steady_def)
  with g notify_targets_steady [of w1] show ?thesis
    by (auto simp: Notification_handleTest_def NotifyBackupResult_def case_prod_beta split: sum.split option.split intro: steady_trans)
qed

lemma Settings_steady:
  "steady w (snd (Settings_handleGet v w)) K" "steady w (snd (Settings_handleUpdate kvs w)) K"
proof -
  have g: "db_steady d (snd (GetAll d)) K" for d by (simp add: GetAll_def db_steady_same)
  obtain x w1 where a: "on_db GetAll w = (x, w1)" by fastforce
  have "steady w w1 K" by (rule steady_snd [OF _ a]) (simp add: steady_def g)
  with a show "steady w (snd (Settings_handleGet v w)) K" by (auto simp: Settings_handleGet_def split: sum.split)
  have "steady w (snd (case on_db (UpdateBatch req) w of
      (Inl e, w1) \<Rightarrow> (WriteError (if contains e ''unknown setting'' then 400 else 500) e, w1)
    | (Inr _, w1) \<Rightarrow> respond 200 500 (on_db GetAll w1))) K" for req
  proof -
    obtain y w2 where u: "on_db (UpdateBatch req) w = (y, w2)" by fastforce
    have "steady w w2 K" by (rule steady_snd [OF _ u]) (simp add: steady_def)
    moreover have "steady w2 (snd (on_db GetAll w2)) K" by (simp add: steady_def g)
    ultimately show ?thesis using u by (auto split: sum.split intro: steady_trans)
  qed
  then show "steady w (snd (Settings_handleUpdate kvs w)) K"
    by (simp add: Settings_handleUpdate_def with_body_state split: option.split)
qed

lemma read_only_steady: "read_only w w' \<Longrightarrow> steady w w' K"
  by (simp add: steady_same read_only_fields)

lemma launch_steady: "steady w (snd (launch b conn db w)) K"
  by (auto simp: launch_def steady_def and_then_state case_prod_beta Let_def split: sum.split)

lemma StartBackup_steady: "steady w (snd (StartBackup cid did bt sid pid targets nos nof w)) K"
proof -
  let ?b = "new_backup cid did bt sid pid targets nos nof"
  have step: "steady w1 (snd (and_then (wrap_err ctx (on_db (ConnectionRepo_GetDatabase did) w1)) (\<lambda>db w2.
      case db of None \<Rightarrow> (Inl e, w2) | Some db \<Rightarrow> launch ?b conn db w2))) K" for w1 :: "'a world" and conn ctx e
    by (rule steady_and_then) (auto simp: steady_def [of _ "snd (on_db _ _)"] launch_steady split: option.split)
  show ?thesis
    unfolding StartBackup_def
    by (rule steady_and_then) (auto simp: steady_def [of _ "snd (on_db _ _)"] step split: option.split)
qed

lemma StartVerification_steady: "steady w (snd (StartVerification i w)) K"
  using StartVerification_refused [of i w] by (auto intro: steady_same)

lemma delete_object_steady: "steady w (delete_object X s b w) K"
  by (rule steady_same) (rule delete_object_tables)

lemma Backup_Delete_steady:
  assumes "i \<in> K"
  shows "steady w (snd (Backup_Delete X s i w)) K"
  unfolding Backup_Delete_def
proof (rule steady_and_then)
  show "steady w (snd (on_db (BackupRepo_GetByID i) w)) K" by (simp add: steady_def)
next
  have "steady w1 (snd (on_db (BackupRepo_Delete i) (delete_object X s b w1))) K" for b and w1 :: "'a world"
    by (rule steady_trans [OF delete_object_steady [of w1 X s b]]) (simp add: steady_def assms)
  then show "steady w1 (snd (case x of None \<Rightarrow> (Inl ''backup not found'', w1)
      | Some b \<Rightarrow> on_db (BackupRepo_Delete i) (delete_object X s b w1))) K" for x and w1 :: "'a world"
    by (auto split: option.split)
qed

lemma delete_all_steady: "steady w (delete_all X s bs w) UNIV"
proof (induction bs arbitrary: w)
  case (Cons b bs)
  have "steady w (snd (Backup_Delete X s (b_ID b) w)) UNIV" by (rule Backup_Delete_steady) simp
  with Cons.IH show ?case by (auto intro: steady_trans)
qed simp

lemma expire_steady: "steady w (expire X s sid bt k w) UNIV"
proof -
  obtain x w1 where l: "on_db (BackupRepo_ListOldestByBackupType sid bt k) w = (x, w1)" by fastforce
  have "steady w w1 UNIV" using ListOldest_reads [of w sid bt k] l by (simp add: read_only_steady)
  with l show ?thesis by (auto simp: expire_def split: sum.split intro: steady_trans delete_all_steady)
qed

lemma EnforceRetention_steady: "steady w (EnforceRetention X s k nf ni w) UNIV"
  unfolding EnforceRetention_def by (rule steady_trans [OF expire_steady expire_steady])

lemma executeBackup_steady:
  assumes "executeBackup (service_runner X s) sch w = (oj, w')"
  shows "steady w w' UNIV"
proof -
  obtain x w1 where st: "start_scheduled (service_runner X s) sch w = (x, w1)" by fastforce
  then have "steady w w1 UNIV"
    by (intro steady_snd [OF StartBackup_steady]) (simp add: start_scheduled_def service_runner_def)
  then show ?thesis
    using assms st EnforceRetention_steady [of w1] by (auto simp: executeBackup_def service_runner_def intro: steady_trans)
qed

lemma run_job_steady:
  assumes "svc_ok s" "job_id j \<in> K"
  shows "steady w (run_job X s j w) K"
proof -
  obtain b' w' where r: "runBackup X s j w = (b', w')" by fastforce
  from runBackup_ends [OF r assms(1)] obtain d0 where d0: "same_tables (w_db w) d0"
    "same_tables (snd (BackupRepo_Update b' d0)) (w_db w')" and i: "b_ID b' \<in> K"
    using assms(2) unfolding ends_run_def job_id_def by metis
  have "db_steady (w_db w) (w_db w') K"
    by (rule db_steady_trans [OF db_steady_same [OF d0(1)]], rule db_steady_trans [OF _ db_steady_same [OF d0(2)]])
      (simp add: i)
  with r show ?thesis by (simp add: run_job_def steady_def)
qed

lemma runRestore_steady:
  assumes "runRestore X s j w = (r', w')"
  shows "steady w w' K"
proof -
  obtain d where d: "same_tables (w_db w) d" "w_db w' = snd (RestoreRepo_Update r' d)"
    using runRestore_ended [OF assms] unfolding restore_ended_def by blast
  show ?thesis
    unfolding steady_def d(2) by (rule db_steady_trans [OF db_steady_same [OF d(1)]]) simp
qed

lemma verification_end_steady:
  "failVerification b l w = (b', w') \<or> passVerification b l w = (b', w') \<Longrightarrow> b_ID b \<in> K \<Longrightarrow> steady w w' K"
  using verification_ends(1,3) [of b l w b' w'] by (simp add: steady_def)

lemma runVerification_steady:
  assumes "runVerification X s b w = (b', w')" "b_ID b \<in> K"
  shows "steady w w' K"
  using assms(1)
proof (cases rule: runVerification_cases)
  case (fail w1 l)
  then show ?thesis using assms(2) verification_end_steady [of b l w1 b' w'] by (auto intro: steady_trans read_only_steady)
next
  case (skip l)
  then show ?thesis using assms(2) verification_end_steady [of b l w b' w'] by blast
next
  case (compare w1 p client content data dlErr l)
  have "steady w1 w' K" using compare_checksum_cases [OF compare(7)] verification_end_steady [of b _ w1 b' w' K] assms(2)
      verification_end_steady [of "b\<lparr>b_Checksum := Checksum (x_crypto X) data\<rparr>" _ w1 b' w' K] by auto
  then show ?thesis using compare(2) by (auto intro: steady_trans read_only_steady)
qed

lemma StartRestore_steady: "steady w (snd (StartRestore i t w)) K"
proof -
  have l: "steady w1 (snd (launch_restore r b conn w1)) K" for r b conn and w1 :: "'a world"
    by (auto simp: launch_restore_def steady_def and_then_state case_prod_beta Let_def split: sum.split)
  have step: "steady w1 (snd (and_then (wrap_err ctx (on_db (ConnectionRepo_GetByID c) w1)) (\<lambda>conn w2.
      case conn of None \<Rightarrow> (Inl e, w2) | Some conn \<Rightarrow> launch_restore r b conn w2))) K" for w1 :: "'a world" and c ctx e r b
    by (rule steady_and_then) (auto simp: steady_def [of _ "snd (on_db _ _)"] l split: option.split)
  show ?thesis
    unfolding StartRestore_def
    by (rule steady_and_then) (auto simp: steady_def [of _ "snd (on_db _ _)"] Let_def step split: option.split)
qed

lemma Backup_reads_steady:
  "steady w (snd (Backup_handleList c d l o' w)) K" "steady w (snd (Backup_handleGet i w)) K" "steady w (snd (Backup_handleLogs i w)) K"
  "steady w (snd (Backup_handleStats w)) K" "steady w (snd (Backup_handleTrends day q w)) K"
  "steady w (snd (Backup_handleSlowest q w)) K" "steady w (snd (Backup_handleFreshness q w)) K"
proof -
  have "db_steady d (snd (BackupRepo_ListSlowest n d)) K" for n d
    by (simp add: BackupRepo_ListSlowest_def db_steady_same)
  moreover have "db_steady d (snd (BackupRepo_ListTrends day n now d)) K" for n now d
    using db_query_same [of d] by (auto simp: BackupRepo_ListTrends_def case_prod_beta db_steady_same split: sum.split)
  moreover have "db_steady d (snd (BackupRepo_ListStaleConnections n now d)) K" for n now d
    using db_query_same [of d] by (auto simp: BackupRepo_ListStaleConnections_def case_prod_beta db_steady_same split: sum.split)
  ultimately show "steady w (snd (Backup_handleList c d l o' w)) K" "steady w (snd (Backup_handleGet i w)) K"
    "steady w (snd (Backup_handleLogs i w)) K" "steady w (snd (Backup_handleStats w)) K" "steady w (snd (Backup_handleTrends day q w)) K"
    "steady w (snd (Backup_handleSlowest q w)) K" "steady w (snd (Backup_handleFreshness q w)) K"
    by (auto simp: steady_def Backup_handleList_def Backup_handleGet_def Backup_handleLogs_def Backup_handleStats_def
        Backup_handleTrends_def Backup_handleSlowest_def Backup_handleFreshness_def Backup_List_def Backup_Get_def Backup_Stats_def
        Backup_Trends_def SlowestBackups_def Freshness_def respond_found_state and_then_state case_prod_beta Let_def
        split: option.split sum.split)
qed

lemma GetDecrypted_steady: "GetDecrypted X svc i w = (r, w') \<Longrightarrow> steady w w' K"
  by (rule read_only_steady) (rule GetDecrypted_step)

lemma Backup_Download_steady: "Backup_Download X s i w = (r, w') \<Longrightarrow> steady w w' K"
proof -
  assume d: "Backup_Download X s i w = (r, w')"
  obtain x w1 where g: "on_db (BackupRepo_GetByID i) w = (x, w1)" by fastforce
  have s1: "steady w w1 K" by (rule steady_snd [OF _ g]) (simp add: steady_def)
  have "w' = w1 \<or> (\<exists>k y. GetDecrypted X (bs_provSvc s) k w1 = (y, w'))"
    using d g by (auto simp: Backup_Download_def split: sum.splits option.splits list.splits prod.splits)
  with s1 show ?thesis by (auto intro: steady_trans GetDecrypted_steady)
qed

lemma Backup_handleDownload_steady: "Backup_handleDownload X s i w = (r, w') \<Longrightarrow> steady w w' K"
proof -
  assume d: "Backup_handleDownload X s i w = (r, w')"
  obtain x w1 where g: "Backup_Get i w = (x, w1)" by fastforce
  have s1: "steady w w1 K" by (rule steady_snd [OF _ g]) (simp add: steady_def Backup_Get_def)
  have "w' = w1 \<or> (\<exists>y. Backup_Download X s i w1 = (y, w'))"
    using d g by (auto simp: Backup_handleDownload_def split: sum.splits option.splits prod.splits)
  with s1 show ?thesis by (auto intro: steady_trans Backup_Download_steady)
qed

lemma Restore_steady:
  "steady w (snd (Restore_handleList w)) K" "steady w (snd (Restore_handleGet i w)) K" "steady w (snd (Restore_handleRestore i t w)) K"
  by (auto simp: Restore_handleList_def Restore_handleGet_def Restore_handleRestore_def Restore_List_def Restore_Get_def
      steady_def [of _ "snd (on_db _ _)"] with_body_state respond_found_state StartRestore_steady split: option.split sum.split)

lemma Backup_starts_steady:
  "steady w (snd (Backup_handleCreate b w)) K" "steady w (snd (Backup_handleVerify i w)) K" "i \<in> K \<Longrightarrow> steady w (snd (Backup_handleDelete X s i w)) K"
  by (auto simp: Backup_handleCreate_def Backup_handleVerify_def Backup_handleDelete_def with_body_state Let_def StartBackup_steady
      StartVerification_steady Backup_Delete_steady split: option.split)

lemma Schedule_reads_steady:
  "steady w (snd (Schedule_handleList c w)) K" "steady w (snd (Schedule_handleGet i w)) K" "steady w (snd (Schedule_handleRun i w)) K"
proof -
  have r: "steady w (snd (RunNow i w)) K"
    unfolding RunNow_def by (rule steady_and_then) (auto simp: steady_def split: option.split)
  show "steady w (snd (Schedule_handleRun i w)) K"
    using r by (auto simp: Schedule_handleRun_def case_prod_beta split: sum.split)
qed (auto simp: Schedule_handleList_def Schedule_handleGet_def Schedule_List_def Schedule_ListByConnection_def Schedule_Get_def
      steady_def respond_found_state split: option.split sum.split)

text \<open>The handlers that register jobs: what they do to the database is steady, and the jobs stay in order.\<close>

lemma register_job_world: "fst (snd (register_job n m C sch st)) = fst st"
  by (simp add: register_job_def split: prod.split sum.split)

lemma in_world_steady: "steady (fst st) (snd (f (fst st))) K \<Longrightarrow> in_world f st = (x, st1) \<Longrightarrow> steady (fst st) (fst st1) K \<and> snd st1 = snd st"
  by (auto simp: in_world_def split: prod.splits)

lemma Schedule_writes:
  "steady w (snd (Schedule_Create sch w)) K" "steady w (snd (Schedule_Update sch w)) K" "steady w (snd (Schedule_Delete i w)) K"
  by (auto simp: Schedule_Create_def Schedule_Update_def Schedule_Delete_def steady_def case_prod_beta Let_def)

lemma register_handled:
  assumes "register_job n m C sch st = (resp, st')" "cron_ok C" "jobs_ok C (snd st)"
  shows "fst st' = fst st \<and> jobs_ok C (snd st')"
  using register_job_world [of n m C sch st] register_job_ok [OF assms] assms(1) by simp

lemma Schedule_handleCreate_ok:
  assumes "Schedule_handleCreate C req (w, sc) = (resp, (w', sc'))" "cron_ok C" "jobs_ok C sc"
  shows "steady w w' K \<and> jobs_ok C sc'"
proof (cases req)
  case None
  with assms show ?thesis by (simp add: Schedule_handleCreate_def)
next
  case (Some sch)
  obtain x st1 where i: "in_world (Schedule_Create sch) (w, sc) = (x, st1)" by (metis surj_pair)
  note s = in_world_steady [OF _ i, simplified, OF Schedule_writes(1)]
  show ?thesis
  proof (cases x)
    case (Inl e)
    with assms Some i s show ?thesis by (simp add: Schedule_handleCreate_def)
  next
    case (Inr y)
    with assms(1) Some i have "register_job 201 ''schedule created but cron registration failed: '' C y st1 = (resp, (w', sc'))"
      by (simp add: Schedule_handleCreate_def)
    from register_handled [OF this assms(2)] s assms(3) show ?thesis by simp
  qed
qed

lemma Schedule_handleUpdate_ok:
  assumes "Schedule_handleUpdate C i req (w, sc) = (resp, (w', sc'))" "cron_ok C" "jobs_ok C sc"
  shows "steady w w' K \<and> jobs_ok C sc'"
proof (cases req)
  case None
  with assms show ?thesis by (simp add: Schedule_handleUpdate_def)
next
  case (Some sch)
  obtain x st1 where i: "in_world (Schedule_Update (sch\<lparr>s_ID := i\<rparr>)) (w, sc) = (x, st1)" by (metis surj_pair)
  note s = in_world_steady [OF _ i, simplified, OF Schedule_writes(2)]
  show ?thesis
  proof (cases x)
    case (Inl e)
    with assms Some i s show ?thesis by (simp add: Schedule_handleUpdate_def Let_def)
  next
    case (Inr y)
    with assms(1) Some i have "register_job 200 ''schedule updated but cron registration failed: '' C (sch\<lparr>s_ID := i\<rparr>) st1 = (resp, (w', sc'))"
      by (simp add: Schedule_handleUpdate_def Let_def)
    from register_handled [OF this assms(2)] s assms(3) show ?thesis by simp
  qed
qed

lemma Schedule_handleDelete_ok:
  assumes "Schedule_handleDelete C i (w, sc) = (resp, (w', sc'))" "cron_ok C" "jobs_ok C sc"
  shows "steady w w' K \<and> jobs_ok C sc'"
proof -
  obtain x st1 where w: "in_world (Schedule_Delete i) (w, RemoveJob C i sc) = (x, st1)" by (metis surj_pair)
  have "steady w (fst st1) K \<and> snd st1 = RemoveJob C i sc"
    using in_world_steady [OF _ w, simplified, OF Schedule_writes(3)] .
  moreover have "st1 = (w', sc')" using assms(1) w by (cases x) (auto simp: Schedule_handleDelete_def)
  ultimately show ?thesis using RemoveJob_ok(1) [OF assms(2,3)] by simp
qed

section \<open>The providers\<close>

lemma providers_ok_D: "providers_ok w \<Longrightarrow> db_providers_ok (w_db w)"
  by (simp add: providers_ok_db)

lemma Provider_handler_ok:
  assumes "db_providers_ok (w_db w)" "\<forall>n. w_uuids w n \<noteq> []"
  shows "db_providers_ok (w_db (snd (Provider_handleList X svc w)))" "db_providers_ok (w_db (snd (Provider_handleCreate X svc p w)))"
    "db_providers_ok (w_db (snd (Provider_handleGet X svc i w)))" "db_providers_ok (w_db (snd (Provider_handleUpdate X svc i p w)))"
    "db_providers_ok (w_db (snd (Provider_handleDelete i w)))" "db_providers_ok (w_db (snd (Provider_handleTest X svc i w)))"
    "db_providers_ok (w_db (snd (Provider_handleSetDefault X svc i w)))"
proof -
  have ok: "providers_ok w" using assms by (simp add: providers_ok_db)
  note d = providers_ok_D
  have l: "same_tables x (snd (StorageProviderRepo_List x))" for x by (simp add: StorageProviderRepo_List_def)
  have "read_only w (snd (ProviderService_List X svc w))"
    unfolding ProviderService_List_def by (rule and_then_reads) (auto intro: on_db_read_only l)
  then show "db_providers_ok (w_db (snd (Provider_handleList X svc w)))"
    using d [OF read_only_providers_ok [OF ok]] by (simp add: Provider_handleList_def)
  have g: "read_only w (snd (ProviderService_GetByID X svc i w))" by (rule GetByID_svc_reads)
  then show "db_providers_ok (w_db (snd (Provider_handleGet X svc i w)))"
    using d read_only_providers_ok [OF ok] by (auto simp: Provider_handleGet_def respond_found_state split: sum.split option.split)
  have "read_only w (snd (GetDecrypted X svc i w))" by (rule providers_svc.get_decrypted_reads)
  then show "db_providers_ok (w_db (snd (Provider_handleTest X svc i w)))"
    using d read_only_providers_ok [OF ok] by (auto simp: Provider_handleTest_def respond_found_state split: sum.split option.split)
  show "db_providers_ok (w_db (snd (Provider_handleCreate X svc p w)))" "db_providers_ok (w_db (snd (Provider_handleUpdate X svc i p w)))"
    "db_providers_ok (w_db (snd (Provider_handleDelete i w)))" "db_providers_ok (w_db (snd (Provider_handleSetDefault X svc i w)))"
    using ok d [OF Create_providers_ok [OF ok]] d [OF Update_providers_ok [OF ok]] d [OF Delete_providers_ok [OF ok]]
      d [OF SetDefault_providers_ok [OF ok]] assms(1)
    by (auto simp: Provider_handleCreate_def Provider_handleUpdate_def Provider_handleDelete_def handleSetDefault_service
        with_body_state split: option.split)
qed

section \<open>The invariant\<close>

definition server_ok :: "('s, 'c) program \<Rightarrow> ('s, 'c) server \<Rightarrow> bool" where
  "server_ok P st \<longleftrightarrow> db_providers_ok (w_db (fst (fst st))) \<and> jobs_ok (pg_cron P) (be_sched (snd st)) \<and>
     length (be_running (snd st)) \<le> semaphore_size"

lemma server_okI:
  assumes "server_ok P ((w, a), b)" "steady w w' UNIV" "be_sched b' = be_sched b" "be_running b' = be_running b"
  shows "server_ok P ((w', a'), b')"
  using assms db_steady_ok by (auto simp: server_ok_def steady_def)

lemma on_world_ok:
  assumes "server_ok P ((w, a), b)" "steady w (snd (h w)) UNIV"
  shows "server_ok P (snd (on_world f h ((w, a), b)))"
  using server_okI [OF assms] by (auto simp: on_world_def split: prod.splits)

lemma launching_ok:
  assumes "server_ok P ((w, a), b)" "steady w (snd (h w)) UNIV" "\<And>x b. be_sched (start x b) = be_sched b \<and> be_running (start x b) = be_running b"
  shows "server_ok P (snd (launching f start h ((w, a), b)))"
proof -
  obtain r w' where h: "h w = (r, w')" by fastforce
  have "server_ok P ((w', a), case snd r of Json x \<Rightarrow> start x b | _ \<Rightarrow> b)"
    by (rule server_okI [OF assms(1)]) (use assms(2,3) h in \<open>auto split: body.split\<close>)
  then show ?thesis using h by (simp add: launching_def)
qed

lemma on_mon_ok: "server_ok P st \<Longrightarrow> server_ok P (snd (on_mon f h st))"
  by (auto simp: on_mon_def server_ok_def split: prod.splits)

lemma on_sched_ok:
  assumes "server_ok P ((w, a), b)" "\<And>x w' sc. h (w, be_sched b) = (x, (w', sc)) \<Longrightarrow> steady w w' UNIV \<and> jobs_ok (pg_cron P) sc"
  shows "server_ok P (snd (on_sched f h ((w, a), b)))"
proof -
  obtain x w' sc where h: "h (w, be_sched b) = (x, (w', sc))" by (metis surj_pair)
  then have "steady w w' UNIV" "jobs_ok (pg_cron P) sc" using assms(2) by blast+
  then show ?thesis using h assms(1) db_steady_ok by (auto simp: on_sched_def server_ok_def steady_def)
qed

lemma on_providers_ok:
  assumes "server_ok P ((w, a), b)" "db_providers_ok (w_db (snd (h w)))"
  shows "server_ok P (snd (on_world f h ((w, a), b)))"
  using assms by (auto simp: on_world_def server_ok_def split: prod.splits)

lemma connection_handler_ok: "server_ok P ((w, a), b) \<Longrightarrow> server_ok P (snd (connection_handler P x i r ((w, a), b)))"
  by (cases x) (simp_all add: connection_handler_def on_world_ok Connection_steady Connection_test_steady Connection_health_steady
    Discover_steady)

lemma backup_handler_ok: "server_ok P ((w, a), b) \<Longrightarrow> server_ok P (snd (backup_handler P x i r ((w, a), b)))"
proof -
  assume ok: "server_ok P ((w, a), b)"
  have d: "steady w (snd (case Backup_handleDownload X s i w of (d, w') \<Rightarrow> ((dl_status d, Json d), w'))) UNIV" for X s
    using Backup_handleDownload_steady [of X s i w] by (cases "Backup_handleDownload X s i w") simp
  show ?thesis
    by (cases x) (simp_all add: backup_handler_def Let_def on_world_ok [OF ok] launching_ok [OF ok] Backup_reads_steady
      Backup_starts_steady d case_prod_beta [where f = "\<lambda>b j y. y\<lparr>be_waiting := be_waiting y @ [j]\<rparr>"])
qed

lemma schedule_handler_ok:
  assumes "server_ok P ((w, a), b)" "cron_ok (pg_cron P)"
  shows "server_ok P (snd (schedule_handler P x i r ((w, a), b)))"
proof -
  have j: "jobs_ok (pg_cron P) (be_sched b)" using assms(1) by (simp add: server_ok_def)
  have "server_ok P (snd (on_sched f (Schedule_handleCreate (pg_cron P) req) ((w, a), b)))" for f req
    by (rule on_sched_ok [OF assms(1)]) (erule Schedule_handleCreate_ok [OF _ assms(2) j])
  moreover have "server_ok P (snd (on_sched f (Schedule_handleUpdate (pg_cron P) i req) ((w, a), b)))" for f i req
    by (rule on_sched_ok [OF assms(1)]) (erule Schedule_handleUpdate_ok [OF _ assms(2) j])
  moreover have "server_ok P (snd (on_sched f (Schedule_handleDelete (pg_cron P) i) ((w, a), b)))" for f i
    by (rule on_sched_ok [OF assms(1)]) (erule Schedule_handleDelete_ok [OF _ assms(2) j])
  ultimately show ?thesis
    by (cases x) (auto simp: schedule_handler_def Let_def Schedule_reads_steady intro!: on_world_ok [OF assms(1)]
      launching_ok [OF assms(1)])
qed

lemma restore_handler_ok: "server_ok P ((w, a), b) \<Longrightarrow> server_ok P (snd (restore_handler x i r ((w, a), b)))"
  by (cases x) (auto simp: restore_handler_def Restore_steady intro!: on_world_ok launching_ok)

lemma provider_handler_ok:
  assumes "server_ok P ((w, a), b)" "\<forall>n. w_uuids w n \<noteq> []"
  shows "server_ok P (snd (provider_handler P x i r ((w, a), b)))"
proof -
  have ok: "db_providers_ok (w_db w)" using assms(1) by (simp add: server_ok_def)
  show ?thesis
    by (cases x) (simp_all add: provider_handler_def Let_def on_providers_ok [OF assms(1)] Provider_handler_ok [OF ok assms(2)])
qed

lemma notification_handler_ok:
  assumes "server_ok P ((w, a), b)"
  shows "server_ok P (snd (notification_handler P x i r ((w, a), b)))"
proof (cases "x = Notification_test")
  case True
  then show ?thesis
    using Notification_test_steady [of w "pg_channels P" i] server_okI [OF assms]
    by (auto simp: notification_handler_def split: prod.splits)
next
  case False
  then show ?thesis by (cases x) (simp_all add: notification_handler_def on_world_ok [OF assms] Notification_steady)
qed

lemma settings_handler_ok: "server_ok P ((w, a), b) \<Longrightarrow> server_ok P (snd (settings_handler P x r ((w, a), b)))"
  by (cases x) (simp_all add: settings_handler_def on_world_ok Settings_steady)

lemma monitoring_handler_ok: "server_ok P ((w, a), b) \<Longrightarrow> server_ok P (snd (monitoring_handler P x r ((w, a), b)))"
  by (cases x) (auto simp: monitoring_handler_def on_mon_ok intro: server_okI)

lemma handle_route_ok:
  assumes "server_ok P ((w, a), b)" "cron_ok (pg_cron P)" "\<forall>n. w_uuids w n \<noteq> []"
  shows "server_ok P (snd (handle_route P h i r ((w, a), b)))"
  by (cases h) (simp_all add: handle_route_def connection_handler_ok backup_handler_ok schedule_handler_ok restore_handler_ok
      provider_handler_ok notification_handler_ok settings_handler_ok monitoring_handler_ok assms)

section \<open>Requests\<close>

lemma untouched_steady: "untouched w w' \<Longrightarrow> steady w w' K \<and> w_uuids w' = w_uuids w"
  unfolding untouched_def by (cases w; cases w') (simp add: steady_def)

lemma api_ok:
  assumes "server_ok P ((w, a), b)" "cron_ok (pg_cron P)" "\<forall>n. w_uuids w n \<noteq> []"
  shows "server_ok P (snd (through_mux api_table (api_handle P r) r ((w, a), b)))"
proof (cases "mux_serve api_table (hq_Method r) (hq_EscapedPath r)")
  case (Served h vs)
  then show ?thesis
    using assms handle_route_ok [OF assms] by (cases h) (auto simp: through_mux_def api_handle_def case_prod_beta)
qed (use assms in \<open>simp_all add: through_mux_def\<close>)

lemma main_ok:
  assumes "server_ok P ((w, a), b)" "cron_ok (pg_cron P)" "\<forall>n. w_uuids w n \<noteq> []"
  shows "server_ok P (snd (main_handle P r h i ((w, a), b)))"
proof (cases "h = Protected")
  case False
  obtain resp w' a' b' where m: "main_handle P r h i ((w, a), b) = (resp, ((w', a'), b'))" by (metis surj_pair)
  have "b' = b" "steady w w' UNIV" using open_endpoint [OF False m] untouched_steady by blast+
  with server_okI [OF assms(1), of w' b' a'] m show ?thesis by simp
next
  case True
  obtain v w1 a1 where v: "Validate (request_token (auth_request r)) (w, a) = (v, (w1, a1))" by (metis surj_pair)
  have w1: "steady w w1 UNIV" "w_uuids w1 = w_uuids w" using untouched_steady [OF Validate_untouched [OF v]] by blast+
  have ok: "server_ok P ((w1, a1), b)" by (rule server_okI [OF assms(1) w1(1)]) simp_all
  show ?thesis
    using api_ok [OF assms] api_ok [OF ok assms(2)] assms(3) w1(2) ok v
    by (cases v) (auto simp: True main_handle_def Auth_Middleware_def)
qed

lemma serve_ok:
  assumes "server_ok P ((w, a), b)" "cron_ok (pg_cron P)" "\<forall>n. w_uuids w n \<noteq> []"
  shows "server_ok P (snd (serve P r ((w, a), b)))"
proof -
  have "server_ok P (snd (through_mux main_table (main_handle P r) r ((w, a), b)))"
    using assms main_ok [OF assms]
    by (cases "mux_serve main_table (hq_Method r) (hq_EscapedPath r)") (simp_all add: through_mux_def)
  then show ?thesis using assms(1) by (simp add: serve_def Middleware_def case_prod_beta)
qed

section \<open>Goroutines\<close>

lemma collectHealth_db: "w_db (snd (collectHealth S conn now w)) = w_db w"
  by (simp add: collectHealth_def Let_def case_prod_beta split: sum.split option.split)

lemma collectConnection_db: "collectConnection S conn w m = (e, w', m') \<Longrightarrow> w_db w' = w_db w"
  using collectHealth_db [of S conn _ "snd (time_now w)"]
  by (auto simp: collectConnection_def case_prod_beta Let_def split: option.splits prod.splits if_splits)

lemma collect_each_steady: "collect_each S conns counts w m = (c, w', m') \<Longrightarrow> steady w w' K"
proof (induction conns arbitrary: counts w m)
  case (Cons conn conns)
  obtain n k where counts: "counts = (n, k)" by fastforce
  obtain x w1 where g: "on_db (ConnectionRepo_GetByID (c_ID conn)) w = (x, w1)" by fastforce
  have s1: "steady w w1 K" by (rule steady_snd [OF _ g]) (simp add: steady_def)
  show ?case
  proof (cases "\<exists>full. x = Inr (Some full)")
    case False
    with g Cons.prems counts have "collect_each S conns (n, Suc k) w1 m = (c, w', m')" by (auto split: sum.splits option.splits)
    then show ?thesis using Cons.IH s1 steady_trans by blast
  next
    case True
    then obtain full where x: "x = Inr (Some full)" by blast
    obtain e w2 m2 where c: "collectConnection S full w1 m = (e, w2, m2)" by (metis prod_cases3)
    have s2: "steady w w2 K" using s1 steady_db [OF collectConnection_db [OF c]] steady_trans by blast
    have "\<exists>counts. collect_each S conns counts w2 m2 = (c, w', m')"
      using g x c Cons.prems counts by (cases e) auto
    then show ?thesis using Cons.IH s2 steady_trans by blast
  qed
qed simp

lemma collect_steady: "collect S w m = (e, w', m') \<Longrightarrow> steady w w' K"
proof -
  assume c: "collect S w m = (e, w', m')"
  obtain t w1 where t: "time_now w = (t, w1)" by fastforce
  obtain x w2 where l: "on_db ConnectionRepo_List w1 = (x, w2)" by fastforce
  have s1: "steady w w1 K" using t by (auto simp: time_now_def intro: steady_db)
  have s2: "steady w w2 K"
    by (rule steady_trans [OF s1]) (rule steady_snd [OF _ l], simp add: steady_def)
  show ?thesis
  proof (cases "\<exists>conns. x = Inr conns \<and> conns \<noteq> []")
    case False
    with c t l s2 show ?thesis by (auto simp: collect_def split: sum.splits if_splits)
  next
    case True
    then obtain conns where x: "x = Inr conns" "conns \<noteq> []" by blast
    obtain k w3 m3 where ce: "collect_each S conns (0, 0) w2 m = (k, w3, m3)" by (metis prod_cases3)
    have "w' = snd (time_now w3)" using c t l x ce by (simp add: collect_def)
    then have "steady w3 w' K" by (simp add: steady_db)
    then show ?thesis using s2 collect_each_steady [OF ce] steady_trans by blast
  qed
qed

lemma Scheduler_Start_steady: "Scheduler_Start C sc w = (x, (w', sc')) \<Longrightarrow> steady w w' K"
proof -
  assume s: "Scheduler_Start C sc w = (x, (w', sc'))"
  obtain y w1 where l: "on_db ScheduleRepo_List w = (y, w1)" by fastforce
  have "steady w w1 K" by (rule steady_snd [OF _ l]) (simp add: steady_def)
  moreover have "w' = w1" using s l by (cases y) (auto simp: Scheduler_Start_def Let_def)
  ultimately show ?thesis by simp
qed

lemma Scheduler_Start_jobs:
  assumes "Scheduler_Start C (NewScheduler C) w = (x, (w', sc))" "cron_ok C" "db_wf (w_db w)"
  shows "jobs_ok C sc"
proof (cases x)
  case (Inl e)
  obtain y w1 where l: "on_db ScheduleRepo_List w = (y, w1)" by fastforce
  with assms(1) Inl have "sc = NewScheduler C" by (cases y) (auto simp: Scheduler_Start_def Let_def)
  then show ?thesis using new_scheduler_ok [OF assms(2)] by simp
next
  case (Inr u)
  with start_ok [OF assms(2,3), of "(w', sc)"] assms(1) show ?thesis by simp
qed

lemma boot_svc_ok: "boot X E env rng = Some (app, rng') \<Longrightarrow> svc_ok (ap_backup app)"
proof -
  assume b: "boot X E env rng = Some (app, rng')"
  have "ap_backup app = (ap_backup app)\<lparr>bs_incrRegistry := Some (main_registry E (ap_provSvc app))\<rparr>"
    using boot_consistent(3) [OF b] by simp
  then show ?thesis by (metis main_registry_ok)
qed

lemma server_step_ok:
  assumes "server_step P st st'" "server_ok P st" "cron_ok (pg_cron P)" "svc_ok (ap_backup (pg_app P))"
  shows "server_ok P st'"
  using assms
proof (induction rule: server_step.induct)
  case (request w r a b resp st)
  then show ?case using serve_ok [of P w a b r] by simp
next
  case (acquire b xs j ys wa)
  then show ?case by (simp add: server_ok_def)
next
  case (backup b xs j ys w a)
  have "steady w (run_job (pg_ext P) (ap_backup (pg_app P)) j w) UNIV" using run_job_steady backup by blast
  with backup db_steady_ok show ?case by (auto simp: server_ok_def steady_def)
next
  case (restore b xs j ys w x w' a)
  then show ?case using runRestore_steady [OF restore(2)] db_steady_ok by (auto simp: server_ok_def steady_def)
next
  case (verification b xs v ys w v' w' a)
  then show ?case using runVerification_steady [OF verification(2)] db_steady_ok by (auto simp: server_ok_def steady_def)
next
  case (fired b i sch w oj w' a)
  then show ?case using executeBackup_steady [OF fired(2)] db_steady_ok by (auto simp: server_ok_def steady_def)
next
  case (run_now b xs sch ys w oj w' a)
  then show ?case using executeBackup_steady [OF run_now(2)] db_steady_ok by (auto simp: server_ok_def steady_def)
next
  case (triggered_cycle b n w e w' m a)
  then show ?case using collect_steady [of "pg_mon P" w "be_mon b" e w' m] db_steady_ok
    by (auto simp: server_ok_def steady_def CollectNow_def)
next
  case (background_cycle w b e w' m a)
  then show ?case using collect_steady [OF background_cycle(1)] db_steady_ok by (auto simp: server_ok_def steady_def)
qed

lemma server_reach_booted: "server_reach P st \<Longrightarrow> \<exists>E env rng rng'. boot (pg_ext P) E env rng = Some (pg_app P, rng')"
  by (induction rule: server_reach.induct) blast+

lemma server_reach_ok: "server_reach P st \<Longrightarrow> cron_ok (pg_cron P) \<Longrightarrow> server_ok P st"
proof (induction rule: server_reach.induct)
  case (listen E env rng rng' w x w' sc m)
  have "db_providers_ok (w_db w')"
    using Scheduler_Start_steady [OF listen(3)] listen(2) db_steady_ok by (auto simp: steady_def)
  moreover have "jobs_ok (pg_cron P) sc"
    using Scheduler_Start_jobs [OF listen(3,4)] listen(2) by (simp add: db_providers_ok_def)
  ultimately show ?case by (simp add: server_ok_def started_backend_def)
next
  case (step st st')
  then show ?case using server_step_ok [OF step(2)] server_reach_booted [OF step(1)] boot_svc_ok by blast
qed

section \<open>Property\<close>


text \<open>A start on a database with one schedule.\<close>

lemma demo_server_reach: "server_reach demo_program ((demo_retention_world, ap_auth demo_app), started_backend (snd demo_started) m)"
proof -
  obtain r' where b: "boot demo_ext demo_xe demo_env (\<lambda>_. 0) = Some (demo_app, r')" using demo_boot by blast
  have "db_providers_ok (w_db demo_retention_world)"
    using demo_retention_wf by (simp add: provider_inv_defs)
      (simp add: demo_retention_world_def demo_db_def empty_db_def demo_provider_row_def)
  then show ?thesis
    using server_reach.listen [of demo_program demo_xe demo_env "\<lambda>_. 0" r' demo_retention_world "Inr ()"
        demo_retention_world "snd demo_started" m] b demo_start_scheduler
    by (simp add: demo_program_fields demo_started_def)
qed


end
