(* ===== verification/Backup_Records.thy ===== *)
theory Backup_Records
  imports Server_Invariant
begin

text \<open>
  Who changes the record of a backup: the goroutine of that backup, the goroutine of its verification, and a deletion. Any
  other step of the running program leaves it as it is, and no step hands it to a new goroutine. After a restart, then, nobody
  ends a backup the last process left running.
\<close>

section \<open>Custody\<close>

text \<open>The backups some goroutine of the backend still works on.\<close>

definition owners :: "'c backend \<Rightarrow> string set" where
  "owners b = job_id ` set (be_waiting b @ be_running b) \<union> b_ID ` set (be_verifications b)"

definition unowned :: "backup_row \<Rightarrow> ('s, 'c) server \<Rightarrow> bool" where
  "unowned r st \<longleftrightarrow> r \<in> set (t_backups (w_db (fst (fst st)))) \<and> br_id r \<notin> owners (snd st)"

definition deleted :: "backup_row \<Rightarrow> ('s, 'c) server \<Rightarrow> bool" where
  "deleted r st \<longleftrightarrow> \<not> has_row br_id (br_id r) (t_backups (w_db (fst (fst st))))"

definition custody :: "('s, 'c) server \<Rightarrow> ('s, 'c) server \<Rightarrow> bool" where
  "custody st st' \<longleftrightarrow> (\<forall>r. unowned r st \<longrightarrow> unowned r st' \<or> deleted r st')"

lemma custody_refl [simp]: "custody st st"
  by (simp add: custody_def)

text \<open>Three ways to keep custody: touch only backups that are owned, delete rows, start a goroutine for a fresh backup.\<close>

lemma custody_steady:
  assumes "steady w w' K" "K \<subseteq> owners b" "owners b' \<subseteq> owners b"
  shows "custody ((w, a), b) ((w', a'), b')"
  using assms unfolding custody_def unowned_def steady_def db_steady_def backups_stay_def by auto

lemma custody_delete:
  assumes "t_backups (w_db w') = filter (\<lambda>r. br_id r \<notin> D) (t_backups (w_db w))" "owners b' \<subseteq> owners b"
  shows "custody ((w, a), b) ((w', a'), b')"
  using assms by (auto simp: custody_def unowned_def deleted_def has_row_def)

definition fresh_job :: "job \<Rightarrow> 's world \<Rightarrow> bool" where
  "fresh_job j w \<longleftrightarrow> \<not> has_row br_id (job_id j) (t_backups (w_db w))"

lemma custody_start:
  assumes "steady w w1 {}" "fresh_job j w" "t_backups (w_db w') = filter (\<lambda>r. br_id r \<notin> D) (t_backups (w_db w1))"
    "owners b' \<subseteq> insert (job_id j) (owners b)"
  shows "custody ((w, a), b) ((w', a'), b')"
  unfolding custody_def
proof (intro allI impI)
  fix r assume r: "unowned r ((w, a), b)"
  then have "br_id r \<noteq> job_id j" using assms(2) by (auto simp: unowned_def fresh_job_def has_row_def) (metis imageI)
  with assms(4) r have "br_id r \<notin> owners b'" by (auto simp: unowned_def)
  moreover have "r \<in> set (t_backups (w_db w1))"
    using assms(1) r by (auto simp: unowned_def steady_def db_steady_def backups_stay_def)
  ultimately show "unowned r ((w', a'), b') \<or> deleted r ((w', a'), b')"
    using assms(3) by (auto simp: unowned_def deleted_def has_row_def)
qed

lemma StartBackup_fresh: "StartBackup cid did bt sid pid targets nos nof w = (Inr (b, j), w') \<Longrightarrow> fresh_job j w"
proof (erule StartBackup_result)
  fix i now d0 conn x
  assume "j = \<lparr>j_backup = b, j_conn = conn, j_db = scan_database x\<rparr>" "same_tables (w_db w) d0"
    "sql_insert_backup (backup_columns b) d0 = Inr (w_db w')"
  then show "fresh_job j w"
    by (auto simp: fresh_job_def job_id_def sql_insert_backup_def backup_columns_def same_tables_fields split: if_splits)
qed

lemma execute_custody:
  assumes "executeBackup (service_runner X s) sch w = (oj, w')" "db_wf (w_db w)"
    "owners b' \<subseteq> owners b \<union> (case oj of None \<Rightarrow> {} | Some j \<Rightarrow> {job_id j})"
  shows "custody ((w, a), b) ((w', a'), b')"
proof -
  obtain x w1 where st: "start_scheduled (service_runner X s) sch w = (x, w1)" by fastforce
  then have b: "StartBackup (s_ConnectionID sch) (s_DatabaseID sch) (s_BackupType sch) (Some (s_ID sch))
      (if s_StorageProviderID sch \<noteq> [] then Some (s_StorageProviderID sch) else None) (s_NotifTargetIDs sch)
      (s_NotifyOnSuccess sch) (s_NotifyOnFailure sch) w = (x, w1)"
    by (simp add: start_scheduled_def service_runner_def)
  have s: "steady w w1 {}" by (rule steady_snd [OF StartBackup_steady b])
  then have wf: "db_wf (w_db w1)" using assms(2) by (simp add: steady_def db_steady_def)
  have w': "w' = EnforceRetention X s (s_ID sch) (s_RetentionFull sch) (s_RetentionIncr sch) w1"
    and oj: "oj = (case x of Inl e \<Rightarrow> None | Inr (b, j) \<Rightarrow> Some j)"
    using assms(1) st by (auto simp: executeBackup_def service_runner_def)
  obtain D where D: "t_backups (w_db w') = filter (\<lambda>r. br_id r \<notin> D) (t_backups (w_db w1))"
    unfolding w' using retention_rows [OF wf] by blast
  show ?thesis
  proof (cases x)
    case (Inl e)
    have "t_backups (w_db w1) = t_backups (w_db w)"
      using StartBackup_error [OF b [unfolded Inl]] by (simp add: same_tables_fields)
    then show ?thesis using D assms(3) oj Inl by (intro custody_delete [of w' D]) auto
  next
    case (Inr p)
    obtain bk j where p: "p = (bk, j)" by fastforce
    have "fresh_job j w" using StartBackup_fresh b Inr p by blast
    then show ?thesis using assms(3) oj Inr p by (intro custody_start [OF s _ D, of j]) auto
  qed
qed

section \<open>The handlers\<close>

lemma on_world_custody:
  "steady w (snd (h w)) {} \<Longrightarrow> custody ((w, a), b) (snd (on_world f h ((w, a), b)))"
  by (cases "h w") (simp add: on_world_def custody_steady)

lemma on_sched_custody:
  assumes "\<And>x w' sc. h (w, be_sched b) = (x, (w', sc)) \<Longrightarrow> steady w w' {}"
  shows "custody ((w, a), b) (snd (on_sched f h ((w, a), b)))"
proof -
  obtain x w' sc where h: "h (w, be_sched b) = (x, (w', sc))" by (metis surj_pair)
  then show ?thesis using assms [OF h] by (simp add: on_sched_def custody_steady owners_def)
qed

lemma on_mon_custody: "custody st (snd (on_mon f h st))"
proof -
  obtain w a b where st: "st = ((w, a), b)" by (metis surj_pair)
  obtain x m where h: "h (be_mon b) = (x, m)" by fastforce
  show ?thesis using st h custody_steady [OF steady_refl, of "{}" b "b\<lparr>be_mon := m\<rparr>"] by (simp add: on_mon_def owners_def)
qed

text \<open>A launched goroutine that is no backup and no verification.\<close>

lemma launching_custody:
  assumes "steady w (snd (h w)) {}" "\<And>x b. owners (start x b) = owners b"
  shows "custody ((w, a), b) (snd (launching f start h ((w, a), b)))"
proof -
  obtain x w' where h: "h w = (x, w')" by fastforce
  show ?thesis
    using custody_steady [of w w' "{}" b "case snd x of Json y \<Rightarrow> start y b | _ \<Rightarrow> b" a a] assms h
    by (auto simp: launching_def split: body.splits)
qed

lemma create_custody:
  "custody ((w, a), b) (snd (launching f (\<lambda>(b, j) x. x\<lparr>be_waiting := be_waiting x @ [j]\<rparr>) (Backup_handleCreate req) ((w, a), b)))"
proof (cases req)
  case None
  then show ?thesis by (simp add: launching_def Backup_handleCreate_def with_body_def WriteError_def)
next
  case (Some q)
  obtain x w' where h: "Backup_handleCreate req w = (x, w')" by fastforce
  have s: "steady w w' {}" using Backup_starts_steady(1) [of w req "{}"] h by simp
  show ?thesis
  proof (cases "\<exists>bk j. snd x = Json (bk, j)")
    case True
    then obtain bk j where x: "snd x = Json (bk, j)" by blast
    then have "fresh_job j w"
      using h Some by (auto simp: Backup_handleCreate_def with_body_def respond_def WriteError_def WriteJSON_def Let_def split: sum.splits prod.splits if_splits
          intro: StartBackup_fresh)
    then show ?thesis
      using custody_start [OF s, of j w' "{}" "b\<lparr>be_waiting := be_waiting b @ [j]\<rparr>" b a a] h x
      by (auto simp: launching_def owners_def)
  next
    case False
    then show ?thesis using custody_steady [OF s, of b b a a] h by (auto simp: launching_def split: body.splits)
  qed
qed

lemma verify_custody:
  "custody ((w, a), b) (snd (launching f start (Backup_handleVerify i) ((w, a), b)))"
proof -
  obtain e where e: "fst (StartVerification i w) = Inl e" using StartVerification_refused by blast
  obtain x w' where h: "Backup_handleVerify i w = (x, w')" by fastforce
  have "steady w w' {}" using Backup_starts_steady(2) [of w i "{}"] h by simp
  moreover have "\<not> (\<exists>y. snd x = Json y)"
    using e h by (auto simp: Backup_handleVerify_def respond_def WriteError_def split: sum.splits prod.splits)
  ultimately show ?thesis using h by (auto simp: launching_def custody_steady split: body.splits)
qed

lemma delete_custody:
  "custody ((w, a), b) (snd (on_world f (Backup_handleDelete X s i) ((w, a), b)))"
proof -
  obtain x w' where d: "Backup_Delete X s i w = (x, w')" by fastforce
  have "\<exists>D. t_backups (w_db w') = filter (\<lambda>r. br_id r \<notin> D) (t_backups (w_db w))"
    using Backup_Delete_cases [OF d]
    by (auto simp: row_del_def intro: exI [of _ "{}"] exI [of _ "{i}"])
  then obtain D where D: "t_backups (w_db w') = filter (\<lambda>r. br_id r \<notin> D) (t_backups (w_db w))" by blast
  have "snd (Backup_handleDelete X s i w) = w'" using d by (simp add: Backup_handleDelete_def)
  then show ?thesis using custody_delete [OF D, of b b] by (cases "Backup_handleDelete X s i w") (simp add: on_world_def)
qed

section \<open>The provider service\<close>

lemma provider_statements:
  "t_backups (snd (StorageProviderRepo_Create i now p d)) = t_backups d"
  "t_backups (snd (StorageProviderRepo_Update now p d)) = t_backups d"
  "t_backups (snd (StorageProviderRepo_Delete i d)) = t_backups d"
  "t_backups (snd (StorageProviderRepo_ClearDefault i d)) = t_backups d"
proof -
  note f = exec_frame [where P = t_backups, OF _ same_tables_fields(5)]
  show "t_backups (snd (StorageProviderRepo_Create i now p d)) = t_backups d"
    by (simp add: StorageProviderRepo_Create_def Let_def) (rule f, auto simp: sql_insert_provider_def split: if_splits)
  show "t_backups (snd (StorageProviderRepo_Update now p d)) = t_backups d"
    by (simp add: StorageProviderRepo_Update_def sql_update_provider_def exec_update_frame [where P = t_backups] same_tables_fields)
  show "t_backups (snd (StorageProviderRepo_Delete i d)) = t_backups d"
    by (simp add: StorageProviderRepo_Delete_def) (rule f, auto simp: sql_delete_provider_def split: if_splits)
  show "t_backups (snd (StorageProviderRepo_ClearDefault i d)) = t_backups d"
    by (simp add: StorageProviderRepo_ClearDefault_def) (rule f, auto simp: sql_clear_default_def)
qed

lemma read_only_backups: "read_only w w' \<Longrightarrow> t_backups (w_db w') = t_backups (w_db w)"
  using read_only_fields(1) [of w w'] by (simp add: same_tables_fields)

lemma provider_reads:
  "t_backups (snd (StorageProviderRepo_GetByID i d)) = t_backups d" "t_backups (snd (StorageProviderRepo_List d)) = t_backups d"
  using GetByID_reads [of d i] by (simp_all add: StorageProviderRepo_List_def same_tables_fields)

lemma keep_or_encrypt_db: "w_db (snd (keep_or_encrypt X svc old new w)) = w_db w"
  by (simp add: keep_or_encrypt_def)

lemma provider_services:
  "t_backups (w_db (snd (ProviderService_Create X svc p w))) = t_backups (w_db w)"
  "t_backups (w_db (snd (ProviderService_Update X svc p w))) = t_backups (w_db w)"
  "t_backups (w_db (snd (ProviderService_Delete i w))) = t_backups (w_db w)"
  by (auto simp: ProviderService_Create_def ProviderService_Update_def ProviderService_Delete_def and_then_state case_prod_beta
      Let_def provider_statements provider_reads keep_or_encrypt_db split: sum.split option.split)

lemma same_custody: "t_backups (w_db w') = t_backups (w_db w) \<Longrightarrow> custody ((w, a), b) ((w', a'), b)"
  by (rule custody_delete [of w' "{}"]) simp_all

lemma on_world_same: "t_backups (w_db (snd (h w))) = t_backups (w_db w) \<Longrightarrow> custody ((w, a), b) (snd (on_world f h ((w, a), b)))"
  by (cases "h w") (simp add: on_world_def same_custody)

lemma provider_handlers_same:
  "t_backups (w_db (snd (Provider_handleList X svc w))) = t_backups (w_db w)"
  "t_backups (w_db (snd (Provider_handleCreate X svc p w))) = t_backups (w_db w)"
  "t_backups (w_db (snd (Provider_handleGet X svc i w))) = t_backups (w_db w)"
  "t_backups (w_db (snd (Provider_handleUpdate X svc i p w))) = t_backups (w_db w)"
  "t_backups (w_db (snd (Provider_handleDelete i w))) = t_backups (w_db w)"
  "t_backups (w_db (snd (Provider_handleTest X svc i w))) = t_backups (w_db w)"
  "t_backups (w_db (snd (Provider_handleSetDefault X svc i w))) = t_backups (w_db w)"
proof -
  have l: "t_backups (w_db (snd (ProviderService_List X svc w))) = t_backups (w_db w)"
    by (auto simp: ProviderService_List_def and_then_state provider_reads split: sum.split)
  have g: "t_backups (w_db (snd (ProviderService_GetByID X svc i w))) = t_backups (w_db w)"
    by (rule read_only_backups) (rule GetByID_svc_reads)
  have d: "t_backups (w_db (snd (GetDecrypted X svc i w))) = t_backups (w_db w)"
    by (rule read_only_backups) (rule providers_svc.get_decrypted_reads)
  show "t_backups (w_db (snd (Provider_handleList X svc w))) = t_backups (w_db w)"
    "t_backups (w_db (snd (Provider_handleGet X svc i w))) = t_backups (w_db w)"
    "t_backups (w_db (snd (Provider_handleTest X svc i w))) = t_backups (w_db w)"
    using l g d by (auto simp: Provider_handleList_def Provider_handleGet_def Provider_handleTest_def respond_found_state
        split: sum.split option.split)
  show "t_backups (w_db (snd (Provider_handleCreate X svc p w))) = t_backups (w_db w)"
    "t_backups (w_db (snd (Provider_handleUpdate X svc i p w))) = t_backups (w_db w)"
    "t_backups (w_db (snd (Provider_handleDelete i w))) = t_backups (w_db w)"
    by (auto simp: Provider_handleCreate_def Provider_handleUpdate_def Provider_handleDelete_def with_body_state provider_services
        split: option.split)
  show "t_backups (w_db (snd (Provider_handleSetDefault X svc i w))) = t_backups (w_db w)"
    unfolding handleSetDefault_service
    using g by (auto simp: handleSetDefault_def and_then_state provider_services split: sum.split option.split)
qed

section \<open>A request\<close>

lemma connection_custody: "custody ((w, a), b) (snd (connection_handler P x i r ((w, a), b)))"
  by (cases x) (simp_all add: connection_handler_def on_world_custody Connection_steady Connection_test_steady Connection_health_steady
    Discover_steady)

lemma backup_custody: "custody ((w, a), b) (snd (backup_handler P x i r ((w, a), b)))"
proof -
  have d: "steady w (snd (case Backup_handleDownload X s i w of (d, w') \<Rightarrow> ((dl_status d, Json d), w'))) {}" for X s
    using Backup_handleDownload_steady [of X s i w] by (cases "Backup_handleDownload X s i w") simp
  show ?thesis
    by (cases x) (simp_all add: backup_handler_def Let_def on_world_custody Backup_reads_steady d create_custody verify_custody
      delete_custody)
qed

lemma schedule_custody:
  assumes "server_ok P ((w, a), b)" "cron_ok (pg_cron P)"
  shows "custody ((w, a), b) (snd (schedule_handler P x i r ((w, a), b)))"
proof -
  have j: "jobs_ok (pg_cron P) (be_sched b)" using assms(1) by (simp add: server_ok_def)
  have "custody ((w, a), b) (snd (on_sched f (Schedule_handleCreate (pg_cron P) req) ((w, a), b)))" for f req
    using Schedule_handleCreate_ok [OF _ assms(2) j] by (intro on_sched_custody) blast
  moreover have "custody ((w, a), b) (snd (on_sched f (Schedule_handleUpdate (pg_cron P) i req) ((w, a), b)))" for f i req
    using Schedule_handleUpdate_ok [OF _ assms(2) j] by (intro on_sched_custody) blast
  moreover have "custody ((w, a), b) (snd (on_sched f (Schedule_handleDelete (pg_cron P) i) ((w, a), b)))" for f i
    using Schedule_handleDelete_ok [OF _ assms(2) j] by (intro on_sched_custody) blast
  ultimately show ?thesis
    by (cases x) (auto simp: schedule_handler_def Let_def Schedule_reads_steady owners_def intro!: on_world_custody launching_custody)
qed

lemma restore_custody: "custody ((w, a), b) (snd (restore_handler x i r ((w, a), b)))"
  by (cases x) (auto simp: restore_handler_def Restore_steady owners_def intro!: on_world_custody launching_custody)

lemma provider_custody: "custody ((w, a), b) (snd (provider_handler P x i r ((w, a), b)))"
  by (cases x) (simp_all add: provider_handler_def Let_def on_world_same provider_handlers_same)

lemma notification_custody: "custody ((w, a), b) (snd (notification_handler P x i r ((w, a), b)))"
proof (cases "x = Notification_test")
  case True
  obtain y w' where t: "Notification_handleTest (pg_channels P) i w = (y, w')" by fastforce
  then have "steady w w' {}" using Notification_test_steady [of w "pg_channels P" i "{}"] by simp
  then show ?thesis using True t by (cases y) (simp add: notification_handler_def custody_steady owners_def)
next
  case False
  then show ?thesis by (cases x) (simp_all add: notification_handler_def on_world_custody Notification_steady)
qed

lemma settings_custody: "custody ((w, a), b) (snd (settings_handler P x r ((w, a), b)))"
  by (cases x) (simp_all add: settings_handler_def on_world_custody Settings_steady)

lemma monitoring_custody: "custody ((w, a), b) (snd (monitoring_handler P x r ((w, a), b)))"
  by (cases x) (simp_all add: monitoring_handler_def on_mon_custody custody_steady [OF steady_refl, of "{}"] owners_def)

lemma handle_route_custody:
  assumes "server_ok P ((w, a), b)" "cron_ok (pg_cron P)"
  shows "custody ((w, a), b) (snd (handle_route P h i r ((w, a), b)))"
  by (cases h) (simp_all add: handle_route_def connection_custody backup_custody schedule_custody restore_custody
      provider_custody notification_custody settings_custody monitoring_custody assms)

lemma custody_before: "steady w w1 {} \<Longrightarrow> custody ((w1, a1), b) st \<Longrightarrow> custody ((w, a), b) st"
  unfolding custody_def unowned_def steady_def db_steady_def backups_stay_def by auto

lemma api_custody:
  assumes "server_ok P ((w, a), b)" "cron_ok (pg_cron P)"
  shows "custody ((w, a), b) (snd (through_mux api_table (api_handle P r) r ((w, a), b)))"
proof (cases "mux_serve api_table (hq_Method r) (hq_EscapedPath r)")
  case (Served h vs)
  then show ?thesis
    using handle_route_custody [OF assms] by (cases h) (auto simp: through_mux_def api_handle_def case_prod_beta)
qed (simp_all add: through_mux_def)

lemma main_custody:
  assumes "server_ok P ((w, a), b)" "cron_ok (pg_cron P)"
  shows "custody ((w, a), b) (snd (main_handle P r h i ((w, a), b)))"
proof (cases "h = Protected")
  case False
  obtain resp w' a' b' where m: "main_handle P r h i ((w, a), b) = (resp, ((w', a'), b'))" by (metis surj_pair)
  have "b' = b" "steady w w' {}" using open_endpoint [OF False m] untouched_steady by blast+
  with m show ?thesis by (simp add: custody_steady)
next
  case True
  obtain v w1 a1 where v: "Validate (request_token (auth_request r)) (w, a) = (v, (w1, a1))" by (metis surj_pair)
  have w1: "steady w w1 {}" using untouched_steady [OF Validate_untouched [OF v]] by blast
  have ok: "server_ok P ((w1, a1), b)"
    using server_okI [OF assms(1)] untouched_steady [OF Validate_untouched [OF v]] by blast
  show ?thesis
    using api_custody [OF assms] custody_before [OF w1 api_custody [OF ok assms(2)]] custody_steady [OF w1, of b b a a1] v
    by (cases v) (auto simp: True main_handle_def Auth_Middleware_def)
qed

lemma serve_custody:
  assumes "server_ok P ((w, a), b)" "cron_ok (pg_cron P)"
  shows "custody ((w, a), b) (snd (serve P r ((w, a), b)))"
proof -
  have "custody ((w, a), b) (snd (through_mux main_table (main_handle P r) r ((w, a), b)))"
    using main_custody [OF assms]
    by (cases "mux_serve main_table (hq_Method r) (hq_EscapedPath r)") (simp_all add: through_mux_def)
  then show ?thesis by (simp add: serve_def Middleware_def case_prod_beta)
qed

section \<open>A step\<close>

lemma server_step_custody:
  assumes "server_step P st st'" "server_ok P st" "cron_ok (pg_cron P)" "svc_ok (ap_backup (pg_app P))"
  shows "custody st st'"
  using assms
proof (induction rule: server_step.induct)
  case (request w r a b resp st)
  then show ?case using serve_custody [of P w a b r] by simp
next
  case (acquire b xs j ys wa)
  obtain w a where wa: "wa = (w, a)" by fastforce
  show ?case unfolding wa
    by (rule custody_steady [OF steady_refl, of "{}"]) (use acquire in \<open>auto simp: owners_def\<close>)
next
  case (backup b xs j ys w a)
  show ?case
    by (rule custody_steady [OF run_job_steady [OF backup(4), of j "{job_id j}"]]) (use backup in \<open>auto simp: owners_def\<close>)
next
  case (restore b xs j ys w x w' a)
  show ?case by (rule custody_steady [OF runRestore_steady [OF restore(2), of "{}"]]) (auto simp: owners_def)
next
  case (verification b xs v ys w v' w' a)
  show ?case
    by (rule custody_steady [OF runVerification_steady [OF verification(2), of "{b_ID v}"]])
      (use verification in \<open>auto simp: owners_def\<close>)
next
  case (fired b i sch w oj w' a)
  then have "db_wf (w_db w)" by (simp add: server_ok_def db_providers_ok_def)
  then show ?case by (rule execute_custody [OF fired(2)]) (auto simp: owners_def split: option.splits)
next
  case (run_now b xs sch ys w oj w' a)
  then have "db_wf (w_db w)" by (simp add: server_ok_def db_providers_ok_def)
  then show ?case by (rule execute_custody [OF run_now(2)]) (auto simp: owners_def split: option.splits)
next
  case (triggered_cycle b n w e w' m a)
  then have "steady w w' {}" using collect_steady by (auto simp: CollectNow_def)
  then show ?case by (rule custody_steady) (auto simp: owners_def)
next
  case (background_cycle w b e w' m a)
  show ?case by (rule custody_steady [OF collect_steady [OF background_cycle(1), of "{}"]]) (auto simp: owners_def)
qed

section \<open>Property\<close>

text \<open>Claim C37. The record of a backup belongs to its goroutine: in every state the running program reaches, no step, no request with
  any content included, changes a record or starts a goroutine for it unless a goroutine already works on that backup; it can only be
  deleted. When the program has just started, no goroutine works on any backup, so a backup that was running when the last process
  ended is recorded as running for ever.\<close>

theorem records_owned:
  assumes "cron_ok (pg_cron P)"
  shows "(server_reach P st \<longrightarrow> server_step P st st' \<longrightarrow> unowned r st \<longrightarrow> unowned r st' \<or> deleted r st') \<and>
    (r \<in> set (t_backups (w_db w)) \<longrightarrow> unowned r ((w, a), started_backend sc m))"
proof (intro conjI impI)
  assume s: "server_reach P st" "server_step P st st'" "unowned r st"
  obtain E env rng rng' where "boot (pg_ext P) E env rng = Some (pg_app P, rng')" using server_reach_booted [OF s(1)] by blast
  then have "custody st st'"
    using server_step_custody [OF s(2) server_reach_ok [OF s(1) assms] assms] boot_svc_ok by blast
  with s(3) show "unowned r st' \<or> deleted r st'" unfolding custody_def by blast
qed (simp add: unowned_def owners_def started_backend_def)

text \<open>A start on a database with a backup the last process left running.\<close>

theorem records_owned_witness:
  "\<exists>r st. br_status r = ''running'' \<and> server_reach demo_program st \<and> unowned r st \<and>
     (\<forall>st'. server_step demo_program st st' \<longrightarrow> unowned r st' \<or> deleted r st')"
proof -
  obtain r' where b: "boot demo_ext demo_xe demo_env (\<lambda>_. 0) = Some (demo_app, r')" using demo_boot by blast
  have ok: "db_providers_ok (w_db demo_world2)"
    using demo_db_wf by (simp add: provider_inv_defs demo_world2_facts) (simp add: demo_db_def empty_db_def demo_provider_row_def)
  obtain x w sc where s: "Scheduler_Start demo_cron (NewScheduler demo_cron) demo_world2 = (x, (w, sc))" by (metis surj_pair)
  have st: "server_reach demo_program ((w, ap_auth demo_app), started_backend sc demo_mon)"
    using server_reach.listen [of demo_program demo_xe demo_env "\<lambda>_. 0" r' demo_world2 x w sc demo_mon] b ok s
    by (simp add: demo_program_fields)
  let ?r = "backup_columns demo_backup"
  have r: "?r \<in> set (t_backups (w_db w))" "br_status ?r = ''running''"
    using Scheduler_Start_steady [OF s, of "{}"]
    by (simp_all add: steady_def db_steady_def backups_stay_def demo_world2_facts)
      (simp_all add: demo_db_def backup_columns_def demo_backup_def new_backup_def)
  have c: "cron_ok (pg_cron demo_program)" by (simp add: demo_program_fields demo_cron_ok)
  show ?thesis using records_owned [OF c] st r by blast
qed

end
