(* ===== verification/Process.thy ===== *)
theory Process
  imports Server_Invariant
begin

text \<open>
  The life of the process: the database that is opened at the start (\<open>Open\<close> of \<open>postgres/db.go\<close>), the exits of \<open>main\<close>,
  and its end, where the goroutine that waits for a signal and the goroutine of \<open>main\<close> run side by side.
\<close>

section \<open>Opening the database\<close>

text \<open>The outcomes of the driver, of \<open>migrate\<close> and of \<open>createHypertables\<close> are arguments; what the latter two do to the
  tables is \<open>open_schema\<close>.\<close>

record pool_settings =
  ps_MaxOpenConns :: nat
  ps_MaxIdleConns :: nat
  ps_ConnMaxLifetime :: int

record open_outcome =
  oo_open :: "gerror option"
  oo_ping :: "gerror option"
  oo_migrate :: "gerror option"
  oo_hypertables :: "gerror option"

definition Open :: "open_outcome \<Rightarrow> pool_settings res" where
  "Open x =
     (case oo_open x of Some e \<Rightarrow> Inl (''open postgres: '' @ e) | None \<Rightarrow>
      case oo_ping x of Some e \<Rightarrow> Inl (''ping postgres: '' @ e) | None \<Rightarrow>
      case oo_migrate x of Some e \<Rightarrow> Inl (''migrate: '' @ e) | None \<Rightarrow>
      case oo_hypertables x of Some e \<Rightarrow> Inl (''create hypertables: '' @ e) | None \<Rightarrow>
      Inr \<lparr>ps_MaxOpenConns = 20, ps_MaxIdleConns = 5, ps_ConnMaxLifetime = 5 * 60 * 10 ^ 9\<rparr>)"

text \<open>\<open>main\<close> up to the server: the exit status, or the services.\<close>

definition main_start :: "'s ext \<Rightarrow> 's engine_ext \<Rightarrow> (string \<Rightarrow> open_outcome) \<Rightarrow> (string \<Rightarrow> string) \<Rightarrow> rng \<Rightarrow> nat + 's app \<times> rng" where
  "main_start X E database env r =
     (case boot X E env r of
        None \<Rightarrow> Inl 1
      | Some p \<Rightarrow> (case Open (database (cfg_DatabaseURL (Load env))) of Inl e \<Rightarrow> Inl 1 | Inr _ \<Rightarrow> Inr p))"

section \<open>The end of the process\<close>

datatype signal_state = Awaiting | Stopping_Collector | Stopping_Scheduler | Calling_Shutdown | Draining | Finished

datatype main_state = Serving | Closing_Database | Exited nat

record process =
  pc_signal :: signal_state
  pc_main :: main_state
  pc_collector :: collector
  pc_cron_running :: bool
  pc_listening :: bool
  pc_requests :: nat \<comment> \<open>requests being handled\<close>
  pc_db_open :: bool

definition serving :: "collector \<Rightarrow> process" where
  "serving c = \<lparr>pc_signal = Awaiting, pc_main = Serving, pc_collector = c, pc_cron_running = True, pc_listening = True,
     pc_requests = 0, pc_db_open = True\<rparr>"

definition alive :: "process \<Rightarrow> bool" where
  "alive p \<longleftrightarrow> (\<forall>n. pc_main p \<noteq> Exited n)"

text \<open>\<open>Shutdown\<close> closes the listener and then waits for the requests, thirty seconds at most; \<open>ListenAndServe\<close> returns as
  soon as the listener is closed, and \<open>main\<close> with it, after the deferred \<open>Close\<close> of the database. An error of the listener
  exits at once. The process ends with \<open>main\<close>, whatever the other goroutines do.\<close>

inductive process_step :: "process \<Rightarrow> process \<Rightarrow> bool" where
  accept: "alive p \<Longrightarrow> pc_listening p \<Longrightarrow> process_step p (p\<lparr>pc_requests := Suc (pc_requests p)\<rparr>)"
| answer: "alive p \<Longrightarrow> pc_requests p = Suc n \<Longrightarrow> process_step p (p\<lparr>pc_requests := n\<rparr>)"
| signal: "alive p \<Longrightarrow> pc_signal p = Awaiting \<Longrightarrow> process_step p (p\<lparr>pc_signal := Stopping_Collector\<rparr>)"
| stop_collector: "alive p \<Longrightarrow> pc_signal p = Stopping_Collector \<Longrightarrow> Collector_Stop (pc_collector p) = Some c \<Longrightarrow>
    process_step p (p\<lparr>pc_signal := Stopping_Scheduler, pc_collector := c\<rparr>)"
| stop_scheduler: "alive p \<Longrightarrow> pc_signal p = Stopping_Scheduler \<Longrightarrow>
    process_step p (p\<lparr>pc_signal := Calling_Shutdown, pc_cron_running := False\<rparr>)"
| shutdown: "alive p \<Longrightarrow> pc_signal p = Calling_Shutdown \<Longrightarrow> process_step p (p\<lparr>pc_signal := Draining, pc_listening := False\<rparr>)"
| drained: "alive p \<Longrightarrow> pc_signal p = Draining \<Longrightarrow> pc_requests p = 0 \<Longrightarrow> process_step p (p\<lparr>pc_signal := Finished\<rparr>)"
| drain_timeout: "alive p \<Longrightarrow> pc_signal p = Draining \<Longrightarrow> process_step p (p\<lparr>pc_signal := Finished\<rparr>)"
| listen_error: "pc_main p = Serving \<Longrightarrow> pc_listening p \<Longrightarrow> process_step p (p\<lparr>pc_main := Exited 1\<rparr>)"
| server_closed: "pc_main p = Serving \<Longrightarrow> \<not> pc_listening p \<Longrightarrow> process_step p (p\<lparr>pc_main := Closing_Database\<rparr>)"
| close_database: "pc_main p = Closing_Database \<Longrightarrow> process_step p (p\<lparr>pc_main := Exited 0, pc_db_open := False\<rparr>)"

inductive process_reach :: "process \<Rightarrow> bool" where
  start: "process_reach (serving (Collector_Start (NewCollector (60 * 10 ^ 9))))"
| step: "process_reach p \<Longrightarrow> process_step p p' \<Longrightarrow> process_reach p'"

inductive_cases process_stepE: "process_step p p'"

section \<open>An orderly exit\<close>

text \<open>What holds on the way: where the signal goroutine is says what has been stopped, and where \<open>main\<close> is whether the
  listener is closed.\<close>

definition stopped_in_order :: "process \<Rightarrow> bool" where
  "stopped_in_order p \<longleftrightarrow>
     (pc_signal p \<in> {Stopping_Scheduler, Calling_Shutdown, Draining, Finished} \<longrightarrow> \<not> Running (pc_collector p)) \<and>
     (pc_signal p \<in> {Calling_Shutdown, Draining, Finished} \<longrightarrow> \<not> pc_cron_running p) \<and>
     (\<not> pc_listening p \<longrightarrow> pc_signal p \<in> {Draining, Finished}) \<and>
     (pc_main p \<in> {Closing_Database, Exited 0} \<longrightarrow> \<not> pc_listening p) \<and>
     (pc_main p = Exited 0 \<longleftrightarrow> \<not> pc_db_open p)"

lemma Collector_Stop_stopped: "Collector_Stop c = Some c' \<Longrightarrow> \<not> Running c'"
  by (auto simp: Collector_Stop_def Running_def split: if_splits)

lemma process_step_order: "process_step p p' \<Longrightarrow> stopped_in_order p \<Longrightarrow> stopped_in_order p'"
  by (induction rule: process_step.induct) (auto simp: stopped_in_order_def alive_def dest: Collector_Stop_stopped)

lemma process_reach_order: "process_reach p \<Longrightarrow> stopped_in_order p"
proof (induction rule: process_reach.induct)
  case start
  then show ?case by (simp add: stopped_in_order_def serving_def)
next
  case (step p p')
  then show ?case using process_step_order by blast
qed

text \<open>A run that ends with \<open>n\<close> requests still in their handlers: they are accepted, then the signal arrives.\<close>

definition at_exit :: "nat \<Rightarrow> process" where
  "at_exit n = \<lparr>pc_signal = Draining, pc_main = Exited 0,
     pc_collector = the (Collector_Stop (Collector_Start (NewCollector (60 * 10 ^ 9)))), pc_cron_running = False,
     pc_listening = False, pc_requests = n, pc_db_open = False\<rparr>"

lemma reach_requests: "process_reach ((serving (Collector_Start (NewCollector (60 * 10 ^ 9))))\<lparr>pc_requests := n\<rparr>)"
proof (induction n)
  case 0
  then show ?case using process_reach.start by (simp add: serving_def)
next
  case (Suc n)
  then show ?case using process_reach.step [OF Suc process_step.accept] by (simp add: serving_def alive_def)
qed

lemma reach_exit: "process_reach (at_exit n)"
proof -
  let ?p = "(serving (Collector_Start (NewCollector (60 * 10 ^ 9))))\<lparr>pc_requests := n\<rparr>"
  obtain c where c: "Collector_Stop (pc_collector ?p) = Some c"
    by (simp add: serving_def Collector_Stop_def Collector_Start_def NewCollector_def Running_def)
  define p1 where "p1 = ?p\<lparr>pc_signal := Stopping_Collector\<rparr>"
  define p2 where "p2 = p1\<lparr>pc_signal := Stopping_Scheduler, pc_collector := c\<rparr>"
  define p3 where "p3 = p2\<lparr>pc_signal := Calling_Shutdown, pc_cron_running := False\<rparr>"
  define p4 where "p4 = p3\<lparr>pc_signal := Draining, pc_listening := False\<rparr>"
  define p5 where "p5 = p4\<lparr>pc_main := Closing_Database\<rparr>"
  note defs = p1_def p2_def p3_def p4_def p5_def serving_def alive_def
  have "process_reach p1"
    unfolding p1_def by (rule process_reach.step [OF reach_requests process_step.signal]) (simp_all add: defs)
  then have "process_reach p2"
    unfolding p2_def by (rule process_reach.step [OF _ process_step.stop_collector]) (use c in \<open>simp_all add: defs\<close>)
  then have "process_reach p3"
    unfolding p3_def by (rule process_reach.step [OF _ process_step.stop_scheduler]) (simp_all add: defs)
  then have "process_reach p4"
    unfolding p4_def by (rule process_reach.step [OF _ process_step.shutdown]) (simp_all add: defs)
  then have "process_reach p5"
    unfolding p5_def by (rule process_reach.step [OF _ process_step.server_closed]) (simp_all add: defs)
  then have "process_reach (p5\<lparr>pc_main := Exited 0, pc_db_open := False\<rparr>)"
    by (rule process_reach.step [OF _ process_step.close_database]) (simp add: defs)
  then show ?thesis using c by (simp add: defs at_exit_def)
qed

section \<open>Property\<close>

text \<open>Claim C39. The end of the process: it exits with status 0 only after the collector and the scheduler have been stopped, the
  listener closed and the database closed, in every run. But the exit does not wait for the requests being handled: for every number
  of them there is a run that exits while they are still in their handlers, although the code gives them thirty seconds.\<close>

theorem exit_does_not_drain:
  shows "(\<forall>p. process_reach p \<longrightarrow> pc_main p = Exited 0 \<longrightarrow>
      \<not> Running (pc_collector p) \<and> \<not> pc_cron_running p \<and> \<not> pc_listening p \<and> \<not> pc_db_open p) \<and>
    (\<forall>n. \<exists>p. process_reach p \<and> pc_main p = Exited 0 \<and> pc_requests p = n)"
proof (intro conjI allI impI)
  fix n show "\<exists>p. process_reach p \<and> pc_main p = Exited 0 \<and> pc_requests p = n"
    using reach_exit [of n] by (intro exI [of _ "at_exit n"]) (simp add: at_exit_def)
next
  fix p assume r: "process_reach p" and e: "pc_main p = Exited 0"
  have o: "stopped_in_order p" by (rule process_reach_order [OF r])
  then show l: "\<not> pc_listening p" and "\<not> pc_db_open p" using e by (simp_all add: stopped_in_order_def)
  then have "pc_signal p \<in> {Draining, Finished}" using o by (simp add: stopped_in_order_def)
  then show "\<not> Running (pc_collector p)" and "\<not> pc_cron_running p" using o by (auto simp: stopped_in_order_def)
qed

theorem exit_does_not_drain_witness:
  "process_reach (at_exit 2) \<and> \<not> pc_listening (at_exit 2) \<and> \<not> pc_db_open (at_exit 2) \<and> pc_requests (at_exit 2) = 2"
proof -
  have "process_reach (at_exit 2)" "pc_main (at_exit 2) = Exited 0" "pc_requests (at_exit 2) = 2"
    using reach_exit by (simp_all add: at_exit_def)
  then show ?thesis using exit_does_not_drain by blast
qed

end
