(* ===== verification/Spec2Isabelle.thy ===== *)
theory Spec2Isabelle
  imports Go_IO Repo_Catalog Repo_Backups Encryption Storage Restore_Properties Schedule_Properties Auth_Properties Engine_Properties Settings Backup_Jobs Connections Monitoring_Store Collector_Properties App Repository_Refinement
    Serve_Mux Router Server Server_Properties Server_Invariant Backup_Records Process
begin

text \<open>
  Jagad, a backup, restore and monitoring program for PostgreSQL, MySQL and MariaDB servers: one Go process with an HTTP
  API, its configuration in a PostgreSQL database, its backups in S3-compatible object stores.

  The parts and how they interact. A user signs in (\<open>internal/auth\<close>), describes source servers
  (\<open>internal/connection\<close>), object stores (\<open>internal/storage\<close>), channels (\<open>internal/notification\<close>) and schedules
  (\<open>internal/schedule\<close>). The scheduler or a request starts a backup (\<open>internal/backup\<close>): a record with status
  \<open>running\<close> and a goroutine, at most three of which work at a time; it runs the dump tool or an incremental engine, compresses,
  encrypts when a key is configured (\<open>internal/encryption\<close>), uploads, and records the end and notifies. Restores
  (\<open>internal/restore\<close>) download, decompress and feed the restore tool. Retention deletes old backups. A collector
  (\<open>internal/monitoring\<close>) asks every source server each minute. All of them keep their data through
  \<open>internal/repository/postgres\<close>.

  Theories, bottom up, and the source they model:
  \<^item> \<open>Jagad_Prelude\<close>, \<open>Go_IO\<close>, \<open>Http\<close>: byte strings, decimal and hexadecimal texts, association lists of rows; the
    contracts of \<open>io.Reader\<close>, \<open>io.Writer\<close> and a pipe, as locales; responses of handlers (\<open>httputil\<close>, \<open>api/response.go\<close>).
  \<^item> \<open>Domain_Model\<close>, \<open>Database\<close>, \<open>Schema_Invariant\<close>: the structs of the packages; the tables of \<open>db.go\<close> with their keys,
    CHECK constraints, references and defaults, a statement as a function from the database to a result and the database, and
    the invariant \<open>db_wf\<close>. A statement can fail from outside: \<open>faults\<close> lists the failures to come, one entry per statement.
  \<^item> \<open>Repositories\<close>, \<open>Repo_Catalog\<close>, \<open>Repo_Backups\<close>: the repositories, one definition per method and per SQL statement; the
    locale \<open>repository\<close> says what a client may rely on and every repository interprets it. \<open>Repository_Refinement\<close>: the
    backup repository refines a finite map.
  \<^item> \<open>Encryption\<close>: key derivation, \<open>Encrypt\<close>, \<open>Decrypt\<close>, the framed stream writer and reader.
  \<^item> \<open>World\<close>, \<open>Storage\<close>: the state the services act on (database, random bytes, clock, identifiers, object store, commands run,
    notifications, files) as a record passed along; provider credentials, the provider service, the S3 client.
  \<^item> \<open>Backup_Service\<close>, \<open>Engines\<close>, \<open>Backup_Jobs\<close>: \<open>backup/service.go\<close>, the three incremental engines, and the goroutines with
    their semaphore as a step relation. \<open>Backup_Proofs\<close>, \<open>Backup_Properties\<close>, \<open>Backup_Upkeep\<close>, \<open>Backup_Retention\<close>,
    \<open>Backup_Verdicts\<close>, \<open>Engine_Properties\<close> hold their lemmas and properties.
  \<^item> \<open>Restore_Service\<close>, \<open>Restore_Properties\<close>: \<open>restore/service.go\<close>.
  \<^item> \<open>Schedules\<close>, \<open>Schedule_Properties\<close>: the schedule service, the scheduler over the cron library, the handler; reachable
    states by an inductive relation.
  \<^item> \<open>Auth\<close>, \<open>Auth_Properties\<close>: passwords, sessions, the middleware and the endpoints of the sign-in.
  \<^item> \<open>Settings\<close>, \<open>Connections\<close>, \<open>Notifications\<close>, \<open>Provider_Handlers\<close>: the settings batch, the connection service with discovery
    and live health check, messages and channels, the handlers of providers and backups.
  \<^item> \<open>Monitoring_Store\<close>, \<open>Collector_Source\<close>, \<open>Collector_Tables\<close>, \<open>Collector\<close>, \<open>Collector_Properties\<close>: the monitoring tables as a
    start of the program creates them, inserts and queries, the conversions of \<open>database/sql\<close>, each collection, the cycle and the
    background loop.
  \<^item> \<open>App\<close>: the configuration from the environment and the wiring of the services in \<open>main\<close>.
  \<^item> \<open>Serve_Mux\<close>, \<open>Router\<close>: the mux of \<open>net/http\<close>, with patterns ordered by specificity, conflicts, redirects and its own
    answers; the tables of \<open>RegisterRoutes\<close>, \<open>api/router.go\<close> and \<open>main\<close>.
  \<^item> \<open>Server\<close>, \<open>Server_Properties\<close>, \<open>Server_Invariant\<close>, \<open>Backup_Records\<close>: all of it together: a request on its way through CORS, the two muxes and
    the authentication to the handler of its route, on one state (\<open>server\<close>) made of the world, the sessions, the scheduler, the
    monitoring tables and the goroutines that have not ended; the steps of the requests and the goroutines as an inductive relation.
  \<^item> \<open>Process\<close>: \<open>Open\<close> of \<open>db.go\<close>, the exits of \<open>main\<close>, the goroutine that waits for a signal beside the one that serves.

  How code becomes definitions. A struct is a record with prefixed field names, a method a definition named after it (with the
  type in front where a name occurs twice). An error result is \<open>Inl\<close> with the text of the error. Effects are explicit: an
  operation takes the world and returns it. A goroutine is the function of its body, started by the operation that returns its
  job; \<open>Backup_Jobs\<close> interleaves the jobs, \<open>Server\<close> all goroutines and requests, each request and each goroutine being one step. Times are nanoseconds; the identifiers, random bytes and clock readings to come are
  streams in the world. \<open>int64\<close> values are integers with the bound \<open>int64_ok\<close> where the code parses or scans them; the frame
  counter of the stream is a 64-bit word and the frame length 32 bits, since there the wrap-around matters.

  Code outside the repository is a parameter: the cryptographic primitives (\<open>crypto\<close>), gzip, the minio client and the dump
  tools (\<open>ext\<close>), the cron library (\<open>cron\<close>), source servers (\<open>source_ext\<close>, \<open>mon_ext\<close>), tools of the engines
  (\<open>engine_ext\<close>). What the properties assume of it is named: \<open>aead_ok\<close> (opening what was sealed gives it back, the tag has 16
  bytes), \<open>argon_ok\<close>, \<open>sha_ok\<close> (output lengths), \<open>gzip_ok\<close> (round trip, writes of bounded size), \<open>store_ok\<close> (a stored object can
  be read), \<open>cron_ok\<close> (entries are added under fresh numbers, removed exactly). Each is met by the concrete instance the
  witnesses use.

  What the properties show. Streams: round trip under any buffer sizes, detection of truncation, distinct nonces, and the limit
  of it: the end marker is not authenticated. Providers: at most one default, credentials come back, the defect that the default
  provider's secret is its mask. Backups: a successful full backup is restorable from the stored object, every started backup
  ends, all operations keep the schema, retention deletes exactly the surplus, verification and its defect, the pool of
  at most three terminates. Restores: the tool is given the dump; the defects around encrypted backups. Schedules: one job per
  enabled schedule in every reachable state. Authentication: every valid session stems from a login, a change of password
  ends them all. Routes: the registration never panics, the most specific route serves. The whole server: a request without a
  session changes and shows nothing, whatever its path and method, and the invariant of all components holds in every state the
  running program reaches; the record of a backup is changed by the goroutine of that backup only, and by nobody when the goroutine
  died with the last process. The process: what is closed when it ends, and what it does not wait for. Settings: a batch is atomic and independent of the map order. Connections:
  what an edit does to the password, what discovery does to the selection. Monitoring: listings are bounded and complete, a cycle
  covers every connection, the state of the tables after the first start, what becomes of lags.

  Bounds and fuel. \<open>io_copy\<close> is the only loop with fuel; \<open>dr_budget\<close>, the bytes still to come plus the bytes of the source, is
  enough for the decrypting reader and the lengths of the inputs for the others, and the properties say that the copy returns.
  The loop of a job pool is a relation; its termination is a property. Everything else is structural recursion or recursion on a
  measure.

  Not modelled. The TCP and HTTP layers below the mux, JSON (a handler gets the body decoded in each type a handler may ask for, or
  the error; an answer is the value handed to the encoder), hosts and the targets of redirects, the file server (a parameter; no
  route reaches it), logging, contexts and timeouts other than that of the shutdown, what the connection pool does with its limits
  (\<open>Open\<close> sets them), a panic inside a handler, the effect of compression and retention policies of TimescaleDB, the meaning of the SQL sent to source servers, data races: operations of one
  service run one after the other, and where the code releases a lock in between, the theory says so. Floats are exact rationals
  except in the texts of notifications. The browser client under \<open>web\<close> is not Go.
\<close>

end
